(* ===== verification/Prelude.thy ===== *)
theory Prelude
  imports Main "HOL-Library.Word"
begin

text \<open>
  Prelude of the bAsset development: the result type every contract function returns, Rust's
  checked 64-bit arithmetic, and the generic lemmas on results, lists and words that the component
  theories share.

  A Rust function of type \<open>StdResult<T>\<close> either returns \<open>Ok\<close>, returns \<open>Err\<close>, or panics
  (\<open>unwrap\<close>, \<open>expect\<close>, arithmetic overflow: every crate is built with
  \<open>overflow-checks = true\<close>).  The three outcomes are kept apart, because
  \<open>unwrap_or_default\<close> and \<open>if let Ok(..)\<close> swallow an \<open>Err\<close> but never a panic.
\<close>

section \<open>Results\<close>

datatype error =
    GenericErr string
  | NotFound string
  | OverflowErr
  | ExternalErr string

datatype 'a res = Ok 'a | Err error | Panic string

fun and_then :: "'a res \<Rightarrow> ('a \<Rightarrow> 'b res) \<Rightarrow> 'b res" where
  "and_then (Ok a) f = f a"
| "and_then (Err e) f = Err e"
| "and_then (Panic p) f = Panic p"

fun is_ok :: "'a res \<Rightarrow> bool" where
  "is_ok (Ok _) = True"
| "is_ok (Err _) = False"
| "is_ok (Panic _) = False"

text \<open>\<open>Option::expect\<close> and \<open>Option::unwrap\<close>.\<close>

fun expect_some :: "string \<Rightarrow> 'a option \<Rightarrow> 'a res" where
  "expect_some msg (Some a) = Ok a"
| "expect_some msg None = Panic msg"

text \<open>\<open>Result::expect\<close> and \<open>Result::unwrap\<close>: an \<open>Err\<close> becomes a panic.\<close>

fun expect_ok :: "string \<Rightarrow> 'a res \<Rightarrow> 'a res" where
  "expect_ok msg (Ok a) = Ok a"
| "expect_ok msg (Err e) = Panic msg"
| "expect_ok msg (Panic p) = Panic p"

text \<open>\<open>Result::unwrap_or_default\<close>.\<close>

fun ok_or_default :: "'a \<Rightarrow> 'a res \<Rightarrow> 'a res" where
  "ok_or_default z (Ok a) = Ok a"
| "ok_or_default z (Err e) = Ok z"
| "ok_or_default z (Panic p) = Panic p"

text \<open>\<open>Item::load\<close> of a storage slot: an empty slot is \<open>StdError::NotFound\<close>.\<close>

fun load_item :: "string \<Rightarrow> 'a option \<Rightarrow> 'a res" where
  "load_item name (Some a) = Ok a"
| "load_item name None = Err (NotFound name)"

text \<open>A loop whose body may fail, over a list, with an accumulator.\<close>

fun fold_res :: "('a \<Rightarrow> 's \<Rightarrow> 's res) \<Rightarrow> 'a list \<Rightarrow> 's \<Rightarrow> 's res" where
  "fold_res f [] s = Ok s"
| "fold_res f (x # xs) s = and_then (f x s) (\<lambda>s'. fold_res f xs s')"

fun map_res :: "('a \<Rightarrow> 'b res) \<Rightarrow> 'a list \<Rightarrow> 'b list res" where
  "map_res f [] = Ok []"
| "map_res f (x # xs) = and_then (f x) (\<lambda>y. and_then (map_res f xs) (\<lambda>ys. Ok (y # ys)))"

lemma and_then_cong [fundef_cong]:
  assumes "r = r'" and "\<And>a. r' = Ok a \<Longrightarrow> f a = g a"
  shows "and_then r f = and_then r' g"
  using assms by (cases r') auto

lemma and_then_eq_Ok [simp]: "and_then r f = Ok b \<longleftrightarrow> (\<exists>a. r = Ok a \<and> f a = Ok b)"
  by (cases r) auto

lemma is_ok_iff: "is_ok r \<longleftrightarrow> (\<exists>a. r = Ok a)"
  by (cases r) auto

lemma expect_some_eq_Ok [simp]: "expect_some m x = Ok a \<longleftrightarrow> x = Some a"
  by (cases x) auto

lemma expect_ok_eq_Ok [simp]: "expect_ok m r = Ok a \<longleftrightarrow> r = Ok a"
  by (cases r) auto

lemma load_item_eq_Ok [simp]: "load_item n x = Ok a \<longleftrightarrow> x = Some a"
  by (cases x) auto

lemma if_Err_eq_Ok [simp]: "(if b then Err e else r) = Ok a \<longleftrightarrow> \<not> b \<and> r = Ok a"
  by simp

lemma if_Panic_eq_Ok [simp]: "(if b then Panic p else r) = Ok a \<longleftrightarrow> \<not> b \<and> r = Ok a"
  by simp

lemma fold_res_append:
  "fold_res f (xs @ ys) s = and_then (fold_res f xs s) (fold_res f ys)"
proof (induction xs arbitrary: s)
  case (Cons x xs)
  then show ?case by (cases "f x s") auto
qed simp

text \<open>Invariant rule for \<open>fold_res\<close>.\<close>

lemma fold_res_invariant:
  assumes "fold_res f xs s = Ok s'" and "P s"
    and "\<And>x s s'. x \<in> set xs \<Longrightarrow> P s \<Longrightarrow> f x s = Ok s' \<Longrightarrow> P s'"
  shows "P s'"
  using assms
proof (induction xs arbitrary: s)
  case (Cons x xs)
  then obtain t where t: "f x s = Ok t" "fold_res f xs t = Ok s'" by auto
  show ?case
    by (rule Cons.IH [OF t(2)]) (use Cons.prems t in auto)
qed simp


section \<open>Machine integers\<close>

type_synonym u8 = "8 word"
type_synonym u32 = "32 word"
type_synonym u64 = "64 word"
type_synonym byte = "8 word"

text \<open>Rust's \<open>u64\<close> addition and subtraction with overflow checks: they panic.\<close>

definition u64_add :: "u64 \<Rightarrow> u64 \<Rightarrow> u64 res" where
  "u64_add a b = (if unat a + unat b < 2 ^ 64 then Ok (a + b)
                  else Panic ''attempt to add with overflow'')"

definition u64_sub :: "u64 \<Rightarrow> u64 \<Rightarrow> u64 res" where
  "u64_sub a b = (if b \<le> a then Ok (a - b) else Panic ''attempt to subtract with overflow'')"

lemma word_eq_if_unat_eq: "unat (a :: 'a::len word) = unat b \<Longrightarrow> a = b"
  by (simp add: word_unat_eq_iff)

lemma word_eq_of_nat: "unat (a :: 'a::len word) = n \<Longrightarrow> a = of_nat n"
  by auto

lemma unat_bound: "unat (a :: 'a::len word) < 2 ^ LENGTH('a)"
  by (rule unsigned_less)

lemma unat_less_128: "unat (a :: 128 word) < 2 ^ 128"
proof -
  have "unat a < 2 ^ LENGTH(128)" by (rule unat_bound)
  moreover have "LENGTH(128) = 128" by simp
  ultimately show ?thesis by (simp only:)
qed

lemma unat_less_64: "unat (a :: 64 word) < 2 ^ 64"
proof -
  have "unat a < 2 ^ LENGTH(64)" by (rule unat_bound)
  moreover have "LENGTH(64) = 64" by simp
  ultimately show ?thesis by (simp only:)
qed

lemma unat_add_checked: "unat a + unat b < 2 ^ LENGTH('a) \<Longrightarrow> unat (a + b) = unat a + unat b"
  for a b :: "'a::len word"
  by (simp add: unat_word_ariths)

lemma unat_of_nat_checked: "n < 2 ^ LENGTH('a) \<Longrightarrow> unat (of_nat n :: 'a::len word) = n"
  by (simp add: unat_of_nat)

text \<open>The partial sums of a checked addition exist.\<close>

lemma unat_sum_exists: "unat c = a + r \<Longrightarrow> \<exists>b :: 'a::len word. unat b = a \<and> unat c = unat b + r"
  for c :: "'a::len word"
proof -
  assume c: "unat c = a + r"
  have "a < 2 ^ LENGTH('a)" using unat_bound [of c] c by linarith
  then have "unat (of_nat a :: 'a word) = a" by (rule unat_of_nat_checked)
  with c show ?thesis by metis
qed

lemma unat_part_exists: "unat c = a + r \<Longrightarrow> \<exists>b :: 'a::len word. unat b = r \<and> unat c = a + unat b"
  for c :: "'a::len word"
  using unat_sum_exists [of c r a] by (auto simp: add.commute)

lemma u64_add_eq_Ok: "u64_add a b = Ok c \<longleftrightarrow> unat c = unat a + unat b"
proof
  show "u64_add a b = Ok c \<Longrightarrow> unat c = unat a + unat b"
    by (auto simp: u64_add_def unat_add_checked split: if_splits)
next
  assume c: "unat c = unat a + unat b"
  have "unat c < 2 ^ 64" by (rule unat_less_64)
  then have "unat (a + b) = unat c" using c by (simp add: unat_add_checked)
  then have "a + b = c" by (rule word_eq_if_unat_eq)
  with c \<open>unat c < 2 ^ 64\<close> show "u64_add a b = Ok c" by (simp add: u64_add_def)
qed

lemma u64_add_exists: "unat a + unat b < 2 ^ 64 \<Longrightarrow> \<exists>c. u64_add a b = Ok c \<and> unat c = unat a + unat b"
  by (simp add: u64_add_def unat_add_checked)

lemma u64_sub_eq_Ok: "u64_sub a b = Ok c \<longleftrightarrow> unat a = unat b + unat c"
proof
  show "u64_sub a b = Ok c \<Longrightarrow> unat a = unat b + unat c"
    by (auto simp: u64_sub_def unat_sub word_le_nat_alt split: if_splits)
next
  assume a: "unat a = unat b + unat c"
  then have "b \<le> a" by (simp add: word_le_nat_alt)
  moreover from this have "unat (a - b) = unat c" using a by (simp add: unat_sub word_le_nat_alt)
  ultimately show "u64_sub a b = Ok c" by (simp add: u64_sub_def word_unat_eq_iff)
qed

text \<open>A loop that counts a \<open>u64\<close> up ends: this is its measure.\<close>

definition u64_left :: "u64 \<Rightarrow> nat" where
  "u64_left i = 2 ^ 64 - unat i"

lemma u64_left_succ: "u64_add i 1 = Ok i' \<Longrightarrow> u64_left i' < u64_left i"
  using unat_less_64 [of i'] by (simp add: u64_left_def u64_add_eq_Ok)


section \<open>Sums over lists of pairs\<close>

lemma sum_list_filter_split:
  "sum_list (map f xs) = sum_list (map f (filter P xs)) + sum_list (map f (filter (\<lambda>x. \<not> P x) xs))"
  for f :: "'a \<Rightarrow> 'b::comm_monoid_add"
  by (induction xs) (auto simp: ac_simps)

lemma sum_list_map_mono:
  "(\<And>x. x \<in> set xs \<Longrightarrow> f x \<le> g x) \<Longrightarrow> sum_list (map f xs) \<le> sum_list (map g xs)"
  for f g :: "'a \<Rightarrow> nat"
  by (induction xs) (auto intro: add_mono)

lemma member_le_sum_list_map: "x \<in> set xs \<Longrightarrow> f x \<le> sum_list (map f xs)"
  for f :: "'a \<Rightarrow> nat"
  by (induction xs) auto

section \<open>Strings\<close>

text \<open>\<open>str::split\<close> on one character: the pieces between the separators, at least one.\<close>

fun split_str :: "char \<Rightarrow> string \<Rightarrow> string list" where
  "split_str c [] = [[]]"
| "split_str c (x # xs) =
     (if x = c then [] # split_str c xs
      else (case split_str c xs of [] \<Rightarrow> [[x]] | p # ps \<Rightarrow> (x # p) # ps))"

lemma split_str_none: "c \<notin> set s \<Longrightarrow> split_str c s = [s]"
  by (induction s) auto

lemma split_str_one:
  "c \<notin> set w \<Longrightarrow> c \<notin> set f \<Longrightarrow> split_str c (w @ c # f) = [w, f]"
  by (induction w) (auto simp: split_str_none)


text \<open>Every proof about a successful run starts from these inversions.\<close>

named_theorems ok_iffs

lemmas [ok_iffs] = u64_add_eq_Ok u64_sub_eq_Ok

end
