(* ===== verification/Cosmwasm_Types.thy ===== *)
theory Cosmwasm_Types
  imports Prelude
begin

text \<open>
  The data the contracts exchange with the CosmWasm host: numbers, coins, the execution
  environment, outgoing messages and responses, and the messages of the CW20 standard.  Only data
  is fixed here; the functions of the third-party crates are fields of the record \<open>lib\<close> of
  the theory \<open>Deps\<close>.

  \<^item> \<open>Uint128\<close> is a 128-bit word.
  \<^item> \<open>Decimal\<close> is a fixed-point number with 18 fractional digits, held as a 128-bit
    number of atomics; the order on it is the derived one, that of the atomics.
  \<^item> A human-readable address is a string, a canonical address a list of bytes.
  \<^item> An attribute of a response keeps the value that the code renders to a string.
\<close>

type_synonym uint128 = "128 word"
type_synonym binary = "byte list"
type_synonym canonical_addr = "byte list"

datatype decimal = Decimal (atomics: uint128)

text \<open>\<open>cosmwasm_bignumber::Decimal256\<close>: atomics in 256 bits.\<close>

datatype decimal256 = Decimal256 (atomics256: "256 word")

instantiation decimal :: linorder
begin

definition less_eq_decimal :: "decimal \<Rightarrow> decimal \<Rightarrow> bool" where
  "less_eq_decimal a b \<longleftrightarrow> atomics a \<le> atomics b"

definition less_decimal :: "decimal \<Rightarrow> decimal \<Rightarrow> bool" where
  "less_decimal a b \<longleftrightarrow> atomics a < atomics b"

instance
  by standard (auto simp: less_eq_decimal_def less_decimal_def intro: decimal.expand)

end

text \<open>
  The value of a decimal in atomics, as a natural number; \<open>1.0\<close> is \<open>dec_unit\<close> atomics.
  The unit is a constant of its own so that proofs do not compute with the numeral.
\<close>

abbreviation datoms :: "decimal \<Rightarrow> nat" where
  "datoms r \<equiv> unat (atomics r)"

definition dec_unit :: nat where
  "dec_unit = 10 ^ 18"

definition DECIMAL_FRACTION :: uint128 where
  "DECIMAL_FRACTION = 1000000000000000000"

abbreviation decimal_one :: decimal where
  "decimal_one \<equiv> Decimal DECIMAL_FRACTION"

lemma unat_DECIMAL_FRACTION [simp]: "unat DECIMAL_FRACTION = dec_unit"
  by (simp add: DECIMAL_FRACTION_def dec_unit_def)

lemma dec_unit_pos [simp]: "0 < dec_unit" "dec_unit \<noteq> 0"
  by (simp_all add: dec_unit_def)

lemma dec_unit_bound: "dec_unit < 2 ^ 128"
  by (simp add: dec_unit_def)

abbreviation decimal_zero :: decimal where
  "decimal_zero \<equiv> Decimal 0"

lemma decimal_less_iff: "a < b \<longleftrightarrow> datoms a < datoms b"
  by (simp add: less_decimal_def word_less_nat_alt)

lemma decimal_le_iff: "a \<le> b \<longleftrightarrow> datoms a \<le> datoms b"
  by (simp add: less_eq_decimal_def word_le_nat_alt)

lemma decimal_eq_iff: "a = b \<longleftrightarrow> datoms a = datoms b"
  by (metis decimal.expand word_eq_if_unat_eq)

datatype coin = Coin (denom: string) (amount: uint128)

record env =
  contract_address :: string
  block_height :: u64
  block_seconds :: u64

record message_info =
  sender :: string
  funds :: "coin list"

datatype attr_value =
    AttrStr string
  | AttrUint uint128
  | AttrDec decimal

datatype cosmos_msg =
    StakingDelegate string coin
  | StakingUndelegate string coin
  | StakingRedelegate string string coin
  | SetWithdrawAddress string
  | WithdrawDelegatorReward string
  | BankSend string "coin list"
  | WasmExecute string binary "coin list"
  | TerraSwap coin string

record response =
  messages :: "cosmos_msg list"
  attributes :: "(string \<times> attr_value) list"

abbreviation empty_response :: response where
  "empty_response \<equiv> \<lparr>messages = [], attributes = []\<rparr>"

record delegation =
  validator :: string
  delegated :: coin

text \<open>The answer of the chain's oracle, from the crate \<open>terra_cosmwasm\<close>.\<close>

record exchange_rate_item =
  quote_denom :: string
  item_exchange_rate :: decimal

record exchange_rates_response =
  base_denom :: string
  exchange_rates :: "exchange_rate_item list"

text \<open>Messages and responses of the \<open>cw20\<close> crate.\<close>

datatype expiration = AtHeight u64 | AtTime u64 | Never

datatype cw20_execute_msg =
    Transfer string uint128
  | Burn uint128
  | Send string uint128 binary
  | Mint string uint128
  | IncreaseAllowance string uint128 "expiration option"
  | DecreaseAllowance string uint128 "expiration option"
  | TransferFrom string string uint128
  | BurnFrom string uint128
  | SendFrom string string uint128 binary

record cw20_receive_msg =
  cw20_sender :: string
  cw20_amount :: uint128
  cw20_payload :: binary

record minter_response =
  minter :: string
  mint_cap :: "uint128 option"

record cw20_instantiate_msg =
  cw20_name :: string
  cw20_symbol :: string
  cw20_decimals :: u8
  cw20_initial_balances :: "(string \<times> uint128) list"
  cw20_mint :: "minter_response option"

end
