(* ===== verification/Basset_Messages.thy ===== *)
theory Basset_Messages
  imports Cosmwasm_Types
begin

text \<open>
  The message and state types of \<open>packages/basset/src\<close> (\<open>hub.rs\<close>, \<open>reward.rs\<close>,
  \<open>airdrop.rs\<close>), shared by the four contracts.  A constructor keeps the source's name; where two
  contracts use the same one, the contract's name comes first.  \<open>payload\<close> is the sum of
  everything a contract serialises with \<open>to_binary\<close>.
\<close>

section \<open>hub.rs\<close>

record hub_instantiate_msg =
  im_epoch_period :: u64
  im_underlying_coin_denom :: string
  im_unbonding_period :: u64
  im_peg_recovery_fee :: decimal
  im_er_threshold :: decimal
  im_reward_denom :: string
  im_validator :: string

record hub_state =
  exchange_rate :: decimal
  total_bond_amount :: uint128
  last_index_modification :: u64
  prev_hub_balance :: uint128
  actual_unbonded_amount :: uint128
  last_unbonded_time :: u64
  last_processed_batch :: u64

record hub_config =
  creator :: canonical_addr
  reward_contract :: "canonical_addr option"
  token_contract :: "canonical_addr option"
  airdrop_registry_contract :: "canonical_addr option"

datatype hub_execute_msg =
    HubUpdateConfig "string option" "string option" "string option" "string option"
  | RegisterValidator string
  | DeregisterValidator string
  | UpdateParams "u64 option" "u64 option" "decimal option" "decimal option"
  | Bond string
  | HubUpdateGlobalIndex "binary list option"
  | WithdrawUnbonded
  | CheckSlashing
  | Receive cw20_receive_msg
  | ClaimAirdrop string string string binary binary
  | SwapHook string string binary

datatype cw20_hook_msg = Unbond

datatype hub_query_msg =
    HubQueryConfig
  | HubQueryState
  | QueryWhitelistedValidators
  | QueryCurrentBatch
  | QueryWithdrawableUnbonded string
  | QueryParameters
  | QueryUnbondRequests string
  | QueryAllHistory "u64 option" "u32 option"

record unbond_history =
  batch_id :: u64
  batch_time :: u64
  batch_amount :: uint128
  applied_exchange_rate :: decimal
  withdraw_rate :: decimal
  released :: bool

type_synonym unbond_request = "(u64 \<times> uint128) list"

record hub_state_response =
  hsr_exchange_rate :: decimal
  hsr_total_bond_amount :: uint128
  hsr_last_index_modification :: u64
  hsr_prev_hub_balance :: uint128
  hsr_actual_unbonded_amount :: uint128
  hsr_last_unbonded_time :: u64
  hsr_last_processed_batch :: u64

record hub_config_response =
  hcr_owner :: string
  hcr_reward_contract :: "string option"
  hcr_token_contract :: "string option"
  hcr_airdrop_registry_contract :: "string option"

record whitelisted_validators_response =
  wvr_validators :: "string list"

record current_batch_response =
  cbr_id :: u64
  cbr_requested_with_fee :: uint128

record withdrawable_unbonded_response =
  wur_withdrawable :: uint128

record unbond_requests_response =
  urr_address :: string
  urr_requests :: unbond_request

record all_history_response =
  ahr_history :: "unbond_history list"


section \<open>reward.rs\<close>

record reward_instantiate_msg =
  rim_hub_contract :: string
  rim_reward_denom :: string

datatype reward_execute_msg =
    SwapToRewardDenom
  | RewardUpdateGlobalIndex
  | IncreaseBalance string uint128
  | DecreaseBalance string uint128
  | ClaimRewards "string option"

datatype reward_query_msg =
    RewardQueryConfig
  | RewardQueryState
  | QueryAccruedRewards string
  | QueryHolder string
  | QueryHolders "string option" "u32 option"

record reward_config_response =
  rcr_hub_contract :: string
  rcr_reward_denom :: string

record reward_state_response =
  rsr_global_index :: decimal
  rsr_total_balance :: uint128
  rsr_prev_reward_balance :: uint128

record accrued_rewards_response =
  arr_rewards :: uint128

record holder_response =
  hr_address :: string
  hr_balance :: uint128
  hr_index :: decimal
  hr_pending_rewards :: decimal

record holders_response =
  hsr_holders :: "holder_response list"

datatype migrate_msg = MigrateMsg


section \<open>airdrop.rs\<close>

record airdrop_info =
  airdrop_token_contract :: string
  airdrop_contract :: string
  airdrop_swap_contract :: string
  swap_belief_price :: "decimal option"
  swap_max_spread :: "decimal option"

record registry_instantiate_msg =
  gim_hub_contract :: string
  gim_reward_contract :: string

datatype registry_execute_msg =
    FabricateMIRClaim u8 uint128 "string list"
  | FabricateANCClaim u8 uint128 "string list"
  | RegistryUpdateConfig "string option" "string option" "string option"
  | AddAirdropInfo string airdrop_info
  | RemoveAirdropInfo string
  | UpdateAirdropInfo string airdrop_info

datatype mir_airdrop_handle_msg = MIRClaim u8 uint128 "string list"

datatype anc_airdrop_handle_msg = ANCClaim u8 uint128 "string list"

datatype pair_handle_msg = Swap "decimal option" "decimal option" "string option"

record registry_config_response =
  gcr_owner :: string
  gcr_hub_contract :: string
  gcr_reward_contract :: string
  gcr_airdrop_tokens :: "string list"

record airdrop_info_elem =
  elem_token :: string
  elem_info :: airdrop_info

record airdrop_info_response =
  air_airdrop_info :: "airdrop_info_elem list"

datatype registry_query_msg =
    RegistryQueryConfig
  | QueryAirdropInfo "string option" "string option" "u32 option"


section \<open>What is serialised\<close>

datatype payload =
    HubPayload hub_execute_msg
  | RewardPayload reward_execute_msg
  | Cw20Payload cw20_execute_msg
  | MIRPayload mir_airdrop_handle_msg
  | ANCPayload anc_airdrop_handle_msg
  | PairPayload pair_handle_msg

end
