(* ===== verification/Codec.thy ===== *)
theory Codec
  imports Prelude "HOL-Library.List_Lexorder" "HOL-Library.Sublist"
begin

text \<open>
  Byte codes: characters, big-endian numbers, and self-delimiting codes.  A code delimits itself when two
  texts that start with a code word agree on the word and on what follows; such codes can be put one behind
  the other.  Serialised messages, serialised keys and length-prefixed storage namespaces are all built
  from them.
\<close>

section \<open>Bytes\<close>

definition char_byte :: "char \<Rightarrow> byte" where
  "char_byte c = of_nat (of_char c)"

lemma char_byte_inj [simp]: "char_byte c = char_byte d \<longleftrightarrow> c = d"
proof
  have bound: "(of_char x :: nat) < 256" for x
    using of_char_mod_256 [where ?'a = nat, of x] mod_less_divisor [of 256 "of_char x :: nat"] by simp
  assume "char_byte c = char_byte d"
  then have "unat (char_byte c) = unat (char_byte d)" by simp
  then have "(of_char c :: nat) = of_char d"
    using bound [of c] bound [of d] by (simp add: char_byte_def unat_of_nat)
  then show "c = d" by simp
qed simp

text \<open>A byte string literal, \<open>b"..."\<close>.\<close>

definition literal_bytes :: "string \<Rightarrow> byte list" where
  "literal_bytes s = map char_byte s"

lemma literal_bytes_inj [simp]: "literal_bytes a = literal_bytes b \<longleftrightarrow> a = b"
  by (simp add: literal_bytes_def inj_map_eq_map inj_def)

lemma length_literal_bytes [simp]: "length (literal_bytes a) = length a"
  by (simp add: literal_bytes_def)

text \<open>The last \<open>k\<close> bytes of a number, the most significant first.\<close>

fun be_bytes :: "nat \<Rightarrow> nat \<Rightarrow> byte list" where
  "be_bytes 0 n = []"
| "be_bytes (Suc k) n = be_bytes k (n div 256) @ [of_nat (n mod 256)]"

lemma length_be_bytes [simp]: "length (be_bytes k n) = k"
  by (induction k arbitrary: n) auto

lemma byte_of_nat_eq: "(of_nat (x mod 256) :: byte) = of_nat (y mod 256) \<longleftrightarrow> x mod 256 = y mod 256"
proof -
  have u: "unat (of_nat (z mod 256) :: byte) = z mod 256" for z
    by (rule unat_of_nat_checked) simp
  show ?thesis by (simp only: word_unat_eq_iff u)
qed

lemma byte_of_nat_less: "of_nat (x mod 256) < (of_nat (y mod 256) :: byte) \<longleftrightarrow> x mod 256 < y mod 256"
proof -
  have u: "unat (of_nat (z mod 256) :: byte) = z mod 256" for z
    by (rule unat_of_nat_checked) simp
  show ?thesis by (simp only: word_less_nat_alt u)
qed

lemma be_bytes_inj: "n < 256 ^ k \<Longrightarrow> m < 256 ^ k \<Longrightarrow> be_bytes k n = be_bytes k m \<longleftrightarrow> n = m"
proof (induction k arbitrary: n m)
  case (Suc k)
  then have d: "n div 256 < 256 ^ k" "m div 256 < 256 ^ k"
    by (simp_all add: less_mult_imp_div_less mult.commute)
  have "be_bytes (Suc k) n = be_bytes (Suc k) m \<longleftrightarrow> n div 256 = m div 256 \<and> n mod 256 = m mod 256"
    by (simp add: byte_of_nat_eq Suc.IH [OF d])
  also have "\<dots> \<longleftrightarrow> n = m" by (metis div_mult_mod_eq)
  finally show ?case .
qed simp

text \<open>Big-endian bytes are ordered as the numbers they encode.\<close>

lemma be_bytes_less:
  assumes "n < 256 ^ k" and "m < 256 ^ k"
  shows "be_bytes k n @ s < be_bytes k m @ t \<longleftrightarrow> n < m \<or> n = m \<and> s < t"
  using assms
proof (induction k arbitrary: n m s t)
  case (Suc k)
  have "n div 256 < 256 ^ k" "m div 256 < 256 ^ k"
    using Suc.prems by (simp_all add: less_mult_imp_div_less mult.commute)
  then have "be_bytes (Suc k) n @ s < be_bytes (Suc k) m @ t \<longleftrightarrow>
      n div 256 < m div 256 \<or> n div 256 = m div 256 \<and>
      (n mod 256 < m mod 256 \<or> n mod 256 = m mod 256 \<and> s < t)"
    by (simp add: Suc.IH byte_of_nat_less byte_of_nat_eq)
  also have "\<dots> \<longleftrightarrow> n < m \<or> n = m \<and> s < t"
  proof -
    have "256 * (n div 256) + n mod 256 = n" "256 * (m div 256) + m mod 256 = m" by simp_all
    moreover have "n mod 256 < 256" "m mod 256 < 256" by simp_all
    ultimately have "(n < m \<longleftrightarrow> n div 256 < m div 256 \<or> n div 256 = m div 256 \<and> n mod 256 < m mod 256)
        \<and> (n = m \<longleftrightarrow> n div 256 = m div 256 \<and> n mod 256 = m mod 256)"
      by (cases "n div 256" "m div 256" rule: linorder_cases) linarith+
    then show ?thesis by blast
  qed
  finally show ?case .
qed simp


section \<open>Self-delimiting codes\<close>

definition delimits :: "('a \<Rightarrow> byte list) \<Rightarrow> bool" where
  "delimits f \<longleftrightarrow> (\<forall>a b x y. f a @ x = f b @ y \<longrightarrow> a = b \<and> x = y)"

lemma delimitsI: "(\<And>a b x y. f a @ x = f b @ y \<Longrightarrow> a = b \<and> x = y) \<Longrightarrow> delimits f"
  by (auto simp: delimits_def)

lemma delimitsD: "delimits f \<Longrightarrow> f a @ x = f b @ y \<Longrightarrow> a = b \<and> x = y"
  by (auto simp: delimits_def)

lemma delimits_append [simp]: "delimits f \<Longrightarrow> f a @ x = f b @ y \<longleftrightarrow> a = b \<and> x = y"
  by (auto dest: delimitsD)

lemma delimits_inj [simp]: "delimits f \<Longrightarrow> f a = f b \<longleftrightarrow> a = b"
  using delimitsD [of f a "[]" b "[]"] by auto

lemma delimits_prefix: "delimits f \<Longrightarrow> prefix (f a) (f b @ x) \<longleftrightarrow> a = b"
  by (auto simp: prefix_def dest: delimitsD)

lemma delimits_fixed:
  assumes "\<And>a b. f a = f b \<Longrightarrow> a = b" and "\<And>a. length (f a) = n"
  shows "delimits f"
  by (rule delimitsI) (use assms in auto)

fun option_code :: "('a \<Rightarrow> byte list) \<Rightarrow> 'a option \<Rightarrow> byte list" where
  "option_code f None = [0]"
| "option_code f (Some a) = 1 # f a"

lemma delimits_option [simp]: "delimits f \<Longrightarrow> delimits (option_code f)"
proof (rule delimitsI)
  fix a b x y
  assume "delimits f" and "option_code f a @ x = option_code f b @ y"
  then show "a = b \<and> x = y" by (cases a; cases b) simp_all
qed

fun list_code :: "('a \<Rightarrow> byte list) \<Rightarrow> 'a list \<Rightarrow> byte list" where
  "list_code f [] = [0]"
| "list_code f (a # as) = 1 # f a @ list_code f as"

lemma delimits_list [simp]: "delimits f \<Longrightarrow> delimits (list_code f)"
proof (rule delimitsI)
  fix a b x y
  assume f: "delimits f" and "list_code f a @ x = list_code f b @ y"
  then show "a = b \<and> x = y"
  proof (induction a arbitrary: b)
    case Nil
    then show ?case by (cases b) simp_all
  next
    case (Cons c a)
    then show ?case by (cases b) auto
  qed
qed

definition byte_code :: "byte \<Rightarrow> byte list" where
  "byte_code b = [b]"

lemma delimits_byte [simp]: "delimits byte_code"
  by (rule delimitsI) (simp add: byte_code_def)

definition word64_code :: "u64 \<Rightarrow> byte list" where
  "word64_code w = be_bytes 8 (unat w)"

lemma word64_code_inj: "word64_code a = word64_code b \<Longrightarrow> a = b"
proof -
  have b: "unat w < 256 ^ 8" for w :: u64 using unat_bound [of w] by simp
  assume "word64_code a = word64_code b"
  then show ?thesis unfolding word64_code_def be_bytes_inj [OF b b] by (rule word_eq_if_unat_eq)
qed

lemma delimits_word64 [simp]: "delimits word64_code"
  by (rule delimits_fixed [OF word64_code_inj, where n = 8]) (simp_all add: word64_code_def)

definition word128_code :: "128 word \<Rightarrow> byte list" where
  "word128_code w = be_bytes 16 (unat w)"

lemma word128_code_inj: "word128_code a = word128_code b \<Longrightarrow> a = b"
proof -
  have b: "unat w < 256 ^ 16" for w :: "128 word" using unat_bound [of w] by simp
  assume "word128_code a = word128_code b"
  then show ?thesis unfolding word128_code_def be_bytes_inj [OF b b] by (rule word_eq_if_unat_eq)
qed

lemma delimits_word128 [simp]: "delimits word128_code"
  by (rule delimits_fixed [OF word128_code_inj, where n = 16]) (simp_all add: word128_code_def)

end
