(* ===== verification/Deps.thy ===== *)
theory Deps
  imports Basset_Messages Codec
begin

text \<open>
  Everything the contracts call that is not part of this repository, as parameters.  Every
  definition of the model takes what it needs of it as an argument, the way the Rust functions take
  \<open>deps\<close>:

  \<^item> \<open>lib\<close>: the pure functions of \<open>cosmwasm_std\<close> (\<open>Uint128\<close>, \<open>Decimal\<close>,
    serialisation), \<open>cosmwasm_storage\<close> (\<open>to_length_prefixed\<close>), \<open>cosmwasm_bignumber\<close>
    (\<open>Decimal256\<close>) and \<open>rand\<close> (\<open>XorShiftRng::seed_from_u64(seed).gen_range(lo, hi)\<close>);
  \<^item> \<open>api\<close>: the host's address functions;
  \<^item> \<open>querier\<close>: the answers of the chain at the moment the call runs; \<open>query_raw_config\<close> is a raw
    query of a storage key of another contract whose answer is parsed as a hub \<open>Config\<close>.

  What the code relies on of the pure functions is stated by the locales below, each law being the
  documented behaviour of one function; the theory \<open>Std_Lib\<close> interprets them.
\<close>

record lib =
  uint_add :: "uint128 \<Rightarrow> uint128 \<Rightarrow> uint128 res"
  uint_checked_sub :: "uint128 \<Rightarrow> uint128 \<Rightarrow> uint128 res"
  uint_multiply_ratio :: "uint128 \<Rightarrow> uint128 \<Rightarrow> uint128 \<Rightarrow> uint128 res"
  uint_mul_decimal :: "uint128 \<Rightarrow> decimal \<Rightarrow> uint128 res"
  uint_to_string :: "uint128 \<Rightarrow> string"
  decimal_from_ratio :: "uint128 \<Rightarrow> uint128 \<Rightarrow> decimal res"
  decimal_to_string :: "decimal \<Rightarrow> string"
  decimal_from_str :: "string \<Rightarrow> decimal res"
  decimal256_from :: "decimal \<Rightarrow> decimal256 res"
  decimal256_into :: "decimal256 \<Rightarrow> decimal res"
  decimal256_add :: "decimal256 \<Rightarrow> decimal256 \<Rightarrow> decimal256 res"
  decimal256_sub :: "decimal256 \<Rightarrow> decimal256 \<Rightarrow> decimal256 res"
  decimal256_mul :: "decimal256 \<Rightarrow> decimal256 \<Rightarrow> decimal256 res"
  gen_range :: "u64 \<Rightarrow> nat \<Rightarrow> nat \<Rightarrow> nat res"
  to_binary :: "payload \<Rightarrow> binary res"
  from_binary_hook :: "binary \<Rightarrow> cw20_hook_msg res"
  json_u64 :: "u64 \<Rightarrow> byte list"
  json_string :: "string \<Rightarrow> byte list"
  to_length_prefixed :: "byte list \<Rightarrow> byte list"

record api =
  addr_canonicalize :: "string \<Rightarrow> canonical_addr res"
  addr_humanize :: "canonical_addr \<Rightarrow> string res"
  addr_validate :: "string \<Rightarrow> string res"

record querier =
  query_all_delegations :: "string \<Rightarrow> delegation list res"
  query_delegation :: "string \<Rightarrow> string \<Rightarrow> delegation option res"
  query_all_validators :: "string list res"
  query_balance :: "string \<Rightarrow> string \<Rightarrow> coin res"
  query_all_balances :: "string \<Rightarrow> coin list res"
  query_token_supply :: "string \<Rightarrow> uint128 res"
  query_cw20_balance :: "string \<Rightarrow> string \<Rightarrow> uint128 res"
  query_raw_config :: "string \<Rightarrow> binary \<Rightarrow> hub_config res"
  terra_exchange_rates :: "string \<Rightarrow> string list \<Rightarrow> exchange_rates_response res"
  query_tax_rate :: "decimal res"
  query_tax_cap :: "string \<Rightarrow> uint128 res"

record deps =
  dlib :: lib
  dapi :: api
  dquerier :: querier


section \<open>Contracts of the third-party functions\<close>

text \<open>
  \<open>cosmwasm_std\<close> numbers: an operation returns a value exactly when the mathematical result
  exists and fits; division truncates.
\<close>

locale cosmwasm_numbers =
  fixes l :: lib
  assumes uint_add_ok: "uint_add l a b = Ok c \<longleftrightarrow> unat c = unat a + unat b"
    and uint_checked_sub_ok: "uint_checked_sub l a b = Ok c \<longleftrightarrow> unat a = unat b + unat c"
    and uint_checked_sub_err: "unat a < unat b \<Longrightarrow> uint_checked_sub l a b = Err OverflowErr"
    and uint_multiply_ratio_ok:
      "uint_multiply_ratio l a n m = Ok c \<longleftrightarrow> m \<noteq> 0 \<and> unat c = unat a * unat n div unat m"
    and uint_mul_decimal_ok:
      "uint_mul_decimal l a r = Ok c \<longleftrightarrow> unat c = unat a * datoms r div dec_unit"
    and decimal_from_ratio_ok:
      "decimal_from_ratio l a b = Ok r \<longleftrightarrow> b \<noteq> 0 \<and> datoms r = unat a * dec_unit div unat b"
begin

lemmas number_oks = uint_add_ok uint_checked_sub_ok uint_multiply_ratio_ok uint_mul_decimal_ok
  decimal_from_ratio_ok

lemma uint_checked_sub_not_panic: "uint_checked_sub l a b \<noteq> Panic p"
proof (cases "unat a < unat b")
  case False
  then have "unat a = unat b + unat (a - b)"
    by (simp add: unat_sub word_le_nat_alt)
  then have "uint_checked_sub l a b = Ok (a - b)"
    by (simp add: uint_checked_sub_ok)
  then show ?thesis by simp
qed (simp add: uint_checked_sub_err)

lemma uint_add_exists: "unat a + unat b < 2 ^ 128 \<Longrightarrow> uint_add l a b = Ok (a + b)"
  by (simp add: uint_add_ok unat_add_checked)

lemma uint_checked_sub_exists: "b \<le> a \<Longrightarrow> uint_checked_sub l a b = Ok (a - b)"
  by (simp add: uint_checked_sub_ok unat_sub word_le_nat_alt)

lemma uint_mul_decimal_exists:
  "unat a * datoms r div dec_unit < 2 ^ 128 \<Longrightarrow> \<exists>c. uint_mul_decimal l a r = Ok c"
  by (rule exI [of _ "of_nat (unat a * datoms r div dec_unit)"])
    (simp add: uint_mul_decimal_ok unat_of_nat_checked)

lemma decimal_from_ratio_exists:
  assumes "b \<noteq> 0" and "unat a * dec_unit div unat b < 2 ^ 128"
  shows "\<exists>r. decimal_from_ratio l a b = Ok r"
  using assms by (intro exI [of _ "Decimal (of_nat (unat a * dec_unit div unat b))"])
    (simp add: decimal_from_ratio_ok unat_of_nat_checked)

end

text \<open>\<open>cosmwasm_bignumber\<close>: exact conversions, and operations on 256-bit atomics.\<close>

locale bignumber =
  fixes l :: lib
  assumes decimal256_from_ok: "decimal256_from l r = Ok x \<longleftrightarrow> unat (atomics256 x) = datoms r"
    and decimal256_into_ok: "decimal256_into l x = Ok r \<longleftrightarrow> datoms r = unat (atomics256 x)"
    and decimal256_add_ok: "decimal256_add l x y = Ok z \<longleftrightarrow>
      unat (atomics256 z) = unat (atomics256 x) + unat (atomics256 y)"
    and decimal256_sub_ok: "decimal256_sub l x y = Ok z \<longleftrightarrow>
      unat (atomics256 x) = unat (atomics256 y) + unat (atomics256 z)"
    and decimal256_mul_ok: "decimal256_mul l x y = Ok z \<longleftrightarrow>
      unat (atomics256 z) = unat (atomics256 x) * unat (atomics256 y) div dec_unit"

text \<open>\<open>rand\<close>: \<open>gen_range(lo, hi)\<close> is in the half-open range, and panics on an empty one.\<close>

locale random_range =
  fixes l :: lib
  assumes gen_range_bounds: "gen_range l seed lo hi = Ok i \<Longrightarrow> lo \<le> i \<and> i < hi"
    and gen_range_returns: "lo < hi \<Longrightarrow> \<exists>i. gen_range l seed lo hi = Ok i"

text \<open>
  Printing and parsing decimals: a whole number is printed without a dot; otherwise the fractional
  digits follow the one dot, and read back behind \<open>0.\<close> they denote the fractional part.
\<close>

locale decimal_text =
  fixes l :: lib
  assumes to_string_whole: "datoms r mod dec_unit = 0 \<Longrightarrow> CHR ''.'' \<notin> set (decimal_to_string l r)"
    and to_string_fraction: "datoms r mod dec_unit \<noteq> 0 \<Longrightarrow>
      \<exists>w f. decimal_to_string l r = w @ CHR ''.'' # f \<and> CHR ''.'' \<notin> set w \<and> CHR ''.'' \<notin> set f \<and>
        decimal_from_str l (''0.'' @ f) = Ok (Decimal (of_nat (datoms r mod dec_unit)))"

text \<open>
  JSON: a serialised string delimits itself, so that two texts that start with one agree on it; and a
  serialised message is read back as it was: the messages to one contract are told apart from each other,
  those to the reward contract also from the notification of a CW20 transfer, and those to a CW20 token from
  the claim of an airdrop.
\<close>

locale json_text =
  fixes l :: lib
  assumes json_string_delimited: "json_string l a @ x = json_string l b @ y \<Longrightarrow> a = b \<and> x = y"
    and json_u64_inj: "json_u64 l i = json_u64 l j \<Longrightarrow> i = j"
    and hub_messages_distinct:
      "to_binary l (HubPayload h) = Ok c \<Longrightarrow> to_binary l (HubPayload h') = Ok c \<Longrightarrow> h = h'"
    and cw20_messages_distinct:
      "to_binary l (Cw20Payload t) = Ok c \<Longrightarrow> to_binary l (Cw20Payload t') = Ok c \<Longrightarrow> t = t'"
    and reward_messages_distinct:
      "to_binary l (RewardPayload m) = Ok c \<Longrightarrow> to_binary l (RewardPayload m') = Ok c \<Longrightarrow> m = m'"
    and receive_not_reward:
      "to_binary l (RewardPayload m) = Ok c \<Longrightarrow> to_binary l (HubPayload (Receive r)) \<noteq> Ok c"
    and claim_not_cw20:
      "to_binary l (Cw20Payload t) = Ok c \<Longrightarrow> to_binary l (MIRPayload mc) \<noteq> Ok c"
      "to_binary l (Cw20Payload t) = Ok c \<Longrightarrow> to_binary l (ANCPayload ac) \<noteq> Ok c"
begin

lemma delimits_json_string: "delimits (json_string l)"
  by (rule delimitsI) (rule json_string_delimited)

lemma json_string_inj: "json_string l a = json_string l b \<longleftrightarrow> a = b"
  using json_string_delimited [of a "[]" b "[]"] by auto

lemma json_string_no_prefix: "json_string l b = json_string l a @ w \<Longrightarrow> w = []"
  using json_string_delimited [of b "[]" a w] by simp

end

text \<open>
  \<open>cosmwasm_storage\<close>: a namespace of at most 65535 bytes is prefixed with its length, two bytes, the most
  significant first.
\<close>

locale length_prefix =
  fixes l :: lib
  assumes to_length_prefixed_eq: "length ns < 65536 \<Longrightarrow> to_length_prefixed l ns = be_bytes 2 (length ns) @ ns"

text \<open>\<open>Api::addr_validate\<close>: a valid address is returned with the same content.\<close>

locale address_api =
  fixes ap :: api
  assumes addr_validate_same: "addr_validate ap a = Ok b \<Longrightarrow> b = a"

end
