(* ===== verification/Std_Lib.thy ===== *)
theory Std_Lib
  imports Deps
begin

text \<open>
  A reference instance of the third-party number and text functions, written from their
  documentation, and the interpretations that show that the contracts of \<open>Deps\<close> hold of it.
  Witnesses evaluate the model on it.
\<close>

section \<open>Numbers\<close>

definition std_uint_of_nat :: "nat \<Rightarrow> uint128 res" where
  "std_uint_of_nat n = (if n < 2 ^ 128 then Ok (of_nat n) else Panic ''overflow'')"

definition std_256_of_nat :: "nat \<Rightarrow> decimal256 res" where
  "std_256_of_nat n = (if n < 2 ^ 256 then Ok (Decimal256 (of_nat n)) else Panic ''overflow'')"

definition std_decimal_of_nat :: "nat \<Rightarrow> decimal res" where
  "std_decimal_of_nat n = and_then (std_uint_of_nat n) (\<lambda>u. Ok (Decimal u))"

lemma std_uint_of_nat_ok: "std_uint_of_nat n = Ok c \<longleftrightarrow> unat c = n"
proof
  show "std_uint_of_nat n = Ok c \<Longrightarrow> unat c = n"
    by (auto simp: std_uint_of_nat_def unat_of_nat_checked split: if_splits)
next
  have "unat c < 2 ^ 128" by (rule unat_less_128)
  moreover assume "unat c = n"
  ultimately show "std_uint_of_nat n = Ok c" by (auto simp: std_uint_of_nat_def)
qed

lemma std_256_of_nat_ok: "std_256_of_nat n = Ok c \<longleftrightarrow> unat (atomics256 c) = n"
proof
  show "std_256_of_nat n = Ok c \<Longrightarrow> unat (atomics256 c) = n"
    by (auto simp: std_256_of_nat_def unat_of_nat_checked split: if_splits)
next
  have "unat (atomics256 c) < 2 ^ 256"
    using unsigned_less [of "atomics256 c", where ?'a = nat] by simp
  moreover assume "unat (atomics256 c) = n"
  ultimately show "std_256_of_nat n = Ok c" by (auto simp: std_256_of_nat_def)
qed

lemma std_decimal_of_nat_ok: "std_decimal_of_nat n = Ok r \<longleftrightarrow> datoms r = n"
  by (cases r) (auto simp: std_decimal_of_nat_def std_uint_of_nat_ok)


section \<open>Text\<close>

definition digit_char :: "nat \<Rightarrow> char" where
  "digit_char n = char_of (48 + n)"

definition digit_val :: "char \<Rightarrow> nat option" where
  "digit_val c = (let n = (of_char c :: nat) in if 48 \<le> n \<and> n < 58 then Some (n - 48) else None)"

fun nat_string :: "nat \<Rightarrow> string" where
  "nat_string n = (if n < 10 then [digit_char n] else nat_string (n div 10) @ [digit_char (n mod 10)])"

declare nat_string.simps [simp del]

fun fixed_string :: "nat \<Rightarrow> nat \<Rightarrow> string" where
  "fixed_string 0 n = []"
| "fixed_string (Suc k) n = fixed_string k (n div 10) @ [digit_char (n mod 10)]"

definition trim_zeros :: "string \<Rightarrow> string" where
  "trim_zeros s = rev (dropWhile (\<lambda>c. c = CHR ''0'') (rev s))"

fun digits_val :: "nat \<Rightarrow> string \<Rightarrow> nat option" where
  "digits_val acc [] = Some acc"
| "digits_val acc (c # cs) =
     (case digit_val c of None \<Rightarrow> None | Some v \<Rightarrow> digits_val (10 * acc + v) cs)"

definition std_to_string :: "decimal \<Rightarrow> string" where
  "std_to_string r =
     (let whole = datoms r div dec_unit; fractional = datoms r mod dec_unit
      in if fractional = 0 then nat_string whole
         else nat_string whole @ CHR ''.'' # trim_zeros (fixed_string 18 fractional))"

definition std_from_str :: "string \<Rightarrow> decimal res" where
  "std_from_str s =
     (case split_str (CHR ''.'') s of
        [w] \<Rightarrow> (case digits_val 0 w of
            None \<Rightarrow> Err (GenericErr ''Error parsing whole'')
          | Some n \<Rightarrow> std_decimal_of_nat (n * dec_unit))
      | [w, f] \<Rightarrow> (case (digits_val 0 w, digits_val 0 f) of
            (Some n, Some m) \<Rightarrow>
              (if length f \<le> 18 then std_decimal_of_nat (n * dec_unit + m * 10 ^ (18 - length f))
               else Err (GenericErr ''Cannot parse more than 18 fractional digits''))
          | _ \<Rightarrow> Err (GenericErr ''Error parsing fractional''))
      | _ \<Rightarrow> Err (GenericErr ''Unexpected number of dots''))"

lemma of_char_digit_char: "n < 10 \<Longrightarrow> of_char (digit_char n) = 48 + n"
  by (simp add: digit_char_def)

lemma digit_val_digit_char: "n < 10 \<Longrightarrow> digit_val (digit_char n) = Some n"
  by (simp add: digit_val_def of_char_digit_char Let_def)

lemma digit_char_not_dot: "n < 10 \<Longrightarrow> digit_char n \<noteq> CHR ''.''"
  using digit_val_digit_char [of n] by (auto simp: digit_val_def Let_def split: if_splits)

lemma nat_string_no_dot: "CHR ''.'' \<notin> set (nat_string n)"
proof (induction n rule: nat_string.induct)
  case (1 n)
  then show ?case
    using digit_char_not_dot [of n] digit_char_not_dot [of "n mod 10"]
    by (cases "n < 10") (auto simp: nat_string.simps [of n])
qed

lemma fixed_string_no_dot: "CHR ''.'' \<notin> set (fixed_string k n)"
proof (induction k arbitrary: n)
  case (Suc k)
  then show ?case using digit_char_not_dot [of "n mod 10"] by auto
qed simp

lemma length_fixed_string [simp]: "length (fixed_string k n) = k"
  by (induction k arbitrary: n) auto

lemma digits_val_append:
  "digits_val a (s @ t) = (case digits_val a s of None \<Rightarrow> None | Some b \<Rightarrow> digits_val b t)"
  by (induction s arbitrary: a) (auto split: option.splits)

lemma digits_val_zeros: "digits_val a (replicate k (CHR ''0'')) = Some (a * 10 ^ k)"
proof (induction k arbitrary: a)
  case (Suc k)
  have "digit_val (CHR ''0'') = Some 0" by (simp add: digit_val_def Let_def)
  with Suc show ?case by (simp add: mult.assoc)
qed simp

lemma digits_val_fixed: "n < 10 ^ k \<Longrightarrow> digits_val 0 (fixed_string k n) = Some n"
proof (induction k arbitrary: n)
  case (Suc k)
  then have "n div 10 < 10 ^ k" by (simp add: less_mult_imp_div_less mult.commute)
  with Suc show ?case by (simp add: digits_val_append digit_val_digit_char)
qed simp

lemma trim_zeros_split: "\<exists>k. s = trim_zeros s @ replicate k (CHR ''0'')"
proof -
  let ?z = "takeWhile (\<lambda>c. c = CHR ''0'') (rev s)"
  have "rev s = ?z @ dropWhile (\<lambda>c. c = CHR ''0'') (rev s)" by simp
  then have "s = trim_zeros s @ rev ?z"
    unfolding trim_zeros_def by (metis rev_append rev_rev_ident)
  moreover have "?z = replicate (length ?z) (CHR ''0'')"
    by (rule replicate_eqI) (auto dest: set_takeWhileD)
  ultimately show ?thesis by (metis rev_replicate)
qed

lemma trim_zeros_no_dot: "CHR ''.'' \<notin> set s \<Longrightarrow> CHR ''.'' \<notin> set (trim_zeros s)"
  by (auto simp: trim_zeros_def dest: set_dropWhileD)

lemma from_str_fraction:
  assumes unit: "n < dec_unit"
  shows "std_from_str (''0.'' @ trim_zeros (fixed_string 18 n)) = Ok (Decimal (of_nat n))"
proof -
  have assms: "n < 10 ^ 18" using unit by (simp only: dec_unit_def)
  let ?s = "fixed_string 18 n" and ?t = "trim_zeros (fixed_string 18 n)"
  obtain k where k: "?s = ?t @ replicate k (CHR ''0'')" using trim_zeros_split by blast
  from digits_val_fixed [OF assms] k obtain m where m: "digits_val 0 ?t = Some m"
    by (metis digits_val_append option.case_eq_if option.collapse option.distinct(1))
  then have "digits_val 0 ?s = Some (m * 10 ^ k)"
    by (subst k) (simp add: digits_val_append digits_val_zeros)
  with digits_val_fixed [OF assms] have n: "m * 10 ^ k = n" by simp
  have "length ?s = length ?t + k" by (subst k) simp
  then have len: "length ?t \<le> 18" "18 - length ?t = k" by simp_all
  have split: "split_str (CHR ''.'') (''0.'' @ ?t) = [''0'', ?t]"
    using split_str_one [of "CHR ''.''" "''0''" ?t] fixed_string_no_dot trim_zeros_no_dot by auto
  have "digits_val 0 ''0'' = Some 0" by (simp add: digit_val_def Let_def)
  moreover have "std_decimal_of_nat n = Ok (Decimal (of_nat n))"
    using assms by (simp add: std_decimal_of_nat_ok unat_of_nat_checked)
  ultimately show ?thesis
    unfolding std_from_str_def split using m len n by simp
qed


text \<open>JSON strings: quoted, with the quote and the backslash escaped.\<close>

definition quote_byte :: byte where
  "quote_byte = char_byte (CHR 0x22)"

definition escape_byte :: byte where
  "escape_byte = char_byte (CHR 0x5C)"

lemma quote_escape [simp]: "quote_byte \<noteq> escape_byte" "escape_byte \<noteq> quote_byte"
  by (simp_all add: quote_byte_def escape_byte_def)

definition json_char :: "char \<Rightarrow> byte list" where
  "json_char c = (if char_byte c = quote_byte \<or> char_byte c = escape_byte then [escape_byte, char_byte c]
     else [char_byte c])"

fun json_rest :: "string \<Rightarrow> byte list" where
  "json_rest [] = [quote_byte]"
| "json_rest (c # cs) = json_char c @ json_rest cs"

definition std_json_string :: "string \<Rightarrow> byte list" where
  "std_json_string s = quote_byte # json_rest s"

lemma json_rest_delimited: "json_rest a @ x = json_rest b @ y \<Longrightarrow> a = b \<and> x = y"
proof (induction a arbitrary: b)
  case Nil
  then show ?case by (cases b) (auto simp: json_char_def split: if_splits)
next
  case (Cons c cs)
  show ?case
  proof (cases b)
    case Nil
    with Cons.prems show ?thesis by (auto simp: json_char_def split: if_splits)
  next
    case (Cons d ds)
    with Cons.prems have "c = d" "json_rest cs @ x = json_rest ds @ y"
      by (auto simp: json_char_def split: if_splits)
    with Cons.IH Cons show ?thesis by blast
  qed
qed

lemma std_json_string_delimited: "std_json_string a @ x = std_json_string b @ y \<Longrightarrow> a = b \<and> x = y"
  using json_rest_delimited by (simp add: std_json_string_def)

lemma digits_val_nat_string: "digits_val 0 (nat_string n) = Some n"
proof (induction n rule: nat_string.induct)
  case (1 n)
  then show ?case
    by (cases "n < 10") (simp_all add: nat_string.simps [of n] digits_val_append digit_val_digit_char)
qed

lemma nat_string_inj: "nat_string m = nat_string n \<Longrightarrow> m = n"
  by (metis digits_val_nat_string option.inject)

text \<open>
  Messages: a tag for the constructor and the serialised fields.  The messages of the contracts outside
  this repository are not told apart.
\<close>

definition decimal_code :: "decimal \<Rightarrow> byte list" where
  "decimal_code r = word128_code (atomics r)"

lemma delimits_decimal [simp]: "delimits decimal_code"
  by (rule delimitsI) (auto simp: decimal_code_def intro: decimal.expand)

fun expiration_code :: "expiration \<Rightarrow> byte list" where
  "expiration_code (AtHeight h) = 1 # word64_code h"
| "expiration_code (AtTime t) = 2 # word64_code t"
| "expiration_code Never = [3]"

lemma delimits_expiration [simp]: "delimits expiration_code"
proof (rule delimitsI)
  fix a b x y
  assume "expiration_code a @ x = expiration_code b @ y"
  then show "a = b \<and> x = y" by (cases a; cases b) simp_all
qed

definition receive_code :: "cw20_receive_msg \<Rightarrow> byte list" where
  "receive_code m = std_json_string (cw20_sender m) @ word128_code (cw20_amount m) @ list_code byte_code (cw20_payload m)"

lemma delimits_std_json_string [simp]: "delimits std_json_string"
  by (rule delimitsI) (rule std_json_string_delimited)

lemma delimits_receive [simp]: "delimits receive_code"
  by (rule delimitsI) (auto simp: receive_code_def intro: cw20_receive_msg.equality)

fun std_encode_hub :: "hub_execute_msg \<Rightarrow> byte list" where
  "std_encode_hub (HubUpdateConfig a b c d) = 10 # option_code std_json_string a @ option_code std_json_string b @
     option_code std_json_string c @ option_code std_json_string d"
| "std_encode_hub (RegisterValidator v) = 11 # std_json_string v"
| "std_encode_hub (DeregisterValidator v) = 12 # std_json_string v"
| "std_encode_hub (UpdateParams a b c d) = 13 # option_code word64_code a @ option_code word64_code b @
     option_code decimal_code c @ option_code decimal_code d"
| "std_encode_hub (Bond v) = 14 # std_json_string v"
| "std_encode_hub (HubUpdateGlobalIndex h) = 15 # option_code (list_code (list_code byte_code)) h"
| "std_encode_hub WithdrawUnbonded = [16]"
| "std_encode_hub CheckSlashing = [17]"
| "std_encode_hub (Receive m) = 18 # receive_code m"
| "std_encode_hub (ClaimAirdrop a b c d e) = 19 # std_json_string a @ std_json_string b @ std_json_string c @
     list_code byte_code d @ list_code byte_code e"
| "std_encode_hub (SwapHook a b c) = 20 # std_json_string a @ std_json_string b @ list_code byte_code c"

fun std_encode_cw20 :: "cw20_execute_msg \<Rightarrow> byte list" where
  "std_encode_cw20 (Transfer a n) = 30 # std_json_string a @ word128_code n"
| "std_encode_cw20 (Burn n) = 31 # word128_code n"
| "std_encode_cw20 (Send a n p) = 32 # std_json_string a @ word128_code n @ list_code byte_code p"
| "std_encode_cw20 (Mint a n) = 33 # std_json_string a @ word128_code n"
| "std_encode_cw20 (IncreaseAllowance a n e) = 34 # std_json_string a @ word128_code n @ option_code expiration_code e"
| "std_encode_cw20 (DecreaseAllowance a n e) = 35 # std_json_string a @ word128_code n @ option_code expiration_code e"
| "std_encode_cw20 (TransferFrom a b n) = 36 # std_json_string a @ std_json_string b @ word128_code n"
| "std_encode_cw20 (BurnFrom a n) = 37 # std_json_string a @ word128_code n"
| "std_encode_cw20 (SendFrom a b n p) = 38 # std_json_string a @ std_json_string b @ word128_code n @ list_code byte_code p"

fun std_encode_reward :: "reward_execute_msg \<Rightarrow> byte list" where
  "std_encode_reward SwapToRewardDenom = [1]"
| "std_encode_reward RewardUpdateGlobalIndex = [2]"
| "std_encode_reward (IncreaseBalance a n) = 3 # std_json_string a @ word128_code n"
| "std_encode_reward (DecreaseBalance a n) = 4 # std_json_string a @ word128_code n"
| "std_encode_reward (ClaimRewards r) = 5 # option_code std_json_string r"

definition std_encode :: "payload \<Rightarrow> byte list" where
  "std_encode p = (case p of
     HubPayload m \<Rightarrow> std_encode_hub m
   | RewardPayload m \<Rightarrow> std_encode_reward m
   | Cw20Payload m \<Rightarrow> std_encode_cw20 m
   | _ \<Rightarrow> [])"

lemma std_encode_hub_inj: "std_encode_hub m = std_encode_hub m' \<Longrightarrow> m = m'"
  by (cases m; cases m') simp_all

lemma std_encode_cw20_inj: "std_encode_cw20 m = std_encode_cw20 m' \<Longrightarrow> m = m'"
  by (cases m; cases m') simp_all

lemma std_encode_reward_inj: "std_encode_reward m = std_encode_reward m' \<Longrightarrow> m = m'"
  by (cases m; cases m') simp_all

lemma std_encode_cw20_nonempty: "std_encode_cw20 m \<noteq> []" "[] \<noteq> std_encode_cw20 m"
  by (cases m; simp)+

lemma std_encode_receive_not_reward: "18 # x \<noteq> std_encode_reward m"
  by (cases m) simp_all


section \<open>The instance\<close>

definition std_lib :: lib where
  "std_lib = \<lparr>
     uint_add = (\<lambda>a b. std_uint_of_nat (unat a + unat b)),
     uint_checked_sub = (\<lambda>a b. if b \<le> a then Ok (a - b) else Err OverflowErr),
     uint_multiply_ratio = (\<lambda>a n m. if m = 0 then Panic ''Denominator must not be zero''
        else std_uint_of_nat (unat a * unat n div unat m)),
     uint_mul_decimal = (\<lambda>a r. std_uint_of_nat (unat a * datoms r div dec_unit)),
     uint_to_string = (\<lambda>a. nat_string (unat a)),
     decimal_from_ratio = (\<lambda>a b. if b = 0 then Panic ''Denominator must not be zero''
        else std_decimal_of_nat (unat a * dec_unit div unat b)),
     decimal_to_string = std_to_string,
     decimal_from_str = std_from_str,
     decimal256_from = (\<lambda>r. std_256_of_nat (datoms r)),
     decimal256_into = (\<lambda>x. std_decimal_of_nat (unat (atomics256 x))),
     decimal256_add = (\<lambda>x y. std_256_of_nat (unat (atomics256 x) + unat (atomics256 y))),
     decimal256_sub = (\<lambda>x y. if atomics256 y \<le> atomics256 x
        then Ok (Decimal256 (atomics256 x - atomics256 y)) else Panic ''overflow''),
     decimal256_mul = (\<lambda>x y.
        std_256_of_nat (unat (atomics256 x) * unat (atomics256 y) div dec_unit)),
     gen_range = (\<lambda>seed lo hi. if lo < hi then Ok (lo + unat seed mod (hi - lo))
        else Panic ''Rng.gen_range called with low >= high''),
     to_binary = (\<lambda>p. Ok (std_encode p)),
     from_binary_hook = (\<lambda>b. Ok Unbond),
     json_u64 = (\<lambda>n. map char_byte (nat_string (unat n))),
     json_string = std_json_string,
     to_length_prefixed = (\<lambda>ns. be_bytes 2 (length ns) @ ns)\<rparr>"

text \<open>The equations witnesses compute with, and where the unit is a numeral.\<close>

lemma std_lib_eval:
  "uint_add std_lib a b = std_uint_of_nat (unat a + unat b)"
  "uint_checked_sub std_lib a b = (if b \<le> a then Ok (a - b) else Err OverflowErr)"
  "uint_multiply_ratio std_lib a n m = (if m = 0 then Panic ''Denominator must not be zero''
     else std_uint_of_nat (unat a * unat n div unat m))"
  "uint_mul_decimal std_lib a r = std_uint_of_nat (unat a * datoms r div dec_unit)"
  "decimal_from_ratio std_lib a b = (if b = 0 then Panic ''Denominator must not be zero''
     else std_decimal_of_nat (unat a * dec_unit div unat b))"
  "gen_range std_lib seed lo hi = (if lo < hi then Ok (lo + unat seed mod (hi - lo))
     else Panic ''Rng.gen_range called with low >= high'')"
  "to_binary std_lib p = Ok (std_encode p)"
  "from_binary_hook std_lib bs = Ok Unbond"
  by (simp_all add: std_lib_def)

lemmas std_eval = std_lib_eval std_uint_of_nat_def std_decimal_of_nat_def std_256_of_nat_def
  dec_unit_def DECIMAL_FRACTION_def

lemma std_sub_ok: "(if b \<le> a then Ok (a - b) else e) = Ok c \<and> (\<forall>v. e \<noteq> Ok v) \<longleftrightarrow>
    unat a = unat b + unat c \<and> (\<forall>v. e \<noteq> Ok v)"
  for a b c :: "'a::len word"
  by (auto simp: unat_sub word_le_nat_alt word_unat_eq_iff)

interpretation std_num: cosmwasm_numbers std_lib
proof
  fix a b c :: uint128
  show "uint_checked_sub std_lib a b = Ok c \<longleftrightarrow> unat a = unat b + unat c"
    using std_sub_ok [of b a "Err OverflowErr" c] by (simp add: std_lib_def)
qed (auto simp: std_lib_def std_uint_of_nat_ok std_decimal_of_nat_ok word_le_nat_alt)

interpretation std_big: bignumber std_lib
proof
  fix x y z :: decimal256
  show "decimal256_sub std_lib x y = Ok z \<longleftrightarrow>
      unat (atomics256 x) = unat (atomics256 y) + unat (atomics256 z)"
    using std_sub_ok [of "atomics256 y" "atomics256 x" "Panic ''overflow''" "atomics256 z"]
    by (cases z) (auto simp: std_lib_def split: if_splits)
qed (auto simp: std_lib_def std_256_of_nat_ok std_decimal_of_nat_ok)

interpretation std_rng: random_range std_lib
proof
  fix seed :: u64 and lo hi i :: nat
  show "gen_range std_lib seed lo hi = Ok i \<Longrightarrow> lo \<le> i \<and> i < hi"
    by (auto simp: std_lib_def split: if_splits) (metis add.commute less_diff_conv mod_less_divisor zero_less_diff)
qed (simp add: std_lib_def)

interpretation std_text: decimal_text std_lib
proof
  fix r :: decimal
  show "datoms r mod dec_unit = 0 \<Longrightarrow> CHR ''.'' \<notin> set (decimal_to_string std_lib r)"
    by (simp add: std_lib_def std_to_string_def nat_string_no_dot)
  assume "datoms r mod dec_unit \<noteq> 0"
  then show "\<exists>w f. decimal_to_string std_lib r = w @ CHR ''.'' # f \<and> CHR ''.'' \<notin> set w \<and>
      CHR ''.'' \<notin> set f \<and>
      decimal_from_str std_lib (''0.'' @ f) = Ok (Decimal (of_nat (datoms r mod dec_unit)))"
    using from_str_fraction [of "datoms r mod dec_unit"]
    by (intro exI [of _ "nat_string (datoms r div dec_unit)"]
          exI [of _ "trim_zeros (fixed_string 18 (datoms r mod dec_unit))"])
      (simp add: std_lib_def std_to_string_def nat_string_no_dot fixed_string_no_dot
        trim_zeros_no_dot)
qed

lemma std_json_u64_inj: "map char_byte (nat_string (unat m)) = map char_byte (nat_string (unat n)) \<Longrightarrow> m = n"
  for m n :: u64
  by (simp add: inj_map_eq_map inj_def) (rule nat_string_inj [THEN word_eq_if_unat_eq])

interpretation std_json: json_text std_lib
  by unfold_locales
    (auto simp: std_lib_def std_encode_def std_encode_receive_not_reward std_encode_cw20_nonempty
      dest: std_json_string_delimited std_encode_reward_inj std_encode_hub_inj std_encode_cw20_inj std_json_u64_inj)

interpretation std_prefix: length_prefix std_lib
  by unfold_locales (simp add: std_lib_def)

end
