(* ===== verification/Mock_Querier.thy ===== *)
theory Mock_Querier
  imports Std_Lib
begin

text \<open>
  \<open>packages/basset/src/mock_querier.rs\<close>: the chain the unit tests of the package run on.  It answers the
  tax, bank and raw queries itself and passes all others on to the \<open>MockQuerier\<close> of \<open>cosmwasm_std\<close>, a
  parameter here, as is the \<open>MockApi\<close> that gives the canonical addresses of the configuration it returns.
  Answers are values and not bytes, and the two results around an answer (\<open>SystemResult\<close>, \<open>ContractResult\<close>)
  are one.
\<close>

record tax_querier =
  mock_rate :: decimal
  mock_caps :: "string \<rightharpoonup> uint128"

definition caps_to_map :: "(string \<times> uint128) list \<Rightarrow> string \<rightharpoonup> uint128" where
  "caps_to_map caps = fold (\<lambda>(coin_denom, cap) owner_map. owner_map(coin_denom \<mapsto> cap)) caps Map.empty"

definition tax_querier_new :: "decimal \<Rightarrow> (string \<times> uint128) list \<Rightarrow> tax_querier" where
  "tax_querier_new rate caps = \<lparr>mock_rate = rate, mock_caps = caps_to_map caps\<rparr>"

record wasm_mock_querier =
  mock_base :: querier
  mock_tax :: tax_querier

definition wasm_mock_new :: "querier \<Rightarrow> wasm_mock_querier" where
  "wasm_mock_new base = \<lparr>mock_base = base, mock_tax = \<lparr>mock_rate = decimal_zero, mock_caps = Map.empty\<rparr>\<rparr>"

definition with_tax :: "decimal \<Rightarrow> (string \<times> uint128) list \<Rightarrow> wasm_mock_querier \<Rightarrow> wasm_mock_querier" where
  "with_tax rate caps q = q\<lparr>mock_tax := tax_querier_new rate caps\<rparr>"

text \<open>\<open>unwrap\<close> of the canonical address of a name.\<close>

definition mock_address :: "api \<Rightarrow> string \<Rightarrow> canonical_addr res" where
  "mock_address ap a = expect_ok ''called `Result::unwrap()` on an `Err` value'' (addr_canonicalize ap a)"

definition handle_query :: "lib \<Rightarrow> api \<Rightarrow> wasm_mock_querier \<Rightarrow> querier" where
  "handle_query l ap q = (mock_base q)\<lparr>
     query_tax_rate := Ok (mock_rate (mock_tax q)),
     query_tax_cap := (\<lambda>coin_denom. Ok (case mock_caps (mock_tax q) coin_denom of None \<Rightarrow> 0 | Some cap \<Rightarrow> cap)),
     terra_exchange_rates := (\<lambda>base ds. Panic ''DO NOT ENTER HERE''),
     query_raw_config := (\<lambda>contract key.
       if key = to_length_prefixed l (literal_bytes ''config'')
       then
         and_then (mock_address ap ''owner1'') (\<lambda>creator_raw.
         and_then (mock_address ap ''reward'') (\<lambda>reward_raw.
         and_then (mock_address ap ''token'') (\<lambda>token_raw.
         and_then (mock_address ap ''airdrop'') (\<lambda>airdrop_raw.
           Ok \<lparr>creator = creator_raw, reward_contract = Some reward_raw, token_contract = Some token_raw,
               airdrop_registry_contract = Some airdrop_raw\<rparr>))))
       else Panic ''not implemented''),
     query_all_balances := (\<lambda>address.
       if address = ''reward'' then Ok [Coin ''uluna'' 1000, Coin ''ukrt'' 1000] else Panic ''not implemented''),
     query_balance := (\<lambda>address coin_denom.
       if address = ''reward'' \<and> coin_denom = ''uusd'' then Ok (Coin coin_denom 2000) else Panic ''not implemented'')\<rparr>"

text \<open>The tax it answers with is the one it was given last; a denomination without a cap has the cap zero.\<close>

lemma mock_tax_answers:
  "query_tax_rate (handle_query l ap (with_tax rate caps q)) = Ok rate"
  "query_tax_cap (handle_query l ap (with_tax rate caps q)) dn =
     Ok (case map_of (rev caps) dn of None \<Rightarrow> 0 | Some cap \<Rightarrow> cap)"
proof -
  have "fold (\<lambda>(k, v) m. m(k \<mapsto> v)) caps m0 dn = (m0 ++ map_of (rev caps)) dn" for m0
    by (induction caps arbitrary: m0) (auto simp: map_add_def split: option.splits)
  then show "query_tax_cap (handle_query l ap (with_tax rate caps q)) dn =
     Ok (case map_of (rev caps) dn of None \<Rightarrow> 0 | Some cap \<Rightarrow> cap)"
    by (simp add: handle_query_def with_tax_def tax_querier_new_def caps_to_map_def)
qed (simp add: handle_query_def with_tax_def tax_querier_new_def)


section \<open>Requests as bytes\<close>

text \<open>
  The tests send requests as bytes.  The requests are those the contracts make, one for each answer of the
  record \<open>querier\<close>; parsing them (\<open>from_slice\<close>) is a parameter, which returns the parser's message when
  the bytes are no request.
\<close>

datatype query_request =
    TaxRateRequest
  | TaxCapRequest string
  | ExchangeRatesRequest string "string list"
  | RawConfigRequest string "byte list"
  | AllBalancesRequest string
  | BalanceRequest string string
  | AllDelegationsRequest string
  | DelegationRequest string string
  | AllValidatorsRequest
  | TokenSupplyRequest string
  | TokenBalanceRequest string string

datatype query_answer =
    TaxRateAnswer decimal
  | AmountAnswer uint128
  | ExchangeRatesAnswer exchange_rates_response
  | RawConfigAnswer hub_config
  | CoinsAnswer "coin list"
  | CoinAnswer coin
  | DelegationsAnswer "delegation list"
  | DelegationAnswer "delegation option"
  | ValidatorsAnswer "string list"

definition answer_as :: "('a \<Rightarrow> query_answer) \<Rightarrow> 'a res \<Rightarrow> query_answer res" where
  "answer_as f r = and_then r (\<lambda>a. Ok (f a))"

fun query_chain :: "querier \<Rightarrow> query_request \<Rightarrow> query_answer res" where
  "query_chain q TaxRateRequest = answer_as TaxRateAnswer (query_tax_rate q)"
| "query_chain q (TaxCapRequest coin_denom) = answer_as AmountAnswer (query_tax_cap q coin_denom)"
| "query_chain q (ExchangeRatesRequest base quotes) = answer_as ExchangeRatesAnswer (terra_exchange_rates q base quotes)"
| "query_chain q (RawConfigRequest contract key) = answer_as RawConfigAnswer (query_raw_config q contract key)"
| "query_chain q (AllBalancesRequest a) = answer_as CoinsAnswer (query_all_balances q a)"
| "query_chain q (BalanceRequest a coin_denom) = answer_as CoinAnswer (query_balance q a coin_denom)"
| "query_chain q (AllDelegationsRequest a) = answer_as DelegationsAnswer (query_all_delegations q a)"
| "query_chain q (DelegationRequest a v) = answer_as DelegationAnswer (query_delegation q a v)"
| "query_chain q AllValidatorsRequest = answer_as ValidatorsAnswer (query_all_validators q)"
| "query_chain q (TokenSupplyRequest token) = answer_as AmountAnswer (query_token_supply q token)"
| "query_chain q (TokenBalanceRequest token a) = answer_as AmountAnswer (query_cw20_balance q token a)"

definition raw_query ::
    "(byte list \<Rightarrow> query_request + string) \<Rightarrow> lib \<Rightarrow> api \<Rightarrow> wasm_mock_querier \<Rightarrow> byte list \<Rightarrow> query_answer res" where
  "raw_query parse l ap q bin_request =
     (case parse bin_request of
        Inl request \<Rightarrow> query_chain (handle_query l ap q) request
      | Inr e \<Rightarrow> Err (ExternalErr (''Parsing query request: '' @ e)))"

text \<open>The dependencies of a test: the chain above over a \<open>MockQuerier\<close> that knows the contract's balance.\<close>

definition MOCK_CONTRACT_ADDR :: string where
  "MOCK_CONTRACT_ADDR = ''cosmos2contract''"

definition mock_dependencies :: "lib \<Rightarrow> api \<Rightarrow> ((string \<times> coin list) list \<Rightarrow> querier) \<Rightarrow> coin list \<Rightarrow> deps" where
  "mock_dependencies l ap mock_querier contract_balance =
     (let contract_addr = MOCK_CONTRACT_ADDR;
          custom_querier = wasm_mock_new (mock_querier [(contract_addr, contract_balance)])
      in \<lparr>dlib = l, dapi = ap, dquerier = handle_query l ap custom_querier\<rparr>)"

text \<open>Three types the tests do not use.\<close>

record token_querier =
  mock_balances :: "string \<rightharpoonup> (string \<rightharpoonup> uint128)"

record minter_data =
  md_minter :: canonical_addr
  md_cap :: "uint128 option"

record token_info =
  ti_name :: string
  ti_symbol :: string
  ti_decimals :: u8
  ti_total_supply :: uint128
  ti_mint :: "minter_data option"
  ti_owner :: canonical_addr

text \<open>
  Without \<open>with_tax\<close> a test chain has no tax, and whatever a test asks through the bytes of a request it
  gets the chain's answer.
\<close>

lemma mock_dependencies_untaxed:
  "query_tax_rate (dquerier (mock_dependencies l ap mq bal)) = Ok decimal_zero"
  "query_tax_cap (dquerier (mock_dependencies l ap mq bal)) dn = Ok 0"
  by (simp_all add: mock_dependencies_def handle_query_def wasm_mock_new_def)

lemma raw_query_tax:
  assumes "parse b = Inl (TaxCapRequest dn)"
  shows "raw_query parse l ap (with_tax rate caps q) b = Ok (AmountAnswer (case map_of (rev caps) dn of None \<Rightarrow> 0 | Some cap \<Rightarrow> cap))"
  using mock_tax_answers(2) [of l ap rate caps q dn] by (simp add: raw_query_def assms answer_as_def)

end
