(* ===== verification/Example_Chain.thy ===== *)
theory Example_Chain
  imports Std_Lib
begin

text \<open>
  A small concrete chain for the witnesses: addresses are canonicalised to their bytes, and the
  querier answers with fixed delegations, balances and supplies.
\<close>

definition example_api :: api where
  "example_api = \<lparr>
     addr_canonicalize = (\<lambda>s. if s = [] then Err (GenericErr ''Invalid input'')
        else Ok (map (\<lambda>c. of_nat (of_char c)) s)),
     addr_humanize = (\<lambda>a. Ok (map (\<lambda>b. char_of (unat b)) a)),
     addr_validate = (\<lambda>s. if s = [] then Err (GenericErr ''Invalid input'') else Ok s)\<rparr>"

definition example_querier :: querier where
  "example_querier = \<lparr>
     query_all_delegations = (\<lambda>_. Ok [\<lparr>validator = ''v1'', delegated = Coin ''uluna'' 600\<rparr>,
                                     \<lparr>validator = ''v2'', delegated = Coin ''uluna'' 390\<rparr>]),
     query_delegation = (\<lambda>_ v. Ok (Some \<lparr>validator = v, delegated = Coin ''uluna'' 600\<rparr>)),
     query_all_validators = Ok [''v1'', ''v2'', ''v3''],
     query_balance = (\<lambda>_ d. Ok (Coin d 500)),
     query_all_balances = (\<lambda>_. Ok [Coin ''uusd'' 7, Coin ''ukrw'' 11, Coin ''uxyz'' 13]),
     query_token_supply = (\<lambda>_. Ok 1000),
     query_cw20_balance = (\<lambda>_ _. Ok 42),
     query_raw_config = (\<lambda>_ _. Ok \<lparr>creator = [1], reward_contract = Some [2],
        token_contract = Some (map (\<lambda>c. of_nat (of_char c)) ''token''), airdrop_registry_contract = None\<rparr>),
     terra_exchange_rates = (\<lambda>base ds. Ok \<lparr>base_denom = base,
       exchange_rates = map (\<lambda>d. \<lparr>quote_denom = d, item_exchange_rate = decimal_one\<rparr>) (filter (\<lambda>d. d \<noteq> ''uxyz'') ds)\<rparr>),
     query_tax_rate = Ok (Decimal 10000000000000000),
     query_tax_cap = (\<lambda>_. Ok 1000000)\<rparr>"

definition example_deps :: deps where
  "example_deps = \<lparr>dlib = std_lib, dapi = example_api, dquerier = example_querier\<rparr>"

definition example_env :: env where
  "example_env = \<lparr>contract_address = ''hub'', block_height = 12345, block_seconds = 2000000\<rparr>"

definition example_info :: "string \<Rightarrow> message_info" where
  "example_info a = \<lparr>sender = a, funds = [Coin ''uluna'' 200]\<rparr>"

lemma example_deps_simps [simp]:
  "dlib example_deps = std_lib" "dapi example_deps = example_api" "dquerier example_deps = example_querier"
  by (simp_all add: example_deps_def)

lemma example_api_eval:
  "addr_canonicalize example_api a = (if a = [] then Err (GenericErr ''Invalid input'')
     else Ok (map (\<lambda>c. of_nat (of_char c)) a))"
  "addr_humanize example_api b = Ok (map (\<lambda>x. char_of (unat x)) b)"
  "addr_validate example_api a = (if a = [] then Err (GenericErr ''Invalid input'') else Ok a)"
  by (simp_all add: example_api_def)

lemma example_querier_eval:
  "query_all_delegations example_querier a = Ok [\<lparr>validator = ''v1'', delegated = Coin ''uluna'' 600\<rparr>,
     \<lparr>validator = ''v2'', delegated = Coin ''uluna'' 390\<rparr>]"
  "query_delegation example_querier a v = Ok (Some \<lparr>validator = v, delegated = Coin ''uluna'' 600\<rparr>)"
  "query_all_validators example_querier = Ok [''v1'', ''v2'', ''v3'']"
  "query_balance example_querier a dn = Ok (Coin dn 500)"
  "query_token_supply example_querier a = Ok 1000"
  "query_cw20_balance example_querier a b = Ok 42"
  "query_tax_rate example_querier = Ok (Decimal 10000000000000000)"
  "query_tax_cap example_querier dn = Ok 1000000"
  by (simp_all add: example_querier_def)

lemmas example_eval = std_eval example_api_eval example_querier_eval example_info_def example_env_def

interpretation example_addresses: address_api example_api
  by unfold_locales (auto simp: example_api_eval split: if_splits)

lemma example_numbers: "cosmwasm_numbers (dlib example_deps)"
  by (simp add: std_num.cosmwasm_numbers_axioms)

end
