(* ===== verification/Tax.thy ===== *)
theory Tax
  imports Mock_Querier Example_Chain
begin

text \<open>
  \<open>packages/basset/src/tax_querier.rs\<close>: the Terra stability tax taken off an outgoing
  transfer.  The tax rate and the cap are answers of the chain.
\<close>

definition compute_tax :: "lib \<Rightarrow> querier \<Rightarrow> coin \<Rightarrow> uint128 res" where
  "compute_tax l q c =
     and_then (query_tax_rate q) (\<lambda>tax_rate.
     and_then (query_tax_cap q (denom c)) (\<lambda>tax_cap.
     and_then (uint_mul_decimal l DECIMAL_FRACTION tax_rate) (\<lambda>scaled_rate.
     and_then (uint_add l scaled_rate DECIMAL_FRACTION) (\<lambda>denominator.
     and_then (uint_multiply_ratio l (amount c) DECIMAL_FRACTION denominator) (\<lambda>net.
     and_then (uint_checked_sub l (amount c) net) (\<lambda>tax.
       Ok (min tax tax_cap)))))))"

definition deduct_tax :: "lib \<Rightarrow> querier \<Rightarrow> coin \<Rightarrow> coin res" where
  "deduct_tax l q c =
     and_then (compute_tax l q c) (\<lambda>tax_amount.
     and_then (uint_checked_sub l (amount c) tax_amount) (\<lambda>net.
       Ok (Coin (denom c) net)))"

lemma unat_min: "unat (min a b) = min (unat a) (unat b)" for a b :: "'a::len word"
  by (simp add: min_def word_le_nat_alt)

context cosmwasm_numbers
begin

lemma compute_tax_ok:
  "compute_tax l q c = Ok t \<longleftrightarrow> (\<exists>r cap. query_tax_rate q = Ok r \<and> query_tax_cap q (denom c) = Ok cap \<and>
     datoms r + dec_unit < 2 ^ 128 \<and>
     unat t = min (unat (amount c) - unat (amount c) * dec_unit div (datoms r + dec_unit)) (unat cap))"
  (is "?L \<longleftrightarrow> (\<exists>r cap. ?Q r cap)")
proof
  assume ?L
  then obtain r cap and s d n tx :: uint128 where q: "query_tax_rate q = Ok r" "query_tax_cap q (denom c) = Ok cap"
    and s: "unat s = dec_unit * datoms r div dec_unit" and d: "unat d = unat s + dec_unit" "d \<noteq> 0"
    and n: "unat n = unat (amount c) * dec_unit div unat d" and tx: "unat (amount c) = unat n + unat tx"
    and t: "min tx cap = t"
    unfolding compute_tax_def and_then_eq_Ok number_oks unat_DECIMAL_FRACTION res.inject
    by blast
  have "unat d < 2 ^ 128" by (rule unat_less_128)
  moreover have "unat d = datoms r + dec_unit" using s d by simp
  moreover have "unat tx = unat (amount c) - unat n" using tx by linarith
  ultimately have "?Q r cap" using q n by (simp add: unat_min flip: t)
  then show "\<exists>r cap. ?Q r cap" by blast
next
  assume "\<exists>r cap. ?Q r cap"
  then obtain r cap where q: "?Q r cap" by blast
  define d where "d = (of_nat (datoms r + dec_unit) :: uint128)"
  define n where "n = (of_nat (unat (amount c) * dec_unit div (datoms r + dec_unit)) :: uint128)"
  have d: "unat d = datoms r + dec_unit"
    unfolding d_def using q by (intro unat_of_nat_checked) simp
  then have d0: "d \<noteq> 0" by (metis add_is_0 dec_unit_pos(2) unat_0)
  have le: "unat (amount c) * dec_unit div (datoms r + dec_unit) \<le> unat (amount c)"
    by (rule div_le_mono2 [THEN order_trans, of dec_unit]) auto
  then have n: "unat n = unat (amount c) * dec_unit div (datoms r + dec_unit)"
    unfolding n_def using unat_less_128 [of "amount c"] by (intro unat_of_nat_checked) simp
  have sub: "unat (amount c - n) = unat (amount c) - unat n"
    using le n by (simp add: unat_sub word_le_nat_alt)
  have "t = min (amount c - n) cap"
    using q n sub by (intro word_eq_if_unat_eq) (simp add: unat_min)
  moreover have "uint_mul_decimal l DECIMAL_FRACTION r = Ok (atomics r)"
    by (simp add: uint_mul_decimal_ok)
  moreover have "uint_add l (atomics r) DECIMAL_FRACTION = Ok d"
    by (simp add: uint_add_ok d)
  moreover have "uint_multiply_ratio l (amount c) DECIMAL_FRACTION d = Ok n"
    by (simp add: uint_multiply_ratio_ok d d0 n)
  moreover have "uint_checked_sub l (amount c) n = Ok (amount c - n)"
    using le n by (intro uint_checked_sub_exists) (simp add: word_le_nat_alt)
  ultimately show ?L using q by (simp add: compute_tax_def)
qed

lemma compute_tax_le: "compute_tax l q c = Ok t \<Longrightarrow> unat t \<le> unat (amount c)"
  by (auto simp: compute_tax_ok)

lemma deduct_tax_ok:
  "deduct_tax l q c = Ok c' \<longleftrightarrow>
     (\<exists>t. compute_tax l q c = Ok t \<and> denom c' = denom c \<and> unat (amount c) = unat t + unat (amount c'))"
  by (cases c') (auto simp: deduct_tax_def number_oks)

lemma deduct_tax_total:
  assumes "query_tax_rate q = Ok r" and "query_tax_cap q (denom c) = Ok cap"
    and "datoms r + dec_unit < 2 ^ 128"
  shows "\<exists>c'. deduct_tax l q c = Ok c'"
proof -
  let ?t = "min (unat (amount c) - unat (amount c) * dec_unit div (datoms r + dec_unit)) (unat cap)"
  have "?t \<le> unat cap" by simp
  also have "\<dots> < 2 ^ 128" by (rule unat_less_128)
  finally have "?t < 2 ^ 128" .
  then have "compute_tax l q c = Ok (of_nat ?t)"
    unfolding compute_tax_ok using assms by (intro exI conjI) (simp_all add: unat_of_nat_checked)
  then show ?thesis
    using compute_tax_le
    by (auto simp: deduct_tax_def uint_checked_sub_exists word_le_nat_alt)
qed

end

lemma deduct_tax_leaves_tax:
  assumes l: "cosmwasm_numbers l" and q: "query_tax_rate q = Ok r" "query_tax_cap q (denom c) = Ok cap"
    and c': "deduct_tax l q c = Ok c'"
  shows "unat (amount c') * dec_unit + min (unat (amount c') * datoms r) (unat cap * dec_unit)
       \<le> unat (amount c) * dec_unit"
proof -
  obtain t where t: "compute_tax l q c = Ok t" "unat (amount c) = unat t + unat (amount c')"
    using cosmwasm_numbers.deduct_tax_ok [OF l] c' by blast
  let ?g = "unat (amount c)" and ?F = "dec_unit :: nat"
  have tv: "unat t = min (?g - ?g * ?F div (datoms r + ?F)) (unat cap)"
    using t(1) q by (auto simp: cosmwasm_numbers.compute_tax_ok [OF l])
  show ?thesis
  proof (cases "unat t = unat cap")
    case True
    then show ?thesis using t(2) by (simp add: algebra_simps)
  next
    case False
    then have "unat t = ?g - ?g * ?F div (datoms r + ?F)" using tv by (auto simp: min_def split: if_splits)
    then have "unat (amount c') \<le> ?g * ?F div (datoms r + ?F)" using t(2) by linarith
    then have "unat (amount c') * (datoms r + ?F) \<le> ?g * ?F div (datoms r + ?F) * (datoms r + ?F)"
      by (rule mult_le_mono1)
    also have "\<dots> \<le> ?g * ?F" by (rule div_times_less_eq_dividend)
    finally show ?thesis by (simp add: algebra_simps)
  qed
qed

text \<open>
  C40.  Whenever the chain answers with a tax rate and a cap, \<open>deduct_tax\<close> returns; the amount
  it leaves, together with the tax the chain charges on it (the rate on the amount sent, at most the
  cap), never exceeds the amount it was taken from.
\<close>

theorem deduct_tax_covers_chain_tax:
  assumes "cosmwasm_numbers l"
    and "query_tax_rate q = Ok r" and "query_tax_cap q (denom c) = Ok cap"
    and "datoms r + dec_unit < 2 ^ 128"
  shows "\<exists>c'. deduct_tax l q c = Ok c' \<and> denom c' = denom c \<and>
     unat (amount c') * dec_unit + min (unat (amount c') * datoms r) (unat cap * dec_unit)
       \<le> unat (amount c) * dec_unit"
proof -
  obtain c' where c': "deduct_tax l q c = Ok c'"
    using cosmwasm_numbers.deduct_tax_total [OF assms] by blast
  moreover from this have "denom c' = denom c"
    using cosmwasm_numbers.deduct_tax_ok [OF assms(1)] by blast
  ultimately show ?thesis using deduct_tax_leaves_tax [OF assms(1-3)] by blast
qed

text \<open>The chain of \<open>test_deduct_tax\<close>: a tax of one percent, at most 1000000.\<close>

definition test_querier :: "querier \<Rightarrow> api \<Rightarrow> querier" where
  "test_querier base ap = handle_query std_lib ap
     (with_tax (Decimal 10000000000000000) [(''uusd'', 1000000)] (wasm_mock_new base))"

lemma test_querier_answers:
  "query_tax_rate (test_querier base ap) = Ok (Decimal 10000000000000000)"
  "query_tax_cap (test_querier base ap) dn = Ok (if dn = ''uusd'' then 1000000 else 0)"
  by (simp_all add: test_querier_def mock_tax_answers)

lemma test_deduct_tax:
  "deduct_tax std_lib (test_querier base ap) (Coin ''uusd'' 10000000000) = Ok (Coin ''uusd'' 9999000000)"
  "deduct_tax std_lib (test_querier base ap) (Coin ''uusd'' 50000000) = Ok (Coin ''uusd'' 49504950)"
  by (simp_all add: deduct_tax_def compute_tax_def test_querier_answers std_eval DECIMAL_FRACTION_def)

theorem deduct_tax_covers_chain_tax_witness:
  "\<exists>c'. deduct_tax std_lib (test_querier example_querier example_api) (Coin ''uusd'' 50000000) = Ok c' \<and> denom c' = ''uusd'' \<and>
     unat (amount c') * dec_unit + min (unat (amount c') * 10 ^ 16) (1000000 * dec_unit)
       \<le> 50000000 * dec_unit"
  using deduct_tax_covers_chain_tax [OF std_num.cosmwasm_numbers_axioms,
      of "test_querier example_querier example_api" "Decimal 10000000000000000" "Coin ''uusd'' 50000000" 1000000]
  by (simp add: test_querier_answers dec_unit_def)

end
