(* ===== verification/Signed_Int.thy ===== *)
theory Signed_Int
  imports Std_Lib
begin

text \<open>
  \<open>packages/signed_integers/src/signed_integer.rs\<close>: a sign-and-magnitude difference of two
  unsigned numbers.
\<close>

datatype signed_int = SignedInt uint128 bool

text \<open>The flag marks a negative value; \<open>checked_sub(..).unwrap()\<close> panics on an error.\<close>

definition from_subtraction :: "lib \<Rightarrow> uint128 \<Rightarrow> uint128 \<Rightarrow> signed_int res" where
  "from_subtraction l minuend subtrahend =
     (case uint_checked_sub l minuend subtrahend of
        Err e \<Rightarrow> and_then (expect_ok ''called `Result::unwrap()` on an `Err` value''
                   (uint_checked_sub l subtrahend minuend)) (\<lambda>v. Ok (SignedInt v True))
      | Ok v \<Rightarrow> Ok (SignedInt v False)
      | Panic p \<Rightarrow> Panic p)"

fun signed_value :: "signed_int \<Rightarrow> int" where
  "signed_value (SignedInt v neg) = (if neg then - int (unat v) else int (unat v))"

context cosmwasm_numbers
begin

lemma from_subtraction_ge: "b \<le> a \<Longrightarrow> from_subtraction l a b = Ok (SignedInt (a - b) False)"
  by (simp add: from_subtraction_def uint_checked_sub_exists)

lemma from_subtraction_lt: "a < b \<Longrightarrow> from_subtraction l a b = Ok (SignedInt (b - a) True)"
  by (simp add: from_subtraction_def uint_checked_sub_exists [OF less_imp_le]
      uint_checked_sub_err [unfolded word_less_nat_alt [symmetric]])

lemma from_subtraction_cases:
  "from_subtraction l a b = Ok (if a < b then SignedInt (b - a) True else SignedInt (a - b) False)"
  by (auto simp: from_subtraction_ge from_subtraction_lt)

end

lemma from_subtraction_value:
  assumes "cosmwasm_numbers l"
  shows "\<exists>v neg. from_subtraction l a b = Ok (SignedInt v neg) \<and>
     signed_value (SignedInt v neg) = int (unat a) - int (unat b) \<and> (neg \<longleftrightarrow> unat a < unat b)"
proof (cases "a < b")
  case True
  then have "unat (b - a) = unat b - unat a" and "unat a < unat b"
    by (simp_all add: unat_sub word_less_nat_alt word_le_nat_alt)
  with True show ?thesis
    by (auto simp: cosmwasm_numbers.from_subtraction_cases [OF assms] of_nat_diff simp del: of_nat_unat)
next
  case False
  then have "unat (a - b) = unat a - unat b" and "unat b \<le> unat a"
    by (simp_all add: unat_sub word_less_nat_alt word_le_nat_alt)
  with False show ?thesis
    by (auto simp: cosmwasm_numbers.from_subtraction_cases [OF assms] of_nat_diff simp del: of_nat_unat)
qed

end
