(* ===== verification/Store.thy ===== *)
theory Store
  imports Prelude "HOL-Library.List_Lexorder"
begin

text \<open>
  Contract storage.  A namespace of the key-value store (\<open>Bucket\<close>, \<open>Map\<close>,
  \<open>PrefixedStorage\<close>) is an association list in the ascending order of its encoded keys, the
  order in which \<open>range(.., Order::Ascending)\<close> visits it.  Keys are kept decoded; distinct keys
  have distinct encodings, so the encoding only decides the order.

  The locale \<open>ledger_store\<close> is the interface the contracts use: lookups, and sums over all
  entries, after an update.
\<close>

type_synonym ('k, 'v) store = "('k \<times> 'v) list"

definition store_get :: "'k \<Rightarrow> ('k, 'v) store \<Rightarrow> 'v option" where
  "store_get k m = map_of m k"

definition store_remove :: "'k \<Rightarrow> ('k, 'v) store \<Rightarrow> ('k, 'v) store" where
  "store_remove k m = filter (\<lambda>p. fst p \<noteq> k) m"

definition store_set :: "('k \<Rightarrow> byte list) \<Rightarrow> 'k \<Rightarrow> 'v \<Rightarrow> ('k, 'v) store \<Rightarrow> ('k, 'v) store" where
  "store_set enc k v m =
     (let m' = store_remove k m
      in takeWhile (\<lambda>p. enc (fst p) < enc k) m' @ (k, v) # dropWhile (\<lambda>p. enc (fst p) < enc k) m')"

definition store_ok :: "('k, 'v) store \<Rightarrow> bool" where
  "store_ok m \<longleftrightarrow> distinct (map fst m)"

definition store_sorted :: "('k \<Rightarrow> byte list) \<Rightarrow> ('k, 'v) store \<Rightarrow> bool" where
  "store_sorted enc m \<longleftrightarrow> sorted_wrt (\<lambda>p q. enc (fst p) \<le> enc (fst q)) m"

text \<open>\<open>range(Some(lo), None, Ascending)\<close>.\<close>

definition store_from :: "('k \<Rightarrow> byte list) \<Rightarrow> byte list option \<Rightarrow> ('k, 'v) store \<Rightarrow> ('k, 'v) store" where
  "store_from enc lo m =
     (case lo of None \<Rightarrow> m | Some b \<Rightarrow> filter (\<lambda>p. b \<le> enc (fst p)) m)"

text \<open>A sum over all entries, and what one key contributes to it.\<close>

definition store_sum :: "('k \<Rightarrow> 'v \<Rightarrow> nat) \<Rightarrow> ('k, 'v) store \<Rightarrow> nat" where
  "store_sum f m = sum_list (map (\<lambda>(k, v). f k v) m)"

definition opt_sum :: "('k \<Rightarrow> 'v \<Rightarrow> nat) \<Rightarrow> 'k \<Rightarrow> 'v option \<Rightarrow> nat" where
  "opt_sum f k x = (case x of None \<Rightarrow> 0 | Some v \<Rightarrow> f k v)"

locale ledger_store =
  fixes get :: "'k \<Rightarrow> 'm \<Rightarrow> 'v option"
    and put :: "'k \<Rightarrow> 'v \<Rightarrow> 'm \<Rightarrow> 'm"
    and remove :: "'k \<Rightarrow> 'm \<Rightarrow> 'm"
    and entries :: "'m \<Rightarrow> ('k \<times> 'v) list"
    and ok :: "'m \<Rightarrow> bool"
  assumes get_put: "get k' (put k v m) = (if k' = k then Some v else get k' m)"
    and get_remove: "get k' (remove k m) = (if k' = k then None else get k' m)"
    and ok_put: "ok m \<Longrightarrow> ok (put k v m)"
    and ok_remove: "ok m \<Longrightarrow> ok (remove k m)"
    and get_entries: "ok m \<Longrightarrow> get k m = Some v \<longleftrightarrow> (k, v) \<in> set (entries m)"
    and distinct_entries: "ok m \<Longrightarrow> distinct (map fst (entries m))"
begin

lemma total_as_sum: "ok m \<Longrightarrow> store_sum f (entries m) = (\<Sum>(k, v) \<in> {(k, v). get k m = Some v}. f k v)"
proof -
  assume m: "ok m"
  have d: "distinct (entries m)" using distinct_entries [OF m] by (simp add: distinct_map)
  have "{(k, v). get k m = Some v} = set (entries m)" using get_entries [OF m] by auto
  then show ?thesis by (simp add: store_sum_def sum_list_distinct_conv_sum_set [OF d])
qed

lemma finite_entries: "ok m \<Longrightarrow> finite {(k, v). get k m = Some v}"
  by (rule finite_subset [of _ "set (entries m)"]) (auto simp: get_entries)

lemma total_remove: "ok m \<Longrightarrow> store_sum f (entries (remove k m)) + opt_sum f k (get k m) = store_sum f (entries m)"
proof -
  assume m: "ok m"
  let ?S = "{(k', v). get k' m = Some v}" and ?R = "{(k', v). get k' (remove k m) = Some v}"
  have S: "?S = ?R \<union> {(k', v). k' = k \<and> get k m = Some v}" by (auto simp: get_remove split: if_splits)
  have "finite ?S" by (rule finite_entries [OF m])
  then have fin: "finite ?R" by (simp add: S)
  have "(\<Sum>(k', v) \<in> {(k', v). k' = k \<and> get k m = Some v}. f k' v) = opt_sum f k (get k m)"
  proof (cases "get k m")
    case (Some v)
    then have "{(k', v). k' = k \<and> get k m = Some v} = {(k, v)}" by auto
    with Some show ?thesis by (simp add: opt_sum_def)
  next
    case None
    then have "{(k', v). k' = k \<and> get k m = Some v} = {}" by auto
    with None show ?thesis by (simp add: opt_sum_def)
  qed
  moreover have "(\<Sum>(k', v) \<in> ?S. f k' v) = (\<Sum>(k', v) \<in> ?R. f k' v) +
      (\<Sum>(k', v) \<in> {(k', v). k' = k \<and> get k m = Some v}. f k' v)"
    unfolding S by (rule sum.union_disjoint [OF fin]) (use \<open>finite ?S\<close> S in \<open>auto simp: get_remove intro: finite_subset\<close>)
  ultimately show ?thesis by (simp add: total_as_sum m ok_remove)
qed

lemma total_put: "ok m \<Longrightarrow> store_sum f (entries (put k v m)) + opt_sum f k (get k m) = store_sum f (entries m) + f k v"
proof -
  assume m: "ok m"
  have "store_sum f (entries (remove k (put k v m))) + opt_sum f k (get k (put k v m)) = store_sum f (entries (put k v m))"
    by (rule total_remove [OF ok_put [OF m]])
  moreover have "opt_sum f k (get k (put k v m)) = f k v" by (simp add: opt_sum_def get_put)
  moreover have "get k' (remove k (put k v m)) = get k' (remove k m)" for k'
    by (simp add: get_remove get_put)
  then have "store_sum f (entries (remove k (put k v m))) = store_sum f (entries (remove k m))"
    by (simp add: total_as_sum m ok_put ok_remove)
  ultimately show ?thesis using total_remove [OF m, of f k] by simp
qed

lemma opt_sum_le_total: "ok m \<Longrightarrow> opt_sum f k (get k m) \<le> store_sum f (entries m)"
  using total_remove [of m f k] by simp

end

lemma store_set_set: "set (store_set enc k v m) = insert (k, v) (set (store_remove k m))"
proof -
  let ?P = "\<lambda>p. enc (fst p) < enc k"
  have "set (store_remove k m) = set (takeWhile ?P (store_remove k m)) \<union> set (dropWhile ?P (store_remove k m))"
    by (metis set_append takeWhile_dropWhile_id)
  then show ?thesis by (auto simp: store_set_def Let_def)
qed

lemma store_ok_remove: "store_ok m \<Longrightarrow> store_ok (store_remove k m)"
  by (simp add: store_ok_def store_remove_def distinct_map inj_on_def)

lemma store_ok_set: "store_ok m \<Longrightarrow> store_ok (store_set enc k v m)"
proof -
  assume "store_ok m"
  let ?P = "\<lambda>p. enc (fst p) < enc k"
  define A B where "A = takeWhile ?P (store_remove k m)" and "B = dropWhile ?P (store_remove k m)"
  have AB: "store_remove k m = A @ B" by (simp add: A_def B_def)
  have "distinct (map fst (A @ B))"
    using store_ok_remove [OF \<open>store_ok m\<close>, of k] by (simp only: store_ok_def AB)
  moreover have "k \<notin> fst ` set (A @ B)" unfolding AB [symmetric] by (auto simp: store_remove_def)
  ultimately show ?thesis
    by (auto simp: store_ok_def store_set_def A_def [symmetric] B_def [symmetric])
qed

lemma store_get_entries: "store_ok m \<Longrightarrow> store_get k m = Some v \<longleftrightarrow> (k, v) \<in> set m"
  by (simp add: store_ok_def store_get_def)

lemma store_get_remove: "store_get k' (store_remove k m) = (if k' = k then None else store_get k' m)"
  by (induction m) (auto simp: store_get_def store_remove_def)

lemma store_get_set: "store_get k' (store_set enc k v m) = (if k' = k then Some v else store_get k' m)"
proof -
  let ?P = "\<lambda>p. enc (fst p) < enc k" and ?m = "store_remove k m"
  have k: "k \<notin> fst ` set (takeWhile ?P ?m)"
    by (auto simp: store_remove_def dest!: set_takeWhileD)
  have m: "map_of ?m = map_of (takeWhile ?P ?m @ dropWhile ?P ?m)" by simp
  have "map_of (takeWhile ?P ?m) k = None" using k by (simp add: map_of_eq_None_iff)
  then show ?thesis
    using store_get_remove [of k' k m]
    by (auto simp: store_get_def store_set_def Let_def m map_add_def simp del: takeWhile_dropWhile_id
        split: option.splits)
qed

lemma store_sorted_remove: "store_sorted enc m \<Longrightarrow> store_sorted enc (store_remove k m)"
  by (simp add: store_sorted_def store_remove_def sorted_wrt_filter)

lemma store_sorted_set: "store_sorted enc m \<Longrightarrow> store_sorted enc (store_set enc k v m)"
proof -
  assume "store_sorted enc m"
  let ?P = "\<lambda>p. enc (fst p) < enc k" and ?m = "store_remove k m"
  have sorted: "sorted_wrt (\<lambda>p q. enc (fst p) \<le> enc (fst q)) (takeWhile ?P ?m @ dropWhile ?P ?m)"
    using store_sorted_remove [OF \<open>store_sorted enc m\<close>, of k] by (simp add: store_sorted_def)
  have low: "enc (fst p) \<le> enc k" if "p \<in> set (takeWhile ?P ?m)" for p
    using set_takeWhileD [OF that] by (blast intro: less_imp_le)
  have high: "enc k \<le> enc (fst p)" if p: "p \<in> set (dropWhile ?P ?m)" for p
  proof -
    obtain q qs where q: "dropWhile ?P ?m = q # qs" using p by (cases "dropWhile ?P ?m") auto
    then have "\<not> ?P q" by (metis hd_dropWhile list.sel(1) list.distinct(1))
    moreover have "enc (fst q) \<le> enc (fst p)" using sorted p by (auto simp: sorted_wrt_append q)
    ultimately show ?thesis by (simp add: not_less)
  qed
  define A B where "A = takeWhile ?P ?m" and "B = dropWhile ?P ?m"
  have "sorted_wrt (\<lambda>p q. enc (fst p) \<le> enc (fst q)) (A @ (k, v) # B)"
    using sorted low high unfolding A_def [symmetric] B_def [symmetric] by (simp add: sorted_wrt_append)
  then show ?thesis by (simp add: store_sorted_def store_set_def A_def B_def Let_def)
qed

interpretation kv: ledger_store store_get "store_set enc" store_remove "\<lambda>m. m" store_ok for enc
  by unfold_locales
    (simp_all add: store_get_set store_get_remove store_ok_set store_ok_remove store_get_entries,
      simp add: store_ok_def)

end
