(* ===== verification/Exchange_Rate.thy ===== *)
theory Exchange_Rate
  imports Std_Lib
begin

text \<open>
  The arithmetic at the heart of the hub: \<open>State::update_exchange_rate\<close> of
  \<open>packages/basset/src/hub.rs\<close> and \<open>decimal_division\<close> of
  \<open>contracts/anchor_basset_hub/src/math.rs\<close>.
\<close>

definition update_exchange_rate :: "lib \<Rightarrow> uint128 \<Rightarrow> uint128 \<Rightarrow> hub_state \<Rightarrow> hub_state res" where
  "update_exchange_rate l total_issued requested_with_fee st =
     and_then (uint_add l total_issued requested_with_fee) (\<lambda>actual_supply.
       if total_bond_amount st = 0 \<or> actual_supply = 0
       then Ok (st\<lparr>exchange_rate := decimal_one\<rparr>)
       else and_then (decimal_from_ratio l (total_bond_amount st) actual_supply)
              (\<lambda>r. Ok (st\<lparr>exchange_rate := r\<rparr>)))"

definition HUB_DECIMAL_FRACTIONAL :: uint128 where
  "HUB_DECIMAL_FRACTIONAL = 1000000000"

definition giga :: nat where
  "giga = 10 ^ 9"

lemma unat_HUB_DECIMAL_FRACTIONAL [simp]: "unat HUB_DECIMAL_FRACTIONAL = giga"
  by (simp add: HUB_DECIMAL_FRACTIONAL_def giga_def)

lemma giga_pos [simp]: "0 < giga" "giga \<noteq> 0"
  by (simp_all add: giga_def)

lemma dec_unit_giga: "dec_unit = giga * giga"
  by (simp add: dec_unit_def giga_def)

lemma giga_times_div_dec_unit: "giga * n div dec_unit = n div giga"
  by (simp add: dec_unit_giga)

definition decimal_division :: "lib \<Rightarrow> uint128 \<Rightarrow> decimal \<Rightarrow> uint128 res" where
  "decimal_division l a b =
     and_then (uint_mul_decimal l HUB_DECIMAL_FRACTIONAL b) (\<lambda>scaled.
     and_then (decimal_from_ratio l a scaled) (\<lambda>dec.
       uint_mul_decimal l HUB_DECIMAL_FRACTIONAL dec))"

lemma decimal_one_unique: "datoms r = dec_unit \<Longrightarrow> r = decimal_one"
  by (simp add: decimal_eq_iff)

text \<open>The rate of a bonded amount over a supply, in atomics; the reference for the update.\<close>

definition rate_atoms :: "nat \<Rightarrow> nat \<Rightarrow> nat" where
  "rate_atoms bonded supply = (if bonded = 0 \<or> supply = 0 then dec_unit else bonded * dec_unit div supply)"

lemma rate_atoms_le_one:
  "bonded \<le> supply \<Longrightarrow> rate_atoms bonded supply \<le> dec_unit"
proof (cases "bonded = 0 \<or> supply = 0")
  case False
  assume "bonded \<le> supply"
  then have "bonded * dec_unit div supply \<le> supply * dec_unit div supply"
    by (intro div_le_mono mult_le_mono1)
  with False show ?thesis by (simp add: rate_atoms_def)
qed (simp add: rate_atoms_def)

lemma rate_atoms_times_supply: "supply \<noteq> 0 \<Longrightarrow> bonded \<noteq> 0 \<Longrightarrow>
    rate_atoms bonded supply * supply \<le> bonded * dec_unit \<and>
    bonded * dec_unit < (rate_atoms bonded supply + 1) * supply"
  by (auto simp: rate_atoms_def dividend_less_div_times div_times_less_eq_dividend)

context cosmwasm_numbers
begin

lemma update_exchange_rate_ok:
  "update_exchange_rate l t q st = Ok st' \<longleftrightarrow> unat t + unat q < 2 ^ 128 \<and>
     (\<exists>r. st' = st\<lparr>exchange_rate := r\<rparr> \<and>
        datoms r = rate_atoms (unat (total_bond_amount st)) (unat t + unat q))"
  (is "_ \<longleftrightarrow> _ \<and> ?R (unat t + unat q)")
proof -
  let ?f = "\<lambda>s. if total_bond_amount st = 0 \<or> s = 0 then Ok (st\<lparr>exchange_rate := decimal_one\<rparr>)
       else and_then (decimal_from_ratio l (total_bond_amount st) s) (\<lambda>r. Ok (st\<lparr>exchange_rate := r\<rparr>))"
  have f: "?f s = Ok st' \<longleftrightarrow> ?R (unat s)" for s
    by (auto simp: rate_atoms_def decimal_from_ratio_ok unat_eq_zero dest!: decimal_one_unique)
  have "update_exchange_rate l t q st = Ok st' \<longleftrightarrow> (\<exists>s. unat s = unat t + unat q \<and> ?f s = Ok st')"
    by (simp only: update_exchange_rate_def and_then_eq_Ok [of "uint_add l t q"] uint_add_ok)
  also have "\<dots> \<longleftrightarrow> (\<exists>s :: uint128. unat s = unat t + unat q \<and> ?R (unat s))"
    by (simp only: f)
  also have "\<dots> \<longleftrightarrow> unat t + unat q < 2 ^ 128 \<and> ?R (unat t + unat q)"
  proof (cases "unat t + unat q < 2 ^ 128")
    case True
    then have "unat (t + q) = unat t + unat q" by (simp add: unat_add_checked)
    with True show ?thesis by metis
  next
    case False
    then show ?thesis using unat_less_128 by metis
  qed
  finally show ?thesis .
qed

lemma update_exchange_rate_frame:
  assumes "update_exchange_rate l t q st = Ok st'"
  shows "total_bond_amount st' = total_bond_amount st"
    and "last_index_modification st' = last_index_modification st"
    and "prev_hub_balance st' = prev_hub_balance st"
    and "actual_unbonded_amount st' = actual_unbonded_amount st"
    and "last_unbonded_time st' = last_unbonded_time st"
    and "last_processed_batch st' = last_processed_batch st"
  using assms by (auto simp: update_exchange_rate_ok)

lemma decimal_division_ok:
  "decimal_division l a b = Ok c \<longleftrightarrow>
     datoms b div giga \<noteq> 0 \<and> unat a * dec_unit div (datoms b div giga) < 2 ^ 128 \<and>
     unat c = unat a * giga div (datoms b div giga)"
  (is "?L \<longleftrightarrow> ?R")
proof -
  define d where "d = datoms b div giga"
  have d: "giga * datoms b div dec_unit = d"
    by (simp add: d_def giga_times_div_dec_unit)
  have "d < 2 ^ 128"
    unfolding d_def by (rule le_less_trans [OF div_le_dividend unat_less_128])
  then have D: "uint_mul_decimal l HUB_DECIMAL_FRACTIONAL b = Ok s \<longleftrightarrow> s = of_nat d" for s
    using d by (auto simp: uint_mul_decimal_ok unat_of_nat_checked word_eq_of_nat)
  have ud: "unat (of_nat d :: uint128) = d" using \<open>d < 2 ^ 128\<close> by (simp add: unat_of_nat_checked)
  have d0: "(of_nat d :: uint128) = 0 \<longleftrightarrow> d = 0" using ud by (metis unat_0 word_eq_if_unat_eq of_nat_0)
  have c: "giga * (unat a * dec_unit div d) div dec_unit = unat a * giga div d"
  proof -
    have "giga * (unat a * dec_unit div d) div dec_unit = unat a * dec_unit div d div giga"
      by (rule giga_times_div_dec_unit)
    also have "\<dots> = (giga * (unat a * giga)) div (giga * d)"
      by (simp add: dec_unit_giga div_mult2_eq [symmetric] ac_simps)
    also have "\<dots> = unat a * giga div d" by (rule div_mult_mult1) simp
    finally show ?thesis .
  qed
  have "?L \<longleftrightarrow> (\<exists>r. decimal_from_ratio l a (of_nat d) = Ok r \<and>
      uint_mul_decimal l HUB_DECIMAL_FRACTIONAL r = Ok c)"
    by (simp add: decimal_division_def D)
  also have "\<dots> \<longleftrightarrow> (\<exists>r. d \<noteq> 0 \<and> datoms r = unat a * dec_unit div d \<and>
      unat c = giga * datoms r div dec_unit)"
    by (simp add: decimal_from_ratio_ok uint_mul_decimal_ok d0 ud)
  also have "\<dots> \<longleftrightarrow> d \<noteq> 0 \<and> unat a * dec_unit div d < 2 ^ 128 \<and> unat c = unat a * giga div d"
  proof
    assume "\<exists>r. d \<noteq> 0 \<and> datoms r = unat a * dec_unit div d \<and> unat c = giga * datoms r div dec_unit"
    then obtain r where r: "d \<noteq> 0" "datoms r = unat a * dec_unit div d"
      "unat c = giga * (unat a * dec_unit div d) div dec_unit" by auto
    have "datoms r < 2 ^ 128" by (rule unat_less_128)
    with r c show "d \<noteq> 0 \<and> unat a * dec_unit div d < 2 ^ 128 \<and> unat c = unat a * giga div d"
      by simp
  next
    assume "d \<noteq> 0 \<and> unat a * dec_unit div d < 2 ^ 128 \<and> unat c = unat a * giga div d"
    with c show "\<exists>r. d \<noteq> 0 \<and> datoms r = unat a * dec_unit div d \<and> unat c = giga * datoms r div dec_unit"
      by (intro exI [of _ "Decimal (of_nat (unat a * dec_unit div d))"])
        (simp add: unat_of_nat_checked)
  qed
  finally show ?thesis by (simp add: d_def)
qed

end

end
