(* ===== verification/Hub_State.thy ===== *)
theory Hub_State
  imports Store Exchange_Rate
begin

text \<open>
  \<open>contracts/anchor_basset_hub/src/state.rs\<close>: the hub's storage and the functions that read
  and write it.  The four \<open>Item\<close>s are optional values (absent until \<open>instantiate\<close>); the
  wait lists are one store with keys (user, batch), of which a user's \<open>Bucket\<close> is the part with
  his address, visited in the order of the serialised batch id; the histories are ordered by the
  big-endian bytes of the batch id.
\<close>

record parameters =
  epoch_period :: u64
  underlying_coin_denom :: string
  unbonding_period :: u64
  peg_recovery_fee :: decimal
  er_threshold :: decimal
  reward_denom :: string

record current_batch =
  cb_id :: u64
  requested_with_fee :: uint128

record hub_storage =
  CONFIG :: "hub_config option"
  PARAMETERS :: "parameters option"
  CURRENT_BATCH :: "current_batch option"
  STATE :: "hub_state option"
  wait_map :: "(string \<times> u64, uint128) store"
  history_map :: "(u64, unbond_history) store"
  validators_map :: "(string, bool) store"

definition empty_hub_storage :: hub_storage where
  "empty_hub_storage = \<lparr>CONFIG = None, PARAMETERS = None, CURRENT_BATCH = None, STATE = None,
     wait_map = [], history_map = [], validators_map = []\<rparr>"


section \<open>Wait lists\<close>

definition wait_enc :: "lib \<Rightarrow> string \<times> u64 \<Rightarrow> byte list" where
  "wait_enc l k = json_u64 l (snd k)"

definition store_unbond_wait_list ::
    "lib \<Rightarrow> u64 \<Rightarrow> string \<Rightarrow> uint128 \<Rightarrow> hub_storage \<Rightarrow> hub_storage res" where
  "store_unbond_wait_list l batch sender_address amt s =
     and_then (uint_add l (case store_get (sender_address, batch) (wait_map s) of
                              None \<Rightarrow> 0 | Some asked_already \<Rightarrow> asked_already) amt)
       (\<lambda>v. Ok (s\<lparr>wait_map := store_set (wait_enc l) (sender_address, batch) v (wait_map s)\<rparr>))"

definition remove_unbond_wait_list :: "u64 list \<Rightarrow> string \<Rightarrow> hub_storage \<Rightarrow> hub_storage res" where
  "remove_unbond_wait_list batches sender_address s =
     Ok (s\<lparr>wait_map := fold (\<lambda>b. store_remove (sender_address, b)) batches (wait_map s)\<rparr>)"

definition read_unbond_wait_list :: "hub_storage \<Rightarrow> u64 \<Rightarrow> string \<Rightarrow> uint128 res" where
  "read_unbond_wait_list s batch sender_addr =
     load_item ''Uint128'' (store_get (sender_addr, batch) (wait_map s))"

text \<open>The user's bucket, in the order of \<open>range(None, None, Ascending)\<close>.\<close>

definition wait_bucket :: "hub_storage \<Rightarrow> string \<Rightarrow> (u64 \<times> uint128) list" where
  "wait_bucket s sender_addr =
     map (\<lambda>p. (snd (fst p), snd p)) (filter (\<lambda>p. fst (fst p) = sender_addr) (wait_map s))"

definition get_unbond_requests :: "hub_storage \<Rightarrow> string \<Rightarrow> (u64 \<times> uint128) list res" where
  "get_unbond_requests s sender_addr = Ok (wait_bucket s sender_addr)"


section \<open>Histories\<close>

text \<open>\<open>u64::to_be_bytes\<close>: eight bytes, the most significant first.\<close>

definition to_be_bytes :: "u64 \<Rightarrow> byte list" where
  "to_be_bytes w = be_bytes 8 (unat w)"

definition store_unbond_history :: "u64 \<Rightarrow> unbond_history \<Rightarrow> hub_storage \<Rightarrow> hub_storage res" where
  "store_unbond_history batch history s =
     Ok (s\<lparr>history_map := store_set to_be_bytes batch history (history_map s)\<rparr>)"

definition read_unbond_history :: "hub_storage \<Rightarrow> u64 \<Rightarrow> unbond_history res" where
  "read_unbond_history s epoc_id =
     (case store_get epoc_id (history_map s) of
        Some data \<Rightarrow> Ok data
      | None \<Rightarrow> Err (GenericErr ''Burn requests not found for the specified time period''))"

definition get_unbond_batches :: "hub_storage \<Rightarrow> string \<Rightarrow> u64 list res" where
  "get_unbond_batches s sender_addr =
     Ok (map fst (filter (\<lambda>(user_batch, _). case read_unbond_history s user_batch of
           Ok h \<Rightarrow> released h | _ \<Rightarrow> False) (wait_bucket s sender_addr)))"

definition get_finished_amount :: "lib \<Rightarrow> hub_storage \<Rightarrow> string \<Rightarrow> uint128 res" where
  "get_finished_amount l s sender_addr =
     fold_res (\<lambda>(user_batch, v) withdrawable_amount.
         case read_unbond_history s user_batch of
           Ok h \<Rightarrow> (if released h
                   then and_then (uint_mul_decimal l v (withdraw_rate h)) (uint_add l withdrawable_amount)
                   else Ok withdrawable_amount)
         | Err e \<Rightarrow> Ok withdrawable_amount
         | Panic p \<Rightarrow> Panic p)
       (wait_bucket s sender_addr) 0"

definition query_get_finished_amount :: "lib \<Rightarrow> hub_storage \<Rightarrow> string \<Rightarrow> u64 \<Rightarrow> uint128 res" where
  "query_get_finished_amount l s sender_addr block_time =
     fold_res (\<lambda>(user_batch, v) withdrawable_amount.
         case read_unbond_history s user_batch of
           Ok h \<Rightarrow> (if batch_time h < block_time
                   then and_then (uint_mul_decimal l v (withdraw_rate h)) (uint_add l withdrawable_amount)
                   else Ok withdrawable_amount)
         | Err e \<Rightarrow> Ok withdrawable_amount
         | Panic p \<Rightarrow> Panic p)
       (wait_bucket s sender_addr) 0"

abbreviation MAX_LIMIT :: u32 where "MAX_LIMIT \<equiv> 100"
abbreviation DEFAULT_LIMIT :: u32 where "DEFAULT_LIMIT \<equiv> 10"

definition convert :: "u64 option \<Rightarrow> byte list option" where
  "convert start_after = map_option (\<lambda>idx. to_be_bytes idx @ [1]) start_after"

definition all_unbond_history ::
    "hub_storage \<Rightarrow> u64 option \<Rightarrow> u32 option \<Rightarrow> unbond_history list res" where
  "all_unbond_history s start limit =
     (let lim = unat (min (case limit of None \<Rightarrow> DEFAULT_LIMIT | Some n \<Rightarrow> n) MAX_LIMIT)
      in Ok (map snd (take lim (store_from to_be_bytes (convert start) (history_map s)))))"


section \<open>Validators\<close>

definition store_white_validators :: "lib \<Rightarrow> string \<Rightarrow> hub_storage \<Rightarrow> hub_storage res" where
  "store_white_validators l validator_address s =
     Ok (s\<lparr>validators_map := store_set (json_string l) validator_address True (validators_map s)\<rparr>)"

definition remove_white_validators :: "string \<Rightarrow> hub_storage \<Rightarrow> hub_storage res" where
  "remove_white_validators validator_address s =
     Ok (s\<lparr>validators_map := store_remove validator_address (validators_map s)\<rparr>)"

definition read_validators :: "hub_storage \<Rightarrow> string list res" where
  "read_validators s = Ok (map fst (validators_map s))"

definition is_valid_validator :: "hub_storage \<Rightarrow> string \<Rightarrow> bool res" where
  "is_valid_validator s validator_address =
     (case store_get validator_address (validators_map s) of Some _ \<Rightarrow> Ok True | None \<Rightarrow> Ok False)"

definition read_valid_validators :: "hub_storage \<Rightarrow> string list res" where
  "read_valid_validators s = Ok (map fst (validators_map s))"


section \<open>Lemmas\<close>

lemma read_unbond_history_ok [simp]:
  "read_unbond_history s i = Ok h \<longleftrightarrow> store_get i (history_map s) = Some h"
  by (auto simp: read_unbond_history_def split: option.splits)

lemma read_unbond_history_not_panic [simp]: "read_unbond_history s i \<noteq> Panic p"
  by (auto simp: read_unbond_history_def split: option.splits)

lemma store_unbond_history_ok [simp]:
  "store_unbond_history b h s = Ok s' \<longleftrightarrow>
     s' = s\<lparr>history_map := store_set to_be_bytes b h (history_map s)\<rparr>"
  by (auto simp: store_unbond_history_def)

lemma is_valid_validator_ok [simp]:
  "is_valid_validator s v = Ok b \<longleftrightarrow> (b \<longleftrightarrow> store_get v (validators_map s) \<noteq> None)"
  by (auto simp: is_valid_validator_def split: option.splits)

lemma to_be_bytes_less: "to_be_bytes a @ s < to_be_bytes b @ t \<longleftrightarrow> a < b \<or> a = b \<and> s < t"
proof -
  have "unat a < 256 ^ 8" "unat b < 256 ^ 8"
    using unat_bound [of a] unat_bound [of b] by simp_all
  then show ?thesis
    by (simp add: to_be_bytes_def be_bytes_less word_less_nat_alt word_unat_eq_iff)
qed

lemma to_be_bytes_le: "to_be_bytes a \<le> to_be_bytes b \<longleftrightarrow> a \<le> b"
  using to_be_bytes_less [of b "[]" a "[]"] by (simp add: not_less [symmetric])

lemma convert_le: "to_be_bytes a @ [1] \<le> to_be_bytes b \<longleftrightarrow> a < b"
proof -
  have "to_be_bytes a @ [1] \<le> to_be_bytes b \<longleftrightarrow> \<not> to_be_bytes b @ [] < to_be_bytes a @ [1]"
    by (simp add: not_less)
  then show ?thesis unfolding to_be_bytes_less by auto
qed

end
