(* ===== verification/Hub_Slashing.thy ===== *)
theory Hub_Slashing
  imports Hub_State
begin

text \<open>
  Slashing detection of the hub (\<open>contracts/anchor_basset_hub/src/contract.rs\<close>:
  \<open>query_total_issued\<close>, \<open>slashing\<close>, \<open>execute_slashing\<close>): the stored bonded amount
  is lowered to the sum of the actual delegations and the exchange rate recomputed.
\<close>

definition query_total_issued :: "deps \<Rightarrow> hub_storage \<Rightarrow> uint128 res" where
  "query_total_issued d s =
     and_then (load_item ''Config'' (CONFIG s)) (\<lambda>config.
     and_then (expect_some ''token contract must have been registered'' (token_contract config)) (\<lambda>token.
     and_then (addr_humanize (dapi d) token) (\<lambda>token_address.
       query_token_supply (dquerier d) token_address)))"

text \<open>The loop over the delegations: those in the bonded denomination are added up.\<close>

definition sum_delegations :: "lib \<Rightarrow> string \<Rightarrow> delegation list \<Rightarrow> uint128 res" where
  "sum_delegations l coin_denom delegations =
     fold_res (\<lambda>del actual_total_bonded.
        if denom (delegated del) = coin_denom
        then uint_add l actual_total_bonded (amount (delegated del))
        else Ok actual_total_bonded) delegations 0"

definition slashing :: "deps \<Rightarrow> env \<Rightarrow> hub_storage \<Rightarrow> hub_storage res" where
  "slashing d e s =
     and_then (load_item ''Parameters'' (PARAMETERS s)) (\<lambda>params.
     and_then (load_item ''State'' (STATE s)) (\<lambda>state.
     and_then (query_all_delegations (dquerier d) (contract_address e)) (\<lambda>delegations.
       if delegations = [] then Ok s
       else
         and_then (sum_delegations (dlib d) (underlying_coin_denom params) delegations)
           (\<lambda>actual_total_bonded.
         and_then (query_total_issued d s) (\<lambda>total_issued.
         and_then (load_item ''CurrentBatch'' (CURRENT_BATCH s)) (\<lambda>batch.
           if actual_total_bonded < total_bond_amount state
           then and_then (update_exchange_rate (dlib d) total_issued (requested_with_fee batch)
                    (state\<lparr>total_bond_amount := actual_total_bonded\<rparr>))
                  (\<lambda>state'. Ok (s\<lparr>STATE := Some state'\<rparr>))
           else Ok s))))))"

definition execute_slashing :: "deps \<Rightarrow> env \<Rightarrow> hub_storage \<Rightarrow> (hub_storage \<times> response) res" where
  "execute_slashing d e s =
     and_then (slashing d e s) (\<lambda>s'.
     and_then (load_item ''State'' (STATE s')) (\<lambda>state.
       Ok (s', \<lparr>messages = [],
                attributes = [(''action'', AttrStr ''check_slashing''),
                              (''new_exchange_rate'', AttrDec (exchange_rate state))]\<rparr>)))"

text \<open>The total of the delegations in one denomination.\<close>

definition delegation_total :: "string \<Rightarrow> delegation list \<Rightarrow> nat" where
  "delegation_total coin_denom ds =
     sum_list (map (\<lambda>del. unat (amount (delegated del))) (filter (\<lambda>del. denom (delegated del) = coin_denom) ds))"

context cosmwasm_numbers
begin

lemma sum_delegations_from:
  "fold_res (\<lambda>del acc. if denom (delegated del) = c then uint_add l acc (amount (delegated del))
      else Ok acc) ds a = Ok t \<longleftrightarrow> unat t = unat a + delegation_total c ds"
proof (induction ds arbitrary: a)
  case Nil
  then show ?case by (auto simp: delegation_total_def intro: word_eq_if_unat_eq)
next
  case (Cons del ds)
  show ?case
  proof (cases "denom (delegated del) = c")
    case True
    have "(\<exists>b :: uint128. unat b = unat a + unat (amount (delegated del)) \<and>
        unat t = unat b + delegation_total c ds) \<longleftrightarrow>
        unat t = unat a + unat (amount (delegated del)) + delegation_total c ds" (is "?L \<longleftrightarrow> ?R")
    proof
      assume ?R
      then have "unat a + unat (amount (delegated del)) < 2 ^ 128"
        using unat_less_128 [of t] by linarith
      then have "unat (a + amount (delegated del)) = unat a + unat (amount (delegated del))"
        by (simp add: unat_add_checked)
      with \<open>?R\<close> show ?L by metis
    qed auto
    with True show ?thesis
      by (simp add: Cons.IH uint_add_ok) (simp add: delegation_total_def add.assoc)
  next
    case False
    then show ?thesis by (simp add: Cons.IH) (simp add: delegation_total_def)
  qed
qed

lemma sum_delegations_ok: "sum_delegations l c ds = Ok t \<longleftrightarrow> unat t = delegation_total c ds"
  using sum_delegations_from [of c ds 0] by (simp add: sum_delegations_def)

end

text \<open>What a run of \<open>slashing\<close> did: nothing, or the stored amount was lowered.\<close>

lemma slashing_ok:
  assumes "cosmwasm_numbers (dlib d)" and "slashing d e s = Ok s'"
  obtains params state delegations where
    "PARAMETERS s = Some params" "STATE s = Some state"
    "query_all_delegations (dquerier d) (contract_address e) = Ok delegations"
    "s' = s \<and> (delegations = [] \<or>
        unat (total_bond_amount state) \<le> delegation_total (underlying_coin_denom params) delegations)
     \<or> (\<exists>issued batch state'. delegations \<noteq> [] \<and> query_total_issued d s = Ok issued \<and>
         CURRENT_BATCH s = Some batch \<and> s' = s\<lparr>STATE := Some state'\<rparr> \<and>
         unat (total_bond_amount state') = delegation_total (underlying_coin_denom params) delegations \<and>
         unat (total_bond_amount state') < unat (total_bond_amount state) \<and>
         update_exchange_rate (dlib d) issued (requested_with_fee batch)
           (state\<lparr>total_bond_amount := total_bond_amount state'\<rparr>) = Ok state')"
proof -
  from assms(2) obtain params state ds where p: "PARAMETERS s = Some params" "STATE s = Some state"
      "query_all_delegations (dquerier d) (contract_address e) = Ok ds"
    by (auto simp: slashing_def)
  have "s' = s \<and> (ds = [] \<or>
        unat (total_bond_amount state) \<le> delegation_total (underlying_coin_denom params) ds)
     \<or> (\<exists>issued batch state'. ds \<noteq> [] \<and> query_total_issued d s = Ok issued \<and>
         CURRENT_BATCH s = Some batch \<and> s' = s\<lparr>STATE := Some state'\<rparr> \<and>
         unat (total_bond_amount state') = delegation_total (underlying_coin_denom params) ds \<and>
         unat (total_bond_amount state') < unat (total_bond_amount state) \<and>
         update_exchange_rate (dlib d) issued (requested_with_fee batch)
           (state\<lparr>total_bond_amount := total_bond_amount state'\<rparr>) = Ok state')"
  proof (cases "ds = []")
    case True
    with assms(2) p show ?thesis by (simp add: slashing_def)
  next
    case False
    with assms(2) p obtain actual issued batch where a: "sum_delegations (dlib d) (underlying_coin_denom params) ds = Ok actual"
      "query_total_issued d s = Ok issued" "CURRENT_BATCH s = Some batch"
      and r: "(if actual < total_bond_amount state
           then and_then (update_exchange_rate (dlib d) issued (requested_with_fee batch)
                    (state\<lparr>total_bond_amount := actual\<rparr>)) (\<lambda>state'. Ok (s\<lparr>STATE := Some state'\<rparr>))
           else Ok s) = Ok s'"
      by (auto simp: slashing_def)
    from a(1) have act: "unat actual = delegation_total (underlying_coin_denom params) ds"
      by (simp add: cosmwasm_numbers.sum_delegations_ok [OF assms(1)])
    show ?thesis
    proof (cases "actual < total_bond_amount state")
      case True
      with r obtain state' where u: "update_exchange_rate (dlib d) issued (requested_with_fee batch)
          (state\<lparr>total_bond_amount := actual\<rparr>) = Ok state'" "s' = s\<lparr>STATE := Some state'\<rparr>"
        by auto
      have "total_bond_amount state' = actual"
        using cosmwasm_numbers.update_exchange_rate_frame(1) [OF assms(1) u(1)] by simp
      with u a act False True show ?thesis by (auto simp: word_less_nat_alt)
    next
      case False
      with r act show ?thesis by (auto simp: word_less_nat_alt)
    qed
  qed
  with p that show ?thesis by blast
qed

text \<open>Slashing touches only the state item, and in it only the bonded amount and the rate.\<close>

lemma slashing_frame:
  assumes "cosmwasm_numbers (dlib d)" and "slashing d e s = Ok s'"
  shows "\<exists>state r b. STATE s = Some state \<and> b \<le> total_bond_amount state \<and>
     s' = s\<lparr>STATE := Some (state\<lparr>exchange_rate := r, total_bond_amount := b\<rparr>)\<rparr>"
  using assms(2)
proof (rule slashing_ok [OF assms(1)])
  fix params state and delegations :: "delegation list"
  assume st: "STATE s = Some state"
  assume "s' = s \<and> (delegations = [] \<or>
        unat (total_bond_amount state) \<le> delegation_total (underlying_coin_denom params) delegations)
     \<or> (\<exists>issued batch state'. delegations \<noteq> [] \<and> query_total_issued d s = Ok issued \<and>
         CURRENT_BATCH s = Some batch \<and> s' = s\<lparr>STATE := Some state'\<rparr> \<and>
         unat (total_bond_amount state') = delegation_total (underlying_coin_denom params) delegations \<and>
         unat (total_bond_amount state') < unat (total_bond_amount state) \<and>
         update_exchange_rate (dlib d) issued (requested_with_fee batch)
           (state\<lparr>total_bond_amount := total_bond_amount state'\<rparr>) = Ok state')"
  then show ?thesis
  proof (elim disjE exE conjE)
    fix issued :: uint128 and batch state'
    assume a: "s' = s\<lparr>STATE := Some state'\<rparr>"
      "unat (total_bond_amount state') < unat (total_bond_amount state)"
      "update_exchange_rate (dlib d) issued (requested_with_fee batch)
           (state\<lparr>total_bond_amount := total_bond_amount state'\<rparr>) = Ok state'"
    define b where "b = total_bond_amount state'"
    obtain r where "state' = state\<lparr>total_bond_amount := b, exchange_rate := r\<rparr>"
      using a(3) unfolding cosmwasm_numbers.update_exchange_rate_ok [OF assms(1)] b_def by blast
    then have "s' = s\<lparr>STATE := Some (state\<lparr>exchange_rate := r, total_bond_amount := b\<rparr>)\<rparr>"
      by (simp add: a(1))
    moreover have "b \<le> total_bond_amount state" using a(2) by (simp add: b_def word_le_nat_alt)
    ultimately show ?thesis using st by blast
  next
    assume "s' = s"
    then have "s' = s\<lparr>STATE := Some (state\<lparr>exchange_rate := exchange_rate state,
        total_bond_amount := total_bond_amount state\<rparr>)\<rparr>" using st by simp
    with st show ?thesis by blast
  next
    assume "s' = s"
    then have "s' = s\<lparr>STATE := Some (state\<lparr>exchange_rate := exchange_rate state,
        total_bond_amount := total_bond_amount state\<rparr>)\<rparr>" using st by simp
    with st show ?thesis by blast
  qed
qed

end
