(* ===== verification/Hub_Bond.thy ===== *)
theory Hub_Bond
  imports Hub_Slashing
begin

text \<open>
  \<open>contracts/anchor_basset_hub/src/bond.rs\<close>: a user sends coins, they are delegated to a
  whitelisted validator, and tokens are minted at the exchange rate, less the peg recovery fee when
  the rate is below the threshold.
\<close>

text \<open>The amount minted for a payment: lines 58 to 67 of the source.\<close>

definition mint_with_fee ::
    "lib \<Rightarrow> parameters \<Rightarrow> hub_state \<Rightarrow> uint128 \<Rightarrow> uint128 \<Rightarrow> uint128 \<Rightarrow> uint128 res" where
  "mint_with_fee l params state total_supply requested payment_amount =
     and_then (decimal_division l payment_amount (exchange_rate state)) (\<lambda>mint_amount.
       if exchange_rate state < er_threshold params
       then
         and_then (uint_mul_decimal l mint_amount (peg_recovery_fee params)) (\<lambda>max_peg_fee.
         and_then (uint_add l total_supply mint_amount) (\<lambda>supply1.
         and_then (uint_add l supply1 requested) (\<lambda>supply2.
         and_then (uint_add l (total_bond_amount state) payment_amount) (\<lambda>bonded.
         and_then (uint_checked_sub l supply2 bonded) (\<lambda>required_peg_fee.
           uint_checked_sub l mint_amount (min max_peg_fee required_peg_fee))))))
       else Ok mint_amount)"

definition execute_bond ::
    "deps \<Rightarrow> env \<Rightarrow> message_info \<Rightarrow> string \<Rightarrow> hub_storage \<Rightarrow> (hub_storage \<times> response) res" where
  "execute_bond d e info val s =
     and_then (is_valid_validator s val) (\<lambda>is_valid.
     if \<not> is_valid then Err (GenericErr ''The chosen validator is currently not supported'')
     else
     and_then (load_item ''Parameters'' (PARAMETERS s)) (\<lambda>params.
     and_then (load_item ''CurrentBatch'' (CURRENT_BATCH s)) (\<lambda>batch.
     if length (funds info) > 1
     then Err (GenericErr ''More than one coin is sent; only one asset is supported'')
     else
     (case find (\<lambda>x. denom x = underlying_coin_denom params \<and> 0 < amount x) (funds info) of
        None \<Rightarrow> Err (GenericErr (''No '' @ underlying_coin_denom params @ '' assets are provided to bond''))
      | Some payment \<Rightarrow>
     and_then (slashing d e s) (\<lambda>s1.
     and_then (load_item ''State'' (STATE s1)) (\<lambda>state.
     and_then (ok_or_default 0 (query_total_issued d s1)) (\<lambda>total_supply.
     and_then (mint_with_fee (dlib d) params state total_supply (requested_with_fee batch)
        (amount payment)) (\<lambda>mint_amount_with_fee.
     and_then (uint_add (dlib d) total_supply mint_amount_with_fee) (\<lambda>new_supply.
     and_then (uint_add (dlib d) (total_bond_amount state) (amount payment)) (\<lambda>bonded.
     and_then (update_exchange_rate (dlib d) new_supply (requested_with_fee batch)
        (state\<lparr>total_bond_amount := bonded\<rparr>)) (\<lambda>state'.
     and_then (load_item ''Config'' (CONFIG s1)) (\<lambda>config.
     and_then (expect_some ''the token contract must have been registered'' (token_contract config)) (\<lambda>token.
     and_then (addr_humanize (dapi d) token) (\<lambda>token_address.
     and_then (to_binary (dlib d) (Cw20Payload (Mint (sender info) mint_amount_with_fee))) (\<lambda>mint_msg.
       Ok (s1\<lparr>STATE := Some state'\<rparr>,
           \<lparr>messages = [StakingDelegate val payment, WasmExecute token_address mint_msg []],
            attributes = [(''action'', AttrStr ''mint''), (''from'', AttrStr (sender info)),
                          (''bonded'', AttrUint (amount payment)),
                          (''minted'', AttrUint mint_amount_with_fee)]\<rparr>))))))))))))))))"

section \<open>The fee\<close>

context cosmwasm_numbers
begin

text \<open>The minted amount is the quotient less a fee that is at most the configured share of it, and
  never moves the rate above par.\<close>

lemma mint_with_fee_ok:
  assumes "mint_with_fee l params state supply requested pay = Ok minted"
  shows "\<exists>m. decimal_division l pay (exchange_rate state) = Ok m \<and> unat minted \<le> unat m \<and>
     (er_threshold params \<le> exchange_rate state \<longrightarrow> minted = m) \<and>
     (exchange_rate state < er_threshold params \<longrightarrow>
        unat (total_bond_amount state) + unat pay \<le> unat supply + unat minted + unat requested \<and>
        unat m - unat minted \<le> unat m * datoms (peg_recovery_fee params) div dec_unit)"
proof (cases "exchange_rate state < er_threshold params")
  case True
  from assms obtain m mx s1 s2 b rq :: uint128 where
      "decimal_division l pay (exchange_rate state) = Ok m"
    and "unat mx = unat m * datoms (peg_recovery_fee params) div dec_unit"
    and "unat s1 = unat supply + unat m" and "unat s2 = unat s1 + unat requested"
    and "unat b = unat (total_bond_amount state) + unat pay"
    and "unat s2 = unat b + unat rq"
    and "unat m = unat (min mx rq) + unat minted"
    unfolding mint_with_fee_def if_P [OF True] and_then_eq_Ok number_oks by blast
  moreover have "unat (min mx rq) \<le> unat mx" "unat (min mx rq) \<le> unat rq"
    by (simp_all add: min_def word_le_nat_alt)
  ultimately show ?thesis using True by (intro exI [of _ m]) auto
next
  case False
  with assms show ?thesis by (auto simp: mint_with_fee_def)
qed

end


section \<open>A successful bond\<close>

text \<open>The steps of a successful call, for the proofs about it.\<close>

lemma execute_bond_ok:
  assumes "execute_bond d e info val s = Ok (s', r)"
  obtains params batch payment s1 state total_supply minted new_supply bonded state' config token
      token_address mint_msg
  where "store_get val (validators_map s) \<noteq> None" and "PARAMETERS s = Some params"
    and "CURRENT_BATCH s = Some batch" and "funds info = [payment]"
    and "denom payment = underlying_coin_denom params" and "0 < amount payment"
    and "slashing d e s = Ok s1" and "STATE s1 = Some state"
    and "ok_or_default 0 (query_total_issued d s1) = Ok total_supply"
    and "mint_with_fee (dlib d) params state total_supply (requested_with_fee batch) (amount payment) = Ok minted"
    and "uint_add (dlib d) total_supply minted = Ok new_supply"
    and "uint_add (dlib d) (total_bond_amount state) (amount payment) = Ok bonded"
    and "update_exchange_rate (dlib d) new_supply (requested_with_fee batch)
          (state\<lparr>total_bond_amount := bonded\<rparr>) = Ok state'"
    and "CONFIG s1 = Some config" and "token_contract config = Some token"
    and "addr_humanize (dapi d) token = Ok token_address"
    and "to_binary (dlib d) (Cw20Payload (Mint (sender info) minted)) = Ok mint_msg"
    and "s' = s1\<lparr>STATE := Some state'\<rparr>"
    and "messages r = [StakingDelegate val payment, WasmExecute token_address mint_msg []]"
    and "(''minted'', AttrUint minted) \<in> set (attributes r)"
proof -
  from assms obtain params batch where 1: "store_get val (validators_map s) \<noteq> None"
      "PARAMETERS s = Some params" "CURRENT_BATCH s = Some batch" "\<not> 1 < length (funds info)"
    by (auto simp: execute_bond_def split: if_splits)
  with assms obtain payment where
      2: "find (\<lambda>x. denom x = underlying_coin_denom params \<and> 0 < amount x) (funds info) = Some payment"
    by (auto simp: execute_bond_def split: option.splits)
  then obtain i where i: "i < length (funds info)" "payment = funds info ! i"
      "denom payment = underlying_coin_denom params" "0 < amount payment"
    by (auto simp: find_Some_iff)
  with 1(4) have 3: "funds info = [payment]"
    by (cases "funds info") (auto simp: less_Suc_eq_0_disj)
  show thesis
    using assms 1 2 3 i(3,4) that by (auto simp: execute_bond_def)
qed

end
