(* ===== verification/Hub_Unbond.thy ===== *)
theory Hub_Unbond
  imports Hub_Slashing "HOL-Library.Multiset"
begin

text \<open>
  The unbonding half of \<open>contracts/anchor_basset_hub/src/unbond.rs\<close>: \<open>execute_unbond\<close>
  collects requests in the current batch and, once the epoch has passed, undelegates the whole batch
  (\<open>pick_validator\<close>), files it in the history and opens the next batch.
\<close>

section \<open>Choosing validators to undelegate from\<close>

text \<open>\<open>Vec::remove\<close>.\<close>

definition remove_nth :: "nat \<Rightarrow> 'a list \<Rightarrow> 'a list" where
  "remove_nth i xs = take i xs @ drop (Suc i) xs"

lemma length_remove_nth [simp]: "i < length xs \<Longrightarrow> length (remove_nth i xs) = length xs - 1"
  by (simp add: remove_nth_def)

text \<open>
  The \<open>while claimed > 0\<close> loop.  Every round removes a delegation, so it ends; on an exhausted
  list \<open>gen_range(0, 0)\<close> and \<open>Vec::remove\<close> panic.
\<close>

function pick_loop ::
    "lib \<Rightarrow> string \<Rightarrow> u64 \<Rightarrow> delegation list \<Rightarrow> uint128 \<Rightarrow> u64 \<Rightarrow> cosmos_msg list \<Rightarrow> cosmos_msg list res" where
  "pick_loop l coin_denom height dels claimed iteration_index msgs =
     (if claimed = 0 then Ok msgs
      else
      and_then (u64_add height iteration_index) (\<lambda>seed.
      and_then (gen_range l seed 0 (length dels)) (\<lambda>random_index.
      if length dels \<le> random_index then Panic ''removal index should be < len''
      else
      let del = dels ! random_index; val = amount (delegated del) in
      and_then (if claimed < val then Ok (claimed, 0)
                else and_then (uint_checked_sub l claimed val) (\<lambda>rest. Ok (val, rest)))
        (\<lambda>(undelegated_amount, claimed').
      and_then (u64_add iteration_index 1) (\<lambda>next_index.
        pick_loop l coin_denom height (remove_nth random_index dels) claimed' next_index
          (if 0 < undelegated_amount
           then msgs @ [StakingUndelegate (validator del) (Coin coin_denom undelegated_amount)]
           else msgs))))))"
  by pat_completeness auto
termination
  by (relation "measure (\<lambda>(l, c, h, dels, cl, i, m). length dels)") auto

declare pick_loop.simps [simp del]

definition pick_validator ::
    "deps \<Rightarrow> hub_storage \<Rightarrow> uint128 \<Rightarrow> string \<Rightarrow> u64 \<Rightarrow> cosmos_msg list res" where
  "pick_validator d s claim delegator height =
     and_then (load_item ''Parameters'' (PARAMETERS s)) (\<lambda>params.
     and_then (expect_ok ''There must be at least one delegation''
         (query_all_delegations (dquerier d) delegator)) (\<lambda>all_delegations.
       pick_loop (dlib d) (underlying_coin_denom params) height all_delegations claim 0 []))"


section \<open>Unbonding\<close>

text \<open>The requested amount less the peg recovery fee: lines 41 to 50 of the source.\<close>

definition unbond_with_fee ::
    "lib \<Rightarrow> parameters \<Rightarrow> hub_state \<Rightarrow> uint128 \<Rightarrow> uint128 \<Rightarrow> uint128 \<Rightarrow> uint128 res" where
  "unbond_with_fee l params state total_supply requested amt =
     (if exchange_rate state < er_threshold params
      then
        and_then (uint_mul_decimal l amt (peg_recovery_fee params)) (\<lambda>max_peg_fee.
        and_then (uint_add l total_supply requested) (\<lambda>supply.
        and_then (uint_checked_sub l supply (total_bond_amount state)) (\<lambda>required_peg_fee.
          uint_checked_sub l amt (min max_peg_fee required_peg_fee))))
      else Ok amt)"

text \<open>Closing the batch once the epoch period has passed: lines 72 to 116 of the source.\<close>

definition close_batch ::
    "deps \<Rightarrow> env \<Rightarrow> hub_state \<Rightarrow> current_batch \<Rightarrow> hub_storage \<Rightarrow>
     (hub_storage \<times> hub_state \<times> current_batch \<times> cosmos_msg list) res" where
  "close_batch d e state batch s =
     and_then (uint_mul_decimal (dlib d) (requested_with_fee batch) (exchange_rate state))
       (\<lambda>undelegation_amount.
     if undelegation_amount = 1
     then Err (GenericErr ''Burn amount must be greater than 1 ubluna'')
     else
     and_then (pick_validator d s undelegation_amount (contract_address e) (block_height e))
       (\<lambda>undelegated_msgs.
     and_then (expect_ok ''undelegation amount can not be more than stored total bonded amount''
         (uint_checked_sub (dlib d) (total_bond_amount state) undelegation_amount)) (\<lambda>bonded.
     and_then (store_unbond_history (cb_id batch)
         \<lparr>batch_id = cb_id batch, batch_time = block_seconds e, batch_amount = requested_with_fee batch,
          applied_exchange_rate = exchange_rate state, withdraw_rate = exchange_rate state,
          released = False\<rparr> s) (\<lambda>s'.
     and_then (u64_add (cb_id batch) 1) (\<lambda>next_id.
       Ok (s', state\<lparr>total_bond_amount := bonded, last_unbonded_time := block_seconds e\<rparr>,
           \<lparr>cb_id = next_id, requested_with_fee = 0\<rparr>, undelegated_msgs))))))"

definition execute_unbond ::
    "deps \<Rightarrow> env \<Rightarrow> uint128 \<Rightarrow> string \<Rightarrow> hub_storage \<Rightarrow> (hub_storage \<times> response) res" where
  "execute_unbond d e amt sndr s =
     and_then (load_item ''Parameters'' (PARAMETERS s)) (\<lambda>params.
     and_then (load_item ''CurrentBatch'' (CURRENT_BATCH s)) (\<lambda>batch.
     and_then (slashing d e s) (\<lambda>s1.
     and_then (load_item ''State'' (STATE s1)) (\<lambda>state.
     and_then (ok_or_default 0 (query_total_issued d s1)) (\<lambda>total_supply.
     and_then (unbond_with_fee (dlib d) params state total_supply (requested_with_fee batch) amt)
       (\<lambda>amount_with_fee.
     and_then (uint_add (dlib d) (requested_with_fee batch) amount_with_fee) (\<lambda>requested.
     and_then (store_unbond_wait_list (dlib d) (cb_id batch) sndr amount_with_fee s1) (\<lambda>s2.
     and_then (expect_ok ''the requested can not be more than the total supply''
         (uint_checked_sub (dlib d) total_supply amt)) (\<lambda>supply'.
     and_then (update_exchange_rate (dlib d) supply' requested state) (\<lambda>state1.
     and_then (u64_sub (block_seconds e) (last_unbonded_time state1)) (\<lambda>passed_time.
     and_then (if epoch_period params < passed_time
               then close_batch d e state1 (batch\<lparr>requested_with_fee := requested\<rparr>) s2
               else Ok (s2, state1, batch\<lparr>requested_with_fee := requested\<rparr>, []))
       (\<lambda>(s3, state2, batch2, undelegated_msgs).
     let s4 = s3\<lparr>CURRENT_BATCH := Some batch2, STATE := Some state2\<rparr> in
     and_then (load_item ''Config'' (CONFIG s4)) (\<lambda>config.
     and_then (expect_some ''the token contract must have been registered'' (token_contract config)) (\<lambda>token.
     and_then (addr_humanize (dapi d) token) (\<lambda>token_address.
     and_then (to_binary (dlib d) (Cw20Payload (Burn amt))) (\<lambda>burn_msg.
       Ok (s4,
           \<lparr>messages = undelegated_msgs @ [WasmExecute token_address burn_msg []],
            attributes = [(''action'', AttrStr ''burn''), (''from'', AttrStr sndr),
                          (''burnt_amount'', AttrUint amt),
                          (''unbonded_amount'', AttrUint amount_with_fee)]\<rparr>)))))))))))))))))"


section \<open>What the loop of \<open>pick_validator\<close> returns\<close>

text \<open>A message takes a positive amount off one delegation, at most all of it.\<close>

fun undelegates :: "string \<Rightarrow> delegation \<Rightarrow> cosmos_msg \<Rightarrow> bool" where
  "undelegates dn del (StakingUndelegate v c) \<longleftrightarrow>
     v = validator del \<and> denom c = dn \<and> 0 < amount c \<and> amount c \<le> amount (delegated del)"
| "undelegates dn del _ \<longleftrightarrow> False"

fun undelegated_coins :: "cosmos_msg \<Rightarrow> nat" where
  "undelegated_coins (StakingUndelegate v c) = unat (amount c)"
| "undelegated_coins _ = 0"

abbreviation undelegated_total :: "cosmos_msg list \<Rightarrow> nat" where
  "undelegated_total ms \<equiv> sum_list (map undelegated_coins ms)"

abbreviation delegated_total :: "delegation list \<Rightarrow> nat" where
  "delegated_total dels \<equiv> sum_list (map (\<lambda>del. unat (amount (delegated del))) dels)"

lemma remove_nth_split: "i < length xs \<Longrightarrow> mset xs = add_mset (xs ! i) (mset (remove_nth i xs))"
  unfolding remove_nth_def by (subst id_take_nth_drop [of i xs]) auto

lemma delegated_total_remove:
  "i < length dels \<Longrightarrow> delegated_total dels = unat (amount (delegated (dels ! i))) + delegated_total (remove_nth i dels)"
  unfolding remove_nth_def by (subst id_take_nth_drop [of i dels]) auto

context cosmwasm_numbers
begin

text \<open>One round: how much is taken from the delegation picked, and what is left to claim.\<close>

lemma pick_step_ok:
  "(if claimed < val then Ok (claimed, 0) else and_then (uint_checked_sub l claimed val) (\<lambda>rest. Ok (val, rest)))
     = Ok (und, rest) \<longleftrightarrow> und = min claimed val \<and> unat claimed = unat und + unat rest"
  by (auto simp: uint_checked_sub_ok min_def not_less intro: word_eq_if_unat_eq)

lemma pick_loop_ok:
  assumes "pick_loop l dn height dels claimed idx msgs = Ok res"
  shows "\<exists>new ds. res = msgs @ new \<and> mset ds \<subseteq># mset dels \<and> list_all2 (undelegates dn) ds new \<and>
     undelegated_total new = unat claimed"
  using assms
proof (induction "length dels" arbitrary: dels claimed idx msgs rule: less_induct)
  case less
  show ?case
  proof (cases "claimed = 0")
    case True
    then have "res = msgs" using less.prems by (simp add: pick_loop.simps [of l])
    with True show ?thesis by (intro exI [of _ "[]"]) simp
  next
    case False
    with less.prems obtain i und rest idx' where i: "i < length dels"
      and step: "und = min claimed (amount (delegated (dels ! i)))" "unat claimed = unat und + unat rest"
      and rec: "pick_loop l dn height (remove_nth i dels) rest idx'
          (if 0 < und then msgs @ [StakingUndelegate (validator (dels ! i)) (Coin dn und)] else msgs) = Ok res"
      by (auto simp: pick_loop.simps [of l dn height dels] Let_def pick_step_ok not_le)
    have "length (remove_nth i dels) < length dels" using i by simp
    from less.hyps [OF this rec] obtain new ds where n:
      "res = (if 0 < und then msgs @ [StakingUndelegate (validator (dels ! i)) (Coin dn und)] else msgs) @ new"
      "mset ds \<subseteq># mset (remove_nth i dels)" "list_all2 (undelegates dn) ds new" "undelegated_total new = unat rest"
      by blast
    show ?thesis
    proof (cases "0 < und")
      case True
      have "mset (dels ! i # ds) \<subseteq># mset dels" using n(2) by (simp add: remove_nth_split [OF i])
      moreover have "undelegates dn (dels ! i) (StakingUndelegate (validator (dels ! i)) (Coin dn und))"
        using True step(1) by simp
      ultimately show ?thesis using n True step(2)
        by (intro exI [of _ "StakingUndelegate (validator (dels ! i)) (Coin dn und) # new"] exI [of _ "dels ! i # ds"])
          simp
    next
      case False
      then have "und = 0" by (simp add: word_gt_0)
      moreover have "mset ds \<subseteq># mset dels" using n(2) by (simp add: remove_nth_split [OF i] subset_mset.add_increasing
            subset_mset.order_trans)
      ultimately show ?thesis using n False step(2) by (intro exI [of _ new] exI [of _ ds]) simp
    qed
  qed
qed

end

text \<open>The loop returns whenever the delegations suffice.\<close>

lemma pick_loop_returns:
  assumes num: "cosmwasm_numbers l" and rng: "random_range l"
    and enough: "unat claimed \<le> delegated_total dels"
    and height: "unat height + unat idx + length dels < 2 ^ 64"
  shows "\<exists>res. pick_loop l dn height dels claimed idx msgs = Ok res"
  using enough height
proof (induction "length dels" arbitrary: dels claimed idx msgs rule: less_induct)
  case less
  show ?case
  proof (cases "claimed = 0")
    case True
    then show ?thesis by (simp add: pick_loop.simps [of l])
  next
    case False
    then have "unat claimed \<noteq> 0" by (simp add: unat_eq_zero)
    then have ne: "0 < length dels" using less.prems(1) by (cases dels) auto
    obtain seed where seed: "u64_add height idx = Ok seed"
      using less.prems(2) by (auto simp: u64_add_def)
    obtain i where i: "gen_range l seed 0 (length dels) = Ok i"
      using random_range.gen_range_returns [OF rng ne] by blast
    have lt: "i < length dels" using random_range.gen_range_bounds [OF rng i] by simp
    let ?val = "amount (delegated (dels ! i))"
    define und rest where "und = min claimed ?val" and "rest = claimed - und"
    have r: "unat rest = unat claimed - unat und"
      by (simp add: rest_def und_def unat_sub word_le_nat_alt min_def)
    have un: "unat und = min (unat claimed) (unat ?val)"
      by (simp add: und_def min_def word_le_nat_alt)
    have step: "(if claimed < ?val then Ok (claimed, 0) else and_then (uint_checked_sub l claimed ?val) (\<lambda>rest. Ok (?val, rest)))
        = Ok (und, rest)"
      using r un by (subst cosmwasm_numbers.pick_step_ok [OF num]) (simp add: und_def min_def)
    obtain idx' where idx': "u64_add idx 1 = Ok idx'" "unat idx' = unat idx + 1"
    proof -
      have "length dels \<noteq> 0" using ne by simp
      then have "unat idx + unat (1 :: u64) < 2 ^ 64" using less.prems(2) unfolding unat_1 by linarith
      then show ?thesis using that u64_add_exists [of idx 1] by auto
    qed
    have shorter: "length (remove_nth i dels) < length dels" using lt by simp
    have "unat rest \<le> delegated_total (remove_nth i dels)"
      using less.prems(1) delegated_total_remove [OF lt] r un by auto
    moreover have "unat height + unat idx' + length (remove_nth i dels) < 2 ^ 64"
      using less.prems(2) idx'(2) lt by simp
    ultimately have "\<exists>res. pick_loop l dn height (remove_nth i dels) rest idx' ms = Ok res" for ms
      by (rule less.hyps [OF shorter])
    then show ?thesis
      using False seed i lt step idx'(1)
      by (simp add: pick_loop.simps [of l dn height dels] Let_def)
  qed
qed


section \<open>The steps of a successful unbond\<close>

context cosmwasm_numbers
begin

text \<open>The fee is at most the configured share, and at most what is missing to par.\<close>

lemma unbond_with_fee_ok:
  assumes "unbond_with_fee l params state supply requested amt = Ok a"
  shows "unat a \<le> unat amt"
    and "er_threshold params \<le> exchange_rate state \<Longrightarrow> a = amt"
    and "exchange_rate state < er_threshold params \<Longrightarrow>
       unat (total_bond_amount state) \<le> unat supply + unat requested \<and>
       unat amt - unat a = min (unat amt * datoms (peg_recovery_fee params) div dec_unit)
         (unat supply + unat requested - unat (total_bond_amount state))"
proof -
  have le: "unat a \<le> unat amt \<and> unat (total_bond_amount state) \<le> unat supply + unat requested \<and>
       unat amt - unat a = min (unat amt * datoms (peg_recovery_fee params) div dec_unit)
         (unat supply + unat requested - unat (total_bond_amount state))"
    if lt: "exchange_rate state < er_threshold params"
  proof -
    from assms obtain mx sp rq :: uint128 where
        "unat mx = unat amt * datoms (peg_recovery_fee params) div dec_unit"
      and "unat sp = unat supply + unat requested"
      and "unat sp = unat (total_bond_amount state) + unat rq"
      and "unat amt = unat (min mx rq) + unat a"
      unfolding unbond_with_fee_def if_P [OF lt] and_then_eq_Ok number_oks by blast
    moreover have "unat (min mx rq) = min (unat mx) (unat rq)"
      by (simp add: min_def word_le_nat_alt)
    ultimately show ?thesis by auto
  qed
  show "er_threshold params \<le> exchange_rate state \<Longrightarrow> a = amt"
    using assms by (simp add: unbond_with_fee_def not_less [symmetric])
  then show "unat a \<le> unat amt" using le by (cases "exchange_rate state < er_threshold params") auto
  show "exchange_rate state < er_threshold params \<Longrightarrow>
       unat (total_bond_amount state) \<le> unat supply + unat requested \<and>
       unat amt - unat a = min (unat amt * datoms (peg_recovery_fee params) div dec_unit)
         (unat supply + unat requested - unat (total_bond_amount state))"
    using le by blast
qed

lemma store_unbond_wait_list_ok:
  "store_unbond_wait_list l i u amt s = Ok s' \<longleftrightarrow>
     (\<exists>v. unat v = (case store_get (u, i) (wait_map s) of None \<Rightarrow> 0 | Some x \<Rightarrow> unat x) + unat amt \<and>
        s' = s\<lparr>wait_map := store_set (wait_enc l) (u, i) v (wait_map s)\<rparr>)"
  by (auto simp: store_unbond_wait_list_def uint_add_ok split: option.splits)

end

text \<open>The record a closed batch leaves in the history.\<close>

definition closed_history :: "env \<Rightarrow> hub_state \<Rightarrow> current_batch \<Rightarrow> unbond_history" where
  "closed_history e state batch =
     \<lparr>batch_id = cb_id batch, batch_time = block_seconds e, batch_amount = requested_with_fee batch,
      applied_exchange_rate = exchange_rate state, withdraw_rate = exchange_rate state, released = False\<rparr>"

lemma close_batch_ok:
  assumes num: "cosmwasm_numbers (dlib d)"
    and run: "close_batch d e state batch s = Ok (s', state', batch', msgs)"
  obtains u bonded next_id where
    "unat u = unat (requested_with_fee batch) * datoms (exchange_rate state) div dec_unit" "u \<noteq> 1"
    "pick_validator d s u (contract_address e) (block_height e) = Ok msgs"
    "unat (total_bond_amount state) = unat u + unat bonded"
    "unat next_id = unat (cb_id batch) + 1"
    "s' = s\<lparr>history_map := store_set to_be_bytes (cb_id batch) (closed_history e state batch) (history_map s)\<rparr>"
    "state' = state\<lparr>total_bond_amount := bonded, last_unbonded_time := block_seconds e\<rparr>"
    "batch' = \<lparr>cb_id = next_id, requested_with_fee = 0\<rparr>"
proof -
  obtain u bonded next_id where "uint_mul_decimal (dlib d) (requested_with_fee batch) (exchange_rate state) = Ok u"
    and r: "u \<noteq> 1" "pick_validator d s u (contract_address e) (block_height e) = Ok msgs"
    and "uint_checked_sub (dlib d) (total_bond_amount state) u = Ok bonded"
    and "u64_add (cb_id batch) 1 = Ok next_id"
    and "s' = s\<lparr>history_map := store_set to_be_bytes (cb_id batch) (closed_history e state batch) (history_map s)\<rparr>"
    and "state' = state\<lparr>total_bond_amount := bonded, last_unbonded_time := block_seconds e\<rparr>"
    and "batch' = \<lparr>cb_id = next_id, requested_with_fee = 0\<rparr>"
    using run by (auto simp: close_batch_def closed_history_def)
  then show ?thesis
    by (intro that [OF _ r]) (simp_all add: cosmwasm_numbers.number_oks [OF num] u64_add_eq_Ok)
qed

lemma execute_unbond_ok:
  assumes num: "cosmwasm_numbers (dlib d)"
    and run: "execute_unbond d e amt u s = Ok (s', resp)"
  obtains params batch s1 state issued a requested s2 issued' state1 s3 state2 batch2 msgs burn_to burn_msg config token where
    "PARAMETERS s = Some params" "CURRENT_BATCH s = Some batch" "slashing d e s = Ok s1" "STATE s1 = Some state"
    "ok_or_default 0 (query_total_issued d s1) = Ok issued"
    "unbond_with_fee (dlib d) params state issued (requested_with_fee batch) amt = Ok a"
    "unat requested = unat (requested_with_fee batch) + unat a"
    "store_unbond_wait_list (dlib d) (cb_id batch) u a s1 = Ok s2"
    "unat issued = unat amt + unat issued'"
    "update_exchange_rate (dlib d) issued' requested state = Ok state1"
    "last_unbonded_time state1 \<le> block_seconds e"
    "if unat (epoch_period params) + unat (last_unbonded_time state1) < unat (block_seconds e)
     then close_batch d e state1 (batch\<lparr>requested_with_fee := requested\<rparr>) s2 = Ok (s3, state2, batch2, msgs)
     else s3 = s2 \<and> state2 = state1 \<and> batch2 = batch\<lparr>requested_with_fee := requested\<rparr> \<and> msgs = []"
    "s' = s3\<lparr>CURRENT_BATCH := Some batch2, STATE := Some state2\<rparr>"
    "to_binary (dlib d) (Cw20Payload (Burn amt)) = Ok burn_msg"
    "messages resp = msgs @ [WasmExecute burn_to burn_msg []]"
    "CONFIG s3 = Some config" "token_contract config = Some token" "addr_humanize (dapi d) token = Ok burn_to"
proof -
  obtain params batch s1 state issued a requested s2 issued' state1 passed s3 state2 batch2 msgs burn_to burn_msg config token where
    r: "PARAMETERS s = Some params" "CURRENT_BATCH s = Some batch" "slashing d e s = Ok s1" "STATE s1 = Some state"
    "ok_or_default 0 (query_total_issued d s1) = Ok issued"
    "unbond_with_fee (dlib d) params state issued (requested_with_fee batch) amt = Ok a"
    and req: "uint_add (dlib d) (requested_with_fee batch) a = Ok requested"
    and w: "store_unbond_wait_list (dlib d) (cb_id batch) u a s1 = Ok s2"
    and sup: "uint_checked_sub (dlib d) issued amt = Ok issued'"
    and upd: "update_exchange_rate (dlib d) issued' requested state = Ok state1"
    and passed: "u64_sub (block_seconds e) (last_unbonded_time state1) = Ok passed"
    and close: "(if epoch_period params < passed
               then close_batch d e state1 (batch\<lparr>requested_with_fee := requested\<rparr>) s2
               else Ok (s2, state1, batch\<lparr>requested_with_fee := requested\<rparr>, [])) = Ok (s3, state2, batch2, msgs)"
    and s': "s' = s3\<lparr>CURRENT_BATCH := Some batch2, STATE := Some state2\<rparr>"
    and burn: "to_binary (dlib d) (Cw20Payload (Burn amt)) = Ok burn_msg"
    and m: "messages resp = msgs @ [WasmExecute burn_to burn_msg []]"
      "CONFIG s3 = Some config" "token_contract config = Some token" "addr_humanize (dapi d) token = Ok burn_to"
    using run unfolding execute_unbond_def by (auto simp: Let_def)
  have p: "unat (block_seconds e) = unat (last_unbonded_time state1) + unat passed"
    using passed by (simp add: u64_sub_eq_Ok)
  have lt: "epoch_period params < passed \<longleftrightarrow>
      unat (epoch_period params) + unat (last_unbonded_time state1) < unat (block_seconds e)"
    using p by (simp add: word_less_nat_alt)
  show ?thesis
    by (rule that [OF r _ w _ upd _ _ s' burn m])
      (use req sup p close lt in \<open>auto simp: cosmwasm_numbers.number_oks [OF num] word_le_nat_alt split: if_splits\<close>)
qed

end
