(* ===== verification/Hub_Withdraw.thy ===== *)
theory Hub_Withdraw
  imports Hub_State Signed_Int
begin

text \<open>
  The withdrawal half of \<open>contracts/anchor_basset_hub/src/unbond.rs\<close>:
  \<open>process_withdraw_rate\<close> releases the batches whose unbonding period is over, spreading the
  coins that actually arrived over them, and \<open>execute_withdraw_unbonded\<close> pays a user out of the
  released batches.
\<close>

section \<open>Releasing batches\<close>

text \<open>
  The test both loops of the source make before they go on with a batch: it exists, its time is not
  after \<open>historical_time\<close>, and it is not released yet.
\<close>

definition ready_batch :: "hub_storage \<Rightarrow> u64 \<Rightarrow> u64 \<Rightarrow> unbond_history option" where
  "ready_batch s historical_time i =
     (case read_unbond_history s i of
        Ok h \<Rightarrow> (if historical_time < batch_time h then None
                else if \<not> released h then Some h else None)
      | _ \<Rightarrow> None)"

text \<open>The first loop: the amount expected from all ready batches, and their number.\<close>

function sum_unbonded ::
    "lib \<Rightarrow> hub_storage \<Rightarrow> u64 \<Rightarrow> u64 \<Rightarrow> uint128 \<Rightarrow> u64 \<Rightarrow> (uint128 \<times> u64) res" where
  "sum_unbonded l s historical_time i total_unbonded_amount batch_count =
     (case ready_batch s historical_time i of
        None \<Rightarrow> Ok (total_unbonded_amount, batch_count)
      | Some history \<Rightarrow>
          and_then (uint_mul_decimal l (batch_amount history) (withdraw_rate history)) (\<lambda>unbonded_amount.
          and_then (uint_add l total_unbonded_amount unbonded_amount) (\<lambda>total'.
          and_then (u64_add batch_count 1) (\<lambda>count'.
          and_then (u64_add i 1) (\<lambda>i'.
            sum_unbonded l s historical_time i' total' count')))))"
  by pat_completeness auto
termination
  by (relation "measure (\<lambda>(l, s, t, i, a, c). u64_left i)")
    (auto dest: u64_left_succ)

text \<open>The new record of one batch: lines 275 to 306 of the source.\<close>

definition release_batch :: "lib \<Rightarrow> uint128 \<Rightarrow> signed_int \<Rightarrow> unbond_history \<Rightarrow> unbond_history res" where
  "release_batch l total_unbonded_amount slashed_amount history =
     and_then (uint_mul_decimal l (batch_amount history) (withdraw_rate history)) (\<lambda>unbonded_amount_of_batch.
     and_then (decimal_from_ratio l unbonded_amount_of_batch total_unbonded_amount) (\<lambda>batch_slashing_weight.
     case slashed_amount of SignedInt magnitude negative \<Rightarrow>
     and_then (uint_mul_decimal l magnitude batch_slashing_weight) (\<lambda>slashed_amount_of_batch.
     and_then
       (if negative
        then and_then (uint_checked_sub l slashed_amount_of_batch 1) (uint_add l unbonded_amount_of_batch)
        else and_then (if magnitude \<noteq> 0 then uint_add l slashed_amount_of_batch 1
                       else Ok slashed_amount_of_batch) (\<lambda>slashed'.
             and_then (from_subtraction l unbonded_amount_of_batch slashed')
               (\<lambda>difference. case difference of SignedInt m _ \<Rightarrow> Ok m)))
       (\<lambda>actual_unbonded_amount_of_batch.
     and_then (decimal_from_ratio l actual_unbonded_amount_of_batch (batch_amount history)) (\<lambda>new_withdraw_rate.
       Ok (history\<lparr>withdraw_rate := new_withdraw_rate, released := True\<rparr>))))))"

text \<open>The second loop: every ready batch is rewritten, and \<open>last_processed_batch\<close> follows.\<close>

function release_batches ::
    "lib \<Rightarrow> u64 \<Rightarrow> uint128 \<Rightarrow> signed_int \<Rightarrow> hub_storage \<Rightarrow> hub_state \<Rightarrow> u64 \<Rightarrow> (hub_storage \<times> hub_state) res" where
  "release_batches l historical_time total_unbonded_amount slashed_amount s state iter =
     (case ready_batch s historical_time iter of
        None \<Rightarrow> Ok (s, state)
      | Some history \<Rightarrow>
          and_then (release_batch l total_unbonded_amount slashed_amount history) (\<lambda>history_for_i.
          and_then (store_unbond_history iter history_for_i s) (\<lambda>s'.
          and_then (u64_add iter 1) (\<lambda>iter'.
            release_batches l historical_time total_unbonded_amount slashed_amount s'
              (state\<lparr>last_processed_batch := iter\<rparr>) iter'))))"
  by pat_completeness auto
termination
  by (relation "measure (\<lambda>(l, t, a, sl, s, st, i). u64_left i)")
    (auto dest: u64_left_succ)

declare sum_unbonded.simps [simp del] release_batches.simps [simp del]

definition process_withdraw_rate :: "lib \<Rightarrow> u64 \<Rightarrow> uint128 \<Rightarrow> hub_storage \<Rightarrow> hub_storage res" where
  "process_withdraw_rate l historical_time hub_balance s =
     and_then (load_item ''State'' (STATE s)) (\<lambda>state.
     and_then (from_subtraction l hub_balance (prev_hub_balance state)) (\<lambda>balance_change.
     case balance_change of SignedInt change _ \<Rightarrow>
     and_then (uint_add l (actual_unbonded_amount state) change) (\<lambda>actual.
     and_then (u64_add (last_processed_batch state) 1) (\<lambda>first.
     and_then (sum_unbonded l s historical_time first 0 0) (\<lambda>(total_unbonded_amount, batch_count).
     and_then
       (if 1 \<le> batch_count
        then and_then (from_subtraction l total_unbonded_amount actual) (\<lambda>slashed_amount.
               release_batches l historical_time total_unbonded_amount slashed_amount s
                 (state\<lparr>actual_unbonded_amount := actual\<rparr>) first)
        else Ok (s, state\<lparr>actual_unbonded_amount := actual\<rparr>))
       (\<lambda>(s', state'). Ok (s'\<lparr>STATE := Some (state'\<lparr>actual_unbonded_amount := 0\<rparr>)\<rparr>)))))))"


section \<open>Withdrawing\<close>

definition execute_withdraw_unbonded ::
    "deps \<Rightarrow> env \<Rightarrow> message_info \<Rightarrow> hub_storage \<Rightarrow> (hub_storage \<times> response) res" where
  "execute_withdraw_unbonded d e info s =
     and_then (load_item ''Parameters'' (PARAMETERS s)) (\<lambda>params.
     and_then (u64_sub (block_seconds e) (unbonding_period params)) (\<lambda>historical_time.
     and_then (query_balance (dquerier d) (contract_address e) (underlying_coin_denom params)) (\<lambda>balance.
     and_then (process_withdraw_rate (dlib d) historical_time (amount balance) s) (\<lambda>s1.
     and_then (expect_ok ''called `Result::unwrap()` on an `Err` value''
         (get_finished_amount (dlib d) s1 (sender info))) (\<lambda>withdraw_amount.
     if withdraw_amount = 0
     then Err (GenericErr (''No withdrawable '' @ underlying_coin_denom params @ '' assets are available yet''))
     else
     and_then (get_unbond_batches s1 (sender info)) (\<lambda>deprecated_batches.
     and_then (remove_unbond_wait_list deprecated_batches (sender info) s1) (\<lambda>s2.
     and_then (uint_checked_sub (dlib d) (amount balance) withdraw_amount) (\<lambda>prev_balance.
     and_then (load_item ''State'' (STATE s2)) (\<lambda>last_state.
       Ok (s2\<lparr>STATE := Some (last_state\<lparr>prev_hub_balance := prev_balance\<rparr>)\<rparr>,
           \<lparr>messages = [BankSend (sender info) [Coin (underlying_coin_denom params) withdraw_amount]],
            attributes = [(''action'', AttrStr ''finish_burn''),
                          (''from'', AttrStr (contract_address e)),
                          (''amount'', AttrUint withdraw_amount)]\<rparr>))))))))))"


section \<open>What the two loops do\<close>

text \<open>The batches both loops visit: from \<open>i\<close> up to the first one that is not ready.\<close>

definition ready_run :: "hub_storage \<Rightarrow> u64 \<Rightarrow> u64 \<Rightarrow> u64 \<Rightarrow> bool" where
  "ready_run s t i j \<longleftrightarrow> i \<le> j \<and> (\<forall>m. i \<le> m \<and> m < j \<longrightarrow> ready_batch s t m \<noteq> None) \<and> ready_batch s t j = None"

lemma ready_run_unique: "ready_run s t i j \<Longrightarrow> ready_run s t i k \<Longrightarrow> j = k"
  unfolding ready_run_def by (metis linorder_less_linear)

text \<open>The coins a batch was undelegated for: its tokens at its rate.\<close>

definition batch_coins :: "unbond_history \<Rightarrow> nat" where
  "batch_coins h = unat (batch_amount h) * datoms (withdraw_rate h) div dec_unit"

definition run_coins :: "hub_storage \<Rightarrow> u64 \<Rightarrow> u64 \<Rightarrow> nat" where
  "run_coins s i j = (\<Sum>m \<in> {i..<j}. case store_get m (history_map s) of None \<Rightarrow> 0 | Some h \<Rightarrow> batch_coins h)"

lemma ready_batch_Some:
  "ready_batch s t m = Some h \<longleftrightarrow> store_get m (history_map s) = Some h \<and> batch_time h \<le> t \<and> \<not> released h"
  by (auto simp: ready_batch_def read_unbond_history_def not_less split: option.splits)

lemma u64_succ_interval:
  assumes "u64_add i 1 = Ok i'" and "i' \<le> j"
  shows "i < i'" and "{i..<j} = insert i {i'..<j}" and "i \<notin> {i'..<j}"
    and "i \<le> m \<and> m < j \<longleftrightarrow> m = i \<or> i' \<le> m \<and> m < j"
proof -
  have i': "unat i' = unat i + 1" using assms(1) by (simp add: u64_add_eq_Ok)
  show "i < i'" "i \<notin> {i'..<j}" using i' by (simp_all add: word_less_nat_alt word_le_nat_alt)
  have iff: "i \<le> m \<and> m < j \<longleftrightarrow> m = i \<or> i' \<le> m \<and> m < j" for m
  proof -
    have "unat i \<le> unat m \<and> unat m < unat j \<longleftrightarrow> unat m = unat i \<or> unat i' \<le> unat m \<and> unat m < unat j"
      using i' assms(2) unfolding word_le_nat_alt by linarith
    then show ?thesis by (simp only: word_less_nat_alt word_le_nat_alt word_unat_eq_iff)
  qed
  then show "i \<le> m \<and> m < j \<longleftrightarrow> m = i \<or> i' \<le> m \<and> m < j" .
  show "{i..<j} = insert i {i'..<j}"
    by (rule set_eqI) (simp only: atLeastLessThan_iff insert_iff iff)
qed

lemma ready_run_step:
  assumes "ready_batch s t i = Some h" and "u64_add i 1 = Ok i'" and "ready_run s t i' j"
  shows "ready_run s t i j"
proof -
  have le: "i' \<le> j" and rest: "\<forall>m. i' \<le> m \<and> m < j \<longrightarrow> ready_batch s t m \<noteq> None" "ready_batch s t j = None"
    using assms(3) by (simp_all add: ready_run_def)
  note iv = u64_succ_interval [OF assms(2) le]
  have "i \<le> j" using iv(1) le by simp
  moreover have "ready_batch s t m \<noteq> None" if "i \<le> m \<and> m < j" for m
    using that rest(1) assms(1) unfolding iv(4) by auto
  ultimately show ?thesis using rest(2) by (simp add: ready_run_def)
qed

context cosmwasm_numbers
begin

lemma sum_unbonded_ok:
  assumes "sum_unbonded l s t i a c = Ok (tot, count)"
  shows "\<exists>j. ready_run s t i j \<and> unat tot = unat a + run_coins s i j \<and>
     unat count = unat c + (unat j - unat i)"
  using assms
proof (induction "u64_left i" arbitrary: i a c rule: less_induct)
  case (less i a c)
  show ?case
  proof (cases "ready_batch s t i")
    case None
    then have "tot = a" "count = c" using less.prems by (simp_all add: sum_unbonded.simps [of l s t i])
    with None show ?thesis
      by (intro exI [of _ i]) (auto simp: ready_run_def run_coins_def)
  next
    case (Some h)
    from less.prems obtain u a' :: uint128 and c' i' where u: "unat u = batch_coins h"
      and a': "unat a' = unat a + unat u" and c': "unat c' = unat c + 1" and i': "u64_add i 1 = Ok i'"
      and rest: "sum_unbonded l s t i' a' c' = Ok (tot, count)"
      unfolding sum_unbonded.simps [of l s t i] Some option.case and_then_eq_Ok number_oks batch_coins_def
        u64_add_eq_Ok [of c] unat_1 by blast
    from less.hyps [OF u64_left_succ [OF i'] rest] obtain j where j: "ready_run s t i' j"
      "unat tot = unat a' + run_coins s i' j" "unat count = unat c' + (unat j - unat i')" by blast
    then have le: "i' \<le> j" by (simp add: ready_run_def)
    note iv = u64_succ_interval [OF i' le]
    have "run_coins s i j = batch_coins h + run_coins s i' j"
      using Some iv(3) by (simp add: run_coins_def iv(2) ready_batch_Some)
    then have "unat tot = unat a + run_coins s i j" using j(2) a' u by linarith
    moreover have "unat count = unat c + (unat j - unat i)"
      using j(3) c' le i' by (simp add: u64_add_eq_Ok word_le_nat_alt)
    ultimately show ?thesis using ready_run_step [OF Some i' j(1)] by blast
  qed
qed

end

lemma ready_batch_cong: "store_get m (history_map s) = store_get m (history_map s') \<Longrightarrow> ready_batch s t m = ready_batch s' t m"
  by (simp add: ready_batch_def read_unbond_history_def)

lemma release_batches_ok:
  assumes "release_batches l t tot sl s st i = Ok (s', st')" and "store_ok (history_map s)"
  shows "\<exists>j m. ready_run s t i j \<and> s' = s\<lparr>history_map := m\<rparr> \<and> store_ok m \<and>
     st' = st\<lparr>last_processed_batch := if i = j then last_processed_batch st else j - 1\<rparr> \<and>
     (\<forall>k. store_get k m = store_get k (history_map s) \<and> \<not> (i \<le> k \<and> k < j) \<or>
       i \<le> k \<and> k < j \<and> (\<exists>h h'. store_get k (history_map s) = Some h \<and> release_batch l tot sl h = Ok h' \<and>
          store_get k m = Some h'))"
  using assms
proof (induction "u64_left i" arbitrary: i s st rule: less_induct)
  case (less i s st)
  show ?case
  proof (cases "ready_batch s t i")
    case None
    then have "s' = s" "st' = st" using less.prems by (simp_all add: release_batches.simps [of l t tot sl s])
    with None less.prems(2) show ?thesis
      by (intro exI [of _ i] exI [of _ "history_map s"]) (auto simp: ready_run_def)
  next
    case (Some h)
    with less.prems(1) obtain h1 i' where h1: "release_batch l tot sl h = Ok h1" and i': "u64_add i 1 = Ok i'"
      and rest: "release_batches l t tot sl (s\<lparr>history_map := store_set to_be_bytes i h1 (history_map s)\<rparr>)
           (st\<lparr>last_processed_batch := i\<rparr>) i' = Ok (s', st')"
      by (auto simp: release_batches.simps [of l t tot sl s])
    let ?s1 = "s\<lparr>history_map := store_set to_be_bytes i h1 (history_map s)\<rparr>"
    have "store_ok (history_map ?s1)" using less.prems(2) by (simp add: store_ok_set)
    from less.hyps [OF u64_left_succ [OF i'] rest this] obtain j m where run: "ready_run ?s1 t i' j"
      and s': "s' = ?s1\<lparr>history_map := m\<rparr>" and m: "store_ok m"
      and st': "st' = (st\<lparr>last_processed_batch := i\<rparr>)\<lparr>last_processed_batch := if i' = j then i else j - 1\<rparr>"
      and get: "\<forall>k. store_get k m = store_get k (history_map ?s1) \<and> \<not> (i' \<le> k \<and> k < j) \<or>
         i' \<le> k \<and> k < j \<and> (\<exists>h h'. store_get k (history_map ?s1) = Some h \<and> release_batch l tot sl h = Ok h' \<and>
          store_get k m = Some h')"
      by auto
    have le: "i' \<le> j" using run by (simp add: ready_run_def)
    note iv = u64_succ_interval [OF i' le]
    have g1: "store_get k (history_map ?s1) = (if k = i then Some h1 else store_get k (history_map s))" for k
      by (simp add: store_get_set)
    have "ready_batch s t k = ready_batch ?s1 t k" if "i' \<le> k" for k
      using that iv(1) by (intro ready_batch_cong) (auto simp: store_get_set)
    then have "ready_run s t i' j" using run le by (auto simp: ready_run_def)
    then have 1: "ready_run s t i j" by (rule ready_run_step [OF Some i'])
    have "j - 1 = i" if "i' = j"
      using i' that by (auto simp: u64_add_eq_Ok intro!: word_eq_if_unat_eq)
        (metis add_diff_cancel_right' unat_1 unat_minus_one unat_0 Suc_eq_plus1 nat.distinct(1) plus_1_eq_Suc)
    moreover have "i \<noteq> j" using iv(1) le by auto
    ultimately have 2: "st' = st\<lparr>last_processed_batch := if i = j then last_processed_batch st else j - 1\<rparr>"
      using st' by auto
    have 3: "store_get k m = store_get k (history_map s) \<and> \<not> (i \<le> k \<and> k < j) \<or>
       i \<le> k \<and> k < j \<and> (\<exists>h h'. store_get k (history_map s) = Some h \<and> release_batch l tot sl h = Ok h' \<and>
          store_get k m = Some h')" for k
      using get [rule_format, of k] h1 Some iv(1) le unfolding g1 iv(4) ready_batch_Some
      by (cases "k = i") (auto simp: not_le)
    show ?thesis using 1 2 3 s' m by (intro exI [of _ j] exI [of _ m]) simp
  qed
qed

text \<open>The coins that arrived since the last release, as the code counts them.\<close>

definition arrived_coins :: "hub_state \<Rightarrow> uint128 \<Rightarrow> nat" where
  "arrived_coins st hub_balance = unat (actual_unbonded_amount st) +
     (if prev_hub_balance st \<le> hub_balance then unat hub_balance - unat (prev_hub_balance st)
      else unat (prev_hub_balance st) - unat hub_balance)"

lemma unat_pred: "unat b = unat a + 1 \<Longrightarrow> b - 1 = a" for a b :: "'a::len word"
  by (metis add_diff_cancel_right' unat_1 unat_minus_one unat_0 Suc_eq_plus1 nat.distinct(1) plus_1_eq_Suc
      word_eq_if_unat_eq)

text \<open>Everything \<open>process_withdraw_rate\<close> changes.\<close>

lemma process_withdraw_rate_ok:
  assumes num: "cosmwasm_numbers l" and hist: "store_ok (history_map s)"
    and run: "process_withdraw_rate l t hub_balance s = Ok s'"
  obtains st first j m tot sl where "STATE s = Some st" "unat first = unat (last_processed_batch st) + 1"
    "ready_run s t first j" "store_ok m"
    "s' = s\<lparr>history_map := m, STATE := Some (st\<lparr>actual_unbonded_amount := 0, last_processed_batch := j - 1\<rparr>)\<rparr>"
    "unat tot = run_coins s first j"
    "signed_value sl = int (run_coins s first j) - int (arrived_coins st hub_balance)"
    "\<forall>k. store_get k m = store_get k (history_map s) \<and> \<not> (first \<le> k \<and> k < j) \<or>
       first \<le> k \<and> k < j \<and> (\<exists>h h'. store_get k (history_map s) = Some h \<and> release_batch l tot sl h = Ok h' \<and>
          store_get k m = Some h')"
proof -
  obtain st where st: "STATE s = Some st" using run by (auto simp: process_withdraw_rate_def)
  obtain chg neg where chg: "from_subtraction l hub_balance (prev_hub_balance st) = Ok (SignedInt chg neg)"
    using from_subtraction_value [OF num] by blast
  obtain actual first tot count st2 s2 where
    act: "uint_add l (actual_unbonded_amount st) chg = Ok actual"
    and first: "u64_add (last_processed_batch st) 1 = Ok first"
    and sum: "sum_unbonded l s t first 0 0 = Ok (tot, count)"
    and rel: "(if 1 \<le> count
        then and_then (from_subtraction l tot actual) (\<lambda>slashed_amount.
               release_batches l t tot slashed_amount s (st\<lparr>actual_unbonded_amount := actual\<rparr>) first)
        else Ok (s, st\<lparr>actual_unbonded_amount := actual\<rparr>)) = Ok (s2, st2)"
    and s': "s' = s2\<lparr>STATE := Some (st2\<lparr>actual_unbonded_amount := 0\<rparr>)\<rparr>"
    using run by (auto simp: process_withdraw_rate_def st chg)
  have act': "unat actual = arrived_coins st hub_balance"
    using act chg unfolding cosmwasm_numbers.uint_add_ok [OF num] arrived_coins_def
      cosmwasm_numbers.from_subtraction_cases [OF num]
    by (auto simp: not_less unat_sub word_less_nat_alt word_le_nat_alt split: if_splits)
  have f: "unat first = unat (last_processed_batch st) + 1" using first by (simp add: u64_add_eq_Ok)
  from cosmwasm_numbers.sum_unbonded_ok [OF num sum] obtain j where j: "ready_run s t first j"
    "unat tot = run_coins s first j" "unat count = unat j - unat first" by auto
  obtain sl where sl: "from_subtraction l tot actual = Ok sl"
    "signed_value sl = int (run_coins s first j) - int (arrived_coins st hub_balance)"
    using from_subtraction_value [OF num, of tot actual] j(2) act' by auto
  show ?thesis
  proof (cases "first = j")
    case True
    then have "count = 0" using j(3) by (simp add: unat_eq_zero)
    then have "s2 = s" "st2 = st\<lparr>actual_unbonded_amount := actual\<rparr>" using rel by simp_all
    moreover have "j - 1 = last_processed_batch st" using f True by (simp add: unat_pred)
    ultimately have "s' = s\<lparr>history_map := history_map s,
        STATE := Some (st\<lparr>actual_unbonded_amount := 0, last_processed_batch := j - 1\<rparr>)\<rparr>"
      using s' by simp
    then show ?thesis by (rule that [OF st f j(1) hist _ j(2) sl(2)]) (use True in auto)
  next
    case False
    then have lt: "unat first < unat j" using j(1) by (auto simp: ready_run_def word_le_nat_alt word_unat_eq_iff)
    then have "1 \<le> count" using j(3) by (simp add: word_le_nat_alt)
    then have "release_batches l t tot sl s (st\<lparr>actual_unbonded_amount := actual\<rparr>) first = Ok (s2, st2)"
      using rel sl(1) by simp
    from release_batches_ok [OF this hist] obtain j2 m where r: "ready_run s t first j2" "s2 = s\<lparr>history_map := m\<rparr>" "store_ok m"
      "st2 = st\<lparr>actual_unbonded_amount := actual, last_processed_batch := if first = j2 then last_processed_batch st else j2 - 1\<rparr>"
      "\<forall>k. store_get k m = store_get k (history_map s) \<and> \<not> (first \<le> k \<and> k < j2) \<or>
       first \<le> k \<and> k < j2 \<and> (\<exists>h h'. store_get k (history_map s) = Some h \<and> release_batch l tot sl h = Ok h' \<and>
          store_get k m = Some h')" by auto
    have "j2 = j" by (rule ready_run_unique [OF r(1) j(1)])
    with r False s' show ?thesis
      by (intro that [OF st f j(1) r(3) _ j(2) sl(2)]) simp_all
  qed
qed


section \<open>What a withdrawal pays\<close>

text \<open>What one wait-list entry is worth now: nothing until its batch is released.\<close>

definition entry_due :: "hub_storage \<Rightarrow> u64 \<Rightarrow> uint128 \<Rightarrow> nat" where
  "entry_due s i v =
     (case store_get i (history_map s) of
        Some h \<Rightarrow> (if released h then unat v * datoms (withdraw_rate h) div dec_unit else 0)
      | None \<Rightarrow> 0)"

definition released_due :: "hub_storage \<Rightarrow> string \<Rightarrow> nat" where
  "released_due s u = sum_list (map (\<lambda>(i, v). entry_due s i v) (wait_bucket s u))"

definition released_batches :: "hub_storage \<Rightarrow> u64 list \<Rightarrow> u64 list" where
  "released_batches s bs = filter (\<lambda>i. case store_get i (history_map s) of Some h \<Rightarrow> released h | None \<Rightarrow> False) bs"

context cosmwasm_numbers
begin

lemma get_finished_amount_from:
  "fold_res (\<lambda>(i, v) acc.
         case read_unbond_history s i of
           Ok h \<Rightarrow> (if released h
                   then and_then (uint_mul_decimal l v (withdraw_rate h)) (uint_add l acc)
                   else Ok acc)
         | Err e \<Rightarrow> Ok acc
         | Panic p \<Rightarrow> Panic p) xs a = Ok c \<longleftrightarrow>
     unat c = unat a + sum_list (map (\<lambda>(i, v). entry_due s i v) xs)"
proof (induction xs arbitrary: a)
  case Nil
  then show ?case by (auto intro: word_eq_if_unat_eq)
next
  case (Cons x xs)
  obtain i v where x: "x = (i, v)" by (cases x)
  let ?R = "sum_list (map (\<lambda>(i, v). entry_due s i v) xs)"
  consider (live) h where "store_get i (history_map s) = Some h" "released h" | (dead) "entry_due s i v = 0"
      "\<And>acc. (case read_unbond_history s i of
           Ok h \<Rightarrow> (if released h then and_then (uint_mul_decimal l v (withdraw_rate h)) (uint_add l acc) else Ok acc)
         | Err e \<Rightarrow> Ok acc | Panic p \<Rightarrow> Panic p) = Ok acc"
    by (cases "store_get i (history_map s)"; cases "released (the (store_get i (history_map s)))")
      (auto simp: entry_due_def read_unbond_history_def)
  then show ?case
  proof cases
    case live
    then have r: "read_unbond_history s i = Ok h" by simp
    have "(\<exists>b :: uint128. unat b = unat a + entry_due s i v \<and> unat c = unat b + ?R) \<longleftrightarrow>
        unat c = unat a + entry_due s i v + ?R"
      using unat_sum_exists [of c "unat a + entry_due s i v" ?R] by fastforce
    moreover have "(\<exists>u :: uint128. unat u = unat v * datoms (withdraw_rate h) div dec_unit \<and> unat b = unat a + unat u)
        \<longleftrightarrow> unat b = unat a + entry_due s i v" for b :: uint128
      using live unat_part_exists [of b "unat a" "entry_due s i v"] by (fastforce simp: entry_due_def)
    ultimately show ?thesis
      using live by (simp add: x r Cons.IH uint_mul_decimal_ok uint_add_ok add.assoc)
  next
    case dead
    then show ?thesis by (simp add: x Cons.IH)
  qed
qed

lemma get_finished_amount_ok: "get_finished_amount l s u = Ok c \<longleftrightarrow> unat c = released_due s u"
  unfolding get_finished_amount_def released_due_def by (subst get_finished_amount_from) simp

end

lemma get_unbond_batches_ok:
  "get_unbond_batches s u = Ok bs \<longleftrightarrow> bs = released_batches s (map fst (wait_bucket s u))"
proof -
  have "map fst (filter (\<lambda>(i, _). case read_unbond_history s i of Ok h \<Rightarrow> released h | _ \<Rightarrow> False) xs) =
      filter (\<lambda>i. case store_get i (history_map s) of Some h \<Rightarrow> released h | None \<Rightarrow> False) (map fst xs)"
    for xs :: "(u64 \<times> uint128) list"
    by (induction xs) (auto simp: read_unbond_history_def split: option.splits res.splits)
  then show ?thesis by (auto simp: get_unbond_batches_def released_batches_def)
qed

lemma wait_bucket_iff: "(i, v) \<in> set (wait_bucket s u) \<longleftrightarrow> ((u, i), v) \<in> set (wait_map s)"
  by (force simp: wait_bucket_def)

lemma fold_remove_get:
  "store_get k (fold (\<lambda>b. store_remove (u, b)) bs m) = (if fst k = u \<and> snd k \<in> set bs then None else store_get k m)"
  by (induction bs arbitrary: m) (auto simp: store_get_remove)

lemma fold_remove_ok: "store_ok m \<Longrightarrow> store_ok (fold (\<lambda>b. store_remove (u, b)) bs m)"
  by (induction bs arbitrary: m) (auto simp: store_ok_remove)

text \<open>The steps of a successful withdrawal.\<close>

lemma execute_withdraw_unbonded_ok:
  assumes num: "cosmwasm_numbers (dlib d)"
    and run: "execute_withdraw_unbonded d e info s = Ok (s', resp)"
  obtains params t bal s1 w prev st where "PARAMETERS s = Some params"
    "unat (block_seconds e) = unat (unbonding_period params) + unat t"
    "query_balance (dquerier d) (contract_address e) (underlying_coin_denom params) = Ok bal"
    "process_withdraw_rate (dlib d) t (amount bal) s = Ok s1"
    "unat w = released_due s1 (sender info)" "w \<noteq> 0" "unat (amount bal) = unat w + unat prev"
    "STATE s1 = Some st"
    "s' = s1\<lparr>wait_map := fold (\<lambda>b. store_remove (sender info, b))
             (released_batches s1 (map fst (wait_bucket s1 (sender info)))) (wait_map s1),
           STATE := Some (st\<lparr>prev_hub_balance := prev\<rparr>)\<rparr>"
    "messages resp = [BankSend (sender info) [Coin (underlying_coin_denom params) w]]"
proof -
  obtain params t bal s1 w prev st where p: "PARAMETERS s = Some params"
    and t: "u64_sub (block_seconds e) (unbonding_period params) = Ok t"
    and q: "query_balance (dquerier d) (contract_address e) (underlying_coin_denom params) = Ok bal"
    and s1: "process_withdraw_rate (dlib d) t (amount bal) s = Ok s1"
    and w: "get_finished_amount (dlib d) s1 (sender info) = Ok w" "w \<noteq> 0"
    and prev: "uint_checked_sub (dlib d) (amount bal) w = Ok prev" and st: "STATE s1 = Some st"
    and s': "s' = s1\<lparr>wait_map := fold (\<lambda>b. store_remove (sender info, b))
             (released_batches s1 (map fst (wait_bucket s1 (sender info)))) (wait_map s1),
           STATE := Some (st\<lparr>prev_hub_balance := prev\<rparr>)\<rparr>"
    and m: "messages resp = [BankSend (sender info) [Coin (underlying_coin_denom params) w]]"
    using run by (auto simp: execute_withdraw_unbonded_def get_unbond_batches_ok remove_unbond_wait_list_def)
  show ?thesis
    by (rule that [OF p _ q s1 _ w(2) _ st s' m])
      (use t w prev in \<open>simp_all add: u64_sub_eq_Ok cosmwasm_numbers.get_finished_amount_ok [OF num]
         cosmwasm_numbers.uint_checked_sub_ok [OF num]\<close>)
qed

end
