(* ===== verification/Hub_Config.thy ===== *)
theory Hub_Config
  imports Hub_State
begin

text \<open>
  \<open>contracts/anchor_basset_hub/src/config.rs\<close>: the owner's operations on parameters, contract
  addresses and the validator whitelist.
\<close>

definition execute_update_params ::
    "deps \<Rightarrow> message_info \<Rightarrow> u64 option \<Rightarrow> u64 option \<Rightarrow> decimal option \<Rightarrow> decimal option \<Rightarrow>
     hub_storage \<Rightarrow> (hub_storage \<times> response) res" where
  "execute_update_params d info new_epoch_period new_unbonding_period new_peg_recovery_fee new_er_threshold s =
     and_then (load_item ''Config'' (CONFIG s)) (\<lambda>config.
     and_then (addr_canonicalize (dapi d) (sender info)) (\<lambda>sender_raw.
     if sender_raw \<noteq> creator config then Err (GenericErr ''unauthorized'')
     else
     and_then (load_item ''Parameters'' (PARAMETERS s)) (\<lambda>params.
       Ok (s\<lparr>PARAMETERS := Some
              \<lparr>epoch_period = (case new_epoch_period of None \<Rightarrow> epoch_period params | Some v \<Rightarrow> v),
               underlying_coin_denom = underlying_coin_denom params,
               unbonding_period = (case new_unbonding_period of None \<Rightarrow> unbonding_period params | Some v \<Rightarrow> v),
               peg_recovery_fee = (case new_peg_recovery_fee of None \<Rightarrow> peg_recovery_fee params | Some v \<Rightarrow> v),
               er_threshold = (case new_er_threshold of None \<Rightarrow> er_threshold params | Some v \<Rightarrow> v),
               reward_denom = reward_denom params\<rparr>\<rparr>,
           \<lparr>messages = [], attributes = [(''action'', AttrStr ''update_params'')]\<rparr>))))"

text \<open>One optional field of \<open>execute_update_config\<close>: canonicalise, load, update, save.\<close>

definition update_config_field ::
    "deps \<Rightarrow> string option \<Rightarrow> (canonical_addr \<Rightarrow> hub_config \<Rightarrow> hub_config) \<Rightarrow> hub_storage \<Rightarrow> hub_storage res" where
  "update_config_field d field upd s =
     (case field of
        None \<Rightarrow> Ok s
      | Some a \<Rightarrow>
          and_then (addr_canonicalize (dapi d) a) (\<lambda>raw.
          and_then (load_item ''Config'' (CONFIG s)) (\<lambda>last_config.
            Ok (s\<lparr>CONFIG := Some (upd raw last_config)\<rparr>))))"

definition execute_update_config ::
    "deps \<Rightarrow> message_info \<Rightarrow> string option \<Rightarrow> string option \<Rightarrow> string option \<Rightarrow> string option \<Rightarrow>
     hub_storage \<Rightarrow> (hub_storage \<times> response) res" where
  "execute_update_config d info new_owner new_reward new_token new_airdrop s =
     and_then (load_item ''Config'' (CONFIG s)) (\<lambda>conf.
     and_then (addr_canonicalize (dapi d) (sender info)) (\<lambda>sender_raw.
     if sender_raw \<noteq> creator conf then Err (GenericErr ''unauthorized'')
     else
     and_then (update_config_field d new_owner (\<lambda>raw c. c\<lparr>creator := raw\<rparr>) s) (\<lambda>s1.
     and_then (update_config_field d new_reward (\<lambda>raw c. c\<lparr>reward_contract := Some raw\<rparr>) s1) (\<lambda>s2.
     and_then (update_config_field d new_token (\<lambda>raw c. c\<lparr>token_contract := Some raw\<rparr>) s2) (\<lambda>s3.
     and_then (update_config_field d new_airdrop (\<lambda>raw c. c\<lparr>airdrop_registry_contract := Some raw\<rparr>) s3) (\<lambda>s4.
       Ok (s4,
           \<lparr>messages = (case new_reward of None \<Rightarrow> [] | Some reward \<Rightarrow> [SetWithdrawAddress reward]),
            attributes = [(''action'', AttrStr ''update_config'')]\<rparr>)))))))"

definition execute_register_validator ::
    "deps \<Rightarrow> env \<Rightarrow> message_info \<Rightarrow> string \<Rightarrow> hub_storage \<Rightarrow> (hub_storage \<times> response) res" where
  "execute_register_validator d e info val s =
     and_then (load_item ''Config'' (CONFIG s)) (\<lambda>hub_conf.
     and_then (addr_canonicalize (dapi d) (sender info)) (\<lambda>sender_raw.
     and_then (addr_canonicalize (dapi d) (contract_address e)) (\<lambda>contract_raw.
     if creator hub_conf \<noteq> sender_raw \<and> contract_raw \<noteq> sender_raw
     then Err (GenericErr ''unauthorized'')
     else
     and_then (query_all_validators (dquerier d)) (\<lambda>all_validators.
     if val \<notin> set all_validators
     then Err (GenericErr ''The specified address is not a validator'')
     else
     and_then (store_white_validators (dlib d) val s) (\<lambda>s'.
       Ok (s',
           \<lparr>messages = [],
            attributes = [(''action'', AttrStr ''register_validator''),
                          (''validator'', AttrStr val)]\<rparr>))))))"

definition execute_deregister_validator ::
    "deps \<Rightarrow> env \<Rightarrow> message_info \<Rightarrow> string \<Rightarrow> hub_storage \<Rightarrow> (hub_storage \<times> response) res" where
  "execute_deregister_validator d e info val s =
     and_then (load_item ''Config'' (CONFIG s)) (\<lambda>config.
     and_then (addr_canonicalize (dapi d) (sender info)) (\<lambda>sender_raw.
     if creator config \<noteq> sender_raw then Err (GenericErr ''unauthorized'')
     else
     and_then (read_validators s) (\<lambda>validators_before_remove.
     if length validators_before_remove = 1
     then Err (GenericErr ''Cannot remove the last whitelisted validator'')
     else
     and_then (remove_white_validators val s) (\<lambda>s'.
     and_then
       (case query_delegation (dquerier d) (contract_address e) val of
          Err err \<Rightarrow> Ok ([], [])
        | Panic p \<Rightarrow> Panic p
        | Ok delegated_amount \<Rightarrow>
            and_then (read_validators s') (\<lambda>vals.
            and_then (gen_range (dlib d) (block_height e) 0 (length vals)) (\<lambda>random_index.
            and_then (expect_some ''called `Option::unwrap()` on a `None` value''
                (if random_index < length vals then Some (vals ! random_index) else None)) (\<lambda>replaced_val.
              case delegated_amount of
                None \<Rightarrow> Ok (replaced_val, [])
              | Some del \<Rightarrow>
                  and_then (to_binary (dlib d) (HubPayload (HubUpdateGlobalIndex None))) (\<lambda>msg.
                    Ok (replaced_val,
                        [StakingRedelegate val replaced_val (delegated del),
                         WasmExecute (contract_address e) msg []]))))))
       (\<lambda>(replaced_val, msgs).
       Ok (s',
           \<lparr>messages = msgs,
            attributes = [(''action'', AttrStr ''de_register_validator''),
                          (''validator'', AttrStr val),
                          (''new-validator'', AttrStr replaced_val)]\<rparr>))))))"

lemma update_config_field_ok:
  assumes "update_config_field d f upd s = Ok s'"
  obtains "f = None" "s' = s"
  | a raw cfg where "f = Some a" "addr_canonicalize (dapi d) a = Ok raw" "CONFIG s = Some cfg" "s' = s\<lparr>CONFIG := Some (upd raw cfg)\<rparr>"
  using assms by (auto simp: update_config_field_def split: option.splits)

end
