(* ===== verification/Hub_Contract.thy ===== *)
theory Hub_Contract
  imports Hub_Bond Hub_Unbond Hub_Withdraw Hub_Config
begin

text \<open>
  \<open>contracts/anchor_basset_hub/src/contract.rs\<close>: instantiation, the dispatch of execute
  messages, the CW20 receive hook, the reward and airdrop operations, and the queries.
\<close>

section \<open>Instantiation\<close>

definition hub_instantiate ::
    "deps \<Rightarrow> env \<Rightarrow> message_info \<Rightarrow> hub_instantiate_msg \<Rightarrow> hub_storage \<Rightarrow> (hub_storage \<times> response) res" where
  "hub_instantiate d e info msg s =
     and_then (addr_canonicalize (dapi d) (sender info)) (\<lambda>_.
     (case find (\<lambda>x. denom x = im_underlying_coin_denom msg \<and> 0 < amount x) (funds info) of
        None \<Rightarrow> Err (GenericErr ''No uluna assets are provided to bond'')
      | Some payment \<Rightarrow>
     and_then (addr_canonicalize (dapi d) (sender info)) (\<lambda>creator_raw.
     and_then (expect_ok ''called `Result::unwrap()` on an `Err` value''
         (to_binary (dlib d) (HubPayload (RegisterValidator (im_validator msg))))) (\<lambda>register_validator.
       Ok (s\<lparr>CONFIG := Some \<lparr>creator = creator_raw, reward_contract = None, token_contract = None,
                            airdrop_registry_contract = None\<rparr>,
             STATE := Some \<lparr>exchange_rate = decimal_one, total_bond_amount = amount payment,
                           last_index_modification = block_seconds e, prev_hub_balance = 0,
                           actual_unbonded_amount = 0, last_unbonded_time = block_seconds e,
                           last_processed_batch = 0\<rparr>,
             PARAMETERS := Some \<lparr>epoch_period = im_epoch_period msg,
                                underlying_coin_denom = im_underlying_coin_denom msg,
                                unbonding_period = im_unbonding_period msg,
                                peg_recovery_fee = im_peg_recovery_fee msg,
                                er_threshold = im_er_threshold msg,
                                reward_denom = im_reward_denom msg\<rparr>,
             CURRENT_BATCH := Some \<lparr>cb_id = 1, requested_with_fee = 0\<rparr>\<rparr>,
           \<lparr>messages = [WasmExecute (contract_address e) register_validator [],
                        StakingDelegate (im_validator msg) payment],
            attributes = [(''register-validator'', AttrStr (im_validator msg)),
                          (''bond'', AttrUint (amount payment))]\<rparr>)))))"


section \<open>Operations\<close>

definition receive_cw20 ::
    "deps \<Rightarrow> env \<Rightarrow> message_info \<Rightarrow> cw20_receive_msg \<Rightarrow> hub_storage \<Rightarrow> (hub_storage \<times> response) res" where
  "receive_cw20 d e info cw20_msg s =
     (case from_binary_hook (dlib d) (cw20_payload cw20_msg) of
        Ok Unbond \<Rightarrow>
          and_then (load_item ''Config'' (CONFIG s)) (\<lambda>conf.
          and_then (addr_canonicalize (dapi d) (sender info)) (\<lambda>contract_raw.
          and_then (expect_some ''the token contract must have been registered'' (token_contract conf)) (\<lambda>token.
          if contract_raw \<noteq> token then Err (GenericErr ''unauthorized'')
          else execute_unbond d e (cw20_amount cw20_msg) (cw20_sender cw20_msg) s)))
      | Err err \<Rightarrow> Err err
      | Panic p \<Rightarrow> Panic p)"

definition withdraw_all_rewards :: "deps \<Rightarrow> string \<Rightarrow> cosmos_msg list res" where
  "withdraw_all_rewards d delegator =
     (case query_all_delegations (dquerier d) delegator of
        Ok delegations \<Rightarrow> Ok (map (\<lambda>del. WithdrawDelegatorReward (validator del)) delegations)
      | Err err \<Rightarrow> Ok []
      | Panic p \<Rightarrow> Panic p)"

definition execute_update_global ::
    "deps \<Rightarrow> env \<Rightarrow> binary list option \<Rightarrow> hub_storage \<Rightarrow> (hub_storage \<times> response) res" where
  "execute_update_global d e airdrop_hooks s =
     and_then (load_item ''Config'' (CONFIG s)) (\<lambda>config.
     and_then (expect_some ''the reward contract must have been registered'' (reward_contract config)) (\<lambda>reward.
     and_then (addr_humanize (dapi d) reward) (\<lambda>reward_addr.
     and_then
       (case airdrop_hooks of
          None \<Rightarrow> Ok []
        | Some hooks \<Rightarrow>
            and_then (expect_some ''called `Option::unwrap()` on a `None` value''
                (airdrop_registry_contract config)) (\<lambda>registry.
            and_then (addr_humanize (dapi d) registry) (\<lambda>registry_addr.
              Ok (map (\<lambda>msg. WasmExecute registry_addr msg []) hooks)))) (\<lambda>hook_msgs.
     and_then (withdraw_all_rewards d (contract_address e)) (\<lambda>withdraw_msgs.
     and_then (expect_ok ''called `Result::unwrap()` on an `Err` value''
         (to_binary (dlib d) (RewardPayload SwapToRewardDenom))) (\<lambda>swap_msg.
     and_then (expect_ok ''called `Result::unwrap()` on an `Err` value''
         (to_binary (dlib d) (RewardPayload RewardUpdateGlobalIndex))) (\<lambda>update_msg.
     and_then (load_item ''State'' (STATE s)) (\<lambda>last_state.
       Ok (s\<lparr>STATE := Some (last_state\<lparr>last_index_modification := block_seconds e\<rparr>)\<rparr>,
           \<lparr>messages = hook_msgs @ withdraw_msgs @
                        [WasmExecute reward_addr swap_msg [], WasmExecute reward_addr update_msg []],
            attributes = [(''action'', AttrStr ''update_global_index'')]\<rparr>)))))))))"

definition claim_airdrop ::
    "deps \<Rightarrow> env \<Rightarrow> message_info \<Rightarrow> string \<Rightarrow> string \<Rightarrow> string \<Rightarrow> binary \<Rightarrow> binary \<Rightarrow>
     hub_storage \<Rightarrow> (hub_storage \<times> response) res" where
  "claim_airdrop d e info token_addr airdrop_addr swap_addr claim_msg swap_msg s =
     and_then (load_item ''Config'' (CONFIG s)) (\<lambda>conf.
     and_then (addr_canonicalize (dapi d) (sender info)) (\<lambda>sender_raw.
     and_then (expect_some ''called `Option::unwrap()` on a `None` value''
         (airdrop_registry_contract conf)) (\<lambda>airdrop_reg_raw.
     and_then (addr_humanize (dapi d) airdrop_reg_raw) (\<lambda>airdrop_reg.
     if airdrop_reg_raw \<noteq> sender_raw then Err (GenericErr (''Sender must be '' @ airdrop_reg))
     else
     and_then (to_binary (dlib d) (HubPayload (SwapHook token_addr swap_addr swap_msg))) (\<lambda>hook.
       Ok (s, \<lparr>messages = [WasmExecute airdrop_addr claim_msg [],
                           WasmExecute (contract_address e) hook []],
               attributes = []\<rparr>))))))"

definition swap_hook ::
    "deps \<Rightarrow> env \<Rightarrow> message_info \<Rightarrow> string \<Rightarrow> string \<Rightarrow> binary \<Rightarrow> hub_storage \<Rightarrow> (hub_storage \<times> response) res" where
  "swap_hook d e info token_addr swap_addr swap_msg s =
     (if sender info \<noteq> contract_address e then Err (GenericErr ''unauthorized'')
      else
      and_then (query_cw20_balance (dquerier d) token_addr (contract_address e)) (\<lambda>airdrop_token_balance.
      if airdrop_token_balance = 0
      then Err (GenericErr (''There is no balance for '' @ contract_address e @
                            '' in airdrop token contract '' @ token_addr))
      else
      and_then (to_binary (dlib d) (Cw20Payload (Send swap_addr airdrop_token_balance swap_msg))) (\<lambda>send_msg.
        Ok (s, \<lparr>messages = [WasmExecute token_addr send_msg []],
                attributes = [(''action'', AttrStr ''swap_airdrop_token''),
                              (''token_contract'', AttrStr token_addr),
                              (''swap_amount'', AttrUint airdrop_token_balance)]\<rparr>))))"

definition hub_execute ::
    "deps \<Rightarrow> env \<Rightarrow> message_info \<Rightarrow> hub_execute_msg \<Rightarrow> hub_storage \<Rightarrow> (hub_storage \<times> response) res" where
  "hub_execute d e info msg s =
     (case msg of
        Receive m \<Rightarrow> receive_cw20 d e info m s
      | Bond val \<Rightarrow> execute_bond d e info val s
      | HubUpdateGlobalIndex hooks \<Rightarrow> execute_update_global d e hooks s
      | WithdrawUnbonded \<Rightarrow> execute_withdraw_unbonded d e info s
      | RegisterValidator val \<Rightarrow> execute_register_validator d e info val s
      | DeregisterValidator val \<Rightarrow> execute_deregister_validator d e info val s
      | CheckSlashing \<Rightarrow> execute_slashing d e s
      | UpdateParams ep up fee thr \<Rightarrow> execute_update_params d info ep up fee thr s
      | HubUpdateConfig ow rw tk ad \<Rightarrow> execute_update_config d info ow rw tk ad s
      | SwapHook tok swp m \<Rightarrow> swap_hook d e info tok swp m s
      | ClaimAirdrop tok ad swp cm sm \<Rightarrow> claim_airdrop d e info tok ad swp cm sm s)"


section \<open>Queries\<close>

text \<open>What a query serialises: the sum of the response types.\<close>

datatype hub_query_response =
    HubConfigResponse hub_config_response
  | HubStateResponse hub_state_response
  | WhitelistedValidatorsResponse whitelisted_validators_response
  | CurrentBatchResponse current_batch_response
  | WithdrawableUnbondedResponse withdrawable_unbonded_response
  | ParametersResponse parameters
  | UnbondRequestsResponse unbond_requests_response
  | AllHistoryResponse all_history_response

definition humanize_option :: "deps \<Rightarrow> canonical_addr option \<Rightarrow> string option res" where
  "humanize_option d a =
     (case a of
        None \<Rightarrow> Ok None
      | Some raw \<Rightarrow> and_then (expect_ok ''called `Result::unwrap()` on an `Err` value''
                       (addr_humanize (dapi d) raw)) (\<lambda>h. Ok (Some h)))"

definition query_hub_config :: "deps \<Rightarrow> hub_storage \<Rightarrow> hub_config_response res" where
  "query_hub_config d s =
     and_then (load_item ''Config'' (CONFIG s)) (\<lambda>config.
     and_then (humanize_option d (reward_contract config)) (\<lambda>reward.
     and_then (humanize_option d (token_contract config)) (\<lambda>token.
     and_then (humanize_option d (airdrop_registry_contract config)) (\<lambda>airdrop.
     and_then (addr_humanize (dapi d) (creator config)) (\<lambda>owner.
       Ok \<lparr>hcr_owner = owner, hcr_reward_contract = reward, hcr_token_contract = token,
           hcr_airdrop_registry_contract = airdrop\<rparr>)))))"

definition query_hub_state :: "hub_storage \<Rightarrow> hub_state_response res" where
  "query_hub_state s =
     and_then (load_item ''State'' (STATE s)) (\<lambda>state.
       Ok \<lparr>hsr_exchange_rate = exchange_rate state, hsr_total_bond_amount = total_bond_amount state,
           hsr_last_index_modification = last_index_modification state,
           hsr_prev_hub_balance = prev_hub_balance state,
           hsr_actual_unbonded_amount = actual_unbonded_amount state,
           hsr_last_unbonded_time = last_unbonded_time state,
           hsr_last_processed_batch = last_processed_batch state\<rparr>)"

definition query_white_validators :: "hub_storage \<Rightarrow> whitelisted_validators_response res" where
  "query_white_validators s =
     and_then (read_valid_validators s) (\<lambda>validators. Ok \<lparr>wvr_validators = validators\<rparr>)"

definition query_current_batch :: "hub_storage \<Rightarrow> current_batch_response res" where
  "query_current_batch s =
     and_then (load_item ''CurrentBatch'' (CURRENT_BATCH s)) (\<lambda>batch.
       Ok \<lparr>cbr_id = cb_id batch, cbr_requested_with_fee = requested_with_fee batch\<rparr>)"

definition query_withdrawable_unbonded ::
    "deps \<Rightarrow> hub_storage \<Rightarrow> string \<Rightarrow> env \<Rightarrow> withdrawable_unbonded_response res" where
  "query_withdrawable_unbonded d s address e =
     and_then (load_item ''Parameters'' (PARAMETERS s)) (\<lambda>params.
     and_then (u64_sub (block_seconds e) (unbonding_period params)) (\<lambda>historical_time.
     and_then (query_get_finished_amount (dlib d) s address historical_time) (\<lambda>all_requests.
       Ok \<lparr>wur_withdrawable = all_requests\<rparr>)))"

definition query_params :: "hub_storage \<Rightarrow> parameters res" where
  "query_params s = load_item ''Parameters'' (PARAMETERS s)"

definition query_unbond_requests :: "hub_storage \<Rightarrow> string \<Rightarrow> unbond_requests_response res" where
  "query_unbond_requests s address =
     and_then (get_unbond_requests s address) (\<lambda>requests.
       Ok \<lparr>urr_address = address, urr_requests = requests\<rparr>)"

definition query_unbond_requests_limitation ::
    "hub_storage \<Rightarrow> u64 option \<Rightarrow> u32 option \<Rightarrow> all_history_response res" where
  "query_unbond_requests_limitation s start limit =
     and_then (all_unbond_history s start limit) (\<lambda>requests. Ok \<lparr>ahr_history = requests\<rparr>)"

definition hub_query :: "deps \<Rightarrow> env \<Rightarrow> hub_query_msg \<Rightarrow> hub_storage \<Rightarrow> hub_query_response res" where
  "hub_query d e msg s =
     (case msg of
        HubQueryConfig \<Rightarrow> and_then (query_hub_config d s) (\<lambda>r. Ok (HubConfigResponse r))
      | HubQueryState \<Rightarrow> and_then (query_hub_state s) (\<lambda>r. Ok (HubStateResponse r))
      | QueryCurrentBatch \<Rightarrow> and_then (query_current_batch s) (\<lambda>r. Ok (CurrentBatchResponse r))
      | QueryWhitelistedValidators \<Rightarrow>
          and_then (query_white_validators s) (\<lambda>r. Ok (WhitelistedValidatorsResponse r))
      | QueryWithdrawableUnbonded address \<Rightarrow>
          and_then (query_withdrawable_unbonded d s address e) (\<lambda>r. Ok (WithdrawableUnbondedResponse r))
      | QueryParameters \<Rightarrow> and_then (query_params s) (\<lambda>r. Ok (ParametersResponse r))
      | QueryUnbondRequests address \<Rightarrow>
          and_then (query_unbond_requests s address) (\<lambda>r. Ok (UnbondRequestsResponse r))
      | QueryAllHistory start_from limit \<Rightarrow>
          and_then (query_unbond_requests_limitation s start_from limit) (\<lambda>r. Ok (AllHistoryResponse r)))"

end
