(* ===== verification/Hub_Batches.thy ===== *)
theory Hub_Batches
  imports Hub_Contract
begin

text \<open>
  The accounting of unbonding batches.  \<open>hub_inv\<close> says that the wait lists of the current batch
  add up to its requested amount, that exactly the earlier batches are in the history, each with wait
  lists that add up to at most its amount (to exactly its amount until it is released), that the
  released batches are those up to \<open>last_processed_batch\<close>, and that later batches were closed
  later.  Every operation of the hub keeps it.
\<close>

definition waits_in :: "u64 \<Rightarrow> (string \<times> u64, uint128) store \<Rightarrow> nat" where
  "waits_in i m = store_sum (\<lambda>k v. if snd k = i then unat v else 0) m"

definition batch_waits :: "hub_storage \<Rightarrow> u64 \<Rightarrow> nat" where
  "batch_waits s i = waits_in i (wait_map s)"

definition history_inv :: "hub_storage \<Rightarrow> hub_state \<Rightarrow> u64 \<Rightarrow> unbond_history \<Rightarrow> bool" where
  "history_inv s st i h \<longleftrightarrow>
     batch_id h = i \<and> (released h \<longleftrightarrow> i \<le> last_processed_batch st) \<and>
     batch_waits s i \<le> unat (batch_amount h) \<and>
     (\<not> released h \<longrightarrow> batch_waits s i = unat (batch_amount h) \<and> withdraw_rate h = applied_exchange_rate h) \<and>
     batch_time h \<le> last_unbonded_time st \<and>
     (\<forall>j h'. store_get j (history_map s) = Some h' \<longrightarrow> j \<le> i \<longrightarrow> batch_time h' \<le> batch_time h)"

definition batch_inv :: "hub_storage \<Rightarrow> hub_state \<Rightarrow> current_batch \<Rightarrow> bool" where
  "batch_inv s st b \<longleftrightarrow>
     store_ok (wait_map s) \<and> store_ok (history_map s) \<and>
     (\<forall>u i v. store_get (u, i) (wait_map s) = Some v \<longrightarrow> i \<le> cb_id b) \<and>
     batch_waits s (cb_id b) = unat (requested_with_fee b) \<and>
     last_processed_batch st < cb_id b \<and>
     (\<forall>i. store_get i (history_map s) \<noteq> None \<longleftrightarrow> 1 \<le> i \<and> i < cb_id b) \<and>
     (\<forall>i h. store_get i (history_map s) = Some h \<longrightarrow> history_inv s st i h)"

definition hub_inv :: "hub_storage \<Rightarrow> bool" where
  "hub_inv s = (case (STATE s, CURRENT_BATCH s) of
      (Some st, Some b) \<Rightarrow> batch_inv s st b \<and> store_ok (validators_map s) | _ \<Rightarrow> False)"

lemma hub_invE:
  assumes "hub_inv s"
  obtains st b where "STATE s = Some st" "CURRENT_BATCH s = Some b" "batch_inv s st b" "store_ok (validators_map s)"
  using assms by (auto simp: hub_inv_def split: option.splits)

text \<open>Operations that leave the batches alone.\<close>

lemma batch_inv_cong:
  assumes "wait_map s' = wait_map s" "history_map s' = history_map s"
    and "last_processed_batch st' = last_processed_batch st" "last_unbonded_time st' = last_unbonded_time st"
  shows "batch_inv s' st' b = batch_inv s st b"
  using assms by (simp add: batch_inv_def history_inv_def batch_waits_def)

lemma hub_inv_frame:
  assumes "hub_inv s" and "STATE s = Some st" and "STATE s' = Some st'" and "CURRENT_BATCH s' = CURRENT_BATCH s"
    and "wait_map s' = wait_map s" "history_map s' = history_map s" "validators_map s' = validators_map s"
    and "last_processed_batch st' = last_processed_batch st" "last_unbonded_time st' = last_unbonded_time st"
  shows "hub_inv s'"
  using assms batch_inv_cong [of s' s st' st]
  by (auto simp: hub_inv_def split: option.splits)

lemma slashing_batch_inv:
  assumes "cosmwasm_numbers (dlib d)" and "slashing d e s = Ok s1" and "hub_inv s"
  shows "hub_inv s1" and "CURRENT_BATCH s1 = CURRENT_BATCH s"
proof -
  from slashing_frame [OF assms(1,2)] obtain state r b where st: "STATE s = Some state"
    and s1: "s1 = s\<lparr>STATE := Some (state\<lparr>exchange_rate := r, total_bond_amount := b\<rparr>)\<rparr>" by blast
  show "CURRENT_BATCH s1 = CURRENT_BATCH s" by (simp add: s1)
  show "hub_inv s1"
    by (rule hub_inv_frame [OF assms(3) st, where st' = "state\<lparr>exchange_rate := r, total_bond_amount := b\<rparr>"])
      (simp_all add: s1)
qed


section \<open>Unbonding\<close>

lemma batch_waits_put:
  assumes "store_ok (wait_map s)"
    and "unat v = (case store_get (u, b) (wait_map s) of None \<Rightarrow> 0 | Some x \<Rightarrow> unat x) + unat a"
    and "wait_map s' = store_set enc (u, b) v (wait_map s)"
  shows "batch_waits s' i = batch_waits s i + (if i = b then unat a else 0)"
  using kv.total_put [OF assms(1), of "\<lambda>k v. if snd k = i then unat v else 0" enc "(u, b)" v] assms(2)
  unfolding batch_waits_def waits_in_def assms(3) opt_sum_def by (auto split: option.splits)

text \<open>A request is added to the current batch.\<close>

lemma request_batch_inv:
  assumes inv: "batch_inv s st b" and num: "cosmwasm_numbers l"
    and w: "store_unbond_wait_list l (cb_id b) u a s = Ok s'"
    and req: "unat requested = unat (requested_with_fee b) + unat a"
  shows "batch_inv s' st (b\<lparr>requested_with_fee := requested\<rparr>)"
proof -
  obtain v where v: "unat v = (case store_get (u, cb_id b) (wait_map s) of None \<Rightarrow> 0 | Some x \<Rightarrow> unat x) + unat a"
    and s': "s' = s\<lparr>wait_map := store_set (wait_enc l) (u, cb_id b) v (wait_map s)\<rparr>"
    using w unfolding cosmwasm_numbers.store_unbond_wait_list_ok [OF num] by blast
  have ok: "store_ok (wait_map s)" using inv by (simp add: batch_inv_def)
  have w: "batch_waits s' i = batch_waits s i + (if i = cb_id b then unat a else 0)" for i
    by (rule batch_waits_put [OF ok v]) (simp add: s')
  have hm: "history_map s' = history_map s" by (simp add: s')
  have "history_inv s' st i h" if "store_get i (history_map s) = Some h" for i h
  proof -
    have "history_inv s st i h" "i \<noteq> cb_id b" using inv that by (auto simp: batch_inv_def)
    then show ?thesis by (simp add: history_inv_def w hm)
  qed
  moreover have "batch_waits s' (cb_id b) = unat requested"
    using inv w [of "cb_id b"] req by (simp add: batch_inv_def)
  moreover have "store_ok (wait_map s')" "\<forall>u i v. store_get (u, i) (wait_map s') = Some v \<longrightarrow> i \<le> cb_id b"
    using inv by (auto simp: batch_inv_def s' store_ok_set store_get_set)
  ultimately show ?thesis using inv by (simp add: batch_inv_def hm)
qed

text \<open>The batch is closed.\<close>

text \<open>Closing the open batch: its record, and what becomes of the earlier ones.\<close>

lemma batch_inv_history: "batch_inv s st b \<Longrightarrow> store_get i (history_map s) = Some h \<Longrightarrow> i < cb_id b \<and> history_inv s st i h"
  unfolding batch_inv_def by (metis option.distinct(1))

lemma next_batch_empty:
  assumes inv: "batch_inv s st b" and nxt: "cb_id b < next_id"
  shows "batch_waits s next_id = 0"
proof -
  have "snd k \<noteq> next_id" if "(k, v) \<in> set (wait_map s)" for k v
  proof -
    have "store_get (fst k, snd k) (wait_map s) = Some v"
      using that inv by (simp add: batch_inv_def store_get_entries)
    then have "snd k \<le> cb_id b" using inv unfolding batch_inv_def by blast
    then show ?thesis using nxt by auto
  qed
  then show ?thesis by (auto simp: batch_waits_def waits_in_def store_sum_def sum_list_eq_0_iff)
qed

lemma close_history_inv:
  assumes inv: "batch_inv s st b" and time: "last_unbonded_time st \<le> block_seconds e"
    and get: "\<And>i. store_get i (history_map s') =
        (if i = cb_id b then Some (closed_history e st2 b) else store_get i (history_map s))"
    and w: "\<And>i. batch_waits s' i = batch_waits s i"
    and st': "last_processed_batch st' = last_processed_batch st" "last_unbonded_time st' = block_seconds e"
    and g: "store_get i (history_map s') = Some h"
  shows "history_inv s' st' i h"
proof (cases "i = cb_id b")
  case True
  then have h: "h = closed_history e st2 b" using g get by simp
  have "batch_time h' \<le> block_seconds e" if "store_get j (history_map s') = Some h'" for j h'
  proof (cases "j = cb_id b")
    case False
    then have "history_inv s st j h'" using that get batch_inv_history [OF inv] by simp
    then show ?thesis using time by (auto simp: history_inv_def)
  qed (use that get in \<open>auto simp: closed_history_def\<close>)
  moreover have "\<not> cb_id b \<le> last_processed_batch st" "batch_waits s (cb_id b) = unat (requested_with_fee b)"
    using inv by (auto simp: batch_inv_def)
  ultimately show ?thesis
    using True st' by (simp add: history_inv_def h w closed_history_def)
next
  case False
  then have g': "store_get i (history_map s) = Some h" using g get by simp
  note o = batch_inv_history [OF inv g']
  have "batch_time h' \<le> batch_time h" if "store_get j (history_map s') = Some h'" "j \<le> i" for j h'
  proof -
    have "store_get j (history_map s) = Some h'" using that get o by (auto split: if_splits)
    then show ?thesis using o that(2) unfolding history_inv_def by blast
  qed
  moreover have "batch_time h \<le> last_unbonded_time st'" using o time st' by (auto simp: history_inv_def)
  ultimately show ?thesis using o st'(1) by (simp add: history_inv_def w)
qed

lemma close_batch_inv:
  assumes inv: "batch_inv s st b"
    and time: "last_unbonded_time st \<le> block_seconds e"
    and nxt: "unat next_id = unat (cb_id b) + 1"
    and s': "s' = s\<lparr>history_map := store_set to_be_bytes (cb_id b) (closed_history e st2 b) (history_map s)\<rparr>"
    and st': "last_processed_batch st' = last_processed_batch st" "last_unbonded_time st' = block_seconds e"
  shows "batch_inv s' st' \<lparr>cb_id = next_id, requested_with_fee = 0\<rparr>"
proof -
  have lt: "i < next_id \<longleftrightarrow> i \<le> cb_id b" for i
    using nxt by (simp add: word_less_nat_alt word_le_nat_alt less_Suc_eq_le)
  have get: "store_get i (history_map s') = (if i = cb_id b then Some (closed_history e st2 b) else store_get i (history_map s))" for i
    by (simp add: s' store_get_set)
  have w: "batch_waits s' i = batch_waits s i" for i by (simp add: batch_waits_def s')
  have below: "i \<le> cb_id b" if "store_get (u, i) (wait_map s) = Some v" for u i v
    using inv that unfolding batch_inv_def by blast
  have "1 \<le> cb_id b" using inv by (auto simp: batch_inv_def word_le_nat_alt word_less_nat_alt)
  have "history_inv s' st' i h" if "store_get i (history_map s') = Some h" for i h
    by (rule close_history_inv [OF inv time get w st' that])
  moreover have "store_get i (history_map s') \<noteq> None \<longleftrightarrow> 1 \<le> i \<and> i < next_id" for i
    using inv \<open>1 \<le> cb_id b\<close> by (auto simp: get lt batch_inv_def le_less)
  moreover have "i \<le> next_id" if "store_get (u, i) (wait_map s') = Some v" for u i v
    using below [of u i v] that lt [of i] by (simp add: s')
  moreover have "last_processed_batch st' < next_id" using inv st' lt by (auto simp: batch_inv_def)
  moreover have "store_ok (wait_map s')" "store_ok (history_map s')"
    using inv by (simp_all add: batch_inv_def s' store_ok_set)
  ultimately show ?thesis using next_batch_empty [OF inv, of next_id] lt w by (simp add: batch_inv_def)
qed

lemma execute_unbond_inv:
  assumes num: "cosmwasm_numbers (dlib d)" and inv: "hub_inv s"
    and run: "execute_unbond d e amt u s = Ok (s', resp)"
  shows "hub_inv s'"
  using num run
proof (cases rule: execute_unbond_ok)
  case (1 params batch s1 state issued a requested s2 issued' state1 s3 state2 batch2 msgs burn_to burn_msg)
  note slash = slashing_batch_inv [OF num 1(3) inv]
  have b1: "batch_inv s1 state batch" "store_ok (validators_map s1)"
    using slash 1(2,4) by (simp_all add: hub_inv_def)
  have b2: "batch_inv s2 state (batch\<lparr>requested_with_fee := requested\<rparr>)"
    by (rule request_batch_inv [OF b1(1) num 1(8,7)])
  note fr = cosmwasm_numbers.update_exchange_rate_frame [OF num 1(10)]
  have b3: "batch_inv s2 state1 (batch\<lparr>requested_with_fee := requested\<rparr>)"
    using b2 batch_inv_cong [of s2 s2 state1 state] fr(5,6) by simp
  have v2: "validators_map s2 = validators_map s1"
    using 1(8) by (auto simp: cosmwasm_numbers.store_unbond_wait_list_ok [OF num])
  have "batch_inv s3 state2 batch2 \<and> validators_map s3 = validators_map s1"
  proof (cases "unat (epoch_period params) + unat (last_unbonded_time state1) < unat (block_seconds e)")
    case True
    then have "close_batch d e state1 (batch\<lparr>requested_with_fee := requested\<rparr>) s2 = Ok (s3, state2, batch2, msgs)"
      using 1(12) by simp
    from num this show ?thesis
    proof (cases rule: close_batch_ok)
      case c: (1 w bonded next_id)
      have "batch_inv s3 state2 \<lparr>cb_id = next_id, requested_with_fee = 0\<rparr>"
        by (rule close_batch_inv [OF b3 1(11)]) (use c in simp_all)
      with c v2 show ?thesis by simp
    qed
  next
    case False
    with 1(12) b3 v2 show ?thesis by simp
  qed
  with b1(2) 1(13) batch_inv_cong [of s' s3 state2 state2] show ?thesis by (simp add: hub_inv_def)
qed


section \<open>Withdrawing\<close>

lemma release_batch_shape:
  assumes "release_batch l tot sl h = Ok h'"
  shows "\<exists>r. h' = h\<lparr>withdraw_rate := r, released := True\<rparr>"
  using assms by (cases sl) (auto simp: release_batch_def)

text \<open>Releasing batches up to \<open>j\<close> keeps the accounting.\<close>

text \<open>The record of a batch after a release of the batches from \<open>first\<close> up to \<open>j\<close>.\<close>

lemma release_history_inv:
  assumes o: "history_inv s st k h" and h': "h' = (if first \<le> k \<and> k < j then h\<lparr>withdraw_rate := r, released := True\<rparr> else h)"
    and le_last: "k \<le> last_processed_batch st \<longleftrightarrow> k < first" and le_pred: "k \<le> last_processed_batch st' \<longleftrightarrow> k < j"
    and jf: "first \<le> j" and w: "\<And>i. batch_waits s' i = batch_waits s i"
    and t': "last_unbonded_time st' = last_unbonded_time st"
    and times: "\<And>i g. store_get i (history_map s') = Some g \<Longrightarrow> i \<le> k \<Longrightarrow> batch_time g \<le> batch_time h"
  shows "history_inv s' st' k h'"
proof -
  have t: "batch_time h' = batch_time h" "batch_amount h' = batch_amount h" "batch_id h' = batch_id h"
    using h' by simp_all
  have "released h' \<longleftrightarrow> k \<le> last_processed_batch st'"
  proof (cases "first \<le> k \<and> k < j")
    case False
    then have "h' = h" using h' by (simp only: if_False)
    then have "released h' \<longleftrightarrow> k < first" using o by (simp add: history_inv_def le_last)
    moreover have "k < first \<longleftrightarrow> k < j" using False jf
      by (auto simp: word_less_nat_alt word_le_nat_alt)
    ultimately show ?thesis by (simp add: le_pred)
  qed (use h' le_pred in simp)
  then show ?thesis using o h' times unfolding history_inv_def t w by (auto simp: t')
qed

lemma ready_run_closed:
  assumes bi: "batch_inv s st b" and run: "ready_run s t first j"
    and le_last: "\<And>k. k \<le> last_processed_batch st \<longleftrightarrow> k < first"
  shows "j \<le> cb_id b"
proof (rule ccontr)
  assume "\<not> j \<le> cb_id b"
  then have lt: "cb_id b < j" by simp
  have "first \<le> cb_id b"
    using bi le_last [of "cb_id b"] by (auto simp: batch_inv_def not_less [symmetric])
  then have "ready_batch s t (cb_id b) \<noteq> None" using run lt by (simp add: ready_run_def)
  then obtain h where "store_get (cb_id b) (history_map s) = Some h" by (auto simp: ready_batch_Some)
  then show False using batch_inv_history [OF bi] by blast
qed

lemma process_withdraw_rate_inv:
  assumes num: "cosmwasm_numbers l" and inv: "hub_inv s"
    and run: "process_withdraw_rate l t bal s = Ok s'"
  shows "hub_inv s'"
proof -
  from inv obtain st b where st: "STATE s = Some st" and b: "CURRENT_BATCH s = Some b"
    and bi: "batch_inv s st b" and v: "store_ok (validators_map s)" by (rule hub_invE)
  have ok: "store_ok (history_map s)" using bi by (simp add: batch_inv_def)
  obtain st' first j m tot sl where
    p: "STATE s = Some st'" "unat first = unat (last_processed_batch st') + 1" "ready_run s t first j" "store_ok m"
    "s' = s\<lparr>history_map := m, STATE := Some (st'\<lparr>actual_unbonded_amount := 0, last_processed_batch := j - 1\<rparr>)\<rparr>"
    "unat tot = run_coins s first j"
    "signed_value sl = int (run_coins s first j) - int (arrived_coins st' bal)"
    and get: "\<forall>k. store_get k m = store_get k (history_map s) \<and> \<not> (first \<le> k \<and> k < j) \<or>
       first \<le> k \<and> k < j \<and> (\<exists>h h'. store_get k (history_map s) = Some h \<and> release_batch l tot sl h = Ok h' \<and>
          store_get k m = Some h')"
    by (rule process_withdraw_rate_ok [OF num ok run])
  have [simp]: "st' = st" using st p(1) by simp
  let ?st = "st\<lparr>actual_unbonded_amount := 0, last_processed_batch := j - 1\<rparr>"
  have jf: "unat first \<le> unat j" using p(3) by (simp add: ready_run_def word_le_nat_alt)
  then have j0: "unat j \<noteq> 0" using p(2) by linarith
  then have "j \<noteq> 0" by auto
  then have "unat (j - 1) = unat j - 1" by (rule unat_minus_one)
  then have uj: "unat (j - 1) + 1 = unat j" using j0 by linarith
  have le_pred: "k \<le> j - 1 \<longleftrightarrow> k < j" for k
    using uj by (simp add: word_le_nat_alt word_less_nat_alt less_Suc_eq_le [symmetric])
  have le_last: "k \<le> last_processed_batch st \<longleftrightarrow> k < first" for k
    using p(2) by (simp add: word_le_nat_alt word_less_nat_alt less_Suc_eq_le [symmetric])
  have w: "batch_waits s' k = batch_waits s k" for k by (simp add: batch_waits_def p(5))
  have shape: "\<exists>h r. store_get k (history_map s) = Some h \<and>
      h' = (if first \<le> k \<and> k < j then h\<lparr>withdraw_rate := r, released := True\<rparr> else h)"
    if "store_get k m = Some h'" for k h'
    using get [rule_format, of k] that release_batch_shape [of l tot sl] by (auto split: if_splits)
  have dom: "store_get k m = None \<longleftrightarrow> store_get k (history_map s) = None" for k
    using get [rule_format, of k] by auto
  have hist: "history_inv s' ?st k h'" if g: "store_get k m = Some h'" for k h'
  proof -
    obtain h r where h: "store_get k (history_map s) = Some h"
      "h' = (if first \<le> k \<and> k < j then h\<lparr>withdraw_rate := r, released := True\<rparr> else h)"
      using shape [OF g] by blast
    have o: "history_inv s st k h" using batch_inv_history [OF bi h(1)] by blast
    have "batch_time g \<le> batch_time h" if g2: "store_get i (history_map s') = Some g" "i \<le> k" for i g
    proof -
      obtain h2 where "store_get i (history_map s) = Some h2" "batch_time g = batch_time h2"
        using shape [of i g] g2(1) p(5) by fastforce
      then show ?thesis using o g2(2) unfolding history_inv_def by auto
    qed
    then show ?thesis
      by (intro release_history_inv [OF o h(2)]) (use le_last le_pred w jf in \<open>simp_all add: word_le_nat_alt\<close>)
  qed
  have "j \<le> cb_id b" by (rule ready_run_closed [OF bi p(3) le_last])
  then have "j - 1 < cb_id b" using le_pred [of "j - 1"] by simp
  moreover have "\<forall>i. store_get i m \<noteq> None \<longleftrightarrow> 1 \<le> i \<and> i < cb_id b"
    using bi by (simp add: dom batch_inv_def)
  ultimately have "batch_inv s' ?st b"
    using bi hist p(4) unfolding batch_inv_def w by (simp add: p(5))
  then show ?thesis using b v by (simp add: hub_inv_def p(5))
qed

lemma waits_after_remove:
  assumes "store_ok m"
  shows "waits_in i (fold (\<lambda>b. store_remove (u, b)) bs m) \<le> waits_in i m"
    and "i \<notin> set bs \<Longrightarrow> waits_in i (fold (\<lambda>b. store_remove (u, b)) bs m) = waits_in i m"
proof -
  have "waits_in i (fold (\<lambda>b. store_remove (u, b)) bs m) \<le> waits_in i m \<and>
      (i \<notin> set bs \<longrightarrow> waits_in i (fold (\<lambda>b. store_remove (u, b)) bs m) = waits_in i m)"
    using assms
  proof (induction bs arbitrary: m)
    case (Cons b bs)
    have "waits_in i (store_remove (u, b) m) \<le> waits_in i m \<and>
        (i \<noteq> b \<longrightarrow> waits_in i (store_remove (u, b) m) = waits_in i m)"
      using kv.total_remove [OF Cons.prems, of "\<lambda>k v. if snd k = i then unat v else 0" "(u, b)"]
      by (auto simp: waits_in_def opt_sum_def split: option.splits)
    with Cons.IH [OF store_ok_remove [OF Cons.prems, of "(u, b)"]] show ?case
      by (auto intro: order_trans)
  qed simp
  then show "waits_in i (fold (\<lambda>b. store_remove (u, b)) bs m) \<le> waits_in i m"
    "i \<notin> set bs \<Longrightarrow> waits_in i (fold (\<lambda>b. store_remove (u, b)) bs m) = waits_in i m" by auto
qed

lemma remove_released_inv:
  assumes inv: "batch_inv s st b"
    and s': "wait_map s' = fold (\<lambda>b. store_remove (u, b)) (released_batches s bs) (wait_map s)"
      "history_map s' = history_map s"
    and st': "last_processed_batch st' = last_processed_batch st" "last_unbonded_time st' = last_unbonded_time st"
  shows "batch_inv s' st' b"
proof -
  have ok: "store_ok (wait_map s)" using inv by (simp add: batch_inv_def)
  have le: "batch_waits s' i \<le> batch_waits s i" for i
    unfolding batch_waits_def s' by (rule waits_after_remove(1) [OF ok])
  have eq: "batch_waits s' i = batch_waits s i"
    if "\<And>h. store_get i (history_map s) = Some h \<Longrightarrow> \<not> released h" for i
    unfolding batch_waits_def s'
    by (rule waits_after_remove(2) [OF ok]) (use that in \<open>auto simp: released_batches_def split: option.splits\<close>)
  have "history_inv s' st' i h" if g: "store_get i (history_map s) = Some h" for i h
  proof -
    have "history_inv s st i h" using inv g by (simp add: batch_inv_def)
    moreover have "\<not> released h \<Longrightarrow> batch_waits s' i = batch_waits s i" by (rule eq) (use g in simp)
    ultimately show ?thesis using le [of i] st' by (auto simp: history_inv_def s'(2))
  qed
  moreover have "batch_waits s' (cb_id b) = unat (requested_with_fee b)"
  proof -
    have "batch_waits s' (cb_id b) = batch_waits s (cb_id b)"
      by (rule eq) (use inv in \<open>auto simp: batch_inv_def\<close>)
    then show ?thesis using inv by (simp add: batch_inv_def)
  qed
  moreover have "\<forall>u i v. store_get (u, i) (wait_map s') = Some v \<longrightarrow> i \<le> cb_id b"
    using inv unfolding s' by (auto simp: batch_inv_def fold_remove_get split: if_splits)
  ultimately show ?thesis using inv st' by (simp add: batch_inv_def s' fold_remove_ok)
qed

lemma execute_withdraw_unbonded_inv:
  assumes num: "cosmwasm_numbers (dlib d)" and inv: "hub_inv s"
    and run: "execute_withdraw_unbonded d e info s = Ok (s', resp)"
  shows "hub_inv s'"
  using num run
proof (cases rule: execute_withdraw_unbonded_ok)
  case (1 params t bal s1 w prev st)
  from process_withdraw_rate_inv [OF num inv 1(4)] 1(8) obtain b where b: "CURRENT_BATCH s1 = Some b"
    "batch_inv s1 st b" "store_ok (validators_map s1)" by (auto elim!: hub_invE)
  have "batch_inv s' (st\<lparr>prev_hub_balance := prev\<rparr>) b"
    by (rule remove_released_inv [OF b(2)]) (simp_all add: 1(9))
  with b show ?thesis by (simp add: hub_inv_def 1(9))
qed


section \<open>Every operation\<close>

lemma execute_bond_inv:
  assumes num: "cosmwasm_numbers (dlib d)" and inv: "hub_inv s"
    and run: "execute_bond d e info val s = Ok (s', resp)"
  shows "hub_inv s'"
  using run
proof (cases rule: execute_bond_ok)
  case (1 params batch payment s1 state total_supply minted new_supply bonded state' config token token_address mint_msg)
  note fr = cosmwasm_numbers.update_exchange_rate_frame [OF num 1(13)]
  show ?thesis
    by (rule hub_inv_frame [OF slashing_batch_inv(1) [OF num 1(7) inv] 1(8), where st' = state'])
      (use fr 1(18) in simp_all)
qed

lemma validators_inv:
  assumes "hub_inv s" and "store_ok vs"
  shows "hub_inv (s\<lparr>validators_map := vs\<rparr>)"
  using assms batch_inv_cong [of "s\<lparr>validators_map := vs\<rparr>" s] by (auto simp: hub_inv_def split: option.splits)

lemma items_inv:
  assumes "hub_inv s"
  shows "hub_inv (s\<lparr>CONFIG := c\<rparr>)" and "hub_inv (s\<lparr>PARAMETERS := p\<rparr>)"
  using assms batch_inv_cong [of "s\<lparr>CONFIG := c\<rparr>" s] batch_inv_cong [of "s\<lparr>PARAMETERS := p\<rparr>" s]
  by (auto simp: hub_inv_def split: option.splits)

lemma update_config_field_inv:
  "update_config_field d f upd s = Ok s' \<Longrightarrow> hub_inv s \<Longrightarrow> hub_inv s'"
  by (auto simp: update_config_field_def items_inv split: option.splits)

lemma execute_update_global_inv:
  assumes "hub_inv s" and "execute_update_global d e hooks s = Ok (s', resp)"
  shows "hub_inv s'"
proof -
  obtain st where st: "STATE s = Some st" and s': "s' = s\<lparr>STATE := Some (st\<lparr>last_index_modification := block_seconds e\<rparr>)\<rparr>"
    using assms(2) by (auto simp: execute_update_global_def)
  show ?thesis
    by (rule hub_inv_frame [OF assms(1) st, where st' = "st\<lparr>last_index_modification := block_seconds e\<rparr>"])
      (simp_all add: s')
qed

lemma config_ops_inv:
  assumes "hub_inv s"
  shows "execute_update_params d info ep up fee thr s = Ok (s', resp) \<Longrightarrow> hub_inv s'"
    and "execute_update_config d info ow rw tk ad s = Ok (s', resp) \<Longrightarrow> hub_inv s'"
    and "execute_register_validator d e info val s = Ok (s', resp) \<Longrightarrow> hub_inv s'"
    and "execute_deregister_validator d e info val s = Ok (s', resp) \<Longrightarrow> hub_inv s'"
proof -
  have v: "store_ok (validators_map s)" using assms by (auto elim: hub_invE)
  show "execute_update_params d info ep up fee thr s = Ok (s', resp) \<Longrightarrow> hub_inv s'"
    using assms by (auto simp: execute_update_params_def items_inv)
  show "execute_update_config d info ow rw tk ad s = Ok (s', resp) \<Longrightarrow> hub_inv s'"
    using assms by (auto simp: execute_update_config_def dest!: update_config_field_inv)
  show "execute_register_validator d e info val s = Ok (s', resp) \<Longrightarrow> hub_inv s'"
    using assms v by (auto simp: execute_register_validator_def store_white_validators_def validators_inv store_ok_set)
  show "execute_deregister_validator d e info val s = Ok (s', resp) \<Longrightarrow> hub_inv s'"
    using assms v by (auto simp: execute_deregister_validator_def remove_white_validators_def
        intro!: validators_inv store_ok_remove)
qed

lemma hub_execute_inv:
  assumes num: "cosmwasm_numbers (dlib d)" and inv: "hub_inv s"
    and run: "hub_execute d e info msg s = Ok (s', resp)"
  shows "hub_inv s'"
proof (cases msg)
  case (Receive m)
  then have "execute_unbond d e (cw20_amount m) (cw20_sender m) s = Ok (s', resp)"
    using run by (auto simp: hub_execute_def receive_cw20_def split: res.splits cw20_hook_msg.splits)
  then show ?thesis by (rule execute_unbond_inv [OF num inv])
next
  case CheckSlashing
  then show ?thesis
    using run slashing_batch_inv(1) [OF num _ inv] by (auto simp: hub_execute_def execute_slashing_def)
qed (use run inv execute_bond_inv [OF num inv] execute_withdraw_unbonded_inv [OF num inv] config_ops_inv [OF inv]
     execute_update_global_inv [OF inv] in
     \<open>auto simp: hub_execute_def swap_hook_def claim_airdrop_def split: if_splits\<close>)

lemma hub_instantiate_inv:
  assumes "hub_instantiate d e info msg empty_hub_storage = Ok (s, resp)"
  shows "hub_inv s"
  using assms
  by (auto simp: hub_instantiate_def hub_inv_def batch_inv_def empty_hub_storage_def store_ok_def store_get_def
      batch_waits_def waits_in_def store_sum_def word_le_nat_alt word_less_nat_alt split: option.splits)

inductive hub_reachable :: "lib \<Rightarrow> hub_storage \<Rightarrow> bool" for l :: lib where
  hub_instantiated: "hub_instantiate d e info msg empty_hub_storage = Ok (s, resp) \<Longrightarrow> hub_reachable l s"
| hub_executed: "hub_reachable l s \<Longrightarrow> dlib d = l \<Longrightarrow> hub_execute d e info msg s = Ok (s', resp) \<Longrightarrow>
     hub_reachable l s'"

lemma hub_reachable_inv: "hub_reachable l s \<Longrightarrow> cosmwasm_numbers l \<Longrightarrow> hub_inv s"
  by (induction rule: hub_reachable.induct) (auto intro: hub_instantiate_inv hub_execute_inv)

end
