(* ===== verification/Proportional_Shares.thy ===== *)
theory Proportional_Shares
  imports Main
begin

text \<open>
  The arithmetic behind spreading a sum \<open>m\<close> over several parts in proportion to \<open>c k\<close>
  with fixed-point weights: a weight is \<open>c k * N div U\<close>, the share \<open>m\<close> times the
  weight, divided by \<open>N\<close>.  Rounded down, the shares never exceed the sum; raised by one each,
  they cover it, as long as the sum is small against the precision \<open>N\<close>.
\<close>

definition weight :: "nat \<Rightarrow> nat \<Rightarrow> nat \<Rightarrow> nat" where
  "weight N U c = c * N div U"

definition share :: "nat \<Rightarrow> nat \<Rightarrow> nat \<Rightarrow> nat \<Rightarrow> nat" where
  "share N U m c = m * weight N U c div N"

lemma weight_le: "weight N U c * U \<le> c * N"
  by (simp add: weight_def div_times_less_eq_dividend)

lemma weight_gt: "0 < U \<Longrightarrow> c * N < (weight N U c + 1) * U"
  using dividend_less_div_times [of U "c * N"] by (simp add: weight_def algebra_simps)

lemma share_le_part:
  assumes "0 < N" and "m \<le> U" and "0 < U"
  shows "share N U m c \<le> c" and "m < U \<Longrightarrow> 0 < c \<Longrightarrow> share N U m c < c"
proof -
  have "share N U m c * N \<le> m * weight N U c" by (simp add: share_def div_times_less_eq_dividend)
  then have "share N U m c * N * U \<le> m * (weight N U c * U)" by (metis mult.assoc mult_le_mono1)
  also have "\<dots> \<le> m * (c * N)" by (rule mult_le_mono2 [OF weight_le])
  finally have "(share N U m c * U) * N \<le> (m * c) * N" by (simp add: ac_simps)
  then have le: "share N U m c * U \<le> m * c" using assms(1) by simp
  also have "\<dots> \<le> U * c" using assms(2) by simp
  finally show "share N U m c \<le> c" using assms(3) by (simp add: mult.commute)
  assume "m < U" "0 < c"
  then have "share N U m c * U < U * c" using le by (metis le_less_trans mult_less_mono1)
  then show "share N U m c < c" by (metis mult.commute nat_mult_less_cancel_disj)
qed

lemma weights_le:
  assumes "0 < U" and "(\<Sum>k\<in>K. c k) = U"
  shows "(\<Sum>k\<in>K. weight N U (c k)) \<le> N"
proof -
  have "(\<Sum>k\<in>K. weight N U (c k)) * U \<le> (\<Sum>k\<in>K. c k * N)"
    unfolding sum_distrib_right by (rule sum_mono) (rule weight_le)
  also have "\<dots> = N * U" unfolding sum_distrib_right [symmetric] assms(2) by (rule mult.commute)
  finally show ?thesis using assms(1) by simp
qed

lemma weights_gt:
  assumes "0 < U" and "(\<Sum>k\<in>K. c k) = U" and "finite K" "K \<noteq> {}"
  shows "N < (\<Sum>k\<in>K. weight N U (c k)) + card K"
proof -
  have "(\<Sum>k\<in>K. c k * N) < (\<Sum>k\<in>K. (weight N U (c k) + 1) * U)"
    using assms(3,4) by (intro sum_strict_mono weight_gt assms(1))
  then have "U * N < ((\<Sum>k\<in>K. weight N U (c k) + 1)) * U"
    unfolding sum_distrib_right [symmetric] assms(2) .
  then have "N < (\<Sum>k\<in>K. weight N U (c k) + 1)" by (simp add: mult.commute [of U])
  then show ?thesis by (simp only: sum.distrib card_eq_sum)
qed

lemma shares_le:
  assumes "0 < N" and "0 < U" and "(\<Sum>k\<in>K. c k) = U"
  shows "(\<Sum>k\<in>K. share N U m (c k)) \<le> m"
proof -
  have "(\<Sum>k\<in>K. share N U m (c k)) * N \<le> (\<Sum>k\<in>K. m * weight N U (c k))"
    unfolding sum_distrib_right by (rule sum_mono) (simp add: share_def div_times_less_eq_dividend)
  also have "\<dots> \<le> m * N"
    using weights_le [OF assms(2,3)] by (simp add: sum_distrib_left [symmetric])
  finally show ?thesis using assms(1) by simp
qed

text \<open>
  When the sum is not that small, the raised shares fall short of it by the part \<open>e\<close> the weights lost.
\<close>

lemma shares_cover:
  assumes "0 < N" and "0 < U" and "(\<Sum>k\<in>K. c k) = U" and "finite K" "K \<noteq> {}"
    and small: "m * (card K - 1) \<le> (e + 1) * N"
  shows "m \<le> (\<Sum>k\<in>K. share N U m (c k) + 1) + e"
proof (rule ccontr)
  let ?W = "\<Sum>k\<in>K. weight N U (c k)" and ?S = "\<Sum>k\<in>K. share N U m (c k) + 1"
  assume "\<not> m \<le> ?S + e"
  then have lt: "?S + (e + 1) \<le> m" by simp
  have card: "0 < card K" using assms(4,5) by (simp add: card_gt_0_iff)
  have "m * weight N U (c k) < (share N U m (c k) + 1) * N" for k
    using dividend_less_div_times [OF assms(1), of "m * weight N U (c k)"] by (simp add: share_def algebra_simps)
  then have "(\<Sum>k\<in>K. m * weight N U (c k)) < (\<Sum>k\<in>K. (share N U m (c k) + 1) * N)"
    using assms(4,5) by (intro sum_strict_mono) auto
  then have 1: "m * ?W < ?S * N" by (simp only: sum_distrib_left sum_distrib_right)
  have "N \<le> ?W + (card K - 1)" using weights_gt [OF assms(2-5), of N] card by linarith
  then have "m * N \<le> m * ?W + m * (card K - 1)"
    by (metis add_mult_distrib2 mult_le_mono2)
  also have "\<dots> < ?S * N + (e + 1) * N" using 1 small by linarith
  also have "\<dots> = (?S + (e + 1)) * N" by (simp only: add_mult_distrib)
  also have "\<dots> \<le> m * N" using lt by (rule mult_le_mono1)
  finally show False by simp
qed

text \<open>What is left of the parts when the shares, each raised by one, are taken off them.\<close>

lemma remainders_le:
  assumes "0 < N" and "(\<Sum>k\<in>K. c k) = U" and "finite K" "K \<noteq> {}"
    and "m * (card K - 1) \<le> (e + 1) * N" and "m < U" and pos: "\<And>k. k \<in> K \<Longrightarrow> 0 < c k"
  shows "(\<Sum>k\<in>K. c k - (share N U m (c k) + 1)) \<le> U - m + e"
proof -
  have U: "0 < U" using assms(6) by simp
  have "share N U m (c k) + 1 \<le> c k" if "k \<in> K" for k
    using share_le_part(2) [OF assms(1) less_imp_le [OF assms(6)] U assms(6) pos [OF that]] by simp
  then have "(\<Sum>k\<in>K. c k - (share N U m (c k) + 1) + (share N U m (c k) + 1)) = (\<Sum>k\<in>K. c k)"
    by (intro sum.cong refl le_add_diff_inverse2)
  then have "(\<Sum>k\<in>K. c k - (share N U m (c k) + 1)) + (\<Sum>k\<in>K. share N U m (c k) + 1) = U"
    unfolding sum.distrib [symmetric] assms(2) .
  moreover have "m \<le> (\<Sum>k\<in>K. share N U m (c k) + 1) + e" by (rule shares_cover [OF assms(1) U assms(2-5)])
  ultimately show ?thesis by linarith
qed

text \<open>A loss that is always enough: per part, one and the whole units of precision in the sum.\<close>

lemma weight_loss: "m * (n - 1) \<le> ((n - 1) * (1 + m div N) + 1) * N" if "0 < N" for m n N :: nat
proof -
  have "m \<le> (1 + m div N) * N" using dividend_less_div_times [OF that, of m] by (simp add: add.commute)
  then have "m * (n - 1) \<le> (1 + m div N) * N * (n - 1)" by (rule mult_le_mono1)
  also have "\<dots> = (n - 1) * (1 + m div N) * N" by (simp only: ac_simps)
  also have "\<dots> \<le> ((n - 1) * (1 + m div N) + 1) * N" by (rule mult_le_mono1) simp
  finally show ?thesis .
qed

text \<open>A part is not missed by more than that when the sum is the whole.\<close>

lemma whole_share_near:
  assumes "0 < N" and "0 < U"
  shows "c \<le> share N U U c + 1 + U div N"
proof -
  let ?x = "share N U U c"
  have 1: "U * weight N U c < (?x + 1) * N"
    using dividend_less_div_times [OF assms(1), of "U * weight N U c"] by (simp add: share_def algebra_simps)
  have 2: "c * N < U * weight N U c + U" using weight_gt [OF assms(2), of c N] by (simp add: algebra_simps)
  have 3: "U < (1 + U div N) * N" using dividend_less_div_times [OF assms(1), of U] by (simp add: add.commute)
  have "c * N < (?x + 1) * N + (1 + U div N) * N" using 1 2 3 by linarith
  also have "\<dots> = (?x + 2 + U div N) * N" by (simp add: algebra_simps)
  finally have "c < ?x + 2 + U div N" by (rule mult_less_cancel2 [THEN iffD1, THEN conjunct2])
  then show ?thesis by simp
qed

end
