(* ===== verification/Hub_Release.thy ===== *)
theory Hub_Release
  imports Hub_Batches Proportional_Shares
begin

text \<open>
  What \<open>process_withdraw_rate\<close> promises: the coins that arrived are spread over the ready
  batches, and the wait lists of the released batches together can draw at most that.
\<close>

section \<open>One batch\<close>

text \<open>The coins assigned to a batch: lines 281 to 300 of the source as a function on numbers.\<close>

definition batch_actual :: "nat \<Rightarrow> signed_int \<Rightarrow> nat \<Rightarrow> nat" where
  "batch_actual U sl c =
     (case sl of SignedInt magnitude negative \<Rightarrow>
        let x = share dec_unit U (unat magnitude) c in
        if negative then c + (x - 1)
        else let x' = (if magnitude \<noteq> 0 then x + 1 else x) in if x' \<le> c then c - x' else x' - c)"

context cosmwasm_numbers
begin

lemma from_subtraction_abs:
  "from_subtraction l a b = Ok (SignedInt m n) \<Longrightarrow>
     unat m = (if unat b \<le> unat a then unat a - unat b else unat b - unat a)"
  by (auto simp: from_subtraction_cases unat_sub word_less_nat_alt word_le_nat_alt split: if_splits)

lemma release_batch_ok:
  assumes "release_batch l tot sl h = Ok h'"
  shows "tot \<noteq> 0 \<and> batch_amount h \<noteq> 0 \<and>
     (\<exists>r. h' = h\<lparr>withdraw_rate := r, released := True\<rparr> \<and>
        datoms r = batch_actual (unat tot) sl (batch_coins h) * dec_unit div unat (batch_amount h))"
proof -
  obtain mag neg where sl: "sl = SignedInt mag neg" by (cases sl)
  obtain c x act :: uint128 and w r where c: "unat c = batch_coins h"
    and w: "tot \<noteq> 0" "datoms w = unat c * dec_unit div unat tot"
    and x: "unat x = unat mag * datoms w div dec_unit"
    and act: "(if neg then and_then (uint_checked_sub l x 1) (uint_add l c)
        else and_then (if mag \<noteq> 0 then uint_add l x 1 else Ok x) (\<lambda>slashed'.
             and_then (from_subtraction l c slashed')
               (\<lambda>difference. case difference of SignedInt m _ \<Rightarrow> Ok m))) = Ok act"
    and r: "batch_amount h \<noteq> 0" "datoms r = unat act * dec_unit div unat (batch_amount h)"
    and h': "h' = h\<lparr>withdraw_rate := r, released := True\<rparr>"
    using assms unfolding release_batch_def sl signed_int.case and_then_eq_Ok [where b = h'] number_oks
      batch_coins_def res.inject by blast
  have xs: "unat x = share dec_unit (unat tot) (unat mag) (batch_coins h)"
    by (simp add: share_def weight_def x w c)
  have "unat act = batch_actual (unat tot) sl (batch_coins h)"
  proof (cases neg)
    case True
    with act obtain x1 :: uint128 where "unat x = 1 + unat x1" "unat act = unat c + unat x1"
      by (auto simp: number_oks)
    with True show ?thesis by (simp add: batch_actual_def sl xs [symmetric] c)
  next
    case False
    with act obtain x' df where x': "(if mag \<noteq> 0 then uint_add l x 1 else Ok x) = Ok x'"
      and df: "from_subtraction l c x' = Ok df" "(case df of SignedInt m _ \<Rightarrow> Ok m) = Ok act"
      unfolding if_not_P [OF False] and_then_eq_Ok by blast
    obtain n where d: "from_subtraction l c x' = Ok (SignedInt act n)" using df by (cases df) simp
    have ux: "unat x' = (if mag \<noteq> 0 then unat x + 1 else unat x)"
      using x' by (auto simp: number_oks split: if_splits)
    have ua: "unat act = (if unat x' \<le> unat c then unat c - unat x' else unat x' - unat c)"
      by (rule from_subtraction_abs [OF d])
    show ?thesis
      unfolding ua c ux using False by (simp add: batch_actual_def sl xs Let_def)
  qed
  with w(1) r h' show ?thesis by auto
qed

end

text \<open>The released batch is worth at most the coins assigned to it.\<close>

lemma batch_coins_released:
  assumes "datoms r = a * dec_unit div unat (batch_amount h)"
  shows "batch_coins (h\<lparr>withdraw_rate := r, released := True\<rparr>) \<le> a"
proof -
  have "unat (batch_amount h) * datoms r \<le> a * dec_unit"
    unfolding assms using div_times_less_eq_dividend by (metis mult.commute)
  then have "unat (batch_amount h) * datoms r div dec_unit \<le> a * dec_unit div dec_unit"
    by (rule div_le_mono)
  then show ?thesis by (simp add: batch_coins_def)
qed


section \<open>All ready batches\<close>

text \<open>The sum of the assigned coins is at most what arrived.\<close>

lemma batch_actual_sum:
  assumes K: "finite K" "K \<noteq> {}" and U: "(\<Sum>k\<in>K. c k) = U" "0 < U"
    and sl: "signed_value sl = int U - int A"
    and A: "0 < A" and pos: "\<And>k. k \<in> K \<Longrightarrow> 0 < c k"
    and small: "(U - A) * (card K - 1) \<le> dec_unit"
  shows "(\<Sum>k\<in>K. batch_actual U sl (c k)) \<le> A"
proof -
  obtain mag n where s: "sl = SignedInt mag n" by (cases sl)
  show ?thesis
  proof (cases n)
    case True
    then have "int (unat mag) = int A - int U" using sl by (simp add: s del: of_nat_unat)
    then have mag: "unat mag = A - U" "U \<le> A" by linarith+
    have "(\<Sum>k\<in>K. batch_actual U sl (c k)) \<le> (\<Sum>k\<in>K. c k + share dec_unit U (unat mag) (c k))"
      by (rule sum_mono) (simp add: batch_actual_def s True)
    also have "\<dots> = U + (\<Sum>k\<in>K. share dec_unit U (unat mag) (c k))"
      by (simp add: sum.distrib U(1))
    also have "\<dots> \<le> U + unat mag"
      using shares_le [OF _ U(2,1), of dec_unit "unat mag"] by simp
    finally show ?thesis using mag by simp
  next
    case False
    then have "int (unat mag) = int U - int A" using sl by (simp add: s del: of_nat_unat)
    then have mag: "unat mag = U - A" "A \<le> U" by linarith+
    show ?thesis
    proof (cases "mag = 0")
      case True
      then have "batch_actual U sl (c k) = c k" for k
        by (simp add: batch_actual_def s False share_def)
      then show ?thesis using mag True U(1) by simp
    next
      case nz: False
      have lt: "unat mag < U" using mag A U(2) by simp
      have "(\<Sum>k\<in>K. batch_actual U sl (c k)) = (\<Sum>k\<in>K. c k - (share dec_unit U (unat mag) (c k) + 1))"
      proof (rule sum.cong)
        fix k assume "k \<in> K"
        then have "share dec_unit U (unat mag) (c k) + 1 \<le> c k"
          using share_le_part(2) [of dec_unit "unat mag" U "c k"] lt U(2) pos by simp
        then show "batch_actual U sl (c k) = c k - (share dec_unit U (unat mag) (c k) + 1)"
          by (simp add: batch_actual_def s False nz)
      qed simp
      also have "\<dots> \<le> U - unat mag"
        using remainders_le [OF _ U(1) K _ lt pos, where e = 0] small mag by simp
      finally show ?thesis using mag by simp
    qed
  qed
qed

text \<open>
  Without conditions: what is assigned to a batch beyond its part of what arrived is at most one coin, and
  one more for every \<open>dec_unit\<close> coins of shortfall.
\<close>

lemma batch_actual_slashed:
  assumes "m < U" and "0 < U"
  shows "m \<noteq> 0 \<Longrightarrow> unat mag = m \<Longrightarrow> 0 < c \<Longrightarrow> batch_actual U (SignedInt mag False) c = c - (share dec_unit U m c + 1)"
    and "batch_actual U (SignedInt mag False) 0 \<le> 1"
  using share_le_part(2) [of dec_unit m U c] assms
  by (auto simp: batch_actual_def share_def weight_def Let_def Suc_le_eq unat_eq_zero)

lemma batch_actual_nothing:
  assumes "0 < U" and "unat mag = U"
  shows "batch_actual U (SignedInt mag False) c \<le> 1 + U div dec_unit"
  using share_le_part(1) [of dec_unit U U c] whole_share_near [of dec_unit U c] assms
  by (auto simp: batch_actual_def Let_def)

lemma batch_actual_sum_slack:
  assumes K: "finite K" and U: "(\<Sum>k\<in>K. c k) = U" "0 < U" and sl: "signed_value sl = int U - int A"
  shows "(\<Sum>k\<in>K. batch_actual U sl (c k)) \<le> A + card K * (1 + (U - A) div dec_unit)"
proof (cases "A < U")
  case False
  obtain mag n where s: "sl = SignedInt mag n" by (cases sl)
  have "int (unat mag) = int A - int U" using sl False by (cases n) (simp_all add: s del: of_nat_unat)
  then have mag: "unat mag = A - U" by linarith
  have "batch_actual U sl (c k) \<le> c k + share dec_unit U (unat mag) (c k)" for k
  proof (cases n)
    case False
    then have "unat mag = 0" using sl mag \<open>\<not> A < U\<close> by (simp add: s del: of_nat_unat)
    with False show ?thesis by (simp add: batch_actual_def s share_def unat_eq_zero)
  qed (simp add: batch_actual_def s)
  then have "(\<Sum>k\<in>K. batch_actual U sl (c k)) \<le> (\<Sum>k\<in>K. c k + share dec_unit U (unat mag) (c k))" by (rule sum_mono)
  also have "\<dots> = U + (\<Sum>k\<in>K. share dec_unit U (unat mag) (c k))" by (simp add: sum.distrib U(1))
  also have "\<dots> \<le> U + unat mag" using shares_le [OF _ U(2,1), of dec_unit "unat mag"] by simp
  finally show ?thesis using mag False by simp
next
  case True
  obtain mag n where s: "sl = SignedInt mag n" by (cases sl)
  have n: "\<not> n" "unat mag = U - A" using sl True by (cases n; simp add: s del: of_nat_unat)+
  show ?thesis
  proof (cases "A = 0")
    case True
    then have "batch_actual U sl (c k) \<le> 1 + U div dec_unit" for k
      using batch_actual_nothing [OF U(2), of mag] n by (simp add: s)
    then have "(\<Sum>k\<in>K. batch_actual U sl (c k)) \<le> of_nat (card K) * (1 + U div dec_unit)" by (intro sum_bounded_above) simp
    then show ?thesis using True by simp
  next
    case False
    let ?P = "{k \<in> K. 0 < c k}" and ?Z = "{k \<in> K. c k = 0}" and ?e = "\<lambda>n. (n - 1) * (1 + (U - A) div dec_unit)"
    have split: "K = ?P \<union> ?Z" "?P \<inter> ?Z = {}" "finite ?P" "finite ?Z" using K by auto
    have lt: "U - A < U" using False U(2) by simp
    have P: "(\<Sum>k\<in>?P. c k) = U" using U(1) K by (simp add: sum.mono_neutral_left [of K ?P] sum.inter_filter [symmetric])
    then have ne: "?P \<noteq> {}" using U(2) by (metis less_irrefl sum.empty)
    have "(\<Sum>k\<in>?P. batch_actual U sl (c k)) = (\<Sum>k\<in>?P. c k - (share dec_unit U (U - A) (c k) + 1))"
      using batch_actual_slashed(1) [OF lt U(2)] True n by (intro sum.cong) (auto simp: s)
    also have "\<dots> \<le> U - (U - A) + ?e (card ?P)"
      by (rule remainders_le [OF _ P split(3) ne weight_loss lt]) simp_all
    finally have 1: "(\<Sum>k\<in>?P. batch_actual U sl (c k)) \<le> A + ?e (card ?P)" using True by simp
    have "(\<Sum>k\<in>?Z. batch_actual U sl (c k)) \<le> of_nat (card ?Z) * 1"
      using batch_actual_slashed(2) [OF lt U(2)] n by (intro sum_bounded_above) (auto simp: s)
    then have 2: "(\<Sum>k\<in>?Z. batch_actual U sl (c k)) \<le> card ?Z" by simp
    have card: "card K = card ?P + card ?Z" by (subst split(1)) (rule card_Un_disjoint [OF split(3,4,2)])
    have "?e (card ?P) + card ?Z \<le> card ?P * (1 + (U - A) div dec_unit) + card ?Z * (1 + (U - A) div dec_unit)"
      by (intro add_mono mult_le_mono1) simp_all
    also have "\<dots> = card K * (1 + (U - A) div dec_unit)" by (simp add: card add_mult_distrib)
    finally have 3: "?e (card ?P) + card ?Z \<le> card K * (1 + (U - A) div dec_unit)" .
    have "(\<Sum>k\<in>K. batch_actual U sl (c k)) = (\<Sum>k\<in>?P. batch_actual U sl (c k)) + (\<Sum>k\<in>?Z. batch_actual U sl (c k))"
      by (subst split(1)) (rule sum.union_disjoint [OF split(3,4,2)])
    with 1 2 3 show ?thesis by linarith
  qed
qed

text \<open>The batches a call released.\<close>

definition is_released :: "hub_storage \<Rightarrow> u64 \<Rightarrow> bool" where
  "is_released s i = (case store_get i (history_map s) of Some h \<Rightarrow> released h | None \<Rightarrow> False)"

definition newly_released :: "hub_storage \<Rightarrow> hub_storage \<Rightarrow> u64 set" where
  "newly_released s s' = {i. is_released s' i \<and> \<not> is_released s i}"

definition coins_of :: "hub_storage \<Rightarrow> u64 \<Rightarrow> nat" where
  "coins_of s i = (case store_get i (history_map s) of Some h \<Rightarrow> batch_coins h | None \<Rightarrow> 0)"

lemma run_coins_sum: "run_coins s i j = (\<Sum>m\<in>{i..<j}. coins_of s m)"
  unfolding run_coins_def coins_of_def by (rule sum.cong) (auto split: option.splits)

text \<open>
  \<open>process_withdraw_rate\<close> on a well-formed state: it releases the batches of one interval, each
  by \<open>release_batch\<close>, and leaves the other records, the wait lists and the current batch alone.
\<close>

lemma process_withdraw_rate_released:
  assumes num: "cosmwasm_numbers l" and inv: "hub_inv s"
    and run: "process_withdraw_rate l t bal s = Ok s'" and st: "STATE s = Some st"
  obtains first j tot sl where "newly_released s s' = {first..<j}" "ready_run s t first j"
    "unat first = unat (last_processed_batch st) + 1" "unat tot = (\<Sum>i\<in>{first..<j}. coins_of s i)"
    "signed_value sl = int (unat tot) - int (arrived_coins st bal)" "wait_map s' = wait_map s"
    "\<forall>i\<in>{first..<j}. \<exists>h h'. store_get i (history_map s) = Some h \<and>
       release_batch l tot sl h = Ok h' \<and> store_get i (history_map s') = Some h'"
    "\<forall>i. i \<notin> {first..<j} \<longrightarrow> store_get i (history_map s') = store_get i (history_map s)"
proof -
  have ok: "store_ok (history_map s)" using inv by (auto simp: batch_inv_def elim!: hub_invE)
  obtain st' first j m tot sl where
    p: "STATE s = Some st'" "unat first = unat (last_processed_batch st') + 1" "ready_run s t first j" "store_ok m"
    "s' = s\<lparr>history_map := m, STATE := Some (st'\<lparr>actual_unbonded_amount := 0, last_processed_batch := j - 1\<rparr>)\<rparr>"
    "unat tot = run_coins s first j"
    "signed_value sl = int (run_coins s first j) - int (arrived_coins st' bal)"
    and get: "\<forall>k. store_get k m = store_get k (history_map s) \<and> \<not> (first \<le> k \<and> k < j) \<or>
       first \<le> k \<and> k < j \<and> (\<exists>h h'. store_get k (history_map s) = Some h \<and> release_batch l tot sl h = Ok h' \<and>
          store_get k m = Some h')"
    by (rule process_withdraw_rate_ok [OF num ok run])
  have st': "st' = st" using st p(1) by simp
  have m: "history_map s' = m" "wait_map s' = wait_map s" using p(5) by simp_all
  have inside: "\<exists>h h'. store_get i (history_map s) = Some h \<and>
       release_batch l tot sl h = Ok h' \<and> store_get i (history_map s') = Some h'" if "i \<in> {first..<j}" for i
    using get [rule_format, of i] that m(1) by auto
  have outside: "store_get i (history_map s') = store_get i (history_map s)" if "i \<notin> {first..<j}" for i
    using get [rule_format, of i] that m(1) by auto
  have "i \<in> newly_released s s' \<longleftrightarrow> i \<in> {first..<j}" for i
  proof (cases "i \<in> {first..<j}")
    case True
    then obtain h h' where h: "store_get i (history_map s) = Some h" "release_batch l tot sl h = Ok h'"
      "store_get i (history_map s') = Some h'" using inside by blast
    have "released h'" using release_batch_shape [OF h(2)] by auto
    moreover have "\<not> released h"
      using p(3) True h(1) by (auto simp: ready_run_def ready_batch_Some)
    ultimately show ?thesis using True h by (simp add: newly_released_def is_released_def)
  next
    case False
    then show ?thesis using outside by (simp add: newly_released_def is_released_def)
  qed
  then have N: "newly_released s s' = {first..<j}" by blast
  have sg: "signed_value sl = int (unat tot) - int (arrived_coins st bal)"
    using p(6,7) st' by (simp del: of_nat_unat)
  have io: "\<forall>i\<in>{first..<j}. \<exists>h h'. store_get i (history_map s) = Some h \<and>
       release_batch l tot sl h = Ok h' \<and> store_get i (history_map s') = Some h'"
    "\<forall>i. i \<notin> {first..<j} \<longrightarrow> store_get i (history_map s') = store_get i (history_map s)"
    using inside outside by blast+
  show ?thesis
    by (rule that [OF N p(3) _ _ sg m(2) io]) (use p(2,6) st' in \<open>simp_all add: run_coins_sum\<close>)
qed

lemma process_withdraw_rate_frame:
  assumes "cosmwasm_numbers l" and "hub_inv s" and "process_withdraw_rate l t bal s = Ok s'"
  shows "wait_map s' = wait_map s" and "CURRENT_BATCH s' = CURRENT_BATCH s"
    and "validators_map s' = validators_map s" and "PARAMETERS s' = PARAMETERS s"
proof -
  have "store_ok (history_map s)" using assms(2) by (auto simp: batch_inv_def elim!: hub_invE)
  then have "\<exists>m x. s' = s\<lparr>history_map := m, STATE := x\<rparr>"
    by (rule process_withdraw_rate_ok [OF assms(1) _ assms(3)]) blast
  then show "wait_map s' = wait_map s" "CURRENT_BATCH s' = CURRENT_BATCH s"
    "validators_map s' = validators_map s" "PARAMETERS s' = PARAMETERS s" by auto
qed

lemma history_after:
  assumes num: "cosmwasm_numbers l" and inv: "hub_inv s" and run: "process_withdraw_rate l t bal s = Ok s'"
  shows "store_get i (history_map s') = store_get i (history_map s) \<or>
     (\<exists>h r. store_get i (history_map s) = Some h \<and>
        store_get i (history_map s') = Some (h\<lparr>withdraw_rate := r, released := True\<rparr>))"
proof -
  obtain st b where st: "STATE s = Some st" using inv by (rule hub_invE)
  obtain first j tot sl where "newly_released s s' = {first..<j}" "ready_run s t first j"
    "unat first = unat (last_processed_batch st) + 1" "unat tot = (\<Sum>i\<in>{first..<j}. coins_of s i)"
    "signed_value sl = int (unat tot) - int (arrived_coins st bal)" "wait_map s' = wait_map s"
    and inside: "\<forall>i\<in>{first..<j}. \<exists>h h'. store_get i (history_map s) = Some h \<and>
       release_batch l tot sl h = Ok h' \<and> store_get i (history_map s') = Some h'"
    and outside: "\<forall>i. i \<notin> {first..<j} \<longrightarrow> store_get i (history_map s') = store_get i (history_map s)"
    by (rule process_withdraw_rate_released [OF num inv run st])
  then show ?thesis using release_batch_shape by (cases "i \<in> {first..<j}") blast+
qed

lemma history_dom:
  assumes "cosmwasm_numbers l" and "hub_inv s" and "process_withdraw_rate l t bal s = Ok s'"
  shows "store_get i (history_map s') = None \<longleftrightarrow> store_get i (history_map s) = None"
  using history_after [OF assms, of i] by auto

lemma history_time:
  assumes "cosmwasm_numbers l" and "hub_inv s" and "process_withdraw_rate l t bal s = Ok s'"
    and "store_get i (history_map s) = Some h"
  shows "\<exists>h'. store_get i (history_map s') = Some h' \<and> batch_time h' = batch_time h"
  using history_after [OF assms(1-3), of i] assms(4) by auto

text \<open>The released batches are worth at most the coins assigned to them.\<close>

lemma released_coins_actual:
  assumes num: "cosmwasm_numbers l" and inv: "hub_inv s"
    and run: "process_withdraw_rate l t bal s = Ok s'" and st: "STATE s = Some st" and N: "N = newly_released s s'" "N \<noteq> {}"
  obtains sl where "0 < (\<Sum>i\<in>N. coins_of s i)" "signed_value sl = int (\<Sum>i\<in>N. coins_of s i) - int (arrived_coins st bal)"
    "(\<Sum>i\<in>N. coins_of s' i) \<le> (\<Sum>i\<in>N. batch_actual (\<Sum>i\<in>N. coins_of s i) sl (coins_of s i))"
proof -
  obtain first j tot sl where I: "newly_released s s' = {first..<j}" and "ready_run s t first j"
    and "unat first = unat (last_processed_batch st) + 1" and tot: "unat tot = (\<Sum>i\<in>{first..<j}. coins_of s i)"
    and sl: "signed_value sl = int (unat tot) - int (arrived_coins st bal)" and "wait_map s' = wait_map s"
    and inside: "\<forall>i\<in>{first..<j}. \<exists>h h'. store_get i (history_map s) = Some h \<and>
       release_batch l tot sl h = Ok h' \<and> store_get i (history_map s') = Some h'"
    and "\<forall>i. i \<notin> {first..<j} \<longrightarrow> store_get i (history_map s') = store_get i (history_map s)"
    by (rule process_withdraw_rate_released [OF num inv run st])
  have N': "N = {first..<j}" using N(1) I by simp
  have le: "coins_of s' i \<le> batch_actual (unat tot) sl (coins_of s i)" if i: "i \<in> N" for i
  proof -
    obtain h h' where h: "store_get i (history_map s) = Some h" "release_batch l tot sl h = Ok h'"
      "store_get i (history_map s') = Some h'" using inside i N' by blast
    then obtain r where "h' = h\<lparr>withdraw_rate := r, released := True\<rparr>"
      "datoms r = batch_actual (unat tot) sl (batch_coins h) * dec_unit div unat (batch_amount h)"
      using cosmwasm_numbers.release_batch_ok [OF num h(2)] by blast
    with batch_coins_released h(1,3) show ?thesis by (simp add: coins_of_def)
  qed
  obtain i where "i \<in> N" using N(2) by blast
  then obtain h h' where "release_batch l tot sl h = Ok h'" using inside N' by blast
  then have "tot \<noteq> 0" using cosmwasm_numbers.release_batch_ok [OF num] by blast
  then have "0 < unat tot" by (simp add: unat_gt_0)
  moreover have "unat tot = (\<Sum>i\<in>N. coins_of s i)" using tot by (simp add: N')
  moreover have "(\<Sum>i\<in>N. coins_of s' i) \<le> (\<Sum>i\<in>N. batch_actual (unat tot) sl (coins_of s i))" by (rule sum_mono [OF le])
  ultimately show ?thesis using sl by (intro that [of sl]) simp_all
qed

text \<open>So they are worth at most what arrived, exactly or up to the rounding.\<close>

lemma released_coins_le:
  assumes num: "cosmwasm_numbers l" and inv: "hub_inv s"
    and run: "process_withdraw_rate l t bal s = Ok s'" and st: "STATE s = Some st"
    and A: "0 < arrived_coins st bal" and pos: "\<And>i. i \<in> newly_released s s' \<Longrightarrow> 0 < coins_of s i"
    and small: "((\<Sum>i\<in>newly_released s s'. coins_of s i) - arrived_coins st bal) * (card (newly_released s s') - 1) \<le> dec_unit"
  shows "(\<Sum>i\<in>newly_released s s'. coins_of s' i) \<le> arrived_coins st bal"
proof (cases "newly_released s s' = {}")
  case False
  with num inv run st refl show ?thesis
  proof (rule released_coins_actual)
    fix sl
    assume a: "0 < (\<Sum>i\<in>newly_released s s'. coins_of s i)"
      "signed_value sl = int (\<Sum>i\<in>newly_released s s'. coins_of s i) - int (arrived_coins st bal)"
      "(\<Sum>i\<in>newly_released s s'. coins_of s' i) \<le> (\<Sum>i\<in>newly_released s s'. batch_actual (\<Sum>i\<in>newly_released s s'. coins_of s i) sl (coins_of s i))"
    note a(3)
    also have "\<dots> \<le> arrived_coins st bal" by (rule batch_actual_sum [OF finite False refl a(1,2) A pos small])
    finally show ?thesis .
  qed
qed simp

lemma released_coins_slack:
  assumes num: "cosmwasm_numbers l" and inv: "hub_inv s"
    and run: "process_withdraw_rate l t bal s = Ok s'" and st: "STATE s = Some st"
  shows "(\<Sum>i\<in>newly_released s s'. coins_of s' i) \<le> arrived_coins st bal +
     card (newly_released s s') * (1 + ((\<Sum>i\<in>newly_released s s'. coins_of s i) - arrived_coins st bal) div dec_unit)"
proof (cases "newly_released s s' = {}")
  case False
  with num inv run st refl show ?thesis
  proof (rule released_coins_actual)
    fix sl
    assume a: "0 < (\<Sum>i\<in>newly_released s s'. coins_of s i)"
      "signed_value sl = int (\<Sum>i\<in>newly_released s s'. coins_of s i) - int (arrived_coins st bal)"
      "(\<Sum>i\<in>newly_released s s'. coins_of s' i) \<le> (\<Sum>i\<in>newly_released s s'. batch_actual (\<Sum>i\<in>newly_released s s'. coins_of s i) sl (coins_of s i))"
    note a(3)
    also note batch_actual_sum_slack [OF finite refl a(1,2)]
    finally show ?thesis .
  qed
qed simp


section \<open>What the wait lists can draw\<close>

definition due_in :: "hub_storage \<Rightarrow> u64 set \<Rightarrow> nat" where
  "due_in s N = store_sum (\<lambda>k v. if snd k \<in> N then entry_due s (snd k) v else 0) (wait_map s)"

lemma sum_list_div_le:
  "sum_list (map (\<lambda>x. f x * r div n) xs) \<le> sum_list (map f xs) * r div n" for f :: "'a \<Rightarrow> nat"
proof (induction xs)
  case (Cons x xs)
  have "f x * r div n + sum_list (map f xs) * r div n \<le> (f x * r + sum_list (map f xs) * r) div n"
    by (simp add: div_add1_eq [of "f x * r"])
  with Cons show ?case by (simp add: add_mult_distrib)
qed simp

lemma due_one_le:
  assumes "store_get i (history_map s) = Some h" and "batch_waits s i \<le> unat (batch_amount h)"
  shows "due_in s {i} \<le> coins_of s i"
proof -
  let ?r = "datoms (withdraw_rate h)" and ?f = "\<lambda>(k, v). if snd k = i then unat v else 0"
  have "due_in s {i} \<le> sum_list (map (\<lambda>x. ?f x * ?r div dec_unit) (wait_map s))"
    unfolding due_in_def store_sum_def
    by (rule sum_list_map_mono) (auto simp: entry_due_def assms(1))
  also have "\<dots> \<le> sum_list (map ?f (wait_map s)) * ?r div dec_unit" by (rule sum_list_div_le)
  also have "sum_list (map ?f (wait_map s)) = batch_waits s i"
    by (simp add: batch_waits_def waits_in_def store_sum_def)
  also have "batch_waits s i * ?r div dec_unit \<le> unat (batch_amount h) * ?r div dec_unit"
    by (intro div_le_mono mult_le_mono1 assms(2))
  finally show ?thesis by (simp add: coins_of_def assms(1) batch_coins_def)
qed

lemma due_in_sum: "finite N \<Longrightarrow> due_in s N = (\<Sum>i\<in>N. due_in s {i})"
proof -
  assume N: "finite N"
  have "(\<Sum>(k, v)\<leftarrow>m. if snd k \<in> N then entry_due s (snd k) v else 0) =
      (\<Sum>i\<in>N. \<Sum>(k, v)\<leftarrow>m. if snd k \<in> {i} then entry_due s (snd k) v else 0)" for m :: "((string \<times> u64) \<times> uint128) list"
  proof (induction m)
    case (Cons x m)
    obtain u b v where x: "x = ((u, b), v)" by (metis surj_pair)
    have "(\<Sum>i\<in>N. if b = i then entry_due s b v else 0) = (if b \<in> N then entry_due s b v else 0)"
      using N by (simp add: sum.delta)
    with Cons show ?case by (simp add: x sum.distrib)
  qed simp
  then show ?thesis by (simp add: due_in_def store_sum_def)
qed

text \<open>In a well-formed state the wait lists of a closed batch draw at most what the batch is worth.\<close>

lemma due_in_le_coins:
  assumes "hub_inv s" and "\<And>i. i \<in> N \<Longrightarrow> store_get i (history_map s) \<noteq> None"
  shows "due_in s N \<le> (\<Sum>i\<in>N. coins_of s i)"
proof -
  have "due_in s {i} \<le> coins_of s i" if i: "i \<in> N" for i
  proof -
    obtain h where h: "store_get i (history_map s) = Some h" using assms(2) [OF i] by blast
    then have "batch_waits s i \<le> unat (batch_amount h)"
      using assms(1) by (auto simp: batch_inv_def history_inv_def elim!: hub_invE)
    with h show ?thesis by (rule due_one_le)
  qed
  then show ?thesis by (subst due_in_sum) (auto intro: sum_mono)
qed


section \<open>No mature batch is left behind\<close>

lemma released_iff_mature:
  assumes num: "cosmwasm_numbers l" and inv: "hub_inv s"
    and run: "process_withdraw_rate l t bal s = Ok s'" and g: "store_get i (history_map s) = Some h"
  shows "is_released s' i \<longleftrightarrow> released h \<or> batch_time h \<le> t"
proof -
  from inv obtain st b where st: "STATE s = Some st" and bi: "batch_inv s st b" by (rule hub_invE)
  obtain first j tot sl where N: "newly_released s s' = {first..<j}" and run: "ready_run s t first j"
    and f: "unat first = unat (last_processed_batch st) + 1" and tot: "unat tot = (\<Sum>i\<in>{first..<j}. coins_of s i)"
    and sl: "signed_value sl = int (unat tot) - int (arrived_coins st bal)" and w: "wait_map s' = wait_map s"
    and inside: "\<forall>i\<in>{first..<j}. \<exists>h h'. store_get i (history_map s) = Some h \<and>
       release_batch l tot sl h = Ok h' \<and> store_get i (history_map s') = Some h'"
    and outside: "\<forall>i. i \<notin> {first..<j} \<longrightarrow> store_get i (history_map s') = store_get i (history_map s)"
    by (rule process_withdraw_rate_released [OF num inv run st])
  have hi: "history_inv s st k h" if "store_get k (history_map s) = Some h" for k h
    using bi that by (simp add: batch_inv_def)
  have dom: "store_get k (history_map s) \<noteq> None \<longleftrightarrow> 1 \<le> k \<and> k < cb_id b" for k
    using bi by (simp add: batch_inv_def)
  have fj: "first \<le> j" using run by (simp add: ready_run_def)
  have lt: "k \<le> last_processed_batch st \<longleftrightarrow> k < first" for k
    using f by (simp add: word_le_nat_alt word_less_nat_alt less_Suc_eq_le)
  have rel: "released h \<longleftrightarrow> k < first" if "store_get k (history_map s) = Some h" for k h
    using hi [OF that] unfolding history_inv_def lt by blast
  show ?thesis
  proof (cases "i \<in> {first..<j}")
    case True
    then have "i \<in> newly_released s s'" unfolding N .
    then have "is_released s' i" by (simp add: newly_released_def)
    moreover have "ready_batch s t i \<noteq> None" using run True by (simp add: ready_run_def)
    then have "batch_time h \<le> t" using g by (auto simp: ready_batch_Some)
    ultimately show ?thesis by simp
  next
    case False
    then have same: "is_released s' i \<longleftrightarrow> released h" using outside g by (simp add: is_released_def)
    have "t < batch_time h" if nr: "\<not> released h"
    proof -
      have "first \<le> i" using rel [OF g] nr by simp
      then have ij: "j \<le> i" using False by simp
      have "i < cb_id b" using dom [of i] g by simp
      have "unat first \<le> unat j" using fj by (simp add: word_le_nat_alt)
      then have "1 \<le> j" using f by (simp add: word_le_nat_alt)
      moreover have "j < cb_id b" using ij \<open>i < cb_id b\<close> by simp
      ultimately have "store_get j (history_map s) \<noteq> None" using dom by blast
      then obtain hj where hj: "store_get j (history_map s) = Some hj" by blast
      have "\<not> released hj" using rel [OF hj] fj by simp
      moreover have "ready_batch s t j \<noteq> Some hj" using run by (simp add: ready_run_def)
      ultimately have "t < batch_time hj" using hj by (simp add: ready_batch_Some)
      also have "batch_time hj \<le> batch_time h" using hi [OF g] hj ij unfolding history_inv_def by blast
      finally show ?thesis .
    qed
    then show ?thesis using same by auto
  qed
qed

end
