(* ===== verification/Example_Hub.thy ===== *)
theory Example_Hub
  imports Hub_Batches Example_Chain
begin

text \<open>
  Concrete states of the hub for the witnesses: one in the middle of its life, with a mature and an open
  batch, and one that is reached step by step from instantiation.
\<close>

section \<open>A hub with a mature batch\<close>

definition example_hub_config :: hub_config where
  "example_hub_config = \<lparr>creator = [111], reward_contract = Some [114], token_contract = Some [116],
     airdrop_registry_contract = Some [103]\<rparr>"

definition example_params :: parameters where
  "example_params = \<lparr>epoch_period = 30, underlying_coin_denom = ''uluna'', unbonding_period = 100,
     peg_recovery_fee = Decimal 5000000000000000, er_threshold = decimal_one, reward_denom = ''uusd''\<rparr>"

definition example_state :: hub_state where
  "example_state = \<lparr>exchange_rate = decimal_one, total_bond_amount = 1000, last_index_modification = 0,
     prev_hub_balance = 420, actual_unbonded_amount = 0, last_unbonded_time = 1000000, last_processed_batch = 0\<rparr>"

definition example_history :: unbond_history where
  "example_history = \<lparr>batch_id = 1, batch_time = 1000000, batch_amount = 80,
     applied_exchange_rate = decimal_one, withdraw_rate = decimal_one, released = False\<rparr>"

text \<open>Batch 1 is closed and mature, with two requests; batch 2 is open.\<close>

definition example_hub :: hub_storage where
  "example_hub = \<lparr>CONFIG = Some example_hub_config, PARAMETERS = Some example_params,
     CURRENT_BATCH = Some \<lparr>cb_id = 2, requested_with_fee = 100\<rparr>, STATE = Some example_state,
     wait_map = [((''a'', 1), 50), ((''b'', 1), 30), ((''a'', 2), 100)],
     history_map = [(1, example_history)], validators_map = [(''v1'', True), (''v2'', True)]\<rparr>"

lemmas example_hub_eval = example_hub_def example_hub_config_def example_params_def example_state_def
  example_history_def

lemma example_hub_inv: "hub_inv example_hub"
proof -
  have id: "1 \<le> i \<and> i < 2 \<longleftrightarrow> i = 1" for i :: u64
  proof -
    have "1 \<le> unat i \<and> unat i < 2 \<longleftrightarrow> unat i = 1" by linarith
    then show ?thesis by (simp add: word_le_nat_alt word_less_nat_alt word_unat_eq_iff)
  qed
  have "batch_inv example_hub example_state \<lparr>cb_id = 2, requested_with_fee = 100\<rparr>"
    unfolding batch_inv_def history_inv_def current_batch.simps id
    by (auto simp: example_hub_eval store_ok_def store_get_def batch_waits_def waits_in_def store_sum_def
        split: if_splits)
  then show ?thesis by (simp add: hub_inv_def example_hub_def store_ok_def)
qed

definition released_hub :: hub_storage where
  "released_hub = example_hub\<lparr>history_map := [(1, example_history\<lparr>released := True\<rparr>)],
     STATE := Some (example_state\<lparr>last_processed_batch := 1\<rparr>)\<rparr>"

lemma example_processed:
  "process_withdraw_rate std_lib 1999900 500 example_hub = Ok released_hub"
  by (simp add: process_withdraw_rate_def released_hub_def example_hub_eval std_eval from_subtraction_def
      sum_unbonded.simps release_batches.simps ready_batch_def read_unbond_history_def store_get_def
      release_batch_def u64_add_def store_unbond_history_def store_set_def store_remove_def)

lemma example_withdrawn:
  "\<exists>resp. messages resp = [BankSend ''a'' [Coin ''uluna'' 50]] \<and>
     execute_withdraw_unbonded example_deps example_env (example_info ''a'') example_hub =
     Ok (released_hub\<lparr>wait_map := [((''b'', 1), 30), ((''a'', 2), 100)],
          STATE := Some (example_state\<lparr>last_processed_batch := 1, prev_hub_balance := 450\<rparr>)\<rparr>, resp)"
proof -
  have 1: "PARAMETERS example_hub = Some example_params" "u64_sub 2000000 (unbonding_period example_params) = Ok 1999900"
    "underlying_coin_denom example_params = ''uluna''"
    by (simp_all add: example_hub_def example_params_def u64_sub_def)
  have 2: "get_finished_amount std_lib released_hub ''a'' = Ok 50" "get_unbond_batches released_hub ''a'' = Ok [1]"
    by (simp_all add: get_finished_amount_def get_unbond_batches_def wait_bucket_def released_hub_def example_hub_eval
        read_unbond_history_def store_get_def std_eval)
  show ?thesis
    by (simp add: execute_withdraw_unbonded_def example_info_def example_env_def example_querier_eval 1
        example_processed 2 remove_unbond_wait_list_def std_eval)
      (simp add: released_hub_def example_hub_def store_remove_def)
qed


section \<open>A life\<close>

text \<open>A hub that was instantiated, told its contracts, and has closed its first batch.\<close>

definition life_config :: hub_config where
  "life_config = \<lparr>creator = [111], reward_contract = None, token_contract = None, airdrop_registry_contract = None\<rparr>"

definition life_state :: hub_state where
  "life_state = \<lparr>exchange_rate = decimal_one, total_bond_amount = 200, last_index_modification = 2000000, prev_hub_balance = 0,
     actual_unbonded_amount = 0, last_unbonded_time = 2000000, last_processed_batch = 0\<rparr>"

definition life_hub :: hub_storage where
  "life_hub = \<lparr>CONFIG = Some life_config, PARAMETERS = Some example_params,
     CURRENT_BATCH = Some \<lparr>cb_id = 1, requested_with_fee = 0\<rparr>, STATE = Some life_state,
     wait_map = [], history_map = [], validators_map = []\<rparr>"

definition wired_config :: hub_config where
  "wired_config = life_config\<lparr>reward_contract := Some [114], token_contract := Some [116]\<rparr>"

definition later_env :: env where
  "later_env = example_env\<lparr>block_seconds := 2000100\<rparr>"

lemma life_instantiated:
  "\<exists>resp. hub_instantiate example_deps example_env (example_info ''o'') \<lparr>im_epoch_period = 30,
      im_underlying_coin_denom = ''uluna'', im_unbonding_period = 100, im_peg_recovery_fee = Decimal 5000000000000000,
      im_er_threshold = decimal_one, im_reward_denom = ''uusd'', im_validator = ''v1''\<rparr> empty_hub_storage = Ok (life_hub, resp)"
  by (simp add: hub_instantiate_def example_eval empty_hub_storage_def life_hub_def life_config_def life_state_def
      example_params_def example_info_def example_env_def)

lemma life_configured:
  "\<exists>resp. hub_execute example_deps example_env (example_info ''o'') (HubUpdateConfig None (Some ''r'') (Some ''t'') None) life_hub =
     Ok (life_hub\<lparr>CONFIG := Some wired_config\<rparr>, resp)"
  by (simp add: hub_execute_def execute_update_config_def update_config_field_def life_hub_def life_config_def wired_config_def
      example_info_def example_api_eval)

definition life_rate :: hub_state where
  "life_rate = life_state\<lparr>exchange_rate := Decimal 200000000000000000\<rparr>"

definition life_waiting :: hub_storage where
  "life_waiting = life_hub\<lparr>CONFIG := Some wired_config, wait_map := store_set (wait_enc std_lib) (''u'', 1) 100 []\<rparr>"

lemma life_closed:
  "\<exists>s' msgs. close_batch example_deps later_env life_rate \<lparr>cb_id = 1, requested_with_fee = 100\<rparr> life_waiting =
      Ok (s', life_rate\<lparr>total_bond_amount := 180, last_unbonded_time := 2000100\<rparr>, \<lparr>cb_id = 2, requested_with_fee = 0\<rparr>, msgs) \<and>
      CONFIG s' = Some wired_config \<and> map fst (history_map s') = [1] \<and> wait_map s' = [((''u'', 1), 100)]"
proof -
  have m: "(12345 :: nat) mod Suc (Suc 0) = 1" by (simp add: numeral_2_eq_2 [symmetric])
  have "\<exists>msgs. pick_validator example_deps life_waiting 20 ''hub'' 12345 = Ok msgs"
    by (simp add: pick_validator_def life_waiting_def life_hub_def example_params_def example_querier_eval pick_loop.simps
        u64_add_def std_eval remove_nth_def m)
  moreover have "uint_mul_decimal std_lib 100 (exchange_rate life_rate) = Ok 20"
    "uint_checked_sub std_lib (total_bond_amount life_rate) 20 = Ok 180"
    by (simp_all add: life_rate_def life_state_def std_eval)
  ultimately show ?thesis
    by (auto simp: close_batch_def later_env_def example_env_def store_unbond_history_def u64_add_def
        life_waiting_def life_hub_def store_set_def store_remove_def)
qed

lemma life_unbonded:
  "\<exists>s' resp. hub_execute example_deps later_env (example_info ''t'') (Receive \<lparr>cw20_sender = ''u'', cw20_amount = 100, cw20_payload = []\<rparr>)
      (life_hub\<lparr>CONFIG := Some wired_config\<rparr>) = Ok (s', resp) \<and> map fst (history_map s') = [1] \<and> wait_map s' = [((''u'', 1), 100)]"
proof -
  let ?s = "life_hub\<lparr>CONFIG := Some wired_config\<rparr>"
  have 1: "PARAMETERS ?s = Some example_params" "epoch_period example_params = 30" "STATE ?s = Some life_state"
    "CURRENT_BATCH ?s = Some \<lparr>cb_id = 1, requested_with_fee = 0\<rparr>" "block_seconds later_env = 2000100"
    by (simp_all add: life_hub_def example_params_def later_env_def example_env_def)
  have q: "query_total_issued example_deps ?s = Ok 1000"
    by (simp add: query_total_issued_def wired_config_def example_eval)
  have 2: "slashing example_deps later_env ?s = Ok ?s"
    by (simp add: slashing_def 1 q life_state_def example_params_def example_querier_eval sum_delegations_def std_eval)
  have 3: "unbond_with_fee std_lib example_params life_state 1000 0 100 = Ok 100"
    by (simp add: unbond_with_fee_def life_state_def example_params_def decimal_less_iff)
  have 4: "store_unbond_wait_list std_lib 1 ''u'' 100 ?s = Ok life_waiting"
    by (simp add: store_unbond_wait_list_def life_waiting_def life_hub_def store_get_def std_eval)
  have 5: "update_exchange_rate std_lib 900 100 life_state = Ok life_rate" "last_unbonded_time life_rate = 2000000"
    by (simp_all add: update_exchange_rate_def life_rate_def life_state_def std_eval)
  have 6: "CONFIG ?s = Some wired_config" "token_contract wired_config = Some [116]"
    by (simp_all add: wired_config_def)
  obtain s' msgs where 7: "close_batch example_deps later_env life_rate \<lparr>cb_id = 1, requested_with_fee = 100\<rparr> life_waiting =
      Ok (s', life_rate\<lparr>total_bond_amount := 180, last_unbonded_time := 2000100\<rparr>, \<lparr>cb_id = 2, requested_with_fee = 0\<rparr>, msgs)"
    "CONFIG s' = Some wired_config" "map fst (history_map s') = [1]" "wait_map s' = [((''u'', 1), 100)]"
    using life_closed by (elim exE conjE) (rule that)
  show ?thesis
    using 7(3,4)
    by (simp add: hub_execute_def receive_cw20_def execute_unbond_def 1 2 3 4 5 6 7(1,2) q u64_sub_def std_eval
        example_info_def example_api_eval)
qed

lemma example_history_reachable: 
  "\<exists>s. hub_reachable std_lib s \<and> map fst (history_map s) = [1] \<and> wait_map s = [((''u'', 1), 100)]"
proof -
  have l: "dlib example_deps = std_lib" by simp
  have 1: "hub_reachable std_lib life_hub" using life_instantiated by (elim exE) (rule hub_reachable.hub_instantiated)
  have 2: "hub_reachable std_lib (life_hub\<lparr>CONFIG := Some wired_config\<rparr>)"
    using life_configured by (elim exE) (rule hub_reachable.hub_executed [OF 1 l])
  from life_unbonded show ?thesis
    by (elim exE conjE) (intro exI conjI, rule hub_reachable.hub_executed [OF 2 l])
qed

end
