(* ===== verification/Hub_Batch_Properties.thy ===== *)
theory Hub_Batch_Properties
  imports Hub_Release Example_Hub
begin

text \<open>
  The properties of the hub's batches: the accounting in every reachable state, the release of mature
  batches, and withdrawals.
\<close>

section \<open>Accounting\<close>

text \<open>
  C1.  In every state the hub can reach, the wait lists of the open batch add up to its requested
  amount; exactly the batches before it are in the history, and the released ones are those up to
  \<open>last_processed_batch\<close>; the wait lists of a closed batch add up to exactly its amount until it
  is released and never to more.
\<close>

theorem hub_batches_accounted:
  assumes "cosmwasm_numbers l" and "hub_reachable l s"
  shows "\<exists>st b. STATE s = Some st \<and> CURRENT_BATCH s = Some b \<and>
     batch_waits s (cb_id b) = unat (requested_with_fee b) \<and>
     (\<forall>i. store_get i (history_map s) \<noteq> None \<longleftrightarrow> 1 \<le> i \<and> i < cb_id b) \<and>
     (\<forall>i h. store_get i (history_map s) = Some h \<longrightarrow>
        batch_id h = i \<and> (released h \<longleftrightarrow> i \<le> last_processed_batch st) \<and>
        batch_waits s i \<le> unat (batch_amount h) \<and>
        (\<not> released h \<longrightarrow> batch_waits s i = unat (batch_amount h)))"
proof -
  have "hub_inv s" using hub_reachable_inv assms by blast
  then obtain st b where sb: "STATE s = Some st" "CURRENT_BATCH s = Some b" and bi: "batch_inv s st b"
    by (rule hub_invE)
  have "history_inv s st i h" if "store_get i (history_map s) = Some h" for i h
    using bi that by (simp add: batch_inv_def)
  then show ?thesis using sb bi unfolding history_inv_def batch_inv_def by blast
qed

theorem hub_batches_accounted_witness:
  "\<exists>s h. hub_reachable std_lib s \<and> store_get 1 (history_map s) = Some h \<and> batch_id h = 1 \<and> batch_waits s 1 = 100 \<and>
     100 \<le> unat (batch_amount h)"
proof -
  obtain s where s: "hub_reachable std_lib s" "map fst (history_map s) = [1]" "wait_map s = [((''u'', 1), 100)]"
    using example_history_reachable by (elim exE conjE) (rule that)
  then obtain h where h: "store_get 1 (history_map s) = Some h" by (cases "history_map s") (auto simp: store_get_def)
  moreover have "batch_waits s 1 = 100" by (simp add: batch_waits_def waits_in_def store_sum_def s(3))
  ultimately show ?thesis
    using hub_batches_accounted [OF std_num.cosmwasm_numbers_axioms s(1)] s(1) by force
qed

text \<open>
  C14.  Processing withdrawals releases exactly the mature batches: a closed batch is released
  afterwards if and only if it was before or its time is not after the given one; a batch released
  earlier keeps its rate, and no amount changes.
\<close>

theorem release_exactly_mature:
  assumes num: "cosmwasm_numbers l" and inv: "hub_inv s"
    and run: "process_withdraw_rate l t bal s = Ok s'"
    and h: "store_get i (history_map s) = Some h"
  shows "\<exists>h'. store_get i (history_map s') = Some h' \<and>
     (released h' \<longleftrightarrow> released h \<or> batch_time h \<le> t) \<and>
     (released h \<longrightarrow> h' = h) \<and> batch_amount h' = batch_amount h \<and> wait_map s' = wait_map s"
proof -
  obtain st b where st: "STATE s = Some st" using inv by (rule hub_invE)
  obtain first j tot sl where N: "newly_released s s' = {first..<j}" and rdy: "ready_run s t first j"
    and "unat first = unat (last_processed_batch st) + 1" "unat tot = (\<Sum>i\<in>{first..<j}. coins_of s i)"
    and "signed_value sl = int (unat tot) - int (arrived_coins st bal)" and w: "wait_map s' = wait_map s"
    and inside: "\<forall>i\<in>{first..<j}. \<exists>h h'. store_get i (history_map s) = Some h \<and>
       release_batch l tot sl h = Ok h' \<and> store_get i (history_map s') = Some h'"
    and outside: "\<forall>i. i \<notin> {first..<j} \<longrightarrow> store_get i (history_map s') = store_get i (history_map s)"
    by (rule process_withdraw_rate_released [OF num inv run st])
  note rel = released_iff_mature [OF num inv run h]
  show ?thesis
  proof (cases "i \<in> {first..<j}")
    case True
    then obtain h' where h': "release_batch l tot sl h = Ok h'" "store_get i (history_map s') = Some h'"
      using inside h by fastforce
    have "ready_batch s t i \<noteq> None" using True rdy by (simp add: ready_run_def)
    then have "\<not> released h" using h by (auto simp: ready_batch_Some)
    then show ?thesis
      using h' w rel release_batch_shape [OF h'(1)] by (auto simp: is_released_def)
  next
    case False
    then have "store_get i (history_map s') = Some h" using outside h by simp
    with rel w show ?thesis by (simp add: is_released_def)
  qed
qed

theorem release_exactly_mature_witness:
  "\<exists>h'. store_get 1 (history_map released_hub) = Some h' \<and> released h' \<and> batch_amount h' = 80"
proof -
  have "store_get 1 (history_map example_hub) = Some example_history"
    by (simp add: example_hub_def store_get_def)
  from release_exactly_mature [OF std_num.cosmwasm_numbers_axioms example_hub_inv example_processed this]
  show ?thesis by (auto simp: example_history_def)
qed

text \<open>
  The requests of the batches a call released draw at most what these batches are worth.
\<close>

lemma due_newly_released:
  assumes "cosmwasm_numbers l" and "hub_inv s" and "process_withdraw_rate l t bal s = Ok s'"
  shows "due_in s' (newly_released s s') \<le> (\<Sum>i\<in>newly_released s s'. coins_of s' i)"
  by (rule due_in_le_coins [OF process_withdraw_rate_inv [OF assms]])
    (auto simp: newly_released_def is_released_def split: option.splits)

text \<open>
  C9.  What a release promises against what arrived, which for the code is the amount still recorded as
  unbonded and the change of the hub's balance since it was last recorded, in either direction.  All wait lists of the batches released in
  one call can together draw at most what arrived and one coin per batch, as long as less than
  \<open>dec_unit\<close> coins are missing, and one more coin per batch for every further \<open>dec_unit\<close> coins missing;
  and they can draw no more than what arrived when something arrived, every batch that is released was
  worth something and the shortfall times the number of further batches is at most \<open>dec_unit\<close>.
\<close>

theorem release_within_arrived:
  assumes "cosmwasm_numbers l" and "hub_inv s" and "process_withdraw_rate l t bal s = Ok s'" and "STATE s = Some st"
  shows "due_in s' (newly_released s s') \<le> arrived_coins st bal +
       card (newly_released s s') * (1 + ((\<Sum>i\<in>newly_released s s'. coins_of s i) - arrived_coins st bal) div dec_unit) \<and>
     (0 < arrived_coins st bal \<and> (\<forall>i\<in>newly_released s s'. 0 < coins_of s i) \<and>
      ((\<Sum>i\<in>newly_released s s'. coins_of s i) - arrived_coins st bal) * (card (newly_released s s') - 1) \<le> dec_unit \<longrightarrow>
      due_in s' (newly_released s s') \<le> arrived_coins st bal)"
  using due_newly_released [OF assms(1-3)] released_coins_slack [OF assms] released_coins_le [OF assms]
  by (meson le_trans)

theorem release_within_arrived_witness:
  "arrived_coins example_state 500 = 80 \<and> due_in released_hub (newly_released example_hub released_hub) \<le> 80"
proof -
  have st: "STATE example_hub = Some example_state" by (simp add: example_hub_def)
  have A: "arrived_coins example_state 500 = 80" by (simp add: arrived_coins_def example_state_def)
  have N: "newly_released example_hub released_hub = {1}"
    by (auto simp: newly_released_def is_released_def released_hub_def example_hub_eval store_get_def split: if_splits)
  have c: "coins_of example_hub 1 = 80"
    by (simp add: coins_of_def batch_coins_def example_hub_eval store_get_def dec_unit_def)
  show ?thesis
    using release_within_arrived [OF std_num.cosmwasm_numbers_axioms example_hub_inv example_processed st]
    unfolding N A by (simp add: c A)
qed


section \<open>Withdrawing\<close>

lemma released_batches_mem:
  "i \<in> set (released_batches s bs) \<longleftrightarrow> i \<in> set bs \<and> is_released s i"
  by (auto simp: released_batches_def is_released_def)

lemma bucket_ids: "store_ok (wait_map s) \<Longrightarrow> i \<in> set (map fst (wait_bucket s u)) \<longleftrightarrow> store_get (u, i) (wait_map s) \<noteq> None"
proof -
  assume ok: "store_ok (wait_map s)"
  have "i \<in> set (map fst (wait_bucket s u)) \<longleftrightarrow> (\<exists>v. (i, v) \<in> set (wait_bucket s u))" by force
  also have "\<dots> \<longleftrightarrow> (\<exists>v. store_get (u, i) (wait_map s) = Some v)"
    by (simp add: wait_bucket_iff store_get_entries [OF ok])
  finally show ?thesis by simp
qed

text \<open>
  C10.  A withdrawal first releases the mature batches, then pays the sender exactly what his requests
  in released batches are worth at their rates; those requests are deleted, every other request of his
  and of everybody else stays, and the recorded balance is the hub's balance less the payment.
\<close>

theorem withdraw_pays_released:
  assumes num: "cosmwasm_numbers (dlib d)" and inv: "hub_inv s"
    and run: "execute_withdraw_unbonded d e info s = Ok (s', resp)"
  shows "\<exists>params t bal s1 st'. PARAMETERS s = Some params \<and>
     unat (block_seconds e) = unat (unbonding_period params) + unat t \<and>
     query_balance (dquerier d) (contract_address e) (underlying_coin_denom params) = Ok bal \<and>
     process_withdraw_rate (dlib d) t (amount bal) s = Ok s1 \<and>
     messages resp = [BankSend (sender info)
       [Coin (underlying_coin_denom params) (of_nat (released_due s1 (sender info)))]] \<and>
     0 < released_due s1 (sender info) \<and>
     STATE s' = Some st' \<and> unat (prev_hub_balance st') + released_due s1 (sender info) = unat (amount bal) \<and>
     history_map s' = history_map s1 \<and> CURRENT_BATCH s' = CURRENT_BATCH s \<and>
     (\<forall>u i. store_get (u, i) (wait_map s') =
        (if u = sender info \<and> is_released s1 i then None else store_get (u, i) (wait_map s)))"
  using num run
proof (cases rule: execute_withdraw_unbonded_ok)
  case (1 params t bal s1 w prev st)
  have inv1: "hub_inv s1" by (rule process_withdraw_rate_inv [OF num inv 1(4)])
  obtain st0 b where st0: "STATE s = Some st0" using inv by (rule hub_invE)
  have same: "wait_map s1 = wait_map s" "CURRENT_BATCH s1 = CURRENT_BATCH s"
    using process_withdraw_rate_frame [OF num inv 1(4)] by simp_all
  have ok: "store_ok (wait_map s1)" using inv1 by (auto simp: batch_inv_def elim!: hub_invE)
  have get: "store_get (u, i) (wait_map s') =
        (if u = sender info \<and> is_released s1 i then None else store_get (u, i) (wait_map s))" for u i
    using bucket_ids [OF ok, of i "sender info"]
    by (auto simp: 1(9) fold_remove_get released_batches_mem same(1) simp del: set_map)
  have "of_nat (released_due s1 (sender info)) = w" using 1(5) word_eq_of_nat by metis
  moreover have "0 < released_due s1 (sender info)" using 1(5,6) by (metis unat_eq_0 not_gr_zero)
  ultimately show ?thesis
    using 1(1-4,7,10) get same by (intro exI [of _ params] exI [of _ t] exI [of _ bal] exI [of _ s1]
        exI [of _ "st\<lparr>prev_hub_balance := prev\<rparr>"]) (simp add: 1(5,9))
qed

theorem withdraw_pays_released_witness:
  "\<exists>s' resp. execute_withdraw_unbonded example_deps example_env (example_info ''a'') example_hub = Ok (s', resp) \<and>
     messages resp = [BankSend ''a'' [Coin ''uluna'' 50]] \<and>
     store_get (''b'', 1) (wait_map s') = Some 30 \<and> store_get (''a'', 2) (wait_map s') = Some 100"
proof -
  obtain s' resp where r: "messages resp = [BankSend ''a'' [Coin ''uluna'' 50]]"
    "execute_withdraw_unbonded example_deps example_env (example_info ''a'') example_hub = Ok (s', resp)"
    using example_withdrawn by blast
  obtain params t bal s1 where p: "PARAMETERS example_hub = Some params" "unat (block_seconds example_env) = unat (unbonding_period params) + unat t"
    "query_balance (dquerier example_deps) (contract_address example_env) (underlying_coin_denom params) = Ok bal"
    "process_withdraw_rate (dlib example_deps) t (amount bal) example_hub = Ok s1"
    and get: "\<forall>u i. store_get (u, i) (wait_map s') =
        (if u = sender (example_info ''a'') \<and> is_released s1 i then None else store_get (u, i) (wait_map example_hub))"
    using withdraw_pays_released [OF _ example_hub_inv r(2)] std_num.cosmwasm_numbers_axioms by auto
  have "params = example_params" using p(1) by (simp add: example_hub_def)
  then have "t = 1999900"
    using p(2) by (intro word_eq_if_unat_eq) (simp add: example_params_def example_env_def)
  then have "s1 = released_hub" using p(3,4) example_processed by (auto simp: example_querier_eval)
  then have "\<not> is_released s1 2" by (simp add: is_released_def released_hub_def store_get_def)
  with r get show ?thesis by (simp add: example_info_def example_hub_def store_get_def)
qed

lemma released_due_zero:
  assumes "store_ok (wait_map s)" and "\<And>i v. store_get (u, i) (wait_map s) = Some v \<Longrightarrow> \<not> is_released s i"
  shows "released_due s u = 0"
proof -
  have "entry_due s i v = 0" if "(i, v) \<in> set (wait_bucket s u)" for i v
  proof -
    have "\<not> is_released s i" using that assms by (auto simp: wait_bucket_iff store_get_entries [symmetric])
    then show ?thesis by (auto simp: entry_due_def is_released_def split: option.splits)
  qed
  then show ?thesis by (auto simp: released_due_def sum_list_eq_0_iff)
qed

text \<open>
  C15.  Nobody withdraws twice: after a successful withdrawal, another one by the same sender in the same
  block cannot succeed, whatever the chain answers.
\<close>

theorem withdraw_not_twice:
  assumes num: "cosmwasm_numbers (dlib d)" and inv: "hub_inv s"
    and run: "execute_withdraw_unbonded d e info s = Ok (s', resp)"
    and num': "cosmwasm_numbers (dlib d')"
  shows "execute_withdraw_unbonded d' e info s' \<noteq> Ok (s'', resp')"
proof
  assume again: "execute_withdraw_unbonded d' e info s' = Ok (s'', resp')"
  have inv': "hub_inv s'" by (rule execute_withdraw_unbonded_inv [OF num inv run])
  from num run show False
  proof (cases rule: execute_withdraw_unbonded_ok)
    case (1 params t bal s1 w prev st)
    note first = 1
    from num' again show False
    proof (cases rule: execute_withdraw_unbonded_ok)
      case (1 params' t' bal' s2 w' prev' st')
      have inv1: "hub_inv s1" by (rule process_withdraw_rate_inv [OF num inv first(4)])
      have inv2: "hub_inv s2" by (rule process_withdraw_rate_inv [OF num' inv' 1(4)])
      have "params' = params"
        using 1(1) first(1,9) process_withdraw_rate_frame(4) [OF num inv first(4)] by simp
      then have t: "t' = t" using 1(2) first(2) by (simp add: word_unat_eq_iff)
      have h: "history_map s' = history_map s1" by (simp add: first(9))
      have w2: "wait_map s2 = wait_map s'" by (rule process_withdraw_rate_frame(1) [OF num' inv' 1(4)])
      have ok: "store_ok (wait_map s1)" "store_ok (wait_map s2)"
        using inv1 inv2 by (auto simp: batch_inv_def elim!: hub_invE)
      have "\<not> is_released s2 i" if g: "store_get (sender info, i) (wait_map s2) = Some v" for i v
      proof -
        have nr: "\<not> is_released s1 i"
          using g bucket_ids [OF ok(1), of i "sender info"] w2
          by (auto simp: first(9) fold_remove_get released_batches_mem simp del: set_map split: if_splits)
        show ?thesis
        proof (cases "store_get i (history_map s)")
          case None
          then have "store_get i (history_map s1) = None"
            using history_dom [OF num inv first(4)] by blast
          then show ?thesis using history_dom [OF num' inv' 1(4), of i] h by (simp add: is_released_def)
        next
          case (Some h0)
          then have "\<not> batch_time h0 \<le> t" using released_iff_mature [OF num inv first(4)] nr by blast
          obtain h1 where h1: "store_get i (history_map s1) = Some h1" "batch_time h1 = batch_time h0"
            using history_time [OF num inv first(4) Some] by blast
          then have "is_released s2 i \<longleftrightarrow> released h1 \<or> batch_time h1 \<le> t"
            using released_iff_mature [OF num' inv' 1(4), of i h1] t h by simp
          then show ?thesis using nr h1 \<open>\<not> batch_time h0 \<le> t\<close> by (simp add: is_released_def)
        qed
      qed
      then have "released_due s2 (sender info) = 0" by (rule released_due_zero [OF ok(2)])
      then show False using 1(5,6) by (simp add: unat_eq_zero)
    qed
  qed
qed

theorem withdraw_not_twice_witness:
  "\<exists>s' resp. execute_withdraw_unbonded example_deps example_env (example_info ''a'') example_hub = Ok (s', resp) \<and>
     (\<forall>s'' resp'. execute_withdraw_unbonded example_deps example_env (example_info ''a'') s' \<noteq> Ok (s'', resp'))"
proof -
  obtain s' resp where r: "execute_withdraw_unbonded example_deps example_env (example_info ''a'') example_hub = Ok (s', resp)"
    using example_withdrawn by blast
  show ?thesis
    using withdraw_not_twice [OF _ example_hub_inv r] std_num.cosmwasm_numbers_axioms r by auto
qed

end
