(* ===== verification/Hub_Flow_Properties.thy ===== *)
theory Hub_Flow_Properties
  imports Hub_Batch_Properties
begin

text \<open>
  The properties of the flows between coins and tokens: the exchange rate, slashing, bonding and
  unbonding.
\<close>

section \<open>Rates\<close>

text \<open>
  The exchange rate a successful update stores is the bonded amount per token, tokens of the open
  batch included, rounded down: all tokens together are never worth more than what is bonded, the
  rounding is less than one atomic per token, the rate is at most one when the bonded amount is at most
  the supply, and without bond or supply it is one.
\<close>

lemma exchange_rate_backed:
  assumes num: "cosmwasm_numbers l"
    and run: "update_exchange_rate l issued requested st = Ok st'"
  shows "\<exists>r. st' = st\<lparr>exchange_rate := r\<rparr> \<and>
     (let supply = unat issued + unat requested; bonded = unat (total_bond_amount st) in
      if bonded = 0 \<or> supply = 0 then r = decimal_one
      else datoms r * supply \<le> bonded * dec_unit \<and> bonded * dec_unit < (datoms r + 1) * supply \<and>
           (bonded \<le> supply \<longrightarrow> r \<le> decimal_one))"
proof -
  let ?s = "unat issued + unat requested" and ?b = "unat (total_bond_amount st)"
  obtain r where r: "st' = st\<lparr>exchange_rate := r\<rparr>" "datoms r = rate_atoms ?b ?s"
    using run unfolding cosmwasm_numbers.update_exchange_rate_ok [OF num] by blast
  have "if ?b = 0 \<or> ?s = 0 then r = decimal_one
      else datoms r * ?s \<le> ?b * dec_unit \<and> ?b * dec_unit < (datoms r + 1) * ?s \<and>
           (?b \<le> ?s \<longrightarrow> r \<le> decimal_one)"
  proof (cases "?b = 0 \<or> ?s = 0")
    case True
    then have "datoms r = dec_unit" unfolding r(2) rate_atoms_def by (rule if_P)
    then have "r = decimal_one" by (rule decimal_one_unique)
    with True show ?thesis by (simp only: if_True)
  next
    case False
    then have "datoms r * ?s \<le> ?b * dec_unit" "?b * dec_unit < (datoms r + 1) * ?s"
      using rate_atoms_times_supply [of ?s ?b] unfolding r(2) by blast+
    moreover have "?b \<le> ?s \<longrightarrow> r \<le> decimal_one"
      using rate_atoms_le_one [of ?b ?s] by (simp add: decimal_le_iff r(2))
    ultimately show ?thesis using False by presburger
  qed
  with r(1) show ?thesis unfolding Let_def by blast
qed

text \<open>
  C27.  \<open>decimal_division\<close> never returns less than the exact quotient rounded down, and never more
  than the quotient by the divisor cut to nine fractional digits; it returns exactly when that divisor
  is not zero and the scaled quotient fits.
\<close>

theorem decimal_division_bounds:
  assumes num: "cosmwasm_numbers l"
  shows "((\<exists>c. decimal_division l a b = Ok c) \<longleftrightarrow>
       datoms b div giga \<noteq> 0 \<and> unat a * dec_unit div (datoms b div giga) < 2 ^ 128) \<and>
     (\<forall>c. decimal_division l a b = Ok c \<longrightarrow>
       unat a * dec_unit div datoms b \<le> unat c \<and> unat c * (datoms b - datoms b mod giga) \<le> unat a * dec_unit)"
proof (intro conjI allI impI)
  let ?d = "datoms b div giga"
  show "(\<exists>c. decimal_division l a b = Ok c) \<longleftrightarrow> ?d \<noteq> 0 \<and> unat a * dec_unit div ?d < 2 ^ 128"
  proof
    assume "?d \<noteq> 0 \<and> unat a * dec_unit div ?d < 2 ^ 128"
    moreover from this have "unat a * giga div ?d < 2 ^ 128"
      by (elim conjE) (erule le_less_trans [rotated], intro div_le_mono mult_le_mono2, simp add: dec_unit_giga Suc_le_eq)
    ultimately show "\<exists>c. decimal_division l a b = Ok c"
      unfolding cosmwasm_numbers.decimal_division_ok [OF num]
      by (intro exI [of _ "of_nat (unat a * giga div ?d)"] conjI) (simp_all add: unat_of_nat_checked del: of_nat_mult)
  qed (auto simp: cosmwasm_numbers.decimal_division_ok [OF num])
next
  let ?d = "datoms b div giga"
  fix c
  assume "decimal_division l a b = Ok c"
  then have d: "?d \<noteq> 0" and c: "unat c = unat a * giga div ?d"
    by (auto simp: cosmwasm_numbers.decimal_division_ok [OF num])
  have cut: "datoms b - datoms b mod giga = ?d * giga" by (simp add: minus_mod_eq_div_mult)
  have exact: "unat a * giga div ?d = unat a * dec_unit div (?d * giga)"
    by (simp add: dec_unit_giga mult.assoc [symmetric])
  show "unat a * dec_unit div datoms b \<le> unat c"
    unfolding c exact by (rule div_le_mono2) (use d in simp, rule div_times_less_eq_dividend)
  show "unat c * (datoms b - datoms b mod giga) \<le> unat a * dec_unit"
    unfolding c exact cut by (rule div_times_less_eq_dividend)
qed

theorem decimal_division_bounds_witness:
  "\<exists>c. decimal_division std_lib 200 (Decimal 900000000000000000) = Ok c \<and>
     222 \<le> unat c \<and> unat c * 900000000000000000 \<le> 200 * dec_unit"
proof -
  let ?b = "Decimal 900000000000000000"
  have "datoms ?b div giga \<noteq> 0" "unat (200 :: uint128) * dec_unit div (datoms ?b div giga) < 2 ^ 128"
    by (simp_all add: giga_def dec_unit_def)
  then obtain c where "decimal_division std_lib 200 ?b = Ok c"
    using decimal_division_bounds [OF std_num.cosmwasm_numbers_axioms] by blast
  then show ?thesis
    using decimal_division_bounds [OF std_num.cosmwasm_numbers_axioms, of 200 ?b] by (auto simp: giga_def dec_unit_def)
qed


section \<open>Slashing\<close>

text \<open>
  C25.  Checking for slashing lowers the bonded amount to the sum of the actual delegations when that is
  less, and never raises it; when it lowers it, the exchange rate is recomputed for the new amount, and
  nothing else in the storage changes.
\<close>

theorem slashing_lowers_bonded:
  assumes num: "cosmwasm_numbers (dlib d)" and run: "slashing d e s = Ok s'"
  shows "\<exists>params st st' delegations. PARAMETERS s = Some params \<and> STATE s = Some st \<and> s' = s\<lparr>STATE := Some st'\<rparr> \<and>
     query_all_delegations (dquerier d) (contract_address e) = Ok delegations \<and>
     (if delegations = [] \<or> unat (total_bond_amount st) \<le> delegation_total (underlying_coin_denom params) delegations
      then st' = st
      else \<exists>issued batch r. query_total_issued d s = Ok issued \<and> CURRENT_BATCH s = Some batch \<and>
             unat (total_bond_amount st') = delegation_total (underlying_coin_denom params) delegations \<and>
             st' = st\<lparr>total_bond_amount := total_bond_amount st', exchange_rate := r\<rparr> \<and>
             datoms r = rate_atoms (unat (total_bond_amount st')) (unat issued + unat (requested_with_fee batch)))"
  using num run
proof (cases rule: slashing_ok)
  case (1 params st delegations)
  let ?T = "delegation_total (underlying_coin_denom params) delegations"
  show ?thesis
  proof (cases "delegations = [] \<or> unat (total_bond_amount st) \<le> ?T")
    case True
    then have "s' = s" using 1(4) by auto
    then have "s' = s\<lparr>STATE := Some st\<rparr>" using 1(2) by simp
    with 1(1-3) True show ?thesis by auto
  next
    case False
    with 1(4) obtain issued batch st' where b: "query_total_issued d s = Ok issued" "CURRENT_BATCH s = Some batch"
      "s' = s\<lparr>STATE := Some st'\<rparr>" "unat (total_bond_amount st') = ?T"
      "update_exchange_rate (dlib d) issued (requested_with_fee batch)
           (st\<lparr>total_bond_amount := total_bond_amount st'\<rparr>) = Ok st'" by auto
    then obtain r where "st' = st\<lparr>total_bond_amount := total_bond_amount st', exchange_rate := r\<rparr>"
      "datoms r = rate_atoms (unat (total_bond_amount st')) (unat issued + unat (requested_with_fee batch))"
      unfolding cosmwasm_numbers.update_exchange_rate_ok [OF num] by auto
    with 1(1-3) False b(1-4) show ?thesis
      by (intro exI [of _ params] exI [of _ st] exI [of _ st'] exI [of _ delegations]) auto
  qed
qed

definition slashed_state :: hub_state where
  "slashed_state = example_state\<lparr>exchange_rate := Decimal 900000000000000000, total_bond_amount := 990\<rparr>"

definition slashed_hub :: hub_storage where
  "slashed_hub = example_hub\<lparr>STATE := Some slashed_state\<rparr>"

lemma example_slashed: "slashing example_deps example_env example_hub = Ok slashed_hub"
  by (simp add: slashing_def slashed_hub_def slashed_state_def example_hub_eval example_eval sum_delegations_def query_total_issued_def
      update_exchange_rate_def)

theorem slashing_lowers_bonded_witness:
  "\<exists>st'. slashed_hub = example_hub\<lparr>STATE := Some st'\<rparr> \<and> unat (total_bond_amount st') = 990"
proof -
  have T: "delegation_total ''uluna'' [\<lparr>validator = ''v1'', delegated = Coin ''uluna'' 600\<rparr>,
     \<lparr>validator = ''v2'', delegated = Coin ''uluna'' 390\<rparr>] = 990" by (simp add: delegation_total_def)
  have e: "PARAMETERS example_hub = Some example_params" "STATE example_hub = Some example_state"
    "underlying_coin_denom example_params = ''uluna''" "unat (total_bond_amount example_state) = 1000"
    by (simp_all add: example_hub_def example_params_def example_state_def)
  show ?thesis
    using slashing_lowers_bonded [OF example_numbers example_slashed] by (auto simp: e example_querier_eval T)
qed


section \<open>Bonding\<close>

text \<open>
  A successful bond delegates the one coin that was sent to the chosen validator, which is on the
  whitelist, adds it to the (slashing-corrected) bonded amount, asks the token contract to mint the
  amount that the attributes report to the sender, and sets the rate for the new supply; wait lists,
  batches, whitelist and configuration stay.
\<close>

lemma bond_effect:
  assumes num: "cosmwasm_numbers (dlib d)" and run: "execute_bond d e info val s = Ok (s', resp)"
  shows "\<exists>params batch payment s1 st st' supply minted config token token_address msg.
     store_get val (validators_map s) \<noteq> None \<and> funds info = [payment] \<and> 0 < amount payment \<and>
     PARAMETERS s = Some params \<and> denom payment = underlying_coin_denom params \<and> CURRENT_BATCH s = Some batch \<and>
     slashing d e s = Ok s1 \<and> STATE s1 = Some st \<and> ok_or_default 0 (query_total_issued d s1) = Ok supply \<and>
     mint_with_fee (dlib d) params st supply (requested_with_fee batch) (amount payment) = Ok minted \<and>
     s' = s\<lparr>STATE := Some st'\<rparr> \<and>
     unat (total_bond_amount st') = unat (total_bond_amount st) + unat (amount payment) \<and>
     datoms (exchange_rate st') = rate_atoms (unat (total_bond_amount st'))
       (unat supply + unat minted + unat (requested_with_fee batch)) \<and>
     CONFIG s = Some config \<and> token_contract config = Some token \<and> addr_humanize (dapi d) token = Ok token_address \<and>
     to_binary (dlib d) (Cw20Payload (Mint (sender info) minted)) = Ok msg \<and>
     messages resp = [StakingDelegate val payment, WasmExecute token_address msg []] \<and>
     (''minted'', AttrUint minted) \<in> set (attributes resp)"
  using run
proof (cases rule: execute_bond_ok)
  case (1 params batch payment s1 st supp minted new_supply bonded st' config token token_address msg)
  obtain st0 st1 where s1: "s1 = s\<lparr>STATE := Some st1\<rparr>"
    using slashing_frame [OF num 1(7)] by blast
  then have s': "s' = s\<lparr>STATE := Some st'\<rparr>" "CONFIG s = Some config" using 1(14,18) by simp_all
  obtain r where r: "st' = st\<lparr>total_bond_amount := bonded, exchange_rate := r\<rparr>"
    "datoms r = rate_atoms (unat bonded) (unat new_supply + unat (requested_with_fee batch))"
    using 1(13) unfolding cosmwasm_numbers.update_exchange_rate_ok [OF num] by auto
  have sums: "unat new_supply = unat supp + unat minted" "unat bonded = unat (total_bond_amount st) + unat (amount payment)"
    using 1(11,12) by (simp_all add: cosmwasm_numbers.uint_add_ok [OF num])
  have st': "total_bond_amount st' = bonded" "exchange_rate st' = r" by (simp_all add: r(1))
  have "unat (total_bond_amount st') = unat (total_bond_amount st) + unat (amount payment)"
    "datoms (exchange_rate st') = rate_atoms (unat (total_bond_amount st'))
       (unat supp + unat minted + unat (requested_with_fee batch))"
    unfolding st' sums(1) [symmetric] using sums(2) r(2) by simp_all
  with 1 s' show ?thesis by blast
qed

lemma example_mint:
  "mint_with_fee std_lib example_params slashed_state 1000 100 200 = Ok 221"
  by (simp add: mint_with_fee_def decimal_division_def example_params_def slashed_state_def std_eval
      HUB_DECIMAL_FRACTIONAL_def decimal_less_iff)

text \<open>
  C26.  The peg recovery fee of a bond: at or above the threshold nothing is withheld; below it at most
  the configured share is, and never so much that the tokens would be worth more than the coins: the
  bonded amount stays at most the supply and the new rate at most one.
\<close>

theorem mint_fee_keeps_par:
  assumes num: "cosmwasm_numbers l"
    and run: "mint_with_fee l params st issued requested pay = Ok minted"
  shows "\<exists>m. decimal_division l pay (exchange_rate st) = Ok m \<and>
     (if exchange_rate st < er_threshold params
      then unat minted \<le> unat m \<and>
        unat m - unat minted \<le> unat m * datoms (peg_recovery_fee params) div dec_unit \<and>
        unat (total_bond_amount st) + unat pay \<le> unat issued + unat minted + unat requested \<and>
        rate_atoms (unat (total_bond_amount st) + unat pay) (unat issued + unat minted + unat requested) \<le> dec_unit
      else minted = m)"
proof -
  obtain m where m: "decimal_division l pay (exchange_rate st) = Ok m" "unat minted \<le> unat m"
     "er_threshold params \<le> exchange_rate st \<longrightarrow> minted = m"
     "exchange_rate st < er_threshold params \<longrightarrow>
        unat (total_bond_amount st) + unat pay \<le> unat issued + unat minted + unat requested \<and>
        unat m - unat minted \<le> unat m * datoms (peg_recovery_fee params) div dec_unit"
    using cosmwasm_numbers.mint_with_fee_ok [OF num run] by blast
  then show ?thesis
    using rate_atoms_le_one by (cases "exchange_rate st < er_threshold params") auto
qed

theorem mint_fee_keeps_par_witness:
  "\<exists>m. decimal_division std_lib 200 (Decimal 900000000000000000) = Ok m \<and> 221 \<le> unat m \<and>
     rate_atoms (990 + 200) (1000 + 221 + 100) \<le> dec_unit"
  using mint_fee_keeps_par [OF std_num.cosmwasm_numbers_axioms example_mint]
  by (auto simp: example_params_def slashed_state_def decimal_less_iff dec_unit_def split: if_splits)

text \<open>
  A bond is rejected, before anything is stored or sent, when the validator is not whitelisted, when
  more than one coin is sent, and when no positive amount of the bonded coin is sent.
\<close>

lemma bond_rejections:
  assumes params: "PARAMETERS s = Some params" and batch: "CURRENT_BATCH s = Some batch"
  shows "(store_get val (validators_map s) = None \<longrightarrow>
       execute_bond d e info val s = Err (GenericErr ''The chosen validator is currently not supported'')) \<and>
     (store_get val (validators_map s) \<noteq> None \<and> length (funds info) > 1 \<longrightarrow>
       execute_bond d e info val s = Err (GenericErr ''More than one coin is sent; only one asset is supported'')) \<and>
     (store_get val (validators_map s) \<noteq> None \<and> length (funds info) \<le> 1 \<and>
      (\<forall>c\<in>set (funds info). denom c \<noteq> underlying_coin_denom params \<or> amount c = 0) \<longrightarrow>
       execute_bond d e info val s =
         Err (GenericErr (''No '' @ underlying_coin_denom params @ '' assets are provided to bond'')))"
proof -
  have none: "find (\<lambda>x. denom x = underlying_coin_denom params \<and> 0 < amount x) (funds info) = None"
    if "\<forall>c\<in>set (funds info). denom c \<noteq> underlying_coin_denom params \<or> amount c = 0"
    using that by (auto simp: find_None_iff)
  have valid: "is_valid_validator s val = Ok (store_get val (validators_map s) \<noteq> None)" by simp
  show ?thesis
    by (simp add: execute_bond_def params batch valid none not_less [symmetric] del: is_valid_validator_ok)
qed

section \<open>Unbonding\<close>

lemma pick_validator_ok:
  assumes num: "cosmwasm_numbers (dlib d)" and run: "pick_validator d s claim delegator height = Ok msgs"
  shows "\<exists>params dels ds. PARAMETERS s = Some params \<and> query_all_delegations (dquerier d) delegator = Ok dels \<and>
     mset ds \<subseteq># mset dels \<and> list_all2 (undelegates (underlying_coin_denom params)) ds msgs \<and>
     undelegated_total msgs = unat claim"
proof -
  obtain params dels where p: "PARAMETERS s = Some params" "query_all_delegations (dquerier d) delegator = Ok dels"
    "pick_loop (dlib d) (underlying_coin_denom params) height dels claim 0 [] = Ok msgs"
    using run by (auto simp: pick_validator_def)
  from cosmwasm_numbers.pick_loop_ok [OF num p(3)] p(1,2) show ?thesis by auto
qed

text \<open>
  C23.  A request to unbond is charged at most the configured fee, and only below the threshold, where
  the fee is the smaller of the configured share and what is missing to par; the rest is added to the
  sender's wait list entry of the open batch and to no other entry, and the last message burns the
  whole amount.
\<close>

theorem unbond_records_request:
  assumes num: "cosmwasm_numbers (dlib d)" and run: "execute_unbond d e amt u s = Ok (s', resp)"
  shows "\<exists>params batch s1 st issued (a :: uint128) msgs to burn_msg.
     PARAMETERS s = Some params \<and> CURRENT_BATCH s = Some batch \<and> slashing d e s = Ok s1 \<and> STATE s1 = Some st \<and>
     ok_or_default 0 (query_total_issued d s1) = Ok issued \<and> unat amt \<le> unat issued \<and>
     unat amt - unat a =
       (if exchange_rate st < er_threshold params
        then min (unat amt * datoms (peg_recovery_fee params) div dec_unit)
               (unat issued + unat (requested_with_fee batch) - unat (total_bond_amount st))
        else 0) \<and> unat a \<le> unat amt \<and>
     (\<exists>v. store_get (u, cb_id batch) (wait_map s') = Some v \<and>
        unat v = (case store_get (u, cb_id batch) (wait_map s) of None \<Rightarrow> 0 | Some x \<Rightarrow> unat x) + unat a) \<and>
     (\<forall>k. k \<noteq> (u, cb_id batch) \<longrightarrow> store_get k (wait_map s') = store_get k (wait_map s)) \<and>
     to_binary (dlib d) (Cw20Payload (Burn amt)) = Ok burn_msg \<and> messages resp = msgs @ [WasmExecute to burn_msg []]"
  using num run
proof (cases rule: execute_unbond_ok)
  case (1 params batch s1 st issued a requested s2 issued' st1 s3 st2 batch2 msgs to burn_msg)
  note fee = cosmwasm_numbers.unbond_with_fee_ok [OF num 1(6)]
  have w1: "wait_map s1 = wait_map s" using slashing_frame [OF num 1(3)] by auto
  obtain v where v: "unat v = (case store_get (u, cb_id batch) (wait_map s) of None \<Rightarrow> 0 | Some x \<Rightarrow> unat x) + unat a"
    and w2: "wait_map s2 = store_set (wait_enc (dlib d)) (u, cb_id batch) v (wait_map s)"
    using 1(8) unfolding cosmwasm_numbers.store_unbond_wait_list_ok [OF num] w1 by auto
  have "wait_map s3 = wait_map s2"
  proof (cases "unat (epoch_period params) + unat (last_unbonded_time st1) < unat (block_seconds e)")
    case True
    then have "close_batch d e st1 (batch\<lparr>requested_with_fee := requested\<rparr>) s2 = Ok (s3, st2, batch2, msgs)"
      using 1(12) by simp
    with num show ?thesis by (cases rule: close_batch_ok) simp
  qed (use 1(12) in simp)
  then have w: "wait_map s' = store_set (wait_enc (dlib d)) (u, cb_id batch) v (wait_map s)" using 1(13) w2 by simp
  have amt: "unat amt \<le> unat issued" using 1(9) by simp
  have f: "unat amt - unat a = (if exchange_rate st < er_threshold params
        then min (unat amt * datoms (peg_recovery_fee params) div dec_unit)
               (unat issued + unat (requested_with_fee batch) - unat (total_bond_amount st))
        else 0)"
    using fee(2,3) by (auto simp: not_less)
  have g: "store_get (u, cb_id batch) (wait_map s') = Some v"
    "\<forall>k. k \<noteq> (u, cb_id batch) \<longrightarrow> store_get k (wait_map s') = store_get k (wait_map s)"
    by (simp_all add: w store_get_set)
  show ?thesis using 1(1-5) amt f fee(1) g(1) v g(2) 1(14,15) by (intro exI conjI)
qed

lemma close_batch_effect:
  assumes num: "cosmwasm_numbers (dlib d)" and run: "close_batch d e st b s = Ok (s', st', b', msgs)"
    and params: "PARAMETERS s = Some params"
  shows "b' = \<lparr>cb_id = cb_id b + 1, requested_with_fee = 0\<rparr>"
    and "s' = s\<lparr>history_map := store_set to_be_bytes (cb_id b) (closed_history e st b) (history_map s)\<rparr>"
    and "undelegated_total msgs = unat (requested_with_fee b) * datoms (exchange_rate st) div dec_unit"
    and "unat (total_bond_amount st') + undelegated_total msgs = unat (total_bond_amount st)"
    and "last_unbonded_time st' = block_seconds e"
    and "\<exists>dels ds. query_all_delegations (dquerier d) (contract_address e) = Ok dels \<and> mset ds \<subseteq># mset dels \<and>
       list_all2 (undelegates (underlying_coin_denom params)) ds msgs"
    and "exchange_rate st' = exchange_rate st"
proof -
  obtain w bonded next_id where c: "unat w = unat (requested_with_fee b) * datoms (exchange_rate st) div dec_unit"
    "pick_validator d s w (contract_address e) (block_height e) = Ok msgs"
    "unat (total_bond_amount st) = unat w + unat bonded" "unat next_id = unat (cb_id b) + 1"
    "s' = s\<lparr>history_map := store_set to_be_bytes (cb_id b) (closed_history e st b) (history_map s)\<rparr>"
    "st' = st\<lparr>total_bond_amount := bonded, last_unbonded_time := block_seconds e\<rparr>"
    "b' = \<lparr>cb_id = next_id, requested_with_fee = 0\<rparr>"
    by (rule close_batch_ok [OF num run])
  have "\<exists>dels ds. query_all_delegations (dquerier d) (contract_address e) = Ok dels \<and> mset ds \<subseteq># mset dels \<and>
       list_all2 (undelegates (underlying_coin_denom params)) ds msgs \<and> undelegated_total msgs = unat w"
    using pick_validator_ok [OF num c(2)] params by auto
  moreover have "next_id = cb_id b + 1"
    using c(4) unat_less_64 [of next_id] by (intro word_eq_if_unat_eq) (simp add: unat_add_checked)
  ultimately show "b' = \<lparr>cb_id = cb_id b + 1, requested_with_fee = 0\<rparr>"
    "s' = s\<lparr>history_map := store_set to_be_bytes (cb_id b) (closed_history e st b) (history_map s)\<rparr>"
    "undelegated_total msgs = unat (requested_with_fee b) * datoms (exchange_rate st) div dec_unit"
    "unat (total_bond_amount st') + undelegated_total msgs = unat (total_bond_amount st)"
    "last_unbonded_time st' = block_seconds e"
    "\<exists>dels ds. query_all_delegations (dquerier d) (contract_address e) = Ok dels \<and> mset ds \<subseteq># mset dels \<and>
       list_all2 (undelegates (underlying_coin_denom params)) ds msgs" "exchange_rate st' = exchange_rate st"
    using c by auto
qed

text \<open>
  The tokens an unbond adds to the batch: the amount less the fee of \<open>unbond_with_fee\<close>.
\<close>

definition unbond_charged :: "parameters \<Rightarrow> hub_state \<Rightarrow> nat \<Rightarrow> nat \<Rightarrow> nat \<Rightarrow> nat" where
  "unbond_charged params st issued requested amt =
     (if exchange_rate st < er_threshold params
      then amt - min (amt * datoms (peg_recovery_fee params) div dec_unit) (issued + requested - unat (total_bond_amount st))
      else amt)"

text \<open>
  C22.  When the epoch has passed, unbonding closes the batch.  The batch then holds what was requested
  before and the amount less the peg fee; its rate is that of the slashing-corrected bonded amount over the
  supply left after the burn and this batch.  The undelegations sent out add up to exactly these tokens at
  this rate, each takes a positive amount from a different delegation and at most what is delegated there,
  the bonded amount drops by the sum, the batch goes into the history with its amount and rate, unreleased,
  and the next batch is empty.  Before that, no undelegation is sent, the batch stays open with the new
  amount and the state differs in the new rate only.
\<close>

theorem unbond_closes_epoch:
  assumes num: "cosmwasm_numbers (dlib d)" and run: "execute_unbond d e amt u s = Ok (s', resp)"
  shows "\<exists>params batch s1 st st' issued rate (requested :: uint128) msgs burn. PARAMETERS s = Some params \<and> CURRENT_BATCH s = Some batch \<and>
     slashing d e s = Ok s1 \<and> STATE s1 = Some st \<and> STATE s' = Some st' \<and> messages resp = msgs @ [burn] \<and>
     ok_or_default 0 (query_total_issued d s1) = Ok issued \<and> unat amt \<le> unat issued \<and>
     unat requested = unat (requested_with_fee batch) +
       unbond_charged params st (unat issued) (unat (requested_with_fee batch)) (unat amt) \<and>
     datoms rate = rate_atoms (unat (total_bond_amount st)) (unat issued - unat amt + unat requested) \<and>
     (if unat (epoch_period params) + unat (last_unbonded_time st) < unat (block_seconds e)
      then CURRENT_BATCH s' = Some \<lparr>cb_id = cb_id batch + 1, requested_with_fee = 0\<rparr> \<and>
        store_get (cb_id batch) (history_map s') =
          Some \<lparr>batch_id = cb_id batch, batch_time = block_seconds e, batch_amount = requested,
                applied_exchange_rate = rate, withdraw_rate = rate, released = False\<rparr> \<and>
        undelegated_total msgs = unat requested * datoms rate div dec_unit \<and>
        unat (total_bond_amount st') + undelegated_total msgs = unat (total_bond_amount st) \<and>
        exchange_rate st' = rate \<and> last_unbonded_time st' = block_seconds e \<and>
        (\<exists>dels ds. query_all_delegations (dquerier d) (contract_address e) = Ok dels \<and> mset ds \<subseteq># mset dels \<and>
           list_all2 (undelegates (underlying_coin_denom params)) ds msgs)
      else CURRENT_BATCH s' = Some (batch\<lparr>requested_with_fee := requested\<rparr>) \<and> msgs = [] \<and>
        st' = st\<lparr>exchange_rate := rate\<rparr> \<and> history_map s' = history_map s)"
  using num run
proof (cases rule: execute_unbond_ok)
  case (1 params batch s1 st issued a requested s2 issued' st1 s3 st2 batch2 msgs to burn_msg)
  note fee = cosmwasm_numbers.unbond_with_fee_ok [OF num 1(6)]
  obtain rate where st1: "st1 = st\<lparr>exchange_rate := rate\<rparr>"
    and rate: "datoms rate = rate_atoms (unat (total_bond_amount st)) (unat issued - unat amt + unat requested)"
    using 1(9,10) unfolding cosmwasm_numbers.update_exchange_rate_ok [OF num] by auto
  have req: "unat requested = unat (requested_with_fee batch) +
       unbond_charged params st (unat issued) (unat (requested_with_fee batch)) (unat amt)"
    using 1(7) fee by (auto simp: unbond_charged_def not_less)
  have known: "PARAMETERS s = Some params" "CURRENT_BATCH s = Some batch" "slashing d e s = Ok s1" "STATE s1 = Some st"
    "ok_or_default 0 (query_total_issued d s1) = Ok issued" "unat amt \<le> unat issued"
    using 1(1-5,9) by simp_all
  have fr: "history_map s2 = history_map s" "PARAMETERS s2 = PARAMETERS s"
    using slashing_frame [OF num 1(3)] 1(8)
    by (auto simp: cosmwasm_numbers.store_unbond_wait_list_ok [OF num])
  show ?thesis
  proof (cases "unat (epoch_period params) + unat (last_unbonded_time st) < unat (block_seconds e)")
    case True
    then have "close_batch d e st1 (batch\<lparr>requested_with_fee := requested\<rparr>) s2 = Ok (s3, st2, batch2, msgs)"
      using 1(12) st1 by simp
    note c = close_batch_effect [OF num this trans [OF fr(2) 1(1)]]
    have "STATE s' = Some st2" "messages resp = msgs @ [WasmExecute to burn_msg []]" using 1(13,15) by simp_all
    moreover have "CURRENT_BATCH s' = Some \<lparr>cb_id = cb_id batch + 1, requested_with_fee = 0\<rparr>"
      "store_get (cb_id batch) (history_map s') = Some \<lparr>batch_id = cb_id batch, batch_time = block_seconds e,
          batch_amount = requested, applied_exchange_rate = rate, withdraw_rate = rate, released = False\<rparr>"
      "undelegated_total msgs = unat requested * datoms rate div dec_unit"
      "unat (total_bond_amount st2) + undelegated_total msgs = unat (total_bond_amount st)" "exchange_rate st2 = rate"
      using 1(13) c(1-4,7) st1 by (simp_all add: store_get_set closed_history_def)
    ultimately show ?thesis using known req rate c(5,6)
      by (rule_tac x=params in exI, rule_tac x=batch in exI, rule_tac x=s1 in exI, rule_tac x=st in exI,
          rule_tac x=st2 in exI, rule_tac x=issued in exI, rule_tac x=rate in exI, rule_tac x=requested in exI,
          rule_tac x="msgs" in exI, rule_tac x="WasmExecute to burn_msg []" in exI)
        (unfold if_P [OF True], intro conjI; assumption)
  next
    case False
    then have "s3 = s2 \<and> st2 = st1 \<and> batch2 = batch\<lparr>requested_with_fee := requested\<rparr> \<and> msgs = []"
      using 1(12) st1 by simp
    then have "STATE s' = Some st1" "messages resp = [] @ [WasmExecute to burn_msg []]"
      "CURRENT_BATCH s' = Some (batch\<lparr>requested_with_fee := requested\<rparr>)" "history_map s' = history_map s"
      using 1(13,15) fr by simp_all
    then show ?thesis using known req rate st1
      by (rule_tac x=params in exI, rule_tac x=batch in exI, rule_tac x=s1 in exI, rule_tac x=st in exI,
          rule_tac x=st1 in exI, rule_tac x=issued in exI, rule_tac x=rate in exI, rule_tac x=requested in exI,
          rule_tac x="[]" in exI, rule_tac x="WasmExecute to burn_msg []" in exI)
        (unfold if_not_P [OF False], intro conjI refl; assumption)
  qed
qed

definition unbonding_state :: hub_state where
  "unbonding_state = slashed_state\<lparr>exchange_rate := Decimal 901639344262295081\<rparr>"

definition unbonded_hub :: hub_storage where
  "unbonded_hub = slashed_hub\<lparr>wait_map := store_set (wait_enc std_lib) (''u'', 2) 398 (wait_map example_hub)\<rparr>"

lemma example_undelegated:
  "pick_validator example_deps unbonded_hub 449 ''hub'' 12345 =
     Ok [StakingUndelegate ''v2'' (Coin ''uluna'' 390), StakingUndelegate ''v1'' (Coin ''uluna'' 59)]"
proof -
  have "(12345 :: nat) mod Suc (Suc 0) = 1" by (simp add: numeral_2_eq_2 [symmetric])
  then show ?thesis
    by (simp add: pick_validator_def unbonded_hub_def slashed_hub_def example_hub_def example_params_def
        example_querier_eval pick_loop.simps u64_add_def std_eval remove_nth_def)
qed

lemma example_closed:
  "close_batch example_deps example_env unbonding_state \<lparr>cb_id = 2, requested_with_fee = 498\<rparr> unbonded_hub =
     Ok (unbonded_hub\<lparr>history_map := store_set to_be_bytes 2
           (closed_history example_env unbonding_state \<lparr>cb_id = 2, requested_with_fee = 498\<rparr>) (history_map unbonded_hub)\<rparr>,
         unbonding_state\<lparr>total_bond_amount := 541, last_unbonded_time := 2000000\<rparr>,
         \<lparr>cb_id = 3, requested_with_fee = 0\<rparr>, [StakingUndelegate ''v2'' (Coin ''uluna'' 390), StakingUndelegate ''v1'' (Coin ''uluna'' 59)])"
proof -
  have "uint_mul_decimal std_lib 498 (exchange_rate unbonding_state) = Ok 449"
    "uint_checked_sub std_lib (total_bond_amount unbonding_state) 449 = Ok 541"
    by (simp_all add: unbonding_state_def slashed_state_def std_eval)
  then show ?thesis
    by (simp add: close_batch_def example_undelegated example_env_def store_unbond_history_def u64_add_def
        closed_history_def)
qed

lemma example_unbonded:
  "\<exists>s' resp. execute_unbond example_deps example_env 400 ''u'' example_hub = Ok (s', resp) \<and>
     STATE s' = Some (unbonding_state\<lparr>total_bond_amount := 541, last_unbonded_time := 2000000\<rparr>) \<and>
     messages resp = [StakingUndelegate ''v2'' (Coin ''uluna'' 390), StakingUndelegate ''v1'' (Coin ''uluna'' 59),
        WasmExecute ''t'' (std_encode (Cw20Payload (Burn 400))) []]"
proof -
  have 1: "PARAMETERS example_hub = Some example_params" "epoch_period example_params = 30"
    "CURRENT_BATCH example_hub = Some \<lparr>cb_id = 2, requested_with_fee = 100\<rparr>" "block_seconds example_env = 2000000"
    by (simp_all add: example_hub_def example_params_def example_env_def)
  have 2: "STATE slashed_hub = Some slashed_state" "ok_or_default 0 (query_total_issued example_deps slashed_hub) = Ok 1000"
    by (simp_all add: slashed_hub_def example_hub_def query_total_issued_def example_hub_config_def example_eval)
  have 3: "unbond_with_fee std_lib example_params slashed_state 1000 100 400 = Ok 398"
    by (simp add: unbond_with_fee_def slashed_state_def example_params_def std_eval decimal_less_iff)
  have 4: "store_unbond_wait_list std_lib 2 ''u'' 398 slashed_hub = Ok unbonded_hub"
    by (simp add: store_unbond_wait_list_def unbonded_hub_def slashed_hub_def example_hub_def store_get_def std_eval)
  have 5: "update_exchange_rate std_lib 600 498 slashed_state = Ok unbonding_state"
    "last_unbonded_time unbonding_state = 1000000"
    by (simp_all add: update_exchange_rate_def unbonding_state_def slashed_state_def example_state_def std_eval)
  have 6: "char_of (116 :: nat) = CHR ''t''" "CONFIG unbonded_hub = Some example_hub_config"
    by (simp_all add: char_of_def bit_0 unbonded_hub_def slashed_hub_def example_hub_def)
  show ?thesis
    by (simp add: execute_unbond_def 1 2 3 4 5 6 example_slashed example_closed u64_sub_def std_eval
        example_hub_config_def example_api_eval)
qed

theorem unbond_records_request_witness:
  "\<exists>s' resp v. execute_unbond example_deps example_env 400 ''u'' example_hub = Ok (s', resp) \<and>
     store_get (''u'', 2) (wait_map s') = Some v \<and> unat v = 398"
proof -
  obtain s' resp where r: "execute_unbond example_deps example_env 400 ''u'' example_hub = Ok (s', resp)"
    using example_unbonded by blast
  have e: "PARAMETERS example_hub = Some example_params" "STATE slashed_hub = Some slashed_state"
    "CURRENT_BATCH example_hub = Some \<lparr>cb_id = 2, requested_with_fee = 100\<rparr>"
    "store_get (''u'', 2) (wait_map example_hub) = None"
    "ok_or_default 0 (query_total_issued example_deps slashed_hub) = Ok 1000"
    by (simp_all add: slashed_hub_def example_hub_def query_total_issued_def example_hub_config_def example_eval
        store_get_def)
  have n: "exchange_rate slashed_state < er_threshold example_params"
    "datoms (peg_recovery_fee example_params) = 5000000000000000" "unat (total_bond_amount slashed_state) = 990"
    by (simp_all add: slashed_state_def example_params_def decimal_less_iff dec_unit_def)
  obtain a :: uint128 and v where "unat (400 :: uint128) - unat a = 2" "unat a \<le> unat (400 :: uint128)"
    "store_get (''u'', 2) (wait_map s') = Some v" "unat v = unat a"
    using unbond_records_request [OF example_numbers r] by (auto simp: e n example_slashed dec_unit_def)
  then have "store_get (''u'', 2) (wait_map s') = Some v \<and> unat v = 398" by simp
  with r show ?thesis by blast
qed

theorem unbond_closes_epoch_witness:
  "\<exists>s' resp msgs burn h. execute_unbond example_deps example_env 400 ''u'' example_hub = Ok (s', resp) \<and>
     messages resp = msgs @ [burn] \<and> undelegated_total msgs = 449 \<and>
     CURRENT_BATCH s' = Some \<lparr>cb_id = 3, requested_with_fee = 0\<rparr> \<and>
     store_get 2 (history_map s') = Some h \<and> unat (batch_amount h) = 498 \<and> datoms (withdraw_rate h) = 901639344262295081"
proof -
  obtain s' resp where r: "execute_unbond example_deps example_env 400 ''u'' example_hub = Ok (s', resp)"
    using example_unbonded by blast
  have e: "PARAMETERS example_hub = Some example_params" "STATE slashed_hub = Some slashed_state"
    "CURRENT_BATCH example_hub = Some \<lparr>cb_id = 2, requested_with_fee = 100\<rparr>"
    "ok_or_default 0 (query_total_issued example_deps slashed_hub) = Ok 1000"
    "epoch_period example_params = 30" "last_unbonded_time slashed_state = 1000000" "block_seconds example_env = 2000000"
    by (simp_all add: slashed_hub_def example_hub_def slashed_state_def example_state_def example_params_def example_env_def
        query_total_issued_def example_hub_config_def example_eval)
  have n: "unbond_charged example_params slashed_state 1000 100 400 = 398"
    "rate_atoms (unat (total_bond_amount slashed_state)) 1098 = 901639344262295081"
    by (simp_all add: unbond_charged_def slashed_state_def example_params_def decimal_less_iff dec_unit_def rate_atoms_def)
  obtain msgs burn rate and requested :: uint128 where o: "messages resp = msgs @ [burn]"
    "CURRENT_BATCH s' = Some \<lparr>cb_id = 3, requested_with_fee = 0\<rparr>" "unat requested = 498" "datoms rate = 901639344262295081"
    "store_get 2 (history_map s') = Some \<lparr>batch_id = 2, batch_time = 2000000, batch_amount = requested,
        applied_exchange_rate = rate, withdraw_rate = rate, released = False\<rparr>"
    "undelegated_total msgs = unat requested * datoms rate div dec_unit"
    using unbond_closes_epoch [OF example_numbers r] by (auto simp: e n example_slashed)
  then have "undelegated_total msgs = 449" by (simp add: dec_unit_def)
  with r o show ?thesis by fastforce
qed

text \<open>
  C24.  Choosing validators ends with messages whenever the delegations cover the claim: the loop
  neither panics on an exhausted list nor stops early, and what it takes adds up to the claim.
\<close>

theorem pick_validator_succeeds:
  assumes num: "cosmwasm_numbers (dlib d)" and rng: "random_range (dlib d)"
    and params: "PARAMETERS s = Some params" and dels: "query_all_delegations (dquerier d) delegator = Ok dels"
    and enough: "unat claim \<le> delegated_total dels" and height: "unat height + length dels < 2 ^ 64"
  shows "\<exists>msgs. pick_validator d s claim delegator height = Ok msgs \<and> undelegated_total msgs = unat claim"
proof -
  have "unat height + unat (0 :: u64) + length dels < 2 ^ 64" using height by simp
  from pick_loop_returns [OF num rng enough this]
  obtain msgs where "pick_validator d s claim delegator height = Ok msgs"
    using params dels by (fastforce simp: pick_validator_def)
  with pick_validator_ok [OF num this] show ?thesis by blast
qed

theorem pick_validator_succeeds_witness:
  "\<exists>msgs. pick_validator example_deps example_hub 700 ''hub'' 5 = Ok msgs \<and> undelegated_total msgs = 700"
proof -
  have l: "cosmwasm_numbers (dlib example_deps)" "random_range (dlib example_deps)"
    by (simp_all add: std_num.cosmwasm_numbers_axioms std_rng.random_range_axioms)
  have p: "PARAMETERS example_hub = Some example_params" by (simp add: example_hub_def)
  have q: "query_all_delegations (dquerier example_deps) ''hub'' =
      Ok [\<lparr>validator = ''v1'', delegated = Coin ''uluna'' 600\<rparr>, \<lparr>validator = ''v2'', delegated = Coin ''uluna'' 390\<rparr>]"
    by (simp add: example_querier_eval)
  show ?thesis using pick_validator_succeeds [OF l p q, of 700 5] by simp
qed

end
