(* ===== verification/Hub_Solvency.thy ===== *)
theory Hub_Solvency
  imports Hub_Flow_Properties Hub_Batch_Properties
begin

text \<open>
  The coins of the hub.  What the users can draw from released batches is covered by the balance the hub
  has recorded, which its account really holds: releasing promises at most what arrived since the last
  withdrawal, and a withdrawal takes the promise and the coins away together.
\<close>

section \<open>What is owed\<close>

definition owed :: "hub_storage \<Rightarrow> nat" where
  "owed s = store_sum (\<lambda>k v. entry_due s (snd k) v) (wait_map s)"

lemma owed_cong:
  assumes "wait_map s' = wait_map s"
    and "\<And>u i v. ((u, i), v) \<in> set (wait_map s) \<Longrightarrow> entry_due s' i v = entry_due s i v"
  shows "owed s' = owed s"
  unfolding owed_def store_sum_def assms(1)
  by (rule arg_cong [where f = sum_list]) (use assms(2) in auto)

lemma history_kept:
  assumes num: "cosmwasm_numbers l" and inv: "hub_inv s" and run: "process_withdraw_rate l t bal s = Ok s'"
    and i: "i \<notin> newly_released s s'"
  shows "store_get i (history_map s') = store_get i (history_map s)"
proof -
  obtain st b where st: "STATE s = Some st" using inv by (rule hub_invE)
  show ?thesis by (rule process_withdraw_rate_released [OF num inv run st]) (use i in blast)
qed

lemma owed_after_release:
  assumes num: "cosmwasm_numbers l" and inv: "hub_inv s" and run: "process_withdraw_rate l t bal s = Ok s'"
  shows "owed s' = owed s + due_in s' (newly_released s s')"
proof -
  have w: "wait_map s' = wait_map s" by (rule process_withdraw_rate_frame [OF num inv run])
  have "entry_due s' i v = entry_due s i v + (if i \<in> newly_released s s' then entry_due s' i v else 0)" for i v
  proof (cases "i \<in> newly_released s s'")
    case True
    then have "entry_due s i v = 0" by (auto simp: entry_due_def newly_released_def is_released_def split: option.splits)
    with True show ?thesis by simp
  next
    case False
    then show ?thesis using history_kept [OF num inv run False] by (simp add: entry_due_def)
  qed
  then have "owed s' = store_sum (\<lambda>k v. entry_due s (snd k) v + (if snd k \<in> newly_released s s' then entry_due s' (snd k) v else 0)) (wait_map s')"
    unfolding owed_def by (intro arg_cong2 [where f = store_sum] ext) simp_all
  also have "\<dots> = owed s + due_in s' (newly_released s s')"
    unfolding owed_def due_in_def store_sum_def w by (simp add: split_def sum_list_addf)
  finally show ?thesis .
qed

text \<open>A withdrawal takes away exactly what the sender could draw.\<close>

lemma fold_remove_filter:
  "fold (\<lambda>b. store_remove (u, b)) bs m = filter (\<lambda>p. \<not> (fst (fst p) = u \<and> snd (fst p) \<in> set bs)) m"
  by (induction bs arbitrary: m) (auto simp: store_remove_def intro!: filter_cong)

lemma owed_after_removal:
  assumes w: "wait_map s' = fold (\<lambda>b. store_remove (u, b)) (released_batches s (map fst (wait_bucket s u))) (wait_map s)"
    and h: "history_map s' = history_map s"
  shows "owed s' + released_due s u = owed s"
proof -
  let ?f = "\<lambda>p. entry_due s (snd (fst p)) (snd p)"
  let ?Q = "\<lambda>p. fst (fst p) = u \<and> snd (fst p) \<in> set (released_batches s (map fst (wait_bucket s u)))"
  have due: "entry_due s' = entry_due s" by (intro ext) (simp add: entry_due_def h)
  have "released_due s u = sum_list (map (\<lambda>p. if fst (fst p) = u then ?f p else 0) (wait_map s))"
    unfolding released_due_def wait_bucket_def by (simp add: comp_def split_def sum_list_map_filter')
  moreover have "owed s' = sum_list (map (\<lambda>p. if \<not> ?Q p then ?f p else 0) (wait_map s))"
    unfolding owed_def store_sum_def w fold_remove_filter due by (simp only: split_def sum_list_map_filter')
  moreover have "owed s = sum_list (map (\<lambda>p. (if \<not> ?Q p then ?f p else 0) + (if fst (fst p) = u then ?f p else 0)) (wait_map s))"
    unfolding owed_def store_sum_def
  proof (intro arg_cong [where f = sum_list] map_cong refl)
    fix p assume p: "p \<in> set (wait_map s)"
    show "(case p of (k, v) \<Rightarrow> entry_due s (snd k) v) = (if \<not> ?Q p then ?f p else 0) + (if fst (fst p) = u then ?f p else 0)"
    proof (cases "fst (fst p) = u")
      case True
      then have "snd (fst p) \<in> set (map fst (wait_bucket s u))" using p by (force simp: wait_bucket_def)
      with True show ?thesis
        by (auto simp: split_def released_batches_mem is_released_def entry_due_def split: option.splits)
    qed (simp add: split_def)
  qed
  ultimately show ?thesis by (simp add: sum_list_addf)
qed


section \<open>Releasing within what arrived\<close>

text \<open>
  The conditions under which a release promises at most what arrived: something arrived, the batches were
  worth something, and the shortfall is small against the precision of the weights.
\<close>

definition fair_release :: "hub_storage \<Rightarrow> hub_storage \<Rightarrow> uint128 \<Rightarrow> bool" where
  "fair_release s s' hub_balance \<longleftrightarrow> newly_released s s' = {} \<or>
     (\<exists>st. STATE s = Some st \<and> 0 < arrived_coins st hub_balance \<and> (\<forall>i \<in> newly_released s s'. 0 < coins_of s i) \<and>
        ((\<Sum>i \<in> newly_released s s'. coins_of s i) - arrived_coins st hub_balance) * (card (newly_released s s') - 1) \<le> dec_unit)"

definition covered :: "hub_storage \<Rightarrow> bool" where
  "covered s \<longleftrightarrow> (\<exists>st. STATE s = Some st \<and> actual_unbonded_amount st = 0 \<and> owed s \<le> unat (prev_hub_balance st))"

lemma release_within_balance:
  assumes num: "cosmwasm_numbers l" and inv: "hub_inv s" and run: "process_withdraw_rate l t bal s = Ok s'"
    and cov: "covered s" and st: "STATE s = Some st" and more: "prev_hub_balance st \<le> bal" and fair: "fair_release s s' bal"
  shows "owed s' \<le> unat bal"
proof (cases "newly_released s s' = {}")
  case True
  then have "owed s' = owed s" using owed_after_release [OF num inv run] by (simp add: due_in_def store_sum_def split_def)
  then show ?thesis using cov st more by (auto simp: covered_def word_le_nat_alt)
next
  case False
  have "due_in s' (newly_released s s') \<le> (\<Sum>i \<in> newly_released s s'. coins_of s' i)"
    by (rule due_in_le_coins [OF process_withdraw_rate_inv [OF num inv run]])
      (auto simp: newly_released_def is_released_def split: option.splits)
  also have "\<dots> \<le> arrived_coins st bal"
    using fair False st by (intro released_coins_le [OF num inv run st]) (auto simp: fair_release_def)
  also have "\<dots> = unat bal - unat (prev_hub_balance st)" using cov st more by (auto simp: covered_def arrived_coins_def)
  finally show ?thesis
    using owed_after_release [OF num inv run] cov st more by (auto simp: covered_def word_le_nat_alt)
qed

lemma withdraw_covered:
  assumes num: "cosmwasm_numbers (dlib d)" and inv: "hub_inv s" and cov: "covered s" and st: "STATE s = Some st"
    and run: "execute_withdraw_unbonded d e i s = Ok (s', resp)"
    and bal: "PARAMETERS s = Some params" "query_balance (dquerier d) (contract_address e) (underlying_coin_denom params) = Ok bal"
    and more: "prev_hub_balance st \<le> amount bal"
    and fair: "\<And>t s1. unat (block_seconds e) = unat (unbonding_period params) + unat t \<Longrightarrow>
      process_withdraw_rate (dlib d) t (amount bal) s = Ok s1 \<Longrightarrow> fair_release s s1 (amount bal)"
  shows "covered s' \<and> (\<exists>w st'. messages resp = [BankSend (sender i) [Coin (underlying_coin_denom params) w]] \<and>
     STATE s' = Some st' \<and> unat (amount bal) = unat (prev_hub_balance st') + unat w)"
  using num run
proof (cases rule: execute_withdraw_unbonded_ok)
  case (1 params' t bal' s1 w prev st1)
  have b: "params' = params" "bal' = bal" using bal 1(1,3) by simp_all
  have hist: "store_ok (history_map s)" using inv by (auto simp: batch_inv_def elim!: hub_invE)
  have act: "actual_unbonded_amount st1 = 0"
    by (rule process_withdraw_rate_ok [OF num hist 1(4)]) (use 1(8) in auto)
  have le: "owed s1 \<le> unat (amount bal)"
    using release_within_balance [OF num inv 1(4) cov st] more fair 1(2,4) by (simp add: b)
  have "owed s' + unat w = owed s1" using owed_after_removal [of s' "sender i" s1] by (simp add: 1(5,9))
  with le 1(7) have "owed s' \<le> unat prev" by (simp add: b)
  then show ?thesis using act 1(7,10) by (auto simp: covered_def 1(9) b)
qed


text \<open>Unbonding adds to batches that are not released.\<close>

lemma unbond_covered:
  assumes num: "cosmwasm_numbers (dlib d)" and inv: "hub_inv s" and run: "execute_unbond d e n u s = Ok (s', resp)" and cov: "covered s"
    and s: "STATE s = Some old"
  shows "covered s' \<and> (\<exists>st'. STATE s' = Some st' \<and> prev_hub_balance st' = prev_hub_balance old)"
  using num run
proof (cases rule: execute_unbond_ok)
  case (1 params batch s1 st issued a requested s2 issued1 st1 s3 st2 batch2 msgs to b cfg raw)
  obtain st0 where st0: "STATE s = Some st0" "batch_inv s st0 batch" using inv 1(2) by (auto elim!: hub_invE)
  have s1: "wait_map s1 = wait_map s" "history_map s1 = history_map s"
    and st: "actual_unbonded_amount st = actual_unbonded_amount st0" "prev_hub_balance st = prev_hub_balance st0"
    using slashing_frame [OF num 1(3)] 1(4) st0(1) by auto
  obtain v where s2: "s2 = s1\<lparr>wait_map := store_set (wait_enc (dlib d)) (u, cb_id batch) v (wait_map s)\<rparr>"
    using 1(8) by (auto simp: store_unbond_wait_list_def s1)
  have fresh: "store_get (cb_id batch) (history_map s) = None" using st0(2) by (auto simp: batch_inv_def)
  have s3: "wait_map s3 = wait_map s2 \<and> actual_unbonded_amount st2 = actual_unbonded_amount st1 \<and>
      prev_hub_balance st2 = prev_hub_balance st1 \<and>
      (history_map s3 = history_map s \<or> (\<exists>h. \<not> released h \<and> history_map s3 = store_set to_be_bytes (cb_id batch) h (history_map s)))"
  proof (cases "unat (epoch_period params) + unat (last_unbonded_time st1) < unat (block_seconds e)")
    case True
    with 1(12) have "close_batch d e st1 (batch\<lparr>requested_with_fee := requested\<rparr>) s2 = Ok (s3, st2, batch2, msgs)" by simp
    with num show ?thesis
    proof (cases rule: close_batch_ok)
      case (1 z bonded next_id)
      have "\<not> released (closed_history e st1 (batch\<lparr>requested_with_fee := requested\<rparr>))" by (simp add: closed_history_def)
      with 1(6,7) show ?thesis by (auto simp: s2 s1)
    qed
  next
    case False
    with 1(12) show ?thesis by (simp add: s2 s1)
  qed
  have due: "entry_due s' = entry_due s"
    using s3 fresh by (intro ext) (auto simp: 1(13) entry_due_def store_get_set)
  have "owed s' = store_sum (\<lambda>k v. entry_due s (snd k) v) (store_set (wait_enc (dlib d)) (u, cb_id batch) v (wait_map s))"
    unfolding owed_def due using s3 by (simp add: 1(13) s2)
  also have "\<dots> = owed s"
    using kv.total_put [of "wait_map s" "\<lambda>k v. entry_due s (snd k) v" "wait_enc (dlib d)" "(u, cb_id batch)" v] st0(2) fresh
    by (auto simp: owed_def batch_inv_def entry_due_def opt_sum_def split: option.splits)
  finally have "owed s' = owed s" .
  moreover have "actual_unbonded_amount st1 = actual_unbonded_amount st" "prev_hub_balance st1 = prev_hub_balance st"
    using cosmwasm_numbers.update_exchange_rate_frame [OF num 1(10)] by simp_all
  ultimately show ?thesis using cov s st0(1) st s3 by (simp add: covered_def 1(13))
qed

lemma covered_frame:
  assumes "covered s" and "wait_map s' = wait_map s" "history_map s' = history_map s" and "STATE s = Some st" "STATE s' = Some st'"
    and "actual_unbonded_amount st' = actual_unbonded_amount st" "prev_hub_balance st' = prev_hub_balance st"
  shows "covered s'"
  using assms owed_cong [of s' s] by (auto simp: covered_def entry_due_def)



section \<open>The hub and its account\<close>

record hub_chain =
  hub_chain_storage :: hub_storage
  hub_chain_coins :: nat

definition bank_outflow :: "string \<Rightarrow> response \<Rightarrow> nat" where
  "bank_outflow dn resp = sum_list (map (\<lambda>m. case m of
     BankSend to cs \<Rightarrow> sum_list (map (\<lambda>c. if denom c = dn then unat (amount c) else 0) cs) | _ \<Rightarrow> 0) (messages resp))"

text \<open>
  Coins arrive at any time (undelegated coins after the unbonding period, gifts) and leave by the hub's bank
  messages; the coins of a bond are delegated at once.  Every message is executed with the true balance, and
  withdrawals release batches under the conditions of \<open>fair_release\<close>.
\<close>

inductive hub_chain_reachable :: "lib \<Rightarrow> hub_chain \<Rightarrow> bool" for l :: lib where
  hub_started: "hub_instantiate d e info msg empty_hub_storage = Ok (s, resp) \<Longrightarrow>
     hub_chain_reachable l \<lparr>hub_chain_storage = s, hub_chain_coins = n\<rparr>"
| hub_paid: "hub_chain_reachable l ch \<Longrightarrow> hub_chain_reachable l (ch\<lparr>hub_chain_coins := hub_chain_coins ch + n\<rparr>)"
| hub_ran: "hub_chain_reachable l ch \<Longrightarrow> dlib d = l \<Longrightarrow> PARAMETERS (hub_chain_storage ch) = Some params \<Longrightarrow>
     query_balance (dquerier d) (contract_address e) (underlying_coin_denom params) = Ok bal \<Longrightarrow>
     unat (amount bal) = hub_chain_coins ch \<Longrightarrow>
     hub_execute d e info msg (hub_chain_storage ch) = Ok (s', resp) \<Longrightarrow>
     \<forall>t s1. msg = WithdrawUnbonded \<longrightarrow> unat (block_seconds e) = unat (unbonding_period params) + unat t \<longrightarrow>
       process_withdraw_rate l t (amount bal) (hub_chain_storage ch) = Ok s1 \<longrightarrow>
       fair_release (hub_chain_storage ch) s1 (amount bal) \<Longrightarrow>
     hub_chain_reachable l \<lparr>hub_chain_storage = s',
       hub_chain_coins = hub_chain_coins ch - bank_outflow (underlying_coin_denom params) resp\<rparr>"

definition hub_solvent :: "hub_chain \<Rightarrow> bool" where
  "hub_solvent ch \<longleftrightarrow> hub_inv (hub_chain_storage ch) \<and> covered (hub_chain_storage ch) \<and>
     (\<exists>st. STATE (hub_chain_storage ch) = Some st \<and> unat (prev_hub_balance st) \<le> hub_chain_coins ch)"

text \<open>Only withdrawals send coins, and only they and unbonding touch the wait lists.\<close>

lemma deregister_effect:
  assumes "execute_deregister_validator d e i v s = Ok (s', resp)"
  shows "bank_outflow dn resp = 0 \<and> (\<exists>vm. s' = s\<lparr>validators_map := vm\<rparr>)"
  using assms
  by (cases "query_delegation (dquerier d) (contract_address e) v")
    (auto simp: execute_deregister_validator_def remove_white_validators_def bank_outflow_def split: if_splits option.splits)

lemma update_config_effect:
  assumes "execute_update_config d i ow rw tk ad s = Ok (s', resp)"
  shows "bank_outflow dn resp = 0 \<and> (\<exists>c. s' = s\<lparr>CONFIG := c\<rparr>)"
proof -
  obtain s1 s2 s3 where f: "update_config_field d ow (\<lambda>raw c. c\<lparr>creator := raw\<rparr>) s = Ok s1"
    "update_config_field d rw (\<lambda>raw c. c\<lparr>reward_contract := Some raw\<rparr>) s1 = Ok s2"
    "update_config_field d tk (\<lambda>raw c. c\<lparr>token_contract := Some raw\<rparr>) s2 = Ok s3"
    "update_config_field d ad (\<lambda>raw c. c\<lparr>airdrop_registry_contract := Some raw\<rparr>) s3 = Ok s'"
    and r: "messages resp = (case rw of None \<Rightarrow> [] | Some reward \<Rightarrow> [SetWithdrawAddress reward])"
    using assms by (auto simp: execute_update_config_def split: if_splits)
  have step: "\<exists>c. t' = s\<lparr>CONFIG := c\<rparr>" if "update_config_field d f upd t = Ok t'" "\<exists>c. t = s\<lparr>CONFIG := c\<rparr>" for f upd t t'
    using that by (elim update_config_field_ok) auto
  have "\<exists>c. s = s\<lparr>CONFIG := c\<rparr>" by (rule exI [of _ "CONFIG s"]) simp
  from step [OF f(4) step [OF f(3) step [OF f(2) step [OF f(1) this]]]] have "\<exists>c. s' = s\<lparr>CONFIG := c\<rparr>" .
  then show ?thesis using r by (simp add: bank_outflow_def split: option.splits)
qed

definition outflow_of :: "string \<Rightarrow> cosmos_msg list \<Rightarrow> nat" where
  "outflow_of dn ms = bank_outflow dn \<lparr>messages = ms, attributes = []\<rparr>"

lemma outflow_simps [simp]:
  "outflow_of dn [] = 0" "outflow_of dn (xs @ ys) = outflow_of dn xs + outflow_of dn ys"
  "outflow_of dn (WasmExecute to b fs # ms) = outflow_of dn ms"
  "outflow_of dn (map (\<lambda>x. WasmExecute to (f x) fs) hs) = 0"
  "outflow_of dn (map (\<lambda>x. WithdrawDelegatorReward (g x)) ds) = 0"
  by (simp_all add: outflow_of_def bank_outflow_def comp_def)

lemma bank_outflow_messages: "bank_outflow dn resp = outflow_of dn (messages resp)"
  by (simp add: outflow_of_def bank_outflow_def)

lemma update_global_effect:
  assumes "execute_update_global d e hooks s = Ok (s', resp)" and st: "STATE s = Some st"
  shows "bank_outflow dn resp = 0 \<and> s' = s\<lparr>STATE := Some (st\<lparr>last_index_modification := block_seconds e\<rparr>)\<rparr>"
proof -
  obtain hook_msgs withdraw_msgs ra sm um where w: "withdraw_all_rewards d (contract_address e) = Ok withdraw_msgs"
    and r: "messages resp = hook_msgs @ withdraw_msgs @ [WasmExecute ra sm [], WasmExecute ra um []]"
      "s' = s\<lparr>STATE := Some (st\<lparr>last_index_modification := block_seconds e\<rparr>)\<rparr>"
    and h: "\<exists>rg hs. hook_msgs = map (\<lambda>msg. WasmExecute rg msg []) hs"
  proof (cases hooks)
    case None
    then show ?thesis using assms that [of _ "[]"] by (auto simp: execute_update_global_def st)
  next
    case (Some hs)
    then show ?thesis using assms that by (auto simp: execute_update_global_def st) blast
  qed
  have "outflow_of dn hook_msgs = 0" using h by auto
  moreover have "outflow_of dn withdraw_msgs = 0" using w by (auto simp: withdraw_all_rewards_def split: res.splits)
  ultimately show ?thesis using r by (simp add: bank_outflow_messages)
qed

lemma other_hub_messages:
  assumes num: "cosmwasm_numbers (dlib d)" and run: "hub_execute d e i m s = Ok (s', resp)" and st: "STATE s = Some st"
    and m: "m \<noteq> WithdrawUnbonded" "\<And>r. m \<noteq> Receive r"
  shows "bank_outflow dn resp = 0 \<and> wait_map s' = wait_map s \<and> history_map s' = history_map s \<and>
     (\<exists>st'. STATE s' = Some st' \<and> actual_unbonded_amount st' = actual_unbonded_amount st \<and> prev_hub_balance st' = prev_hub_balance st)"
proof (cases m)
  case (Bond v)
  then have "execute_bond d e i v s = Ok (s', resp)" using run by (simp add: hub_execute_def)
  then show ?thesis
  proof (cases rule: execute_bond_ok)
    case (1 params batch payment s1 st1 issued minted new_supply bonded st' config token to mint_msg)
    have s1: "wait_map s1 = wait_map s" "history_map s1 = history_map s"
      "actual_unbonded_amount st1 = actual_unbonded_amount st" "prev_hub_balance st1 = prev_hub_balance st"
      using slashing_frame [OF num 1(7)] 1(8) st by auto
    then show ?thesis
      using cosmwasm_numbers.update_exchange_rate_frame(3,4) [OF num 1(13)] by (simp add: 1(18,19) bank_outflow_def)
  qed
next
  case CheckSlashing
  then have "slashing d e s = Ok s'" "messages resp = []" using run by (auto simp: hub_execute_def execute_slashing_def)
  then show ?thesis using slashing_frame [OF num] st by (fastforce simp: bank_outflow_def)
next
  case (DeregisterValidator v)
  then show ?thesis using run deregister_effect st by (fastforce simp: hub_execute_def)
next
  case (HubUpdateConfig ow rw tk ad)
  then show ?thesis using run update_config_effect st by (fastforce simp: hub_execute_def)
next
  case (HubUpdateGlobalIndex hooks)
  then have "execute_update_global d e hooks s = Ok (s', resp)" using run by (simp add: hub_execute_def)
  from update_global_effect [OF this st] show ?thesis by simp
next
  case (Receive r)
  then show ?thesis using m(2) by blast
next
  case WithdrawUnbonded
  then show ?thesis using m(1) by blast
qed (use run st in \<open>auto simp: hub_execute_def execute_register_validator_def store_white_validators_def execute_update_params_def
    swap_hook_def claim_airdrop_def bank_outflow_def split: if_splits\<close>)

lemma unbond_outflow:
  assumes num: "cosmwasm_numbers (dlib d)" and run: "execute_unbond d e n u s = Ok (s', resp)"
  shows "bank_outflow dn resp = 0"
  using num run
proof (cases rule: execute_unbond_ok)
  case (1 params batch s1 st issued a requested s2 issued1 st1 s3 st2 batch2 msgs to b cfg raw)
  have "bank_outflow dn \<lparr>messages = msgs, attributes = []\<rparr> = 0"
  proof (cases "unat (epoch_period params) + unat (last_unbonded_time st1) < unat (block_seconds e)")
    case True
    with 1(12) have "close_batch d e st1 (batch\<lparr>requested_with_fee := requested\<rparr>) s2 = Ok (s3, st2, batch2, msgs)" by simp
    with num obtain z where "pick_validator d s2 z (contract_address e) (block_height e) = Ok msgs" by (rule close_batch_ok)
    then obtain dnm ds where "list_all2 (undelegates dnm) ds msgs" using pick_validator_ok [OF num] by blast
    then show ?thesis by (induction rule: list_all2_induct) (auto simp: bank_outflow_def elim: undelegates.elims)
  next
    case False
    with 1(12) show ?thesis by (simp add: bank_outflow_def)
  qed
  then show ?thesis by (simp add: bank_outflow_def 1(15))
qed

lemma receive_unbonds:
  assumes "hub_execute d e i (Receive r) s = Ok (s', resp)"
  shows "execute_unbond d e (cw20_amount r) (cw20_sender r) s = Ok (s', resp)"
  using assms by (auto simp: hub_execute_def receive_cw20_def split: if_splits cw20_hook_msg.splits res.splits)

lemma hub_outflow:
  assumes num: "cosmwasm_numbers (dlib d)" and run: "hub_execute d e i m s = Ok (s', resp)" and st: "STATE s = Some st"
    and m: "m \<noteq> WithdrawUnbonded"
  shows "bank_outflow dn resp = 0"
proof (cases "\<exists>r. m = Receive r")
  case True
  then obtain r where "hub_execute d e i (Receive r) s = Ok (s', resp)" using run by blast
  from unbond_outflow [OF num receive_unbonds [OF this]] show ?thesis .
next
  case False
  then show ?thesis using other_hub_messages [OF num run st m] by blast
qed

lemma hub_chain_step:
  assumes sol: "hub_solvent ch" and num: "cosmwasm_numbers (dlib d)"
    and bal: "PARAMETERS (hub_chain_storage ch) = Some params"
      "query_balance (dquerier d) (contract_address e) (underlying_coin_denom params) = Ok bal" "unat (amount bal) = hub_chain_coins ch"
    and run: "hub_execute d e info msg (hub_chain_storage ch) = Ok (s', resp)"
    and fair: "\<forall>t s1. msg = WithdrawUnbonded \<longrightarrow> unat (block_seconds e) = unat (unbonding_period params) + unat t \<longrightarrow>
       process_withdraw_rate (dlib d) t (amount bal) (hub_chain_storage ch) = Ok s1 \<longrightarrow>
       fair_release (hub_chain_storage ch) s1 (amount bal)"
  shows "hub_solvent \<lparr>hub_chain_storage = s', hub_chain_coins = hub_chain_coins ch - bank_outflow (underlying_coin_denom params) resp\<rparr>"
proof -
  let ?s = "hub_chain_storage ch" and ?dn = "underlying_coin_denom params"
  obtain st where inv: "hub_inv ?s" and cov: "covered ?s" and st: "STATE ?s = Some st"
    and prev: "unat (prev_hub_balance st) \<le> hub_chain_coins ch"
    using sol by (auto simp: hub_solvent_def)
  have inv': "hub_inv s'" by (rule hub_execute_inv [OF num inv run])
  have "covered s' \<and> (\<exists>st'. STATE s' = Some st' \<and> unat (prev_hub_balance st') \<le> hub_chain_coins ch - bank_outflow ?dn resp)"
  proof (cases "msg = WithdrawUnbonded \<or> (\<exists>r. msg = Receive r)")
    case False
    then obtain st' where "bank_outflow ?dn resp = 0" "wait_map s' = wait_map ?s" "history_map s' = history_map ?s" "STATE s' = Some st'"
      "actual_unbonded_amount st' = actual_unbonded_amount st" "prev_hub_balance st' = prev_hub_balance st"
      using other_hub_messages [OF num run st] by blast
    with covered_frame [OF cov _ _ st] prev show ?thesis by simp
  next
    case True
    then show ?thesis
    proof (elim disjE exE)
      assume m: "msg = WithdrawUnbonded"
      then have "execute_withdraw_unbonded d e info ?s = Ok (s', resp)" using run by (simp add: hub_execute_def)
      from withdraw_covered [OF num inv cov st this bal(1,2)] prev bal(3) fair m show ?thesis
        by (auto simp: word_le_nat_alt bank_outflow_def)
    next
      fix r
      assume "msg = Receive r"
      then have ub: "execute_unbond d e (cw20_amount r) (cw20_sender r) ?s = Ok (s', resp)"
        using run receive_unbonds by blast
      from unbond_covered [OF num inv ub cov st] unbond_outflow [OF num ub, of ?dn] prev show ?thesis by auto
    qed
  qed
  with inv' show ?thesis by (simp add: hub_solvent_def)
qed


lemma hub_chain_solvent:
  assumes "cosmwasm_numbers l" and "hub_chain_reachable l ch"
  shows "hub_solvent ch"
  using assms(2)
proof (induction rule: hub_chain_reachable.induct)
  case (hub_started d e info msg s resp n)
  have "owed s = 0" "\<exists>st. STATE s = Some st \<and> actual_unbonded_amount st = 0 \<and> prev_hub_balance st = 0"
    using hub_started by (auto simp: hub_instantiate_def empty_hub_storage_def owed_def store_sum_def split: option.splits)
  with hub_instantiate_inv [OF hub_started] show ?case by (auto simp: hub_solvent_def covered_def)
next
  case (hub_paid ch n)
  then show ?case by (auto simp: hub_solvent_def)
next
  case (hub_ran ch d params e bal info msg s' resp)
  then show ?case using hub_chain_step [of ch d] assms(1) by blast
qed

text \<open>Everything owed includes what any one user can draw.\<close>

lemma released_due_le_owed: "released_due s u \<le> owed s"
  using owed_after_removal [of "s\<lparr>wait_map := fold (\<lambda>b. store_remove (u, b)) (released_batches s (map fst (wait_bucket s u))) (wait_map s)\<rparr>" u s]
  by simp


section \<open>A hub in use\<close>

text \<open>Two users request coins back, the batch is closed, coins arrive, and one of them withdraws.\<close>

definition two_waiting :: hub_storage where
  "two_waiting = life_hub\<lparr>CONFIG := Some wired_config, wait_map := [((''u'', 1), 100)],
     CURRENT_BATCH := Some \<lparr>cb_id = 1, requested_with_fee = 100\<rparr>, STATE := Some life_rate\<rparr>"

definition two_rate :: hub_state where
  "two_rate = life_rate\<lparr>exchange_rate := Decimal 181818181818181818\<rparr>"

definition two_closed :: hub_storage where
  "two_closed = two_waiting\<lparr>wait_map := store_set (wait_enc std_lib) (''x'', 1) 100 [((''u'', 1), 100)],
     history_map := [(1, \<lparr>batch_id = 1, batch_time = 2000100, batch_amount = 200, applied_exchange_rate = Decimal 181818181818181818,
       withdraw_rate = Decimal 181818181818181818, released = False\<rparr>)],
     CURRENT_BATCH := Some \<lparr>cb_id = 2, requested_with_fee = 0\<rparr>,
     STATE := Some (two_rate\<lparr>total_bond_amount := 164, last_unbonded_time := 2000100\<rparr>)\<rparr>"

lemma two_requested:
  "\<exists>resp. hub_execute example_deps example_env (example_info ''t'') (Receive \<lparr>cw20_sender = ''u'', cw20_amount = 100, cw20_payload = []\<rparr>)
      (life_hub\<lparr>CONFIG := Some wired_config\<rparr>) = Ok (two_waiting, resp) \<and> bank_outflow ''uluna'' resp = 0"
proof -
  let ?s = "life_hub\<lparr>CONFIG := Some wired_config\<rparr>"
  have 1: "PARAMETERS ?s = Some example_params" "epoch_period example_params = 30" "STATE ?s = Some life_state"
    "CURRENT_BATCH ?s = Some \<lparr>cb_id = 1, requested_with_fee = 0\<rparr>" "block_seconds example_env = 2000000"
    "CONFIG ?s = Some wired_config" "token_contract wired_config = Some [116]"
    by (simp_all add: life_hub_def example_params_def example_env_def wired_config_def)
  have q: "query_total_issued example_deps ?s = Ok 1000"
    by (simp add: query_total_issued_def wired_config_def example_eval)
  have 2: "slashing example_deps example_env ?s = Ok ?s"
    by (simp add: slashing_def 1 q life_state_def example_params_def example_querier_eval sum_delegations_def std_eval)
  have 3: "unbond_with_fee std_lib example_params life_state 1000 0 100 = Ok 100"
    by (simp add: unbond_with_fee_def life_state_def example_params_def decimal_less_iff)
  have 4: "store_unbond_wait_list std_lib 1 ''u'' 100 ?s = Ok (?s\<lparr>wait_map := [((''u'', 1), 100)]\<rparr>)"
    by (simp add: store_unbond_wait_list_def life_hub_def store_get_def store_set_def store_remove_def std_eval)
  have 5: "update_exchange_rate std_lib 900 100 life_state = Ok life_rate" "last_unbonded_time life_rate = 2000000"
    by (simp_all add: update_exchange_rate_def life_rate_def life_state_def std_eval)
  show ?thesis
    by (simp add: hub_execute_def receive_cw20_def execute_unbond_def 1 2 3 4 5 q u64_sub_def std_eval
        example_info_def example_api_eval two_waiting_def bank_outflow_def)
qed

lemma two_batch_closed:
  "\<exists>msgs. close_batch example_deps later_env two_rate \<lparr>cb_id = 1, requested_with_fee = 200\<rparr>
      (two_waiting\<lparr>wait_map := wait_map two_closed\<rparr>) =
     Ok (two_waiting\<lparr>wait_map := wait_map two_closed, history_map := history_map two_closed\<rparr>,
       two_rate\<lparr>total_bond_amount := 164, last_unbonded_time := 2000100\<rparr>, \<lparr>cb_id = 2, requested_with_fee = 0\<rparr>, msgs)"
proof -
  let ?s = "two_waiting\<lparr>wait_map := wait_map two_closed\<rparr>"
  have m: "(12345 :: nat) mod Suc (Suc 0) = 1" by (simp add: numeral_2_eq_2 [symmetric])
  have "\<exists>msgs. pick_validator example_deps ?s 36 ''hub'' 12345 = Ok msgs"
    by (simp add: pick_validator_def two_waiting_def life_hub_def example_params_def example_querier_eval pick_loop.simps
        u64_add_def std_eval remove_nth_def m)
  moreover have "uint_mul_decimal std_lib 200 (exchange_rate two_rate) = Ok 36"
    "uint_checked_sub std_lib (total_bond_amount two_rate) 36 = Ok 164" "exchange_rate two_rate = Decimal 181818181818181818"
    by (simp_all add: two_rate_def life_rate_def life_state_def std_eval)
  moreover have "history_map ?s = []" by (simp add: two_waiting_def life_hub_def)
  ultimately show ?thesis
    by (auto simp: close_batch_def later_env_def example_env_def store_unbond_history_def u64_add_def
        two_closed_def store_set_def store_remove_def)
qed

lemma two_ended:
  "\<exists>resp. hub_execute example_deps later_env (example_info ''t'') (Receive \<lparr>cw20_sender = ''x'', cw20_amount = 100, cw20_payload = []\<rparr>)
      two_waiting = Ok (two_closed, resp)"
proof -
  let ?s = two_waiting
  have 1: "PARAMETERS ?s = Some example_params" "epoch_period example_params = 30" "STATE ?s = Some life_rate"
    "CURRENT_BATCH ?s = Some \<lparr>cb_id = 1, requested_with_fee = 100\<rparr>" "block_seconds later_env = 2000100"
    "CONFIG ?s = Some wired_config" "token_contract wired_config = Some [116]"
    by (simp_all add: two_waiting_def life_hub_def example_params_def later_env_def example_env_def wired_config_def)
  have q: "query_total_issued example_deps ?s = Ok 1000"
    by (simp add: query_total_issued_def 1 example_eval)
  have 2: "slashing example_deps later_env ?s = Ok ?s"
    by (simp add: slashing_def 1 q life_rate_def life_state_def example_params_def example_querier_eval sum_delegations_def std_eval)
  have 3: "unbond_with_fee std_lib example_params life_rate 1000 100 100 = Ok 100"
    by (simp add: unbond_with_fee_def life_rate_def life_state_def example_params_def decimal_less_iff std_eval)
  have 4: "store_unbond_wait_list std_lib 1 ''x'' 100 ?s = Ok (?s\<lparr>wait_map := wait_map two_closed\<rparr>)"
    by (simp add: store_unbond_wait_list_def two_waiting_def two_closed_def store_get_def std_eval)
  have 5: "update_exchange_rate std_lib 900 200 life_rate = Ok two_rate" "last_unbonded_time two_rate = 2000000"
    by (simp_all add: update_exchange_rate_def two_rate_def life_rate_def life_state_def std_eval)
  obtain msgs where 7: "close_batch example_deps later_env two_rate \<lparr>cb_id = 1, requested_with_fee = 200\<rparr>
      (two_waiting\<lparr>wait_map := wait_map two_closed\<rparr>) =
     Ok (two_waiting\<lparr>wait_map := wait_map two_closed, history_map := history_map two_closed\<rparr>,
       two_rate\<lparr>total_bond_amount := 164, last_unbonded_time := 2000100\<rparr>, \<lparr>cb_id = 2, requested_with_fee = 0\<rparr>, msgs)"
    using two_batch_closed by (elim exE) (rule that)
  show ?thesis
    by (simp add: hub_execute_def receive_cw20_def execute_unbond_def 1 2 3 4 5 7 q u64_sub_def std_eval
        example_info_def example_api_eval)
      (simp add: two_closed_def)
qed

definition two_released :: hub_storage where
  "two_released = two_closed\<lparr>
     history_map := [(1, \<lparr>batch_id = 1, batch_time = 2000100, batch_amount = 200, applied_exchange_rate = Decimal 181818181818181818,
       withdraw_rate = Decimal 2495000000000000000, released = True\<rparr>)],
     STATE := Some (two_rate\<lparr>total_bond_amount := 164, last_unbonded_time := 2000100, last_processed_batch := 1\<rparr>)\<rparr>"

definition two_paid :: hub_storage where
  "two_paid = two_released\<lparr>wait_map := [((''x'', 1), 100)],
     STATE := Some (two_rate\<lparr>total_bond_amount := 164, last_unbonded_time := 2000100, last_processed_batch := 1,
       prev_hub_balance := 251\<rparr>)\<rparr>"

lemma two_processed: "process_withdraw_rate std_lib 2000200 500 two_closed = Ok two_released"
  by (simp add: process_withdraw_rate_def two_released_def two_closed_def two_rate_def life_rate_def life_state_def std_eval
      from_subtraction_def sum_unbonded.simps release_batches.simps ready_batch_def read_unbond_history_def store_get_def
      release_batch_def u64_add_def store_unbond_history_def store_set_def [of to_be_bytes] store_remove_def)

lemma two_waits: "wait_map two_closed \<in> {[((''u'', 1), 100), ((''x'', 1), 100)], [((''x'', 1), 100), ((''u'', 1), 100)]}"
  by (simp add: two_closed_def store_set_def store_remove_def)

lemma two_withdrawn:
  "\<exists>resp. hub_execute example_deps (later_env\<lparr>block_seconds := 2000300\<rparr>) (example_info ''u'') WithdrawUnbonded two_closed =
     Ok (two_paid, resp) \<and> bank_outflow ''uluna'' resp = 249"
proof -
  have 1: "PARAMETERS two_closed = Some example_params" "u64_sub 2000300 (unbonding_period example_params) = Ok 2000200"
    "underlying_coin_denom example_params = ''uluna''"
    by (simp_all add: two_closed_def two_waiting_def life_hub_def example_params_def u64_sub_def)
  have 2: "get_finished_amount std_lib two_released ''u'' = Ok 249" "get_unbond_batches two_released ''u'' = Ok [1]"
    using two_waits
    by (auto simp: get_finished_amount_def get_unbond_batches_def wait_bucket_def two_released_def
        read_unbond_history_def store_get_def std_eval)
  have 3: "store_remove (''u'', 1) (wait_map two_closed) = [((''x'', 1), 100)]"
    using two_waits by (auto simp: store_remove_def)
  show ?thesis
    by (simp add: hub_execute_def execute_withdraw_unbonded_def example_info_def example_querier_eval 1
        two_processed 2 remove_unbond_wait_list_def std_eval bank_outflow_def)
      (simp add: two_released_def two_paid_def 3 two_rate_def life_rate_def life_state_def)
qed

text \<open>Only one batch can be released, so the release is fair.\<close>

lemma two_fair:
  assumes inv: "hub_inv two_closed" and run: "process_withdraw_rate std_lib t 500 two_closed = Ok s1"
  shows "fair_release two_closed s1 500"
proof -
  obtain st where st: "STATE two_closed = Some st" "arrived_coins st 500 = 500"
    by (simp add: two_closed_def two_rate_def life_rate_def life_state_def arrived_coins_def)
  have h: "store_get i (history_map two_closed) = None" if "i \<noteq> 1" for i using that by (simp add: two_closed_def store_get_def)
  have c: "coins_of two_closed 1 = 36" by (simp add: two_closed_def coins_of_def store_get_def batch_coins_def dec_unit_def)
  have "newly_released two_closed s1 \<subseteq> {1}"
  proof (rule process_withdraw_rate_released [OF std_num.cosmwasm_numbers_axioms inv run st(1)])
    fix first j tot sl
    assume "newly_released two_closed s1 = {first..<j}"
      "\<forall>i\<in>{first..<j}. \<exists>h h'. store_get i (history_map two_closed) = Some h \<and>
         release_batch std_lib tot sl h = Ok h' \<and> store_get i (history_map s1) = Some h'"
    then have "store_get i (history_map two_closed) \<noteq> None" if "i \<in> newly_released two_closed s1" for i using that by fastforce
    with h show ?thesis by blast
  qed
  then have "newly_released two_closed s1 = {} \<or> newly_released two_closed s1 = {1}" by blast
  then show ?thesis by (auto simp: fair_release_def st c)
qed

lemma two_reached: "hub_chain_reachable std_lib \<lparr>hub_chain_storage = two_paid, hub_chain_coins = 251\<rparr>"
proof -
  let ?at = "\<lambda>s. \<lparr>hub_chain_storage = s, hub_chain_coins = 500\<rparr>"
  note num = std_num.cosmwasm_numbers_axioms
  have l: "dlib example_deps = std_lib" by simp
  have dn: "underlying_coin_denom example_params = ''uluna''" by (simp add: example_params_def)
  have bal: "query_balance (dquerier example_deps) a (underlying_coin_denom example_params) = Ok (Coin ''uluna'' 500)" for a
    by (simp add: example_querier_eval dn)
  have step: "hub_chain_reachable std_lib (?at s')"
    if r: "hub_chain_reachable std_lib (?at s)" and p: "PARAMETERS s = Some example_params"
      and run: "hub_execute example_deps e i m s = Ok (s', resp)" and m: "m \<noteq> WithdrawUnbonded"
    for s s' e i m resp
  proof -
    obtain st where "STATE s = Some st" using hub_chain_solvent [OF num r] by (auto simp: hub_solvent_def)
    then have "bank_outflow ''uluna'' resp = 0" using hub_outflow [of example_deps] num run m by simp
    then show ?thesis using hub_ran [OF r l _ bal, of e i m s' resp] p run m by (simp add: dn)
  qed
  obtain r1 r2 r3 r4 where run: "hub_execute example_deps example_env (example_info ''o'') (HubUpdateConfig None (Some ''r'') (Some ''t'') None)
        life_hub = Ok (life_hub\<lparr>CONFIG := Some wired_config\<rparr>, r1)"
    "hub_execute example_deps example_env (example_info ''t'') (Receive \<lparr>cw20_sender = ''u'', cw20_amount = 100, cw20_payload = []\<rparr>)
        (life_hub\<lparr>CONFIG := Some wired_config\<rparr>) = Ok (two_waiting, r2)"
    "hub_execute example_deps later_env (example_info ''t'') (Receive \<lparr>cw20_sender = ''x'', cw20_amount = 100, cw20_payload = []\<rparr>)
        two_waiting = Ok (two_closed, r3)"
    "hub_execute example_deps (later_env\<lparr>block_seconds := 2000300\<rparr>) (example_info ''u'') WithdrawUnbonded two_closed = Ok (two_paid, r4)"
    and out: "bank_outflow ''uluna'' r4 = 249"
    using life_configured two_requested two_ended two_withdrawn by blast
  have p: "PARAMETERS life_hub = Some example_params" "PARAMETERS two_waiting = Some example_params" "PARAMETERS two_closed = Some example_params"
    by (simp_all add: two_closed_def two_waiting_def life_hub_def)
  have "hub_chain_reachable std_lib (?at life_hub)" using life_instantiated by (elim exE) (rule hub_started)
  from step [OF step [OF step [OF this p(1) run(1)] _ run(2)] p(2) run(3)]
  have r: "hub_chain_reachable std_lib (?at two_closed)" by (simp add: p)
  then have "hub_inv two_closed" using hub_chain_solvent [OF num r] by (simp add: hub_solvent_def)
  from hub_ran [OF r l _ bal, of _ _ WithdrawUnbonded two_paid r4] two_fair [OF this] run(4) out p(3)
  show ?thesis by (simp add: dn)
qed

text \<open>
  C6.  In every state of the hub and its account that is reached with releases under the conditions of
  \<open>fair_release\<close>, everything the users can draw from released batches is together covered by the balance
  the hub has recorded, which its account really holds; in particular any one user's released requests
  can be paid.
\<close>

theorem hub_solvency:
  assumes "cosmwasm_numbers l" and "hub_chain_reachable l ch"
  shows "\<exists>st. STATE (hub_chain_storage ch) = Some st \<and> owed (hub_chain_storage ch) \<le> unat (prev_hub_balance st) \<and>
     unat (prev_hub_balance st) \<le> hub_chain_coins ch \<and> released_due (hub_chain_storage ch) u \<le> hub_chain_coins ch"
  using hub_chain_solvent [OF assms] released_due_le_owed [of "hub_chain_storage ch" u]
  by (fastforce simp: hub_solvent_def covered_def)


theorem hub_solvency_witness:
  "hub_chain_reachable std_lib \<lparr>hub_chain_storage = two_paid, hub_chain_coins = 251\<rparr> \<and> owed two_paid = 249 \<and>
   released_due two_paid ''x'' \<le> 251"
  using hub_solvency [OF std_num.cosmwasm_numbers_axioms two_reached, of "''x''"] two_reached
  by (simp add: owed_def two_paid_def two_released_def two_closed_def store_sum_def entry_due_def store_get_def dec_unit_def)

end
