(* ===== verification/Withdrawal_Limits.thy ===== *)
theory Withdrawal_Limits
  imports Hub_Solvency
begin

text \<open>
  Where releasing batches falls short of its intent: coins that arrive before their batch is mature are
  forgotten by a withdrawal, a tiny surplus or a batch worth nothing blocks every release, a batch for which
  nothing arrived is still worth one coin, and the query of withdrawable amounts is stricter than the
  withdrawal.
\<close>

section \<open>Coins that arrive early\<close>

text \<open>
  A call of \<open>process_withdraw_rate\<close> keeps nothing of the balance change it has seen, whether or not it
  released a batch.
\<close>

lemma change_not_kept:
  assumes "cosmwasm_numbers l" and "hub_inv s" and "process_withdraw_rate l t bal s = Ok s'" and "STATE s' = Some st'"
  shows "actual_unbonded_amount st' = 0"
proof -
  have "store_ok (history_map s)" using assms(2) by (auto simp: batch_inv_def elim!: hub_invE)
  then show ?thesis by (rule process_withdraw_rate_ok [OF assms(1) _ assms(3)]) (use assms(4) in auto)
qed

lemma nothing_arrived_since:
  assumes num: "cosmwasm_numbers (dlib d)" and inv: "hub_inv s"
    and run: "execute_withdraw_unbonded d e info s = Ok (s', resp)" and st': "STATE s' = Some st'"
  shows "arrived_coins st' (prev_hub_balance st') = 0"
  using num run
proof (cases rule: execute_withdraw_unbonded_ok)
  case (1 params t bal s1 w prev st)
  from change_not_kept [OF num inv 1(4,8)] 1(9) st' show ?thesis by (auto simp: arrived_coins_def)
qed

text \<open>
  C32.  Coins that arrive before their batch is mature are lost to it.  A withdrawal records the whole
  balance it leaves, with every coin that has arrived for batches not yet mature; if no further coin
  arrives, the batches that are released next get at most one coin each (and one more for every \<open>dec_unit\<close>
  coins they are worth), however many of their coins were already in the account.
\<close>

theorem early_coins_lost:
  assumes num: "cosmwasm_numbers (dlib d)" and reach: "hub_reachable (dlib d) s"
    and run: "execute_withdraw_unbonded d e info s = Ok (s', resp)" and st': "STATE s' = Some st'"
    and later: "process_withdraw_rate (dlib d) t (prev_hub_balance st') s' = Ok s''"
  shows "due_in s'' (newly_released s' s'') \<le>
     card (newly_released s' s'') * (1 + (\<Sum>i\<in>newly_released s' s''. coins_of s' i) div dec_unit)"
proof -
  have inv: "hub_inv s" by (rule hub_reachable_inv [OF reach num])
  note inv' = execute_withdraw_unbonded_inv [OF num inv run]
  show ?thesis
    using due_newly_released [OF num inv' later] released_coins_slack [OF num inv' later st']
    unfolding nothing_arrived_since [OF num inv run st'] by simp
qed

text \<open>
  A run in which this happens.  After \<open>two_paid\<close> the hub has 251 coins; \<open>y\<close> unbonds 100 tokens, which closes
  batch 2 with 16 coins; then 249 coins arrive, and \<open>x\<close> withdraws before batch 2 is mature.
\<close>

definition third_env :: env where
  "third_env = later_env\<lparr>block_seconds := 2000310\<rparr>"

definition third_state :: hub_state where
  "third_state = two_rate\<lparr>total_bond_amount := 164, last_unbonded_time := 2000100, last_processed_batch := 1, prev_hub_balance := 251\<rparr>"

definition third_rate :: hub_state where
  "third_rate = third_state\<lparr>exchange_rate := Decimal 164000000000000000\<rparr>"

definition third_history :: unbond_history where
  "third_history = \<lparr>batch_id = 2, batch_time = 2000310, batch_amount = 100, applied_exchange_rate = Decimal 164000000000000000,
     withdraw_rate = Decimal 164000000000000000, released = False\<rparr>"

definition third_closed :: hub_storage where
  "third_closed = two_paid\<lparr>wait_map := store_set (wait_enc std_lib) (''y'', 2) 100 [((''x'', 1), 100)],
     history_map := history_map two_paid @ [(2, third_history)], CURRENT_BATCH := Some \<lparr>cb_id = 3, requested_with_fee = 0\<rparr>,
     STATE := Some (third_rate\<lparr>total_bond_amount := 148, last_unbonded_time := 2000310\<rparr>)\<rparr>"

lemmas third_eval = third_state_def third_rate_def two_rate_def life_rate_def life_state_def

lemma two_paid_fields:
  "PARAMETERS two_paid = Some example_params" "STATE two_paid = Some third_state" "CONFIG two_paid = Some wired_config"
  "CURRENT_BATCH two_paid = Some \<lparr>cb_id = 2, requested_with_fee = 0\<rparr>" "wait_map two_paid = [((''x'', 1), 100)]"
  by (simp_all add: two_paid_def two_released_def two_closed_def two_waiting_def life_hub_def third_state_def)

lemma second_key: "to_be_bytes 1 < to_be_bytes 2"
  using to_be_bytes_less [of 1 "[]" 2 "[]"] by simp

lemma third_batch_closed:
  "\<exists>msgs. close_batch example_deps third_env third_rate \<lparr>cb_id = 2, requested_with_fee = 100\<rparr>
      (two_paid\<lparr>wait_map := wait_map third_closed\<rparr>) =
     Ok (two_paid\<lparr>wait_map := wait_map third_closed, history_map := history_map third_closed\<rparr>,
       third_rate\<lparr>total_bond_amount := 148, last_unbonded_time := 2000310\<rparr>, \<lparr>cb_id = 3, requested_with_fee = 0\<rparr>, msgs)"
proof -
  let ?s = "two_paid\<lparr>wait_map := wait_map third_closed\<rparr>"
  have m: "(12345 :: nat) mod Suc (Suc 0) = 1" by (simp add: numeral_2_eq_2 [symmetric])
  have "\<exists>msgs. pick_validator example_deps ?s 16 ''hub'' 12345 = Ok msgs"
    by (simp add: pick_validator_def two_paid_fields example_params_def example_querier_eval pick_loop.simps
        u64_add_def std_eval remove_nth_def m)
  moreover have "uint_mul_decimal std_lib 100 (exchange_rate third_rate) = Ok 16"
    "uint_checked_sub std_lib (total_bond_amount third_rate) 16 = Ok 148" "exchange_rate third_rate = Decimal 164000000000000000"
    by (simp_all add: third_eval std_eval)
  moreover have "history_map third_closed = store_set to_be_bytes 2 third_history (history_map two_paid)"
    by (simp add: third_closed_def two_paid_def two_released_def store_set_def store_remove_def second_key)
  ultimately show ?thesis
    by (auto simp: close_batch_def third_env_def later_env_def example_env_def store_unbond_history_def u64_add_def third_history_def)
qed

lemma third_ended:
  "\<exists>resp. hub_execute example_deps third_env (example_info ''t'') (Receive \<lparr>cw20_sender = ''y'', cw20_amount = 100, cw20_payload = []\<rparr>)
      two_paid = Ok (third_closed, resp)"
proof -
  have 1: "epoch_period example_params = 30" "block_seconds third_env = 2000310" "token_contract wired_config = Some [116]"
    by (simp_all add: example_params_def third_env_def wired_config_def)
  have q: "query_total_issued example_deps two_paid = Ok 1000"
    by (simp add: query_total_issued_def two_paid_fields 1 example_eval)
  have 2: "slashing example_deps third_env two_paid = Ok two_paid"
    by (simp add: slashing_def two_paid_fields q third_eval example_params_def example_querier_eval sum_delegations_def std_eval)
  have 3: "unbond_with_fee std_lib example_params third_state 1000 0 100 = Ok 100"
    by (simp add: unbond_with_fee_def third_eval example_params_def decimal_less_iff std_eval)
  have 4: "store_unbond_wait_list std_lib 2 ''y'' 100 two_paid = Ok (two_paid\<lparr>wait_map := wait_map third_closed\<rparr>)"
    by (simp add: store_unbond_wait_list_def two_paid_fields third_closed_def store_get_def std_eval)
  have 5: "update_exchange_rate std_lib 900 100 third_state = Ok third_rate" "last_unbonded_time third_rate = 2000100"
    by (simp_all add: update_exchange_rate_def third_eval std_eval)
  obtain msgs where 7: "close_batch example_deps third_env third_rate \<lparr>cb_id = 2, requested_with_fee = 100\<rparr>
      (two_paid\<lparr>wait_map := wait_map third_closed\<rparr>) =
     Ok (two_paid\<lparr>wait_map := wait_map third_closed, history_map := history_map third_closed\<rparr>,
       third_rate\<lparr>total_bond_amount := 148, last_unbonded_time := 2000310\<rparr>, \<lparr>cb_id = 3, requested_with_fee = 0\<rparr>, msgs)"
    using third_batch_closed by (elim exE) (rule that)
  show ?thesis
    by (simp add: hub_execute_def receive_cw20_def execute_unbond_def two_paid_fields 1 2 3 4 5 7 q u64_sub_def std_eval
        example_info_def example_api_eval)
      (simp add: third_closed_def)
qed

definition third_paid :: hub_storage where
  "third_paid = third_closed\<lparr>wait_map := [((''y'', 2), 100)],
     STATE := Some (third_rate\<lparr>total_bond_amount := 148, last_unbonded_time := 2000310\<rparr>)\<rparr>"

definition third_released :: hub_storage where
  "third_released = third_paid\<lparr>history_map := history_map two_paid @ [(2, third_history\<lparr>withdraw_rate := Decimal 10000000000000000, released := True\<rparr>)],
     STATE := Some (third_rate\<lparr>total_bond_amount := 148, last_unbonded_time := 2000310, last_processed_batch := 2\<rparr>)\<rparr>"

lemmas release_eval = process_withdraw_rate_def from_subtraction_def sum_unbonded.simps release_batches.simps ready_batch_def
  read_unbond_history_def store_get_def release_batch_def u64_add_def store_unbond_history_def store_set_def [of to_be_bytes] store_remove_def

lemma third_processed:
  "process_withdraw_rate std_lib 2000300 500 third_closed = Ok third_closed"
  "process_withdraw_rate std_lib 2000320 251 third_paid = Ok third_released"
  by (simp_all add: release_eval third_closed_def third_paid_def third_released_def third_history_def two_paid_def two_released_def third_eval std_eval second_key)

lemma third_waits: "wait_map third_closed \<in> {[((''x'', 1), 100), ((''y'', 2), 100)], [((''y'', 2), 100), ((''x'', 1), 100)]}"
  by (simp add: third_closed_def store_set_def store_remove_def)

lemma third_withdrawn:
  "\<exists>resp. execute_withdraw_unbonded example_deps (later_env\<lparr>block_seconds := 2000400\<rparr>) (example_info ''x'') third_closed = Ok (third_paid, resp)"
proof -
  have 1: "PARAMETERS third_closed = Some example_params" "u64_sub 2000400 (unbonding_period example_params) = Ok 2000300"
    "underlying_coin_denom example_params = ''uluna''" "STATE third_closed = STATE third_paid"
    by (simp_all add: third_closed_def third_paid_def two_paid_fields example_params_def u64_sub_def)
  have 2: "get_finished_amount std_lib third_closed ''x'' = Ok 249" "get_unbond_batches third_closed ''x'' = Ok [1]"
    using third_waits
    by (auto simp: get_finished_amount_def get_unbond_batches_def wait_bucket_def third_closed_def two_paid_def two_released_def
        read_unbond_history_def store_get_def std_eval)
  have 3: "store_remove (''x'', 1) (wait_map third_closed) = [((''y'', 2), 100)]"
    using third_waits by (auto simp: store_remove_def)
  show ?thesis
    by (simp add: execute_withdraw_unbonded_def example_info_def example_querier_eval 1 third_processed 2
        remove_unbond_wait_list_def std_eval)
      (simp add: third_paid_def 3 third_eval)
qed

lemma third_reached: "hub_reachable std_lib third_closed"
proof -
  have l: "dlib example_deps = std_lib" by simp
  note step = hub_reachable.hub_executed [OF _ l]
  have "hub_reachable std_lib life_hub" using life_instantiated by (elim exE) (rule hub_reachable.hub_instantiated)
  with life_configured have "hub_reachable std_lib (life_hub\<lparr>CONFIG := Some wired_config\<rparr>)" by (elim exE) (rule step)
  with two_requested have "hub_reachable std_lib two_waiting" by (elim exE conjE) (rule step)
  with two_ended have "hub_reachable std_lib two_closed" by (elim exE) (rule step)
  with two_withdrawn have "hub_reachable std_lib two_paid" by (elim exE conjE) (rule step)
  with third_ended show ?thesis by (elim exE) (rule step)
qed

theorem early_coins_lost_witness:
  "hub_reachable std_lib third_closed \<and> query_balance example_querier ''hub'' ''uluna'' = Ok (Coin ''uluna'' 500) \<and>
   (\<exists>resp. execute_withdraw_unbonded example_deps (later_env\<lparr>block_seconds := 2000400\<rparr>) (example_info ''x'') third_closed = Ok (third_paid, resp)) \<and>
   process_withdraw_rate std_lib 2000320 251 third_paid = Ok third_released \<and>
   newly_released third_paid third_released = {2} \<and> coins_of third_paid 2 = 16 \<and> due_in third_released {2} \<le> 1"
proof -
  obtain resp where r: "execute_withdraw_unbonded example_deps (later_env\<lparr>block_seconds := 2000400\<rparr>) (example_info ''x'') third_closed = Ok (third_paid, resp)"
    using third_withdrawn by blast
  have st: "STATE third_paid = Some (third_rate\<lparr>total_bond_amount := 148, last_unbonded_time := 2000310\<rparr>)"
    "prev_hub_balance (third_rate\<lparr>total_bond_amount := 148, last_unbonded_time := 2000310\<rparr>) = 251"
    by (simp_all add: third_paid_def third_eval)
  have N: "newly_released third_paid third_released = {2}"
    by (auto simp: newly_released_def is_released_def third_released_def third_paid_def third_closed_def third_history_def
        two_paid_def two_released_def store_get_def split: if_splits)
  have c: "coins_of third_paid 2 = 16"
    by (simp add: coins_of_def batch_coins_def third_paid_def third_closed_def third_history_def two_paid_def two_released_def
        store_get_def dec_unit_def)
  have "due_in third_released {2} \<le> 1"
    using early_coins_lost [of example_deps third_closed _ _ third_paid resp _ 2000320 third_released, OF _ _ r st(1)]
      third_reached third_processed(2) std_num.cosmwasm_numbers_axioms
    by (simp add: st N c dec_unit_def)
  with r N c third_reached third_processed(2) show ?thesis by (auto simp: example_querier_eval)
qed


section \<open>Releases that cannot succeed\<close>

text \<open>A surplus too small to be shared: one coin too many over two batches.\<close>

lemma small_surplus_blocks:
  assumes "cosmwasm_numbers l" and "unat (batch_amount h) * datoms (withdraw_rate h) div dec_unit < unat tot"
  shows "release_batch l tot (SignedInt 1 True) h \<noteq> Ok h'"
proof
  assume "release_batch l tot (SignedInt 1 True) h = Ok h'"
  then obtain u x y :: uint128 and w where u: "unat u = unat (batch_amount h) * datoms (withdraw_rate h) div dec_unit"
    and w: "tot \<noteq> 0" "datoms w = unat u * dec_unit div unat tot" and x: "unat x = datoms w div dec_unit"
    and y: "unat x = 1 + unat y"
    by (auto simp: release_batch_def cosmwasm_numbers.number_oks [OF assms(1)])
  have "unat u < unat tot" using u assms(2) by simp
  then have "unat u * dec_unit < unat tot * dec_unit" by simp
  then have "datoms w < dec_unit" using w by (simp add: less_mult_imp_div_less mult.commute)
  then show False using x y by simp
qed

text \<open>Batches that are together worth nothing.\<close>

lemma worthless_batches_block: "cosmwasm_numbers l \<Longrightarrow> release_batch l 0 sl h \<noteq> Ok h'"
  by (auto simp: release_batch_def cosmwasm_numbers.decimal_from_ratio_ok split: signed_int.splits)

text \<open>Such a batch can be closed: one token at a rate of nine tenths.\<close>

lemma worthless_batch_closes:
  "\<exists>s'. close_batch example_deps example_env slashed_state \<lparr>cb_id = 2, requested_with_fee = 1\<rparr> slashed_hub =
     Ok (s', slashed_state\<lparr>last_unbonded_time := 2000000\<rparr>, \<lparr>cb_id = 3, requested_with_fee = 0\<rparr>, [])"
proof -
  have "uint_mul_decimal std_lib 1 (exchange_rate slashed_state) = Ok 0"
    "uint_checked_sub std_lib (total_bond_amount slashed_state) 0 = Ok 990" "total_bond_amount slashed_state = 990"
    by (simp_all add: slashed_state_def std_eval)
  moreover have "pick_validator example_deps slashed_hub 0 ''hub'' 12345 = Ok []"
    by (simp add: pick_validator_def slashed_hub_def example_hub_def example_querier_eval pick_loop.simps)
  ultimately show ?thesis
    by (simp add: close_batch_def example_env_def store_unbond_history_def u64_add_def)
qed


section \<open>One coin out of nothing\<close>

text \<open>Nothing arrived for a batch of 50 coins: its rate is not zero.\<close>

lemma nothing_arrived_pays_one:
  "\<exists>h. release_batch std_lib 50 (SignedInt 50 False) (example_history\<lparr>batch_amount := 50\<rparr>) = Ok h \<and> batch_coins h = 1"
  by (simp add: release_batch_def example_history_def from_subtraction_def std_eval batch_coins_def)


section \<open>The query at the boundary\<close>

text \<open>At the very second in which batch 1 becomes mature its owner can withdraw, but the query answers zero.\<close>

lemma query_misses_boundary:
  "query_get_finished_amount std_lib example_hub ''b'' 1000000 = Ok 0 \<and>
   (\<exists>s1. process_withdraw_rate std_lib 1000000 500 example_hub = Ok s1 \<and> get_finished_amount std_lib s1 ''b'' = Ok 30)"
  by (simp add: query_get_finished_amount_def get_finished_amount_def wait_bucket_def process_withdraw_rate_def example_hub_eval
      std_eval from_subtraction_def sum_unbonded.simps release_batches.simps ready_batch_def read_unbond_history_def store_get_def
      release_batch_def u64_add_def store_unbond_history_def store_set_def store_remove_def)

end
