(* ===== verification/Hub_Liveness.thy ===== *)
theory Hub_Liveness
  imports Hub_Solvency
begin

text \<open>
  Withdrawals go through.  When the coins that arrived are what was expected, or less because of slashing,
  and the mature batches are worth something, releasing them returns, and then so does the withdrawal of
  everybody with something to draw: the account holds enough, and no sum overflows.
\<close>

section \<open>Releasing one batch\<close>

context cosmwasm_numbers
begin

lemma release_batch_total:
  assumes tot: "unat tot = C" "0 < C" and coins: "batch_coins h \<le> C" and amt: "batch_amount h \<noteq> 0"
    and mag: "unat mag \<le> C" "unat mag + 1 < 2 ^ 128"
  shows "\<exists>h'. release_batch l tot (SignedInt mag False) h = Ok h'"
proof -
  have tot0: "tot \<noteq> 0" using tot by auto
  have amt0: "0 < unat (batch_amount h)" using amt by (simp add: unat_gt_0)
  have C: "C < 2 ^ 128" using tot(1) unat_less_128 [of tot] by simp
  obtain c where c: "uint_mul_decimal l (batch_amount h) (withdraw_rate h) = Ok c" "unat c = batch_coins h"
    using uint_mul_decimal_exists [of "batch_amount h" "withdraw_rate h"] coins C
    by (auto simp: batch_coins_def uint_mul_decimal_ok)
  have w1: "unat c * dec_unit div unat tot \<le> dec_unit"
    using c(2) coins tot by (metis div_le_mono div_mult_self1_is_m mult_le_mono1)
  obtain w where w: "decimal_from_ratio l c tot = Ok w" "datoms w = unat c * dec_unit div unat tot"
    using decimal_from_ratio_exists [OF tot0, of c] w1 by (auto simp: decimal_from_ratio_ok dec_unit_def)
  have x1: "unat mag * datoms w div dec_unit \<le> unat c"
    using share_le_part(1) [of dec_unit "unat mag" C "unat c"] mag(1) tot by (simp add: share_def weight_def w(2) dec_unit_pos)
  obtain x where x: "uint_mul_decimal l mag w = Ok x" "unat x = unat mag * datoms w div dec_unit"
    using uint_mul_decimal_exists [of mag w] x1 unat_less_128 [of c] by (auto simp: uint_mul_decimal_ok)
  have "unat x \<le> unat mag"
    unfolding x(2) using w1 w(2) by (metis div_le_mono div_mult_self_is_m dec_unit_pos(1) mult_le_mono2)
  then obtain x' where x': "(if mag \<noteq> 0 then uint_add l x 1 else Ok x) = Ok x'" "unat x' \<le> unat x + 1"
    using mag(2) uint_add_exists [of x 1] by (cases "mag = 0") (auto simp: unat_add_checked)
  obtain act n where act: "from_subtraction l c x' = Ok (SignedInt act n)" by (cases "c < x'") (auto simp: from_subtraction_cases)
  have "unat act \<le> unat c \<or> unat act \<le> 1" using from_subtraction_abs [OF act] x'(2) x1 x(2) by auto
  then have "unat act * dec_unit div unat (batch_amount h) \<le> datoms (withdraw_rate h) \<or>
      unat act * dec_unit div unat (batch_amount h) \<le> dec_unit"
  proof
    assume "unat act \<le> unat c"
    then have "unat act * dec_unit \<le> unat c * dec_unit" by simp
    also have "\<dots> \<le> unat (batch_amount h) * datoms (withdraw_rate h)" using c(2) by (simp add: batch_coins_def)
    finally show ?thesis using amt0 by (metis div_le_mono div_mult_self_is_m mult.commute)
  next
    assume "unat act \<le> 1"
    then have "unat act * dec_unit \<le> 1 * dec_unit" by (rule mult_le_mono1)
    then show ?thesis by (simp add: order_trans [OF div_le_dividend])
  qed
  then have "unat act * dec_unit div unat (batch_amount h) < 2 ^ 128"
    using unat_less_128 [of "atomics (withdraw_rate h)"] by (auto simp: dec_unit_def)
  then obtain r where r: "decimal_from_ratio l act (batch_amount h) = Ok r" using decimal_from_ratio_exists [OF amt] by blast
  show ?thesis
    unfolding release_batch_def by (simp add: c(1) w(1) x(1) x'(1) act r)
qed


section \<open>The two loops\<close>

lemma ready_run_cases:
  assumes "ready_run s t i j"
  obtains "i = j" "ready_batch s t i = None"
    | h i' where "ready_batch s t i = Some h" "u64_add i 1 = Ok i'" "i' \<le> j" "ready_run s t i' j" "i < j"
proof (cases "i = j")
  case True
  then show ?thesis using assms that(1) by (simp add: ready_run_def)
next
  case False
  then have lt: "i < j" using assms by (auto simp: ready_run_def)
  then obtain h where h: "ready_batch s t i = Some h" using assms by (auto simp: ready_run_def)
  have "unat i + 1 < 2 ^ 64" using lt unat_less_64 [of j] by (simp add: word_less_nat_alt)
  then have i': "u64_add i 1 = Ok (i + 1)" "unat (i + 1) = unat i + 1" by (simp_all add: u64_add_eq_Ok unat_add_checked)
  then have le: "i + 1 \<le> j" using lt by (simp add: word_le_nat_alt word_less_nat_alt)
  have "ready_run s t (i + 1) j"
    using assms le u64_succ_interval(4) [OF i'(1) le] by (auto simp: ready_run_def)
  then show ?thesis by (rule that(2) [OF h i'(1) le _ lt])
qed

lemma sum_unbonded_total:
  assumes "ready_run s t i j" and "unat a + run_coins s i j < 2 ^ 128" and "unat c + (unat j - unat i) < 2 ^ 64"
  shows "\<exists>r. sum_unbonded l s t i a c = Ok r"
  using assms
proof (induction "u64_left i" arbitrary: i a c rule: less_induct)
  case (less i a c)
  from less.prems(1) show ?case
  proof (cases rule: ready_run_cases)
    case 1
    then show ?thesis by (simp add: sum_unbonded.simps [of l s t j])
  next
    case (2 h i')
    note iv = u64_succ_interval [OF 2(2,3)]
    have coins: "run_coins s i j = batch_coins h + run_coins s i' j"
      using 2(1) iv(3) by (simp add: run_coins_def iv(2) ready_batch_Some)
    obtain u where u: "uint_mul_decimal l (batch_amount h) (withdraw_rate h) = Ok u" "unat u = batch_coins h"
      using uint_mul_decimal_exists [of "batch_amount h" "withdraw_rate h"] coins less.prems(2)
      by (auto simp: batch_coins_def uint_mul_decimal_ok)
    have a: "uint_add l a u = Ok (a + u)" "unat (a + u) = unat a + batch_coins h"
      using uint_add_exists [of a u] u(2) coins less.prems(2) by (simp_all add: unat_add_checked)
    have i': "unat i' = unat i + 1" using 2(2) by (simp add: u64_add_eq_Ok)
    have "unat c + 1 < 2 ^ 64" using less.prems(3) 2(5) by (simp add: word_less_nat_alt)
    then have c: "u64_add c 1 = Ok (c + 1)" "unat (c + 1) = unat c + 1" by (simp_all add: u64_add_eq_Ok unat_add_checked)
    have "\<exists>r. sum_unbonded l s t i' (a + u) (c + 1) = Ok r"
    proof (rule less.hyps [OF u64_left_succ [OF 2(2)] 2(4)])
      show "unat (a + u) + run_coins s i' j < 2 ^ 128" using a(2) coins less.prems(2) by simp
      show "unat (c + 1) + (unat j - unat i') < 2 ^ 64" using c(2) i' 2(3) less.prems(3) by (simp add: word_le_nat_alt)
    qed
    then show ?thesis by (simp add: sum_unbonded.simps [of l s t i] 2(1,2) u(1) a(1) c(1))
  qed
qed

lemma release_batches_total:
  assumes "ready_run s t i j"
    and "\<And>k h. i \<le> k \<Longrightarrow> k < j \<Longrightarrow> store_get k (history_map s) = Some h \<Longrightarrow> \<exists>h'. release_batch l tot sl h = Ok h'"
  shows "\<exists>r. release_batches l t tot sl s st i = Ok r"
  using assms
proof (induction "u64_left i" arbitrary: i s st rule: less_induct)
  case (less i s st)
  from less.prems(1) show ?case
  proof (cases rule: ready_run_cases)
    case 1
    then show ?thesis by (simp add: release_batches.simps [of l t tot sl s st j])
  next
    case (2 h i')
    note iv = u64_succ_interval [OF 2(2,3)]
    obtain h1 where h1: "release_batch l tot sl h = Ok h1"
      using less.prems(2) [of i h] 2(1,5) by (auto simp: ready_batch_Some)
    let ?s1 = "s\<lparr>history_map := store_set to_be_bytes i h1 (history_map s)\<rparr>"
    have same: "store_get k (history_map ?s1) = store_get k (history_map s)" if "i' \<le> k" for k
      using that iv(1) by (auto simp: store_get_set)
    have run: "ready_run ?s1 t i' j"
      using 2(4) ready_batch_cong [OF same] by (auto simp: ready_run_def)
    have "\<exists>r. release_batches l t tot sl ?s1 (st\<lparr>last_processed_batch := i\<rparr>) i' = Ok r"
    proof (rule less.hyps [OF u64_left_succ [OF 2(2)] run])
      fix k h'
      assume k: "i' \<le> k" "k < j" "store_get k (history_map ?s1) = Some h'"
      with same have "store_get k (history_map s) = Some h'" by simp
      with k iv(1) show "\<exists>h''. release_batch l tot sl h' = Ok h''" by (intro less.prems(2) [of k]) auto
    qed
    then show ?thesis
      by (simp add: release_batches.simps [of l t tot sl s] 2(1,2) h1 store_unbond_history_def)
  qed
qed


section \<open>Processing\<close>

text \<open>
  A release in the ordinary course: coins arrived, no more than expected, every mature batch is worth
  something, and the shortfall is small against the precision of the weights.  When no batch is mature
  nothing is asked.
\<close>

end

definition orderly_release :: "hub_storage \<Rightarrow> u64 \<Rightarrow> uint128 \<Rightarrow> bool" where
  "orderly_release s t hub_balance \<longleftrightarrow> (\<exists>st first j. STATE s = Some st \<and> unat first = unat (last_processed_batch st) + 1 \<and>
     ready_run s t first j \<and> (first = j \<or>
       0 < arrived_coins st hub_balance \<and> arrived_coins st hub_balance \<le> (\<Sum>i \<in> {first..<j}. coins_of s i) \<and>
       (\<Sum>i \<in> {first..<j}. coins_of s i) < 2 ^ 128 \<and> (\<forall>i \<in> {first..<j}. 0 < coins_of s i) \<and>
       ((\<Sum>i \<in> {first..<j}. coins_of s i) - arrived_coins st hub_balance) * (card {first..<j} - 1) \<le> dec_unit))"

context cosmwasm_numbers
begin

lemma process_withdraw_rate_total:
  assumes ord: "orderly_release s t bal" and cov: "covered s"
  shows "\<exists>s1. process_withdraw_rate l t bal s = Ok s1"
proof -
  obtain st first j where st: "STATE s = Some st" and f: "unat first = unat (last_processed_batch st) + 1"
    and run: "ready_run s t first j"
    and ok: "first = j \<or> 0 < arrived_coins st bal \<and> arrived_coins st bal \<le> run_coins s first j \<and>
       run_coins s first j < 2 ^ 128 \<and> (\<forall>i \<in> {first..<j}. 0 < coins_of s i)"
    using ord unfolding orderly_release_def run_coins_sum by blast
  have act0: "actual_unbonded_amount st = 0" using cov st by (simp add: covered_def)
  obtain chg neg where chg: "from_subtraction l bal (prev_hub_balance st) = Ok (SignedInt chg neg)"
    using from_subtraction_value [OF cosmwasm_numbers_axioms] by blast
  have act: "uint_add l (actual_unbonded_amount st) chg = Ok chg" by (simp add: act0 uint_add_ok)
  have arr: "arrived_coins st bal = unat chg"
    using from_subtraction_abs [OF chg] act0 by (simp add: arrived_coins_def word_le_nat_alt)
  have first: "u64_add (last_processed_batch st) 1 = Ok first" using f by (simp add: u64_add_eq_Ok)
  have "run_coins s first j < 2 ^ 128" using ok by (auto simp: run_coins_def)
  then obtain tot count where sum: "sum_unbonded l s t first 0 0 = Ok (tot, count)"
    using sum_unbonded_total [OF run, of 0 0] unat_less_64 [of j] by (auto simp: less_imp_diff_less)
  have tot: "unat tot = run_coins s first j" "unat count = unat j - unat first"
    using sum_unbonded_ok [OF sum] ready_run_unique [OF run] by auto
  show ?thesis
  proof (cases "first = j")
    case True
    then have "count = 0" using tot(2) by (simp add: unat_eq_zero)
    then show ?thesis by (simp add: process_withdraw_rate_def st chg act first sum)
  next
    case False
    with ok have C: "0 < unat chg" "unat chg \<le> unat tot" and pos: "\<forall>i \<in> {first..<j}. 0 < coins_of s i"
      by (auto simp: arr tot(1))
    have sl: "from_subtraction l tot chg = Ok (SignedInt (tot - chg) False)"
      using C(2) by (simp add: from_subtraction_ge word_le_nat_alt)
    have "\<exists>r. release_batches l t tot (SignedInt (tot - chg) False) s (st\<lparr>actual_unbonded_amount := chg\<rparr>) first = Ok r"
    proof (rule release_batches_total [OF run], rule release_batch_total)
      fix k h
      assume k: "first \<le> k" "k < j" and h: "store_get k (history_map s) = Some h"
      then have "0 < batch_coins h" using pos [rule_format, of k] by (simp add: coins_of_def)
      then show "batch_amount h \<noteq> 0" by (auto simp: batch_coins_def)
      have "coins_of s k \<le> (\<Sum>i \<in> {first..<j}. coins_of s i)" using k by (intro member_le_sum) auto
      then show "batch_coins h \<le> unat tot" using h tot(1) run_coins_sum by (simp add: coins_of_def)
      show "unat tot = unat tot" ..
      show "0 < unat tot" using C by simp
      have m: "unat (tot - chg) = unat tot - unat chg" using C(2) by (simp add: unat_sub word_le_nat_alt)
      then show "unat (tot - chg) \<le> unat tot" by simp
      show "unat (tot - chg) + 1 < 2 ^ 128" using m C unat_less_128 [of tot] by simp
    qed
    then show ?thesis by (cases "1 \<le> count") (auto simp: process_withdraw_rate_def st chg act first sum sl)
  qed
qed

lemma orderly_release_fair:
  assumes ord: "orderly_release s t bal" and inv: "hub_inv s" and run: "process_withdraw_rate l t bal s = Ok s1"
  shows "fair_release s s1 bal"
proof -
  obtain st first j where st: "STATE s = Some st" and f: "unat first = unat (last_processed_batch st) + 1"
    and rr: "ready_run s t first j"
    and ok: "first = j \<or> 0 < arrived_coins st bal \<and> (\<forall>i \<in> {first..<j}. 0 < coins_of s i) \<and>
       ((\<Sum>i \<in> {first..<j}. coins_of s i) - arrived_coins st bal) * (card {first..<j} - 1) \<le> dec_unit"
    using ord unfolding orderly_release_def by blast
  have "newly_released s s1 = {first..<j}"
  proof (rule process_withdraw_rate_released [OF cosmwasm_numbers_axioms inv run st])
    fix first' j'
    assume n: "newly_released s s1 = {first'..<j'}" and r: "ready_run s t first' j'"
      "unat first' = unat (last_processed_batch st) + 1"
    then have "first' = first" using f by (simp add: word_unat_eq_iff)
    with n ready_run_unique [OF _ rr] r(1) show ?thesis by simp
  qed
  then show ?thesis using ok st by (auto simp: fair_release_def)
qed

end


section \<open>Withdrawing\<close>

text \<open>What can be drawn only changes by what is newly released.\<close>

lemma released_due_kept:
  assumes num: "cosmwasm_numbers l" and inv: "hub_inv s" and run: "process_withdraw_rate l t bal s = Ok s1"
    and none: "newly_released s s1 = {}"
  shows "released_due s1 u = released_due s u"
proof -
  have "wait_map s1 = wait_map s" by (rule process_withdraw_rate_frame [OF num inv run])
  moreover have "entry_due s1 i = entry_due s i" for i
    using history_kept [OF num inv run] none by (simp add: entry_due_def fun_eq_iff)
  ultimately show ?thesis by (simp add: released_due_def wait_bucket_def)
qed

lemma withdraw_total:
  assumes num: "cosmwasm_numbers (dlib d)" and p: "PARAMETERS s = Some params"
    and q: "query_balance (dquerier d) (contract_address e) (underlying_coin_denom params) = Ok bal"
    and t: "unat (block_seconds e) = unat (unbonding_period params) + unat t"
    and run: "process_withdraw_rate (dlib d) t (amount bal) s = Ok s1" and st: "STATE s1 = Some st"
    and due: "0 < released_due s1 (sender info)" "released_due s1 (sender info) \<le> unat (amount bal)"
  shows "\<exists>s' resp w. hub_execute d e info WithdrawUnbonded s = Ok (s', resp) \<and>
     messages resp = [BankSend (sender info) [Coin (underlying_coin_denom params) w]] \<and> unat w = released_due s1 (sender info)"
proof -
  let ?w = "of_nat (released_due s1 (sender info)) :: uint128"
  have w: "unat ?w = released_due s1 (sender info)"
    by (rule unat_of_nat_checked) (use due(2) unat_less_128 [of "amount bal"] in simp)
  have f: "get_finished_amount (dlib d) s1 (sender info) = Ok ?w"
    using w by (simp add: cosmwasm_numbers.get_finished_amount_ok [OF num])
  have w0: "?w \<noteq> 0" using due(1) w by (metis less_irrefl unat_0)
  have sub: "uint_checked_sub (dlib d) (amount bal) ?w = Ok (amount bal - ?w)"
    using due(2) w by (intro cosmwasm_numbers.uint_checked_sub_exists [OF num]) (simp add: word_le_nat_alt)
  have "u64_sub (block_seconds e) (unbonding_period params) = Ok t" using t by (simp add: u64_sub_eq_Ok)
  with p q run f w0 sub st w show ?thesis
    by (simp add: hub_execute_def execute_withdraw_unbonded_def get_unbond_batches_def remove_unbond_wait_list_def)
qed

text \<open>
  C7.  A withdrawal goes through.  In every state of the hub and its account that is reached with fair
  releases, when the release that is due is an orderly one (in particular when no further batch is mature),
  processing the batches returns, and everybody who then has something to draw is paid all of it, after
  which the hub and its account are again in such a state; when no batch is released, what he can draw is
  what he could draw before.
\<close>

theorem withdrawal_goes_through:
  assumes num: "cosmwasm_numbers l" and reach: "hub_chain_reachable l ch" and lib: "dlib d = l"
    and p: "PARAMETERS (hub_chain_storage ch) = Some params"
    and q: "query_balance (dquerier d) (contract_address e) (underlying_coin_denom params) = Ok bal"
    and coins: "unat (amount bal) = hub_chain_coins ch"
    and t: "unat (block_seconds e) = unat (unbonding_period params) + unat t"
    and ord: "orderly_release (hub_chain_storage ch) t (amount bal)"
  shows "\<exists>s1. process_withdraw_rate l t (amount bal) (hub_chain_storage ch) = Ok s1 \<and>
     (newly_released (hub_chain_storage ch) s1 = {} \<longrightarrow>
        released_due s1 (sender info) = released_due (hub_chain_storage ch) (sender info)) \<and>
     (0 < released_due s1 (sender info) \<longrightarrow>
        (\<exists>s' resp w. hub_execute d e info WithdrawUnbonded (hub_chain_storage ch) = Ok (s', resp) \<and>
           messages resp = [BankSend (sender info) [Coin (underlying_coin_denom params) w]] \<and>
           unat w = released_due s1 (sender info) \<and>
           hub_chain_reachable l \<lparr>hub_chain_storage = s', hub_chain_coins = hub_chain_coins ch - unat w\<rparr>))"
proof -
  let ?s = "hub_chain_storage ch"
  obtain st where inv: "hub_inv ?s" and cov: "covered ?s" and st: "STATE ?s = Some st" "unat (prev_hub_balance st) \<le> hub_chain_coins ch"
    using hub_chain_solvent [OF num reach] by (auto simp: hub_solvent_def)
  obtain s1 where s1: "process_withdraw_rate l t (amount bal) ?s = Ok s1"
    using cosmwasm_numbers.process_withdraw_rate_total [OF num ord cov] by blast
  note fair = cosmwasm_numbers.orderly_release_fair [OF num ord inv]
  have prev: "prev_hub_balance st \<le> amount bal" using st(2) coins by (simp add: word_le_nat_alt)
  have owed: "owed s1 \<le> unat (amount bal)" by (rule release_within_balance [OF num inv s1 cov st(1) prev fair [OF s1]])
  have "\<exists>s' resp w. hub_execute d e info WithdrawUnbonded ?s = Ok (s', resp) \<and>
      messages resp = [BankSend (sender info) [Coin (underlying_coin_denom params) w]] \<and> unat w = released_due s1 (sender info) \<and>
      hub_chain_reachable l \<lparr>hub_chain_storage = s', hub_chain_coins = hub_chain_coins ch - unat w\<rparr>"
    if due: "0 < released_due s1 (sender info)"
  proof -
    obtain st1 where st1: "STATE s1 = Some st1" using process_withdraw_rate_inv [OF num inv s1] by (auto elim: hub_invE)
    have "released_due s1 (sender info) \<le> unat (amount bal)" using released_due_le_owed owed by (rule order_trans)
    from withdraw_total [where d = d and info = info, unfolded lib, OF num p q t s1 st1 due this]
    obtain s' resp w where w: "hub_execute d e info WithdrawUnbonded ?s = Ok (s', resp)"
      "messages resp = [BankSend (sender info) [Coin (underlying_coin_denom params) w]]" "unat w = released_due s1 (sender info)"
      by blast
    have at: "t' = t" if "unat (block_seconds e) = unat (unbonding_period params) + unat t'" for t'
      using that t by (simp add: word_unat_eq_iff)
    have "hub_chain_reachable l \<lparr>hub_chain_storage = s', hub_chain_coins = hub_chain_coins ch - bank_outflow (underlying_coin_denom params) resp\<rparr>"
      by (rule hub_ran [OF reach lib p q coins w(1)]) (use at fair in blast)
    moreover have "bank_outflow (underlying_coin_denom params) resp = unat w" by (simp add: bank_outflow_def w(2))
    ultimately show ?thesis using w by auto
  qed
  note paid = this
  show ?thesis
    by (rule exI [of _ s1], intro conjI impI) (fact s1, erule released_due_kept [OF num inv s1], erule paid)
qed

text \<open>The second of the two users draws the rest.\<close>

definition later_deps :: deps where
  "later_deps = example_deps\<lparr>dquerier := example_querier\<lparr>query_balance := (\<lambda>_ dn. Ok (Coin dn 251))\<rparr>\<rparr>"

lemma nothing_mature: "orderly_release two_paid 2000200 251"
proof -
  have none: "store_get 2 (history_map two_paid) = None"
    by (simp add: two_paid_def two_released_def store_get_def)
  obtain st where "STATE two_paid = Some st" "last_processed_batch st = 1" by (simp add: two_paid_def)
  then show ?thesis
    using none unfolding orderly_release_def
    by (intro exI [of _ st] exI [of _ 2]) (auto simp: ready_run_def ready_batch_def read_unbond_history_def)
qed

theorem withdrawal_goes_through_witness:
  "\<exists>s' resp w. hub_execute later_deps (later_env\<lparr>block_seconds := 2000300\<rparr>) (example_info ''x'') WithdrawUnbonded two_paid = Ok (s', resp) \<and>
     messages resp = [BankSend ''x'' [Coin ''uluna'' w]] \<and> unat w = 249"
proof -
  let ?ch = "\<lparr>hub_chain_storage = two_paid, hub_chain_coins = 251\<rparr>"
  have h: "dlib later_deps = std_lib" "PARAMETERS (hub_chain_storage ?ch) = Some example_params"
    "query_balance (dquerier later_deps) a (underlying_coin_denom example_params) = Ok (Coin ''uluna'' 251)"
    "unat (amount (Coin ''uluna'' 251)) = hub_chain_coins ?ch"
    "unat (block_seconds (later_env\<lparr>block_seconds := 2000300\<rparr>)) = unat (unbonding_period example_params) + unat (2000200 :: u64)"
    "orderly_release (hub_chain_storage ?ch) 2000200 (amount (Coin ''uluna'' 251))" for a
    using nothing_mature
    by (simp_all add: later_deps_def two_paid_def two_released_def two_closed_def two_waiting_def life_hub_def example_params_def)
  have due: "released_due two_paid ''x'' = 249"
    by (simp add: released_due_def wait_bucket_def two_paid_def two_released_def entry_due_def store_get_def dec_unit_def)
  have run: "process_withdraw_rate std_lib 2000200 251 two_paid = Ok two_paid"
    by (simp add: process_withdraw_rate_def two_paid_def two_rate_def life_rate_def life_state_def std_eval from_subtraction_def
        u64_add_def sum_unbonded.simps ready_batch_def read_unbond_history_def two_released_def store_get_def)
  show ?thesis
    using withdrawal_goes_through [OF std_num.cosmwasm_numbers_axioms two_reached h, of "example_info ''x''"] due run
    by (simp add: example_info_def example_params_def) blast
qed

end
