(* ===== verification/Storage_Layout.thy ===== *)
theory Storage_Layout
  imports Store Codec
begin

text \<open>
  A contract's storage on the chain is one flat map from byte strings to values.  The crates the contracts
  use (\<open>Item\<close>, \<open>Map\<close>, \<open>PrefixedStorage\<close>, \<open>Bucket\<close>) give every item and every entry of a
  namespace a key of its own in it.  The model keeps a record with one field per item and namespace; this
  theory relates the two, for any assignment of keys to slots that keeps slots apart.  \<open>stored_at\<close> says
  that the flat map holds exactly the cells of the record, and the locale \<open>storage_layout\<close> shows that
  reading, writing and removing a slot, and the range over a namespace, are the same on both sides.
\<close>

definition stored_at ::
    "('slot \<Rightarrow> byte list) \<Rightarrow> ('slot \<Rightarrow> bool) \<Rightarrow> ('slot \<Rightarrow> 'v option) \<Rightarrow> (byte list, 'v) store \<Rightarrow> bool" where
  "stored_at key short cells raw \<longleftrightarrow>
     store_ok raw \<and> store_sorted id raw \<and> (\<forall>slot. cells slot \<noteq> None \<longrightarrow> short slot) \<and>
     (\<forall>k v. store_get k raw = Some v \<longleftrightarrow> (\<exists>slot. key slot = k \<and> cells slot = Some v))"

text \<open>\<open>range(None, None, Ascending)\<close> of a prefixed storage: the entries below the prefix, without it.\<close>

definition raw_range :: "byte list \<Rightarrow> (byte list, 'v) store \<Rightarrow> (byte list \<times> 'v) list" where
  "raw_range ns raw = map (\<lambda>(k, v). (drop (length ns) k, v)) (filter (\<lambda>(k, v). prefix ns k) raw)"

lemma append_le_append [simp]: "(ns :: 'a::linorder list) @ a \<le> ns @ b \<longleftrightarrow> a \<le> b"
  by (induction ns) simp_all

lemma sorted_pairs_unique:
  fixes xs ys :: "('k::linorder \<times> 'v) list"
  assumes "sorted (map fst xs)" "distinct (map fst xs)" "sorted (map fst ys)" "distinct (map fst ys)"
    and "set xs = set ys"
  shows "xs = ys"
proof (rule map_sorted_distinct_set_unique [OF _ assms])
  have "inj_on fst (set xs)" using assms(2) by (simp add: distinct_map)
  then show "inj_on fst (set xs \<union> set ys)" using assms(5) by simp
qed

locale storage_layout =
  fixes key :: "'slot \<Rightarrow> byte list" and short :: "'slot \<Rightarrow> bool"
  assumes key_inj: "short a \<Longrightarrow> short b \<Longrightarrow> key a = key b \<Longrightarrow> a = b"
begin

lemma stored_empty: "stored_at key short (\<lambda>_. None) []"
  by (simp add: stored_at_def store_ok_def store_sorted_def store_get_def)

lemma stored_get:
  assumes "stored_at key short cells raw" and "short slot"
  shows "store_get (key slot) raw = cells slot"
proof (cases "store_get (key slot) raw")
  case None
  with assms(1) show ?thesis by (cases "cells slot") (force simp: stored_at_def)+
next
  case (Some v)
  with assms(1) obtain other where "key other = key slot" "cells other = Some v" by (auto simp: stored_at_def)
  moreover from this assms(1) have "short other" by (auto simp: stored_at_def)
  ultimately have "other = slot" using key_inj [OF _ assms(2)] by blast
  with \<open>cells other = Some v\<close> Some show ?thesis by simp
qed

lemma stored_set:
  assumes st: "stored_at key short cells raw" and "short slot"
  shows "stored_at key short (cells(slot \<mapsto> v)) (store_set id (key slot) v raw)"
proof -
  have sh: "\<forall>other. cells other \<noteq> None \<longrightarrow> short other" using st by (simp add: stored_at_def)
  have "store_get k (store_set id (key slot) v raw) = Some w \<longleftrightarrow>
      (\<exists>other. key other = k \<and> (cells(slot \<mapsto> v)) other = Some w)" for k w
  proof (cases "k = key slot")
    case True
    have "other = slot" if "key other = key slot" "cells other = Some w" for other
      using that sh key_inj [OF _ assms(2), of other] by auto
    with True show ?thesis by (auto simp: store_get_set)
  next
    case False
    with st show ?thesis by (auto simp: stored_at_def store_get_set)
  qed
  with st sh assms(2) show ?thesis
    unfolding stored_at_def by (simp add: store_ok_set store_sorted_set)
qed

lemma stored_remove:
  assumes st: "stored_at key short cells raw" and "short slot"
  shows "stored_at key short (cells(slot := None)) (store_remove (key slot) raw)"
proof -
  have sh: "\<forall>other. cells other \<noteq> None \<longrightarrow> short other" using st by (simp add: stored_at_def)
  have "store_get k (store_remove (key slot) raw) = Some w \<longleftrightarrow>
      (\<exists>other. key other = k \<and> (cells(slot := None)) other = Some w)" for k w
  proof (cases "k = key slot")
    case True
    have "other = slot" if "key other = key slot" "cells other = Some w" for other
      using that sh key_inj [OF _ assms(2), of other] by auto
    with True show ?thesis by (auto simp: store_get_remove)
  next
    case False
    with st show ?thesis by (auto simp: stored_at_def store_get_remove)
  qed
  with st sh show ?thesis
    unfolding stored_at_def by (simp add: store_ok_remove store_sorted_remove)
qed

text \<open>
  A namespace whose prefix starts exactly the keys of its own slots: the range over it is the store of the
  record, in its order.
\<close>

lemma stored_range:
  assumes st: "stored_at key short cells raw"
    and own: "\<And>slot. short slot \<Longrightarrow> prefix ns (key slot) \<longleftrightarrow> (\<exists>k. slot = at k)"
    and keys: "\<And>k. key (at k) = ns @ enc k"
    and m: "store_ok m" "store_sorted enc m" and inj: "\<And>a b. enc a = enc b \<Longrightarrow> a = b"
    and cells: "\<And>k. cells (at k) = map_option val (store_get k m)"
  shows "raw_range ns raw = map (\<lambda>(k, v). (enc k, val v)) m"
proof -
  let ?L = "filter (\<lambda>(k, v). prefix ns k) raw" and ?R = "map (\<lambda>(k, v). (ns @ enc k, val v)) m"
  have raw: "store_ok raw" "store_sorted id raw" using st by (simp_all add: stored_at_def)
  have "?L = ?R"
  proof (rule sorted_pairs_unique)
    show "sorted (map fst ?L)" "distinct (map fst ?L)"
      using raw by (auto simp: store_ok_def store_sorted_def sorted_wrt_map distinct_map inj_on_def intro: sorted_wrt_filter)
    have "map fst ?R = map (\<lambda>k. ns @ enc k) (map fst m)" by (simp add: comp_def split_def)
    moreover have "inj_on (\<lambda>k. ns @ enc k) (set (map fst m))" using inj by (auto simp: inj_on_def)
    ultimately show "distinct (map fst ?R)"
      using m(1) by (simp only: store_ok_def distinct_map)
    show "sorted (map fst ?R)"
      using m(2) by (simp add: store_sorted_def sorted_wrt_map split_def)
    show "set ?L = set ?R"
    proof (rule set_eqI)
      fix p :: "byte list \<times> 'a"
      obtain k v where p: "p = (k, v)" by fastforce
      have sh: "cells slot \<noteq> None \<Longrightarrow> short slot" for slot using st by (auto simp: stored_at_def)
      have "p \<in> set ?L \<longleftrightarrow> prefix ns k \<and> store_get k raw = Some v"
        by (auto simp: p store_get_entries [OF raw(1)])
      also have "\<dots> \<longleftrightarrow> (\<exists>slot. prefix ns (key slot) \<and> key slot = k \<and> cells slot = Some v)"
        using st by (auto simp: stored_at_def)
      also have "\<dots> \<longleftrightarrow> (\<exists>x. key (at x) = k \<and> cells (at x) = Some v)"
        by (metis keys own sh option.distinct(1) prefixI)
      also have "\<dots> \<longleftrightarrow> (\<exists>x w. ns @ enc x = k \<and> (x, w) \<in> set m \<and> val w = v)"
        by (auto simp: keys cells store_get_entries [OF m(1)])
      finally show "p \<in> set ?L \<longleftrightarrow> p \<in> set ?R" by (auto simp: p)
    qed
  qed
  then show ?thesis by (simp add: raw_range_def comp_def split_def)
qed

end

end
