(* ===== verification/Reward_State.thy ===== *)
theory Reward_State
  imports Store Std_Lib
begin

text \<open>
  \<open>contracts/anchor_basset_reward/src\<close>: the storage (\<open>state.rs\<close>), the 256-bit decimal
  arithmetic (\<open>math.rs\<close>) and the query of the hub's configuration (\<open>querier.rs\<close>).
  Holders are stored under their canonical addresses, in the order of its bytes.
\<close>

record reward_config =
  rc_hub_contract :: canonical_addr
  rc_reward_denom :: string

record reward_state =
  global_index :: decimal
  total_balance :: uint128
  prev_reward_balance :: uint128

record holder =
  holder_balance :: uint128
  holder_index :: decimal
  pending_rewards :: decimal

record reward_storage =
  reward_CONFIG :: "reward_config option"
  reward_STATE :: "reward_state option"
  HOLDERS :: "(canonical_addr, holder) store"

definition empty_reward_storage :: reward_storage where
  "empty_reward_storage = \<lparr>reward_CONFIG = None, reward_STATE = None, HOLDERS = []\<rparr>"

definition reward_store_config :: "reward_config \<Rightarrow> reward_storage \<Rightarrow> reward_storage res" where
  "reward_store_config config s = Ok (s\<lparr>reward_CONFIG := Some config\<rparr>)"

definition reward_read_config :: "reward_storage \<Rightarrow> reward_config res" where
  "reward_read_config s = load_item ''Config'' (reward_CONFIG s)"

definition store_state :: "reward_state \<Rightarrow> reward_storage \<Rightarrow> reward_storage res" where
  "store_state state s = Ok (s\<lparr>reward_STATE := Some state\<rparr>)"

definition read_state :: "reward_storage \<Rightarrow> reward_state res" where
  "read_state s = load_item ''State'' (reward_STATE s)"

definition store_holder :: "canonical_addr \<Rightarrow> holder \<Rightarrow> reward_storage \<Rightarrow> reward_storage res" where
  "store_holder holder_address h s = Ok (s\<lparr>HOLDERS := store_set id holder_address h (HOLDERS s)\<rparr>)"

definition read_holder :: "reward_storage \<Rightarrow> canonical_addr \<Rightarrow> holder res" where
  "read_holder s holder_address =
     (case store_get holder_address (HOLDERS s) of
        Some h \<Rightarrow> Ok h
      | None \<Rightarrow> Ok \<lparr>holder_balance = 0, holder_index = decimal_zero, pending_rewards = decimal_zero\<rparr>)"

definition reward_calc_range_start :: "deps \<Rightarrow> string option \<Rightarrow> byte list option res" where
  "reward_calc_range_start d start_after =
     (case start_after of
        Some human \<Rightarrow> and_then (addr_canonicalize (dapi d) human) (\<lambda>v. Ok (Some (v @ [0])))
      | None \<Rightarrow> Ok None)"

text \<open>\<open>Bound::exclusive\<close>: strictly greater keys.\<close>

definition REWARD_MAX_LIMIT :: u32 where
  "REWARD_MAX_LIMIT = 30"

definition REWARD_DEFAULT_LIMIT :: u32 where
  "REWARD_DEFAULT_LIMIT = 10"

definition read_holders ::
    "deps \<Rightarrow> string option \<Rightarrow> u32 option \<Rightarrow> reward_storage \<Rightarrow> holder_response list res" where
  "read_holders d start_after limit s =
     (let lim = unat (min (case limit of None \<Rightarrow> REWARD_DEFAULT_LIMIT | Some n \<Rightarrow> n) REWARD_MAX_LIMIT) in
      and_then (reward_calc_range_start d start_after) (\<lambda>start.
        map_res (\<lambda>(k, v).
            and_then (addr_humanize (dapi d) k) (\<lambda>address.
              Ok \<lparr>hr_address = address, hr_balance = holder_balance v, hr_index = holder_index v,
                  hr_pending_rewards = pending_rewards v\<rparr>))
          (take lim (case start of None \<Rightarrow> HOLDERS s
                                 | Some b \<Rightarrow> filter (\<lambda>p. b < fst p) (HOLDERS s)))))"

section \<open>math.rs\<close>

definition decimal_multiplication_in_256 :: "lib \<Rightarrow> decimal \<Rightarrow> decimal \<Rightarrow> decimal res" where
  "decimal_multiplication_in_256 l a b =
     and_then (decimal256_from l a) (\<lambda>a_u256.
     and_then (decimal256_from l b) (\<lambda>b_u256.
     and_then (decimal256_mul l b_u256 a_u256) (decimal256_into l)))"

definition decimal_summation_in_256 :: "lib \<Rightarrow> decimal \<Rightarrow> decimal \<Rightarrow> decimal res" where
  "decimal_summation_in_256 l a b =
     and_then (decimal256_from l a) (\<lambda>a_u256.
     and_then (decimal256_from l b) (\<lambda>b_u256.
     and_then (decimal256_add l b_u256 a_u256) (decimal256_into l)))"

definition decimal_subtraction_in_256 :: "lib \<Rightarrow> decimal \<Rightarrow> decimal \<Rightarrow> decimal res" where
  "decimal_subtraction_in_256 l a b =
     and_then (decimal256_from l a) (\<lambda>a_u256.
     and_then (decimal256_from l b) (\<lambda>b_u256.
     and_then (decimal256_sub l a_u256 b_u256) (decimal256_into l)))"

section \<open>querier.rs\<close>

definition query_token_contract :: "deps \<Rightarrow> string \<Rightarrow> canonical_addr res" where
  "query_token_contract d contract_addr =
     and_then (expect_ok ''called `Result::unwrap()` on an `Err` value''
         (query_raw_config (dquerier d) contract_addr (to_length_prefixed (dlib d) (literal_bytes ''config'')))) (\<lambda>conf.
       expect_some ''the token contract must have been registered'' (token_contract conf))"

section \<open>Lemmas\<close>

lemma read_state_ok [simp]: "read_state s = Ok st \<longleftrightarrow> reward_STATE s = Some st"
  by (simp add: read_state_def)

lemma reward_read_config_ok [simp]: "reward_read_config s = Ok c \<longleftrightarrow> reward_CONFIG s = Some c"
  by (simp add: reward_read_config_def)

lemma store_state_ok [simp]: "store_state st s = Ok s' \<longleftrightarrow> s' = s\<lparr>reward_STATE := Some st\<rparr>"
  by (auto simp: store_state_def)

lemma store_holder_ok [simp]:
  "store_holder a h s = Ok s' \<longleftrightarrow> s' = s\<lparr>HOLDERS := store_set id a h (HOLDERS s)\<rparr>"
  by (auto simp: store_holder_def)

text \<open>The holder an address has, the empty one by default.\<close>

definition holder_of :: "reward_storage \<Rightarrow> canonical_addr \<Rightarrow> holder" where
  "holder_of s a = (case store_get a (HOLDERS s) of Some h \<Rightarrow> h
     | None \<Rightarrow> \<lparr>holder_balance = 0, holder_index = decimal_zero, pending_rewards = decimal_zero\<rparr>)"

lemma read_holder_ok [simp]: "read_holder s a = Ok h \<longleftrightarrow> h = holder_of s a"
  by (auto simp: read_holder_def holder_of_def split: option.splits)

context bignumber
begin

lemma unat_256_of: "n < 2 ^ 256 \<Longrightarrow> unat (atomics256 (Decimal256 (of_nat n))) = n"
  by (simp add: unat_of_nat_checked)

lemma decimal256_exists:
  assumes "n < 2 ^ 256"
  shows "\<exists>x. unat (atomics256 x) = n"
  using unat_256_of [OF assms] by blast

lemma datoms_less_256: "datoms a < 2 ^ 256"
  using unat_less_128 [of "atomics a"] by simp

lemma decimal_summation_ok:
  "decimal_summation_in_256 l a b = Ok c \<longleftrightarrow> datoms c = datoms a + datoms b"
proof
  show "decimal_summation_in_256 l a b = Ok c \<Longrightarrow> datoms c = datoms a + datoms b"
    unfolding decimal_summation_in_256_def and_then_eq_Ok decimal256_from_ok decimal256_add_ok
      decimal256_into_ok by auto
next
  assume c: "datoms c = datoms a + datoms b"
  obtain x y z where "unat (atomics256 x) = datoms a" "unat (atomics256 y) = datoms b"
      "unat (atomics256 z) = datoms c"
    using decimal256_exists datoms_less_256 by metis
  with c show "decimal_summation_in_256 l a b = Ok c"
    unfolding decimal_summation_in_256_def and_then_eq_Ok decimal256_from_ok decimal256_add_ok
      decimal256_into_ok by (metis add.commute)
qed

lemma decimal_subtraction_ok:
  "decimal_subtraction_in_256 l a b = Ok c \<longleftrightarrow> datoms a = datoms b + datoms c"
proof
  show "decimal_subtraction_in_256 l a b = Ok c \<Longrightarrow> datoms a = datoms b + datoms c"
    unfolding decimal_subtraction_in_256_def and_then_eq_Ok decimal256_from_ok decimal256_sub_ok
      decimal256_into_ok by auto
next
  assume c: "datoms a = datoms b + datoms c"
  obtain x y z where "unat (atomics256 x) = datoms a" "unat (atomics256 y) = datoms b"
      "unat (atomics256 z) = datoms c"
    using decimal256_exists datoms_less_256 by metis
  with c show "decimal_subtraction_in_256 l a b = Ok c"
    unfolding decimal_subtraction_in_256_def and_then_eq_Ok decimal256_from_ok decimal256_sub_ok
      decimal256_into_ok by metis
qed

lemma decimal_multiplication_ok:
  "decimal_multiplication_in_256 l a b = Ok c \<longleftrightarrow> datoms c = datoms a * datoms b div dec_unit"
proof
  show "decimal_multiplication_in_256 l a b = Ok c \<Longrightarrow> datoms c = datoms a * datoms b div dec_unit"
    unfolding decimal_multiplication_in_256_def and_then_eq_Ok decimal256_from_ok decimal256_mul_ok
      decimal256_into_ok by (auto simp: mult.commute)
next
  assume c: "datoms c = datoms a * datoms b div dec_unit"
  obtain x y z where "unat (atomics256 x) = datoms a" "unat (atomics256 y) = datoms b"
      "unat (atomics256 z) = datoms c"
    using decimal256_exists datoms_less_256 by metis
  with c show "decimal_multiplication_in_256 l a b = Ok c"
    unfolding decimal_multiplication_in_256_def and_then_eq_Ok decimal256_from_ok decimal256_mul_ok
      decimal256_into_ok by (metis mult.commute)
qed

end

text \<open>The same operations on the reference instance, as equations to compute with.\<close>

lemma std_256_roundtrip:
  "decimal256_from std_lib a = Ok (Decimal256 (of_nat (datoms a)))"
  "decimal256_into std_lib x = std_decimal_of_nat (unat (atomics256 x))"
  using std_big.datoms_less_256 by (auto simp: std_lib_def std_256_of_nat_def)

lemma std_math_eval:
  "decimal_summation_in_256 std_lib a b = std_decimal_of_nat (datoms b + datoms a)"
  "decimal_subtraction_in_256 std_lib a b = (if datoms b \<le> datoms a then std_decimal_of_nat (datoms a - datoms b)
     else Panic ''overflow'')"
  "decimal_multiplication_in_256 std_lib a b = std_decimal_of_nat (datoms b * datoms a div dec_unit)"
proof -
  have u: "unat (of_nat (datoms r) :: 256 word) = datoms r" for r
    by (rule unat_of_nat_checked) (use std_big.datoms_less_256 in simp)
  have u2: "unat (ucast (atomics r) :: 256 word) = datoms r" for r using u [of r] by simp
  have lt: "datoms r < 2 ^ 128" for r by (rule unat_less_128)
  have "datoms b + datoms a < 2 ^ 256" using lt [of a] lt [of b] by simp
  then show "decimal_summation_in_256 std_lib a b = std_decimal_of_nat (datoms b + datoms a)"
    by (simp add: decimal_summation_in_256_def std_256_roundtrip u2, simp add: std_lib_def std_256_of_nat_def u2 unat_of_nat_checked del: of_nat_add)
  have "datoms b * datoms a < 2 ^ 128 * 2 ^ 128" by (rule mult_strict_mono [OF lt lt]) auto
  then have "datoms b * datoms a div dec_unit < 2 ^ 256"
    by (intro le_less_trans [OF div_le_dividend]) simp
  then show "decimal_multiplication_in_256 std_lib a b = std_decimal_of_nat (datoms b * datoms a div dec_unit)"
    by (simp add: decimal_multiplication_in_256_def std_256_roundtrip u2) 
     (simp add: std_lib_def std_256_of_nat_def u2 unat_of_nat_checked del: of_nat_mult)
  show "decimal_subtraction_in_256 std_lib a b = (if datoms b \<le> datoms a then std_decimal_of_nat (datoms a - datoms b)
     else Panic ''overflow'')"
    by (simp add: decimal_subtraction_in_256_def std_256_roundtrip u2)
     (simp add: std_lib_def u2 word_le_nat_alt unat_sub)
qed

end
