(* ===== verification/Paging.thy ===== *)
theory Paging
  imports Store Deps
begin

text \<open>
  The list queries of the contracts return a page: at most a limit of entries, starting behind the key
  given by the caller.  Each contract turns the key into a bound of its own; what they rely on is stated
  by the locale \<open>paging\<close>: of the keys in the store, the bound leaves exactly those behind the
  key.  Then a client that always continues behind the last entry it got sees every entry once, in order.
\<close>

lemma snoc_less_iff:
  fixes u v :: "'a::linorder list"
  assumes "\<And>w. v = u @ w \<Longrightarrow> w = []"
  shows "u @ [c] < v \<longleftrightarrow> u < v"
  using assms
proof (induction u arbitrary: v)
  case Nil
  then have "v = []" by simp
  then show ?case by simp
next
  case (Cons a u)
  then show ?case by (cases v) auto
qed

text \<open>A client: it asks for pages until one is empty; the number of rounds is bounded.\<close>

fun page_walk :: "('k option \<Rightarrow> 'e list res) \<Rightarrow> ('e \<Rightarrow> 'k) \<Rightarrow> nat \<Rightarrow> 'k option \<Rightarrow> 'e list res" where
  "page_walk q key 0 start = Ok []"
| "page_walk q key (Suc rounds) start =
     and_then (q start) (\<lambda>page.
       if page = [] then Ok []
       else and_then (page_walk q key rounds (Some (key (last page)))) (\<lambda>rest. Ok (page @ rest)))"

locale paging =
  fixes enc :: "'k \<Rightarrow> byte list" and beyond :: "'k \<Rightarrow> byte list \<Rightarrow> bool" and valid :: "'k \<Rightarrow> bool"
  assumes enc_inj: "valid a \<Longrightarrow> valid b \<Longrightarrow> enc a = enc b \<Longrightarrow> a = b"
    and beyond_iff: "valid a \<Longrightarrow> valid b \<Longrightarrow> beyond a (enc b) \<longleftrightarrow> enc a < enc b"
begin

lemma page_after:
  assumes ok: "store_ok m" and sorted: "store_sorted enc m" and valid: "\<forall>p \<in> set m. valid (fst p)"
    and m: "m = xs @ (k, v) # ys"
  shows "filter (\<lambda>p. beyond k (enc (fst p))) m = ys"
proof -
  have "valid k" using valid m by simp
  have before: "\<not> beyond k (enc (fst p))" if "p \<in> set (xs @ [(k, v)])" for p
    using that sorted valid \<open>valid k\<close>
    by (auto simp: m store_sorted_def sorted_wrt_append beyond_iff not_less)
  have after: "beyond k (enc (fst p))" if p: "p \<in> set ys" for p
  proof -
    have "enc k \<le> enc (fst p)" using sorted p by (auto simp: m store_sorted_def sorted_wrt_append)
    moreover have "fst p \<noteq> k" using ok p by (auto simp: m store_ok_def)
    then have "enc (fst p) \<noteq> enc k" using enc_inj valid p \<open>valid k\<close> by (auto simp: m)
    ultimately show ?thesis using beyond_iff \<open>valid k\<close> valid p by (auto simp: m order.strict_iff_order)
  qed
  have "filter (\<lambda>p. beyond k (enc (fst p))) (xs @ [(k, v)]) = []"
    "filter (\<lambda>p. beyond k (enc (fst p))) ys = ys"
    unfolding filter_empty_conv filter_id_conv using before after by blast+
  then show ?thesis by (simp add: m split: if_splits)
qed

text \<open>The walk over a query that returns pages of a positive size, from the beginning or behind an entry.\<close>

lemma walk_from:
  assumes ok: "store_ok m" and sorted: "store_sorted enc m" and valid: "\<forall>p \<in> set m. valid (fst p)"
    and query: "\<And>c. (\<forall>k. c = Some k \<longrightarrow> valid k) \<Longrightarrow> q c = Ok (map g (take n (case c of None \<Rightarrow> m | Some k \<Rightarrow> filter (\<lambda>p. beyond k (enc (fst p))) m)))"
    and key: "\<And>p. p \<in> set m \<Longrightarrow> key (g p) = fst p" and n: "0 < n"
    and rest: "m = done @ rest" and start: "start = (if done = [] then None else Some (fst (last done)))"
    and rounds: "length rest \<le> rounds"
  shows "page_walk q key rounds start = Ok (map g rest)"
  using rest start rounds
proof (induction rounds arbitrary: "done" rest start)
  case (Suc rounds)
  have page: "q start = Ok (map g (take n rest))"
  proof (cases "done = []")
    case True
    then show ?thesis using Suc.prems by (simp add: query)
  next
    case False
    then have m: "m = butlast done @ (fst (last done), snd (last done)) # rest" using Suc.prems(1) by simp
    then have v: "valid (fst (last done))" using valid by (metis in_set_conv_decomp fst_conv)
    show ?thesis using page_after [OF ok sorted valid m] v False Suc.prems(2) query [of start] by simp
  qed
  show ?case
  proof (cases "rest = []")
    case True
    then show ?thesis by (simp add: page)
  next
    case False
    then have ne: "take n rest \<noteq> []" using n by simp
    then have "last (take n rest) \<in> set m" using Suc.prems(1) by (metis UnCI in_set_takeD last_in_set set_append)
    then have last: "key (last (map g (take n rest))) = fst (last (take n rest))" using ne by (simp add: last_map key)
    have "page_walk q key rounds (Some (fst (last (take n rest)))) = Ok (map g (drop n rest))"
    proof (rule Suc.IH [of "done @ take n rest"])
      show "m = (done @ take n rest) @ drop n rest" using Suc.prems(1) by simp
      show "length (drop n rest) \<le> rounds" using Suc.prems(3) n False by (cases rest) auto
    qed (use ne in simp)
    then show ?thesis using ne by (simp add: page last flip: map_append)
  qed
qed simp

lemma walk_all:
  assumes "store_ok m" and "store_sorted enc m" and "\<forall>p \<in> set m. valid (fst p)"
    and "\<And>c. (\<forall>k. c = Some k \<longrightarrow> valid k) \<Longrightarrow> q c = Ok (map g (take n (case c of None \<Rightarrow> m | Some k \<Rightarrow> filter (\<lambda>p. beyond k (enc (fst p))) m)))"
    and "\<And>p. p \<in> set m \<Longrightarrow> key (g p) = fst p" and "0 < n" and "length m \<le> rounds"
  shows "page_walk q key rounds None = Ok (map g m)"
  by (rule walk_from [OF assms(1-6), where ?done = "[]"]) (use assms(7) in simp_all)

end

text \<open>Serialised tokens as keys: the bound is the token's key with one byte behind it.\<close>

sublocale json_text \<subseteq> json_pages: paging "json_string l" "\<lambda>k b. json_string l k @ [1] < b" "\<lambda>_. True"
  by unfold_locales (auto simp: json_string_inj intro!: snoc_less_iff json_string_no_prefix)

context json_text
begin

lemmas walk_json_pages = json_pages.walk_all

end

end
