(* ===== verification/Airdrop_Registry.thy ===== *)
theory Airdrop_Registry
  imports Paging Std_Lib
begin

text \<open>
  \<open>contracts/anchor_airdrop_registry/src\<close>: the registry of the contracts from which the hub
  can claim airdrops.  It keeps, per airdrop token, where to claim and where to swap, and a list of the
  tokens in its configuration; on request it fabricates the claim message that it sends to the hub.
\<close>

section \<open>state.rs\<close>

record registry_config =
  gc_owner :: canonical_addr
  gc_hub_contract :: string
  gc_reward_contract :: string
  airdrop_tokens :: "string list"

record registry_storage =
  registry_CONFIG :: "registry_config option"
  AIRDROP_INFO :: "(string, airdrop_info) store"

definition empty_registry_storage :: registry_storage where
  "empty_registry_storage = \<lparr>registry_CONFIG = None, AIRDROP_INFO = []\<rparr>"

definition registry_store_config :: "registry_config \<Rightarrow> registry_storage \<Rightarrow> registry_storage res" where
  "registry_store_config config s = Ok (s\<lparr>registry_CONFIG := Some config\<rparr>)"

definition registry_read_config :: "registry_storage \<Rightarrow> registry_config res" where
  "registry_read_config s = load_item ''Config'' (registry_CONFIG s)"

definition store_airdrop_info ::
    "lib \<Rightarrow> string \<Rightarrow> airdrop_info \<Rightarrow> registry_storage \<Rightarrow> registry_storage res" where
  "store_airdrop_info l airdrop_token info s =
     Ok (s\<lparr>AIRDROP_INFO := store_set (json_string l) airdrop_token info (AIRDROP_INFO s)\<rparr>)"

text \<open>\<open>Map::update\<close> hands the stored value to the closure, which ignores it.\<close>

definition update_airdrop_info ::
    "lib \<Rightarrow> string \<Rightarrow> airdrop_info \<Rightarrow> registry_storage \<Rightarrow> registry_storage res" where
  "update_airdrop_info l airdrop_token info s =
     (let stored = store_get airdrop_token (AIRDROP_INFO s);
          updated = (\<lambda>_. Ok info) stored
      in and_then updated (\<lambda>v.
           Ok (s\<lparr>AIRDROP_INFO := store_set (json_string l) airdrop_token v (AIRDROP_INFO s)\<rparr>)))"

definition remove_airdrop_info :: "string \<Rightarrow> registry_storage \<Rightarrow> registry_storage res" where
  "remove_airdrop_info airdrop_token s =
     Ok (s\<lparr>AIRDROP_INFO := store_remove airdrop_token (AIRDROP_INFO s)\<rparr>)"

definition read_airdrop_info :: "registry_storage \<Rightarrow> string \<Rightarrow> airdrop_info res" where
  "read_airdrop_info s airdrop_token = load_item ''AirdropInfo'' (store_get airdrop_token (AIRDROP_INFO s))"

abbreviation REGISTRY_MAX_LIMIT :: u32 where "REGISTRY_MAX_LIMIT \<equiv> 30"
abbreviation REGISTRY_DEFAULT_LIMIT :: u32 where "REGISTRY_DEFAULT_LIMIT \<equiv> 10"

definition registry_calc_range_start :: "lib \<Rightarrow> string option \<Rightarrow> byte list option" where
  "registry_calc_range_start l start_after = map_option (\<lambda>air. json_string l air @ [1]) start_after"

text \<open>\<open>Bound::exclusive\<close>: strictly greater keys.\<close>

definition read_all_airdrop_infos ::
    "lib \<Rightarrow> registry_storage \<Rightarrow> string option \<Rightarrow> u32 option \<Rightarrow> airdrop_info_elem list res" where
  "read_all_airdrop_infos l s start_after limit =
     (let lim = unat (min (case limit of None \<Rightarrow> REGISTRY_DEFAULT_LIMIT | Some n \<Rightarrow> n) REGISTRY_MAX_LIMIT);
          start = registry_calc_range_start l start_after
      in Ok (map (\<lambda>(k, v). \<lparr>elem_token = k, elem_info = v\<rparr>)
           (take lim (case start of None \<Rightarrow> AIRDROP_INFO s
              | Some b \<Rightarrow> filter (\<lambda>p. b < json_string l (fst p)) (AIRDROP_INFO s)))))"


section \<open>contract.rs\<close>

definition registry_instantiate ::
    "deps \<Rightarrow> message_info \<Rightarrow> registry_instantiate_msg \<Rightarrow> registry_storage \<Rightarrow> (registry_storage \<times> response) res" where
  "registry_instantiate d info msg s =
     and_then (addr_canonicalize (dapi d) (sender info)) (\<lambda>sndr_raw.
     and_then (registry_store_config
         \<lparr>gc_owner = sndr_raw, gc_hub_contract = gim_hub_contract msg,
          gc_reward_contract = gim_reward_contract msg, airdrop_tokens = []\<rparr> s) (\<lambda>s'.
       Ok (s', empty_response)))"

definition execute_fabricate_mir_claim ::
    "deps \<Rightarrow> u8 \<Rightarrow> uint128 \<Rightarrow> string list \<Rightarrow> registry_storage \<Rightarrow> (registry_storage \<times> response) res" where
  "execute_fabricate_mir_claim d stage amt prf s =
     and_then (registry_read_config s) (\<lambda>config.
     and_then (expect_ok ''called `Result::unwrap()` on an `Err` value'' (read_airdrop_info s ''MIR'')) (\<lambda>ai.
     and_then (to_binary (dlib d) (MIRPayload (MIRClaim stage amt prf))) (\<lambda>claim_msg.
     and_then (to_binary (dlib d) (PairPayload
         (Swap (swap_belief_price ai) (swap_max_spread ai) (Some (gc_reward_contract config))))) (\<lambda>swap_msg.
     and_then (to_binary (dlib d) (HubPayload (ClaimAirdrop (airdrop_token_contract ai) (airdrop_contract ai)
         (airdrop_swap_contract ai) claim_msg swap_msg))) (\<lambda>msg.
       Ok (s, \<lparr>messages = [WasmExecute (gc_hub_contract config) msg []],
               attributes = [(''action'', AttrStr ''fabricate_mir_claim'')]\<rparr>))))))"

definition execute_fabricate_anchor_claim ::
    "deps \<Rightarrow> u8 \<Rightarrow> uint128 \<Rightarrow> string list \<Rightarrow> registry_storage \<Rightarrow> (registry_storage \<times> response) res" where
  "execute_fabricate_anchor_claim d stage amt prf s =
     and_then (registry_read_config s) (\<lambda>config.
     and_then (read_airdrop_info s ''ANC'') (\<lambda>ai.
     and_then (to_binary (dlib d) (ANCPayload (ANCClaim stage amt prf))) (\<lambda>claim_msg.
     and_then (to_binary (dlib d) (PairPayload
         (Swap (swap_belief_price ai) (swap_max_spread ai) (Some (gc_reward_contract config))))) (\<lambda>swap_msg.
     and_then (to_binary (dlib d) (HubPayload (ClaimAirdrop (airdrop_token_contract ai) (airdrop_contract ai)
         (airdrop_swap_contract ai) claim_msg swap_msg))) (\<lambda>msg.
       Ok (s, \<lparr>messages = [WasmExecute (gc_hub_contract config) msg []],
               attributes = [(''action'', AttrStr ''fabricate_anc_claim'')]\<rparr>))))))"

definition registry_update_config ::
    "deps \<Rightarrow> message_info \<Rightarrow> string option \<Rightarrow> string option \<Rightarrow> string option \<Rightarrow>
     registry_storage \<Rightarrow> (registry_storage \<times> response) res" where
  "registry_update_config d info owner hub_contract reward s =
     and_then (registry_read_config s) (\<lambda>config.
     and_then (addr_canonicalize (dapi d) (sender info)) (\<lambda>sender_raw.
     if sender_raw \<noteq> gc_owner config then Err (GenericErr ''unauthorized'')
     else
     and_then (case owner of None \<Rightarrow> Ok config
        | Some ow \<Rightarrow> and_then (addr_canonicalize (dapi d) ow) (\<lambda>owner_raw. Ok (config\<lparr>gc_owner := owner_raw\<rparr>)))
       (\<lambda>config1.
     let config2 = (case hub_contract of None \<Rightarrow> config1 | Some hub \<Rightarrow> config1\<lparr>gc_hub_contract := hub\<rparr>);
         config3 = (case reward of None \<Rightarrow> config2 | Some r \<Rightarrow> config2\<lparr>gc_reward_contract := r\<rparr>) in
     and_then (registry_store_config config3 s) (\<lambda>s'.
       Ok (s', \<lparr>messages = [], attributes = [(''action'', AttrStr ''update_config'')]\<rparr>)))))"

text \<open>\<open>CONFIG.update\<close>: load, change, save.\<close>

definition registry_update_tokens ::
    "(string list \<Rightarrow> string list) \<Rightarrow> registry_storage \<Rightarrow> registry_storage res" where
  "registry_update_tokens f s =
     and_then (load_item ''Config'' (registry_CONFIG s)) (\<lambda>conf.
       Ok (s\<lparr>registry_CONFIG := Some (conf\<lparr>airdrop_tokens := f (airdrop_tokens conf)\<rparr>)\<rparr>))"

definition execute_add_airdrop ::
    "deps \<Rightarrow> message_info \<Rightarrow> string \<Rightarrow> airdrop_info \<Rightarrow> registry_storage \<Rightarrow> (registry_storage \<times> response) res" where
  "execute_add_airdrop d info airdrop_token ai s =
     and_then (registry_read_config s) (\<lambda>config.
     and_then (addr_canonicalize (dapi d) (sender info)) (\<lambda>sender_raw.
     if sender_raw \<noteq> gc_owner config then Err (GenericErr ''unauthorized'')
     else if is_ok (read_airdrop_info s airdrop_token)
     then Err (GenericErr (''There is a token info with this '' @ airdrop_token))
     else
     and_then (registry_update_tokens (\<lambda>ts. ts @ [airdrop_token]) s) (\<lambda>s1.
     and_then (store_airdrop_info (dlib d) airdrop_token ai s1) (\<lambda>s2.
       Ok (s2, \<lparr>messages = [], attributes = [(''action'', AttrStr ''add_airdrop_info''),
                                             (''airdrop_token'', AttrStr airdrop_token)]\<rparr>)))))"

definition execute_update_airdrop ::
    "deps \<Rightarrow> message_info \<Rightarrow> string \<Rightarrow> airdrop_info \<Rightarrow> registry_storage \<Rightarrow> (registry_storage \<times> response) res" where
  "execute_update_airdrop d info airdrop_token ai s =
     and_then (registry_read_config s) (\<lambda>config.
     and_then (addr_canonicalize (dapi d) (sender info)) (\<lambda>sender_raw.
     if sender_raw \<noteq> gc_owner config then Err (GenericErr ''unauthorized'')
     else if \<not> is_ok (read_airdrop_info s airdrop_token)
     then Err (GenericErr (''There is no token info with this '' @ airdrop_token))
     else
     and_then (update_airdrop_info (dlib d) airdrop_token ai s) (\<lambda>s1.
       Ok (s1, \<lparr>messages = [], attributes = [(''action'', AttrStr ''update_airdrop_info''),
                                             (''airdrop_token'', AttrStr airdrop_token)]\<rparr>))))"

definition execute_remove_airdrop ::
    "deps \<Rightarrow> message_info \<Rightarrow> string \<Rightarrow> registry_storage \<Rightarrow> (registry_storage \<times> response) res" where
  "execute_remove_airdrop d info airdrop_token s =
     and_then (registry_read_config s) (\<lambda>config.
     and_then (addr_canonicalize (dapi d) (sender info)) (\<lambda>sender_raw.
     if sender_raw \<noteq> gc_owner config then Err (GenericErr ''unauthorized'')
     else if \<not> is_ok (read_airdrop_info s airdrop_token)
     then Err (GenericErr (''There is no token info with this '' @ airdrop_token))
     else
     and_then (registry_update_tokens (filter (\<lambda>item. item \<noteq> airdrop_token)) s) (\<lambda>s1.
     and_then (remove_airdrop_info airdrop_token s1) (\<lambda>s2.
       Ok (s2, \<lparr>messages = [], attributes = [(''action'', AttrStr ''remove_airdrop_info''),
                                             (''airdrop_token'', AttrStr airdrop_token)]\<rparr>)))))"

definition registry_execute ::
    "deps \<Rightarrow> message_info \<Rightarrow> registry_execute_msg \<Rightarrow> registry_storage \<Rightarrow> (registry_storage \<times> response) res" where
  "registry_execute d info msg s =
     (case msg of
        FabricateMIRClaim stage amt prf \<Rightarrow> execute_fabricate_mir_claim d stage amt prf s
      | FabricateANCClaim stage amt prf \<Rightarrow> execute_fabricate_anchor_claim d stage amt prf s
      | RegistryUpdateConfig owner hub reward \<Rightarrow> registry_update_config d info owner hub reward s
      | AddAirdropInfo token ai \<Rightarrow> execute_add_airdrop d info token ai s
      | RemoveAirdropInfo token \<Rightarrow> execute_remove_airdrop d info token s
      | UpdateAirdropInfo token ai \<Rightarrow> execute_update_airdrop d info token ai s)"

datatype registry_query_response =
    RegistryConfigResponse registry_config_response
  | AirdropInfoResponse airdrop_info_response

definition query_registry_config :: "deps \<Rightarrow> registry_storage \<Rightarrow> registry_config_response res" where
  "query_registry_config d s =
     and_then (registry_read_config s) (\<lambda>config.
     and_then (addr_humanize (dapi d) (gc_owner config)) (\<lambda>owner_addr.
       Ok \<lparr>gcr_owner = owner_addr, gcr_hub_contract = gc_hub_contract config,
           gcr_reward_contract = gc_reward_contract config, gcr_airdrop_tokens = airdrop_tokens config\<rparr>))"

definition query_airdrop_infos ::
    "deps \<Rightarrow> registry_storage \<Rightarrow> string option \<Rightarrow> string option \<Rightarrow> u32 option \<Rightarrow> airdrop_info_response res" where
  "query_airdrop_infos d s airdrop_token start_after limit =
     (case airdrop_token of
        Some air_token \<Rightarrow>
          and_then (expect_ok ''called `Result::unwrap()` on an `Err` value'' (read_airdrop_info s air_token))
            (\<lambda>ai. Ok \<lparr>air_airdrop_info = [\<lparr>elem_token = air_token, elem_info = ai\<rparr>]\<rparr>)
      | None \<Rightarrow>
          and_then (read_all_airdrop_infos (dlib d) s start_after limit) (\<lambda>infos. Ok \<lparr>air_airdrop_info = infos\<rparr>))"

definition registry_query ::
    "deps \<Rightarrow> registry_query_msg \<Rightarrow> registry_storage \<Rightarrow> registry_query_response res" where
  "registry_query d msg s =
     (case msg of
        RegistryQueryConfig \<Rightarrow> and_then (query_registry_config d s) (\<lambda>r. Ok (RegistryConfigResponse r))
      | QueryAirdropInfo airdrop_token start_after limit \<Rightarrow>
          and_then (query_airdrop_infos d s airdrop_token start_after limit) (\<lambda>r. Ok (AirdropInfoResponse r)))"

end
