(* ===== verification/Cw20_Legacy.thy ===== *)
theory Cw20_Legacy
  imports Std_Lib
begin

text \<open>
  The CW20 implementation the token contract wraps is the crate \<open>cw20_legacy\<close>, which is not part of
  this repository.  Its entry points are the fields of a record, over a type of its own for its storage;
  the locale \<open>cw20_ledger\<close> states what the token contract relies on: what each operation does to the
  balances, which the ledger keeps under canonical addresses.  \<open>cw20_total_supply\<close> is the total supply
  that the token's \<open>TokenInfo\<close> query reports.  A small ledger is shown to satisfy the contracts.
\<close>

datatype cw20_query_msg =
    Cw20QueryBalance string
  | Cw20QueryTokenInfo
  | Cw20QueryMinter
  | Cw20QueryAllowance string string
  | Cw20QueryAllAllowances string "string option" "u32 option"
  | Cw20QueryAllAccounts "string option" "u32 option"

record 'c cw20_legacy =
  cw20_init :: "deps \<Rightarrow> env \<Rightarrow> message_info \<Rightarrow> cw20_instantiate_msg \<Rightarrow> 'c \<Rightarrow> ('c \<times> response) res"
  cw20_transfer :: "deps \<Rightarrow> env \<Rightarrow> message_info \<Rightarrow> string \<Rightarrow> uint128 \<Rightarrow> 'c \<Rightarrow> ('c \<times> response) res"
  cw20_burn :: "deps \<Rightarrow> env \<Rightarrow> message_info \<Rightarrow> uint128 \<Rightarrow> 'c \<Rightarrow> ('c \<times> response) res"
  cw20_minting :: "deps \<Rightarrow> env \<Rightarrow> message_info \<Rightarrow> string \<Rightarrow> uint128 \<Rightarrow> 'c \<Rightarrow> ('c \<times> response) res"
  cw20_send :: "deps \<Rightarrow> env \<Rightarrow> message_info \<Rightarrow> string \<Rightarrow> uint128 \<Rightarrow> binary \<Rightarrow> 'c \<Rightarrow> ('c \<times> response) res"
  cw20_increase_allowance ::
    "deps \<Rightarrow> env \<Rightarrow> message_info \<Rightarrow> string \<Rightarrow> uint128 \<Rightarrow> expiration option \<Rightarrow> 'c \<Rightarrow> ('c \<times> response) res"
  cw20_decrease_allowance ::
    "deps \<Rightarrow> env \<Rightarrow> message_info \<Rightarrow> string \<Rightarrow> uint128 \<Rightarrow> expiration option \<Rightarrow> 'c \<Rightarrow> ('c \<times> response) res"
  cw20_transfer_from :: "deps \<Rightarrow> env \<Rightarrow> message_info \<Rightarrow> string \<Rightarrow> string \<Rightarrow> uint128 \<Rightarrow> 'c \<Rightarrow> ('c \<times> response) res"
  cw20_burn_from :: "deps \<Rightarrow> env \<Rightarrow> message_info \<Rightarrow> string \<Rightarrow> uint128 \<Rightarrow> 'c \<Rightarrow> ('c \<times> response) res"
  cw20_send_from ::
    "deps \<Rightarrow> env \<Rightarrow> message_info \<Rightarrow> string \<Rightarrow> string \<Rightarrow> uint128 \<Rightarrow> binary \<Rightarrow> 'c \<Rightarrow> ('c \<times> response) res"
  cw20_query :: "deps \<Rightarrow> env \<Rightarrow> cw20_query_msg \<Rightarrow> 'c \<Rightarrow> binary res"
  cw20_total_supply :: "'c \<Rightarrow> uint128"


section \<open>What the operations do to balances\<close>

type_synonym balances = "canonical_addr \<Rightarrow> nat"

definition debits :: "api \<Rightarrow> string \<Rightarrow> uint128 \<Rightarrow> balances \<Rightarrow> balances \<Rightarrow> bool" where
  "debits ap owner n f g \<longleftrightarrow>
     (\<exists>a. addr_canonicalize ap owner = Ok a \<and> unat n \<le> f a \<and> g = f(a := f a - unat n))"

definition credits :: "api \<Rightarrow> string \<Rightarrow> uint128 \<Rightarrow> balances \<Rightarrow> balances \<Rightarrow> bool" where
  "credits ap owner n f g \<longleftrightarrow> (\<exists>a. addr_canonicalize ap owner = Ok a \<and> g = f(a := f a + unat n))"

definition moves :: "api \<Rightarrow> string \<Rightarrow> string \<Rightarrow> uint128 \<Rightarrow> balances \<Rightarrow> balances \<Rightarrow> bool" where
  "moves ap owner recipient n f g \<longleftrightarrow> (\<exists>h. debits ap owner n f h \<and> credits ap recipient n h g)"

text \<open>\<open>Cw20ReceiveMsg::into_cosmos_msg\<close>: the notification of the contract tokens are sent to.\<close>

definition notifies :: "lib \<Rightarrow> string \<Rightarrow> cw20_receive_msg \<Rightarrow> cosmos_msg list \<Rightarrow> bool" where
  "notifies l contract m msgs \<longleftrightarrow>
     (\<exists>b. to_binary l (HubPayload (Receive m)) = Ok b \<and> msgs = [WasmExecute contract b []])"

locale cw20_ledger =
  fixes c :: "'c cw20_legacy" and bal :: "'c \<Rightarrow> balances" and fresh :: 'c
  assumes init_empty: "cw20_init c d e i m fresh = Ok (s', r) \<Longrightarrow> cw20_initial_balances m = [] \<Longrightarrow> bal s' = (\<lambda>_. 0)"
    and transfer_moves: "cw20_transfer c d e i rcpt n s = Ok (s', r) \<Longrightarrow> moves (dapi d) (sender i) rcpt n (bal s) (bal s')"
    and burn_debits: "cw20_burn c d e i n s = Ok (s', r) \<Longrightarrow> debits (dapi d) (sender i) n (bal s) (bal s')"
    and mint_credits: "cw20_minting c d e i rcpt n s = Ok (s', r) \<Longrightarrow> credits (dapi d) rcpt n (bal s) (bal s')"
    and send_moves: "cw20_send c d e i ct n p s = Ok (s', r) \<Longrightarrow> moves (dapi d) (sender i) ct n (bal s) (bal s')"
    and send_notifies: "cw20_send c d e i ct n p s = Ok (s', r) \<Longrightarrow>
      notifies (dlib d) ct \<lparr>cw20_sender = sender i, cw20_amount = n, cw20_payload = p\<rparr> (messages r)"
    and transfer_from_moves:
      "cw20_transfer_from c d e i ow rcpt n s = Ok (s', r) \<Longrightarrow> moves (dapi d) ow rcpt n (bal s) (bal s')"
    and burn_from_debits: "cw20_burn_from c d e i ow n s = Ok (s', r) \<Longrightarrow> debits (dapi d) ow n (bal s) (bal s')"
    and send_from_moves: "cw20_send_from c d e i ow ct n p s = Ok (s', r) \<Longrightarrow> moves (dapi d) ow ct n (bal s) (bal s')"
    and send_from_notifies: "cw20_send_from c d e i ow ct n p s = Ok (s', r) \<Longrightarrow>
      notifies (dlib d) ct \<lparr>cw20_sender = sender i, cw20_amount = n, cw20_payload = p\<rparr> (messages r)"
    and increase_allowance_keeps:
      "cw20_increase_allowance c d e i sp n ex s = Ok (s', r) \<Longrightarrow> bal s' = bal s \<and> messages r = []"
    and decrease_allowance_keeps:
      "cw20_decrease_allowance c d e i sp n ex s = Ok (s', r) \<Longrightarrow> bal s' = bal s \<and> messages r = []"

text \<open>The minter is set when the token is instantiated; nothing changes it, and nobody else mints.\<close>

locale cw20_minter = cw20_ledger +
  fixes minter_of :: "'a \<Rightarrow> canonical_addr option"
  assumes init_minter: "cw20_init c d e i m fresh = Ok (s', r) \<Longrightarrow> cw20_mint m = Some x \<Longrightarrow>
      \<exists>a. addr_canonicalize (dapi d) (minter x) = Ok a \<and> minter_of s' = Some a"
    and mint_by_minter: "cw20_minting c d e i rcpt n s = Ok (s', r) \<Longrightarrow>
      \<exists>a. addr_canonicalize (dapi d) (sender i) = Ok a \<and> minter_of s = Some a"
    and minter_kept:
      "cw20_transfer c d e i rcpt n s = Ok (s', r) \<Longrightarrow> minter_of s' = minter_of s"
      "cw20_burn c d e i n s = Ok (s', r) \<Longrightarrow> minter_of s' = minter_of s"
      "cw20_minting c d e i rcpt n s = Ok (s', r) \<Longrightarrow> minter_of s' = minter_of s"
      "cw20_send c d e i ct n p s = Ok (s', r) \<Longrightarrow> minter_of s' = minter_of s"
      "cw20_transfer_from c d e i ow rcpt n s = Ok (s', r) \<Longrightarrow> minter_of s' = minter_of s"
      "cw20_burn_from c d e i ow n s = Ok (s', r) \<Longrightarrow> minter_of s' = minter_of s"
      "cw20_send_from c d e i ow ct n p s = Ok (s', r) \<Longrightarrow> minter_of s' = minter_of s"
      "cw20_increase_allowance c d e i sp n ex s = Ok (s', r) \<Longrightarrow> minter_of s' = minter_of s"
      "cw20_decrease_allowance c d e i sp n ex s = Ok (s', r) \<Longrightarrow> minter_of s' = minter_of s"

text \<open>The total supply: zero at first, raised by minting and lowered by burning only.\<close>

locale cw20_supply = cw20_ledger +
  assumes init_supply: "cw20_init c d e i m fresh = Ok (s', r) \<Longrightarrow> cw20_initial_balances m = [] \<Longrightarrow> cw20_total_supply c s' = 0"
    and mint_supply: "cw20_minting c d e i rcpt n s = Ok (s', r) \<Longrightarrow>
      unat (cw20_total_supply c s') = unat (cw20_total_supply c s) + unat n"
    and burn_supply: "cw20_burn c d e i n s = Ok (s', r) \<Longrightarrow>
      unat (cw20_total_supply c s) = unat (cw20_total_supply c s') + unat n"
    and burn_from_supply: "cw20_burn_from c d e i ow n s = Ok (s', r) \<Longrightarrow>
      unat (cw20_total_supply c s) = unat (cw20_total_supply c s') + unat n"
    and supply_kept:
      "cw20_transfer c d e i rcpt n s = Ok (s', r) \<Longrightarrow> cw20_total_supply c s' = cw20_total_supply c s"
      "cw20_send c d e i ct n p s = Ok (s', r) \<Longrightarrow> cw20_total_supply c s' = cw20_total_supply c s"
      "cw20_transfer_from c d e i ow rcpt n s = Ok (s', r) \<Longrightarrow> cw20_total_supply c s' = cw20_total_supply c s"
      "cw20_send_from c d e i ow ct n p s = Ok (s', r) \<Longrightarrow> cw20_total_supply c s' = cw20_total_supply c s"
      "cw20_increase_allowance c d e i sp n ex s = Ok (s', r) \<Longrightarrow> cw20_total_supply c s' = cw20_total_supply c s"
      "cw20_decrease_allowance c d e i sp n ex s = Ok (s', r) \<Longrightarrow> cw20_total_supply c s' = cw20_total_supply c s"


section \<open>A ledger\<close>

text \<open>
  A ledger that satisfies the contracts: balances and allowances without expiration, the minter, the
  supply, no metadata.
\<close>

record ledger =
  led_balance :: "canonical_addr \<Rightarrow> uint128"
  led_allowance :: "canonical_addr \<Rightarrow> canonical_addr \<Rightarrow> uint128"
  led_minter :: "canonical_addr option"
  led_supply :: uint128

definition fresh_ledger :: ledger where
  "fresh_ledger = \<lparr>led_balance = (\<lambda>_. 0), led_allowance = (\<lambda>_ _. 0), led_minter = None, led_supply = 0\<rparr>"

definition ledger_debit :: "deps \<Rightarrow> string \<Rightarrow> uint128 \<Rightarrow> ledger \<Rightarrow> ledger res" where
  "ledger_debit d owner n s =
     and_then (addr_canonicalize (dapi d) owner) (\<lambda>a.
       if led_balance s a < n then Err OverflowErr
       else Ok (s\<lparr>led_balance := (led_balance s)(a := led_balance s a - n)\<rparr>))"

definition ledger_credit :: "deps \<Rightarrow> string \<Rightarrow> uint128 \<Rightarrow> ledger \<Rightarrow> ledger res" where
  "ledger_credit d owner n s =
     and_then (addr_canonicalize (dapi d) owner) (\<lambda>a.
     and_then (std_uint_of_nat (unat (led_balance s a) + unat n)) (\<lambda>b.
       Ok (s\<lparr>led_balance := (led_balance s)(a := b)\<rparr>)))"

definition ledger_allow ::
    "(uint128 \<Rightarrow> uint128 res) \<Rightarrow> deps \<Rightarrow> string \<Rightarrow> string \<Rightarrow> ledger \<Rightarrow> ledger res" where
  "ledger_allow f d owner spender s =
     and_then (addr_canonicalize (dapi d) owner) (\<lambda>a.
     and_then (addr_canonicalize (dapi d) spender) (\<lambda>b.
     and_then (f (led_allowance s a b)) (\<lambda>n.
       Ok (s\<lparr>led_allowance := (led_allowance s)(a := (led_allowance s a)(b := n))\<rparr>))))"

definition spend :: "uint128 \<Rightarrow> uint128 \<Rightarrow> uint128 res" where
  "spend n allowed = (if allowed < n then Err OverflowErr else Ok (allowed - n))"

definition ledger_move :: "deps \<Rightarrow> string \<Rightarrow> string \<Rightarrow> uint128 \<Rightarrow> ledger \<Rightarrow> ledger res" where
  "ledger_move d owner recipient n s = and_then (ledger_debit d owner n s) (ledger_credit d recipient n)"

definition ledger_issue :: "uint128 \<Rightarrow> ledger \<Rightarrow> ledger res" where
  "ledger_issue n s =
     and_then (std_uint_of_nat (unat (led_supply s) + unat n)) (\<lambda>k. Ok (s\<lparr>led_supply := k\<rparr>))"

definition ledger_retire :: "uint128 \<Rightarrow> ledger \<Rightarrow> ledger res" where
  "ledger_retire n s = (if led_supply s < n then Err OverflowErr else Ok (s\<lparr>led_supply := led_supply s - n\<rparr>))"

definition quiet :: "ledger res \<Rightarrow> (ledger \<times> response) res" where
  "quiet r = and_then r (\<lambda>s. Ok (s, empty_response))"

definition notifying :: "deps \<Rightarrow> string \<Rightarrow> cw20_receive_msg \<Rightarrow> ledger res \<Rightarrow> (ledger \<times> response) res" where
  "notifying d contract m r =
     and_then r (\<lambda>s. and_then (to_binary (dlib d) (HubPayload (Receive m))) (\<lambda>b.
       Ok (s, \<lparr>messages = [WasmExecute contract b []], attributes = []\<rparr>)))"

definition std_cw20 :: "ledger cw20_legacy" where
  "std_cw20 = \<lparr>
     cw20_init = (\<lambda>d e i m s.
       if cw20_initial_balances m \<noteq> [] then Err (GenericErr ''initial balances'')
       else
       and_then (case cw20_mint m of None \<Rightarrow> Ok None
          | Some x \<Rightarrow> and_then (addr_canonicalize (dapi d) (minter x)) (\<lambda>a. Ok (Some a))) (\<lambda>mr.
         Ok (s\<lparr>led_minter := mr\<rparr>, empty_response))),
     cw20_transfer = (\<lambda>d e i rcpt n s. quiet (ledger_move d (sender i) rcpt n s)),
     cw20_burn = (\<lambda>d e i n s. quiet (and_then (ledger_debit d (sender i) n s) (ledger_retire n))),
     cw20_minting = (\<lambda>d e i rcpt n s.
       and_then (addr_canonicalize (dapi d) (sender i)) (\<lambda>a.
         if led_minter s \<noteq> Some a then Err (GenericErr ''Unauthorized'')
         else quiet (and_then (ledger_credit d rcpt n s) (ledger_issue n)))),
     cw20_send = (\<lambda>d e i ct n p s.
       notifying d ct \<lparr>cw20_sender = sender i, cw20_amount = n, cw20_payload = p\<rparr> (ledger_move d (sender i) ct n s)),
     cw20_increase_allowance = (\<lambda>d e i sp n ex s.
       quiet (ledger_allow (\<lambda>x. std_uint_of_nat (unat x + unat n)) d (sender i) sp s)),
     cw20_decrease_allowance = (\<lambda>d e i sp n ex s. quiet (ledger_allow (spend n) d (sender i) sp s)),
     cw20_transfer_from = (\<lambda>d e i ow rcpt n s.
       and_then (ledger_allow (spend n) d ow (sender i) s) (\<lambda>s1. quiet (ledger_move d ow rcpt n s1))),
     cw20_burn_from = (\<lambda>d e i ow n s.
       and_then (ledger_allow (spend n) d ow (sender i) s) (\<lambda>s1. quiet (and_then (ledger_debit d ow n s1) (ledger_retire n)))),
     cw20_send_from = (\<lambda>d e i ow ct n p s.
       and_then (ledger_allow (spend n) d ow (sender i) s) (\<lambda>s1.
         notifying d ct \<lparr>cw20_sender = sender i, cw20_amount = n, cw20_payload = p\<rparr> (ledger_move d ow ct n s1))),
     cw20_query = (\<lambda>d e q s. Ok []),
     cw20_total_supply = led_supply\<rparr>"

definition std_balances :: "ledger \<Rightarrow> balances" where
  "std_balances s a = unat (led_balance s a)"

lemma ledger_debit_debits: "ledger_debit d ow n s = Ok s' \<Longrightarrow> debits (dapi d) ow n (std_balances s) (std_balances s')"
  by (auto simp: ledger_debit_def debits_def std_balances_def fun_eq_iff unat_sub word_le_nat_alt not_less
      split: if_splits)

lemma ledger_credit_credits: "ledger_credit d ow n s = Ok s' \<Longrightarrow> credits (dapi d) ow n (std_balances s) (std_balances s')"
  by (auto simp: ledger_credit_def credits_def std_balances_def fun_eq_iff std_uint_of_nat_ok)

lemma ledger_move_moves: "ledger_move d ow rcpt n s = Ok s' \<Longrightarrow> moves (dapi d) ow rcpt n (std_balances s) (std_balances s')"
  by (auto simp: ledger_move_def moves_def dest: ledger_debit_debits ledger_credit_credits)

lemma ledger_allow_keeps: "ledger_allow f d ow sp s = Ok s' \<Longrightarrow> std_balances s' = std_balances s"
  by (auto simp: ledger_allow_def std_balances_def fun_eq_iff)

lemma ledger_supply_keeps:
  "ledger_issue n s = Ok s' \<Longrightarrow> std_balances s' = std_balances s"
  "ledger_retire n s = Ok s' \<Longrightarrow> std_balances s' = std_balances s"
  by (auto simp: ledger_issue_def ledger_retire_def std_balances_def fun_eq_iff split: if_splits)

lemma quiet_ok [simp]: "quiet r = Ok (s, resp) \<longleftrightarrow> r = Ok s \<and> resp = empty_response"
  by (auto simp: quiet_def)

lemma notifying_ok: "notifying d ct m r = Ok (s, resp) \<Longrightarrow> r = Ok s \<and> notifies (dlib d) ct m (messages resp)"
  by (auto simp: notifying_def notifies_def)

interpretation std_cw20: cw20_ledger std_cw20 std_balances fresh_ledger
proof
  fix d e i m s' r
  assume "cw20_init std_cw20 d e i m fresh_ledger = Ok (s', r)"
  then show "std_balances s' = (\<lambda>_. 0)"
    by (auto simp: std_cw20_def fresh_ledger_def std_balances_def split: if_splits)
qed (auto simp: std_cw20_def ledger_allow_keeps split: if_splits
    dest!: notifying_ok ledger_move_moves ledger_debit_debits ledger_credit_credits ledger_allow_keeps ledger_supply_keeps)

lemma ledger_minter_kept:
  "ledger_debit d ow n s = Ok s' \<Longrightarrow> led_minter s' = led_minter s"
  "ledger_credit d ow n s = Ok s' \<Longrightarrow> led_minter s' = led_minter s"
  "ledger_allow f d ow sp s = Ok s' \<Longrightarrow> led_minter s' = led_minter s"
  "ledger_move d ow rcpt n s = Ok s' \<Longrightarrow> led_minter s' = led_minter s"
  "ledger_issue n s = Ok s' \<Longrightarrow> led_minter s' = led_minter s"
  "ledger_retire n s = Ok s' \<Longrightarrow> led_minter s' = led_minter s"
  by (auto simp: ledger_debit_def ledger_credit_def ledger_allow_def ledger_move_def ledger_issue_def ledger_retire_def
      split: if_splits)

lemma ledger_supply_kept:
  "ledger_debit d ow n s = Ok s' \<Longrightarrow> led_supply s' = led_supply s"
  "ledger_credit d ow n s = Ok s' \<Longrightarrow> led_supply s' = led_supply s"
  "ledger_allow f d ow sp s = Ok s' \<Longrightarrow> led_supply s' = led_supply s"
  "ledger_move d ow rcpt n s = Ok s' \<Longrightarrow> led_supply s' = led_supply s"
  by (auto simp: ledger_debit_def ledger_credit_def ledger_allow_def ledger_move_def split: if_splits)

lemma ledger_supply_changes:
  "ledger_issue n s = Ok s' \<Longrightarrow> unat (led_supply s') = unat (led_supply s) + unat n"
  "ledger_retire n s = Ok s' \<Longrightarrow> unat (led_supply s) = unat (led_supply s') + unat n"
  by (auto simp: ledger_issue_def ledger_retire_def std_uint_of_nat_ok unat_sub word_le_nat_alt not_less split: if_splits)

interpretation std_cw20_minter: cw20_minter std_cw20 std_balances fresh_ledger led_minter
  by unfold_locales
    (auto simp: std_cw20_def split: if_splits option.splits dest!: notifying_ok ledger_minter_kept)

interpretation std_cw20_supply: cw20_supply std_cw20 std_balances fresh_ledger
  by unfold_locales
    (auto simp: std_cw20_def fresh_ledger_def split: if_splits option.splits
      dest!: notifying_ok ledger_supply_kept ledger_supply_changes)

end
