(* ===== verification/Token_Contract.thy ===== *)
theory Token_Contract
  imports Cw20_Legacy
begin

text \<open>
  \<open>contracts/anchor_basset_token/src\<close>: the token.  Its operations are those of the wrapped CW20
  ledger; around each that moves tokens it tells the reward contract, whose address it asks of the hub,
  to change the balances it keeps.
\<close>

section \<open>state.rs and msg.rs\<close>

record 'c token_storage =
  HUB_CONTRACT_KEY :: "canonical_addr option"
  cw20_storage :: 'c

definition read_hub_contract :: "'c token_storage \<Rightarrow> canonical_addr res" where
  "read_hub_contract s = load_item ''CanonicalAddr'' (HUB_CONTRACT_KEY s)"

definition store_hub_contract :: "canonical_addr \<Rightarrow> 'c token_storage \<Rightarrow> 'c token_storage res" where
  "store_hub_contract hub_contract s = Ok (s\<lparr>HUB_CONTRACT_KEY := Some hub_contract\<rparr>)"

record token_init_msg =
  tim_name :: string
  tim_symbol :: string
  tim_decimals :: u8
  tim_initial_balances :: "(string \<times> uint128) list"
  tim_mint :: "minter_response option"
  tim_hub_contract :: string


section \<open>querier.rs\<close>

abbreviation unwrap :: "'a res \<Rightarrow> 'a res" where
  "unwrap \<equiv> expect_ok ''called `Result::unwrap()` on an `Err` value''"

definition query_reward_contract :: "deps \<Rightarrow> 'c token_storage \<Rightarrow> string res" where
  "query_reward_contract d s =
     and_then (unwrap (read_hub_contract s)) (\<lambda>hub.
     and_then (unwrap (addr_humanize (dapi d) hub)) (\<lambda>hub_address.
     and_then (query_raw_config (dquerier d) hub_address (to_length_prefixed (dlib d) (literal_bytes ''config''))) (\<lambda>config.
     and_then (expect_some ''the reward contract must have been registered'' (reward_contract config)) (\<lambda>reward.
       unwrap (addr_humanize (dapi d) reward)))))"


section \<open>handler.rs\<close>

text \<open>A message to the reward contract, and a call of the wrapped ledger on its part of the storage.\<close>

definition reward_msg :: "deps \<Rightarrow> string \<Rightarrow> reward_execute_msg \<Rightarrow> cosmos_msg res" where
  "reward_msg d reward m = and_then (unwrap (to_binary (dlib d) (RewardPayload m))) (\<lambda>b. Ok (WasmExecute reward b []))"

definition on_cw20 :: "('c \<Rightarrow> ('c \<times> response) res) \<Rightarrow> 'c token_storage \<Rightarrow> ('c token_storage \<times> response) res" where
  "on_cw20 f s = and_then (f (cw20_storage s)) (\<lambda>(c', resp). Ok (s\<lparr>cw20_storage := c'\<rparr>, resp))"

definition execute_transfer ::
    "'c cw20_legacy \<Rightarrow> deps \<Rightarrow> env \<Rightarrow> message_info \<Rightarrow> string \<Rightarrow> uint128 \<Rightarrow>
     'c token_storage \<Rightarrow> ('c token_storage \<times> response) res" where
  "execute_transfer c d e info recipient amt s =
     and_then (query_reward_contract d s) (\<lambda>reward.
     and_then (addr_validate (dapi d) recipient) (\<lambda>rcpt_addr.
     and_then (on_cw20 (cw20_transfer c d e info recipient amt) s) (\<lambda>(s', resp).
     and_then (reward_msg d reward (DecreaseBalance (sender info) amt)) (\<lambda>decrease.
     and_then (reward_msg d reward (IncreaseBalance rcpt_addr amt)) (\<lambda>increase.
       Ok (s', \<lparr>messages = [decrease, increase], attributes = attributes resp\<rparr>))))))"

definition execute_burn ::
    "'c cw20_legacy \<Rightarrow> deps \<Rightarrow> env \<Rightarrow> message_info \<Rightarrow> uint128 \<Rightarrow>
     'c token_storage \<Rightarrow> ('c token_storage \<times> response) res" where
  "execute_burn c d e info amt s =
     and_then (query_reward_contract d s) (\<lambda>reward.
     and_then (on_cw20 (cw20_burn c d e info amt) s) (\<lambda>(s', resp).
     and_then (reward_msg d reward (DecreaseBalance (sender info) amt)) (\<lambda>decrease.
       Ok (s', \<lparr>messages = [decrease], attributes = attributes resp\<rparr>))))"

definition execute_mint ::
    "'c cw20_legacy \<Rightarrow> deps \<Rightarrow> env \<Rightarrow> message_info \<Rightarrow> string \<Rightarrow> uint128 \<Rightarrow>
     'c token_storage \<Rightarrow> ('c token_storage \<times> response) res" where
  "execute_mint c d e info recipient amt s =
     and_then (query_reward_contract d s) (\<lambda>reward.
     and_then (on_cw20 (cw20_minting c d e info recipient amt) s) (\<lambda>(s', resp).
     and_then (reward_msg d reward (IncreaseBalance recipient amt)) (\<lambda>increase.
       Ok (s', \<lparr>messages = [increase], attributes = attributes resp\<rparr>))))"

definition execute_send ::
    "'c cw20_legacy \<Rightarrow> deps \<Rightarrow> env \<Rightarrow> message_info \<Rightarrow> string \<Rightarrow> uint128 \<Rightarrow> binary \<Rightarrow>
     'c token_storage \<Rightarrow> ('c token_storage \<times> response) res" where
  "execute_send c d e info contract amt msg s =
     and_then (query_reward_contract d s) (\<lambda>reward.
     and_then (on_cw20 (cw20_send c d e info contract amt msg) s) (\<lambda>(s', resp).
     and_then (reward_msg d reward (DecreaseBalance (sender info) amt)) (\<lambda>decrease.
     and_then (reward_msg d reward (IncreaseBalance contract amt)) (\<lambda>increase.
       Ok (s', \<lparr>messages = [decrease, increase] @ messages resp, attributes = attributes resp\<rparr>)))))"

definition execute_transfer_from ::
    "'c cw20_legacy \<Rightarrow> deps \<Rightarrow> env \<Rightarrow> message_info \<Rightarrow> string \<Rightarrow> string \<Rightarrow> uint128 \<Rightarrow>
     'c token_storage \<Rightarrow> ('c token_storage \<times> response) res" where
  "execute_transfer_from c d e info owner recipient amt s =
     and_then (query_reward_contract d s) (\<lambda>reward.
     and_then (addr_validate (dapi d) owner) (\<lambda>valid_owner.
     and_then (on_cw20 (cw20_transfer_from c d e info owner recipient amt) s) (\<lambda>(s', resp).
     and_then (reward_msg d reward (DecreaseBalance valid_owner amt)) (\<lambda>decrease.
     and_then (reward_msg d reward (IncreaseBalance recipient amt)) (\<lambda>increase.
       Ok (s', \<lparr>messages = [decrease, increase], attributes = attributes resp\<rparr>))))))"

definition execute_burn_from ::
    "'c cw20_legacy \<Rightarrow> deps \<Rightarrow> env \<Rightarrow> message_info \<Rightarrow> string \<Rightarrow> uint128 \<Rightarrow>
     'c token_storage \<Rightarrow> ('c token_storage \<times> response) res" where
  "execute_burn_from c d e info owner amt s =
     and_then (query_reward_contract d s) (\<lambda>reward.
     and_then (addr_validate (dapi d) owner) (\<lambda>valid_owner.
     and_then (on_cw20 (cw20_burn_from c d e info owner amt) s) (\<lambda>(s', resp).
     and_then (reward_msg d reward (DecreaseBalance valid_owner amt)) (\<lambda>decrease.
       Ok (s', \<lparr>messages = [decrease], attributes = attributes resp\<rparr>)))))"

definition execute_send_from ::
    "'c cw20_legacy \<Rightarrow> deps \<Rightarrow> env \<Rightarrow> message_info \<Rightarrow> string \<Rightarrow> string \<Rightarrow> uint128 \<Rightarrow> binary \<Rightarrow>
     'c token_storage \<Rightarrow> ('c token_storage \<times> response) res" where
  "execute_send_from c d e info owner contract amt msg s =
     and_then (query_reward_contract d s) (\<lambda>reward.
     and_then (addr_validate (dapi d) owner) (\<lambda>valid_owner.
     and_then (on_cw20 (cw20_send_from c d e info owner contract amt msg) s) (\<lambda>(s', resp).
     and_then (reward_msg d reward (DecreaseBalance valid_owner amt)) (\<lambda>decrease.
     and_then (reward_msg d reward (IncreaseBalance contract amt)) (\<lambda>increase.
       Ok (s', \<lparr>messages = [decrease, increase] @ messages resp, attributes = attributes resp\<rparr>))))))"


section \<open>contract.rs\<close>

definition token_instantiate ::
    "'c cw20_legacy \<Rightarrow> deps \<Rightarrow> env \<Rightarrow> message_info \<Rightarrow> token_init_msg \<Rightarrow>
     'c token_storage \<Rightarrow> ('c token_storage \<times> response) res" where
  "token_instantiate c d e info msg s =
     and_then (addr_canonicalize (dapi d) (tim_hub_contract msg)) (\<lambda>hub.
     and_then (store_hub_contract hub s) (\<lambda>s1.
     and_then (on_cw20 (cw20_init c d e info
         \<lparr>cw20_name = tim_name msg, cw20_symbol = tim_symbol msg, cw20_decimals = tim_decimals msg,
          cw20_initial_balances = tim_initial_balances msg,
          cw20_mint = Some \<lparr>minter = tim_hub_contract msg, mint_cap = None\<rparr>\<rparr>) s1) (\<lambda>(s2, _).
       Ok (s2, empty_response))))"

definition token_execute ::
    "'c cw20_legacy \<Rightarrow> deps \<Rightarrow> env \<Rightarrow> message_info \<Rightarrow> cw20_execute_msg \<Rightarrow>
     'c token_storage \<Rightarrow> ('c token_storage \<times> response) res" where
  "token_execute c d e info msg s =
     (case msg of
        Transfer recipient amt \<Rightarrow> execute_transfer c d e info recipient amt s
      | Burn amt \<Rightarrow> execute_burn c d e info amt s
      | Send contract amt m \<Rightarrow> execute_send c d e info contract amt m s
      | Mint recipient amt \<Rightarrow> execute_mint c d e info recipient amt s
      | IncreaseAllowance spender amt expires \<Rightarrow> on_cw20 (cw20_increase_allowance c d e info spender amt expires) s
      | DecreaseAllowance spender amt expires \<Rightarrow> on_cw20 (cw20_decrease_allowance c d e info spender amt expires) s
      | TransferFrom owner recipient amt \<Rightarrow> execute_transfer_from c d e info owner recipient amt s
      | BurnFrom owner amt \<Rightarrow> execute_burn_from c d e info owner amt s
      | SendFrom owner contract amt m \<Rightarrow> execute_send_from c d e info owner contract amt m s)"

definition token_query ::
    "'c cw20_legacy \<Rightarrow> deps \<Rightarrow> env \<Rightarrow> cw20_query_msg \<Rightarrow> 'c token_storage \<Rightarrow> binary res" where
  "token_query c d e msg s = cw20_query c d e msg (cw20_storage s)"

end
