(* ===== verification/Contract_Keys.thy ===== *)
theory Contract_Keys
  imports Storage_Layout Hub_State Reward_State Airdrop_Registry Token_Contract
begin

text \<open>
  The storage keys of the contracts (\<open>state.rs\<close> of each): the names of the items and namespaces, and the
  key of every slot.  The keys keep all slots apart, and a namespace's prefix starts the keys of its own
  slots only, so the records of the model describe the flat storage exactly.
\<close>

context length_prefix
begin

lemma prefixed_append:
  assumes "length a < 65536" and "length b < 65536"
  shows "to_length_prefixed l a @ x = to_length_prefixed l b @ y \<longleftrightarrow> a = b \<and> x = y"
proof -
  have "length a < 256 ^ 2" "length b < 256 ^ 2" using assms by simp_all
  from be_bytes_inj [OF this] show ?thesis using assms by (auto simp: to_length_prefixed_eq)
qed

lemma prefixed_inj:
  assumes "length a < 65536" and "length b < 65536"
  shows "to_length_prefixed l a = to_length_prefixed l b @ y \<longleftrightarrow> a = b \<and> y = []"
    and "to_length_prefixed l a @ x = to_length_prefixed l b \<longleftrightarrow> a = b \<and> x = []"
    and "to_length_prefixed l a = to_length_prefixed l b \<longleftrightarrow> a = b"
  using prefixed_append [OF assms, of "[]" y] prefixed_append [OF assms, of x "[]"]
    prefixed_append [OF assms, of "[]" "[]"] by auto

lemma prefix_prefixed:
  assumes "length a < 65536" and "length b < 65536"
  shows "prefix (to_length_prefixed l a) (to_length_prefixed l b @ y) \<longleftrightarrow> a = b"
    and "prefix (to_length_prefixed l a) (to_length_prefixed l b) \<longleftrightarrow> a = b"
    and "prefix (to_length_prefixed l a @ x) (to_length_prefixed l b @ y) \<longleftrightarrow> a = b \<and> prefix x y"
    and "prefix (to_length_prefixed l a @ x) (to_length_prefixed l b) \<longleftrightarrow> a = b \<and> x = []"
  using prefixed_append [OF assms(2,1)] prefixed_inj [OF assms(2,1)] by (auto simp: prefix_def)

lemmas prefixed_simps = prefixed_append prefixed_inj prefix_prefixed

text \<open>An item's key is written out in the source: two length bytes and the name.\<close>

lemma item_key:
  assumes "length name < 65536"
  shows "be_bytes 2 (length name) @ literal_bytes name = to_length_prefixed l (literal_bytes name)"
  using assms by (simp add: to_length_prefixed_eq)

end


section \<open>Hub\<close>

definition CONFIG_KEY :: "byte list" where
  "CONFIG_KEY = [0, 6] @ literal_bytes ''config''"

definition PARAMETERS_KEY :: "byte list" where
  "PARAMETERS_KEY = [0, 11] @ literal_bytes ''parameteres''"

definition CURRENT_BATCH_KEY :: "byte list" where
  "CURRENT_BATCH_KEY = [0, 13] @ literal_bytes ''current_batch''"

definition STATE_KEY :: "byte list" where
  "STATE_KEY = [0, 5] @ literal_bytes ''state''"

definition PREFIX_WAIT_MAP :: "byte list" where
  "PREFIX_WAIT_MAP = literal_bytes ''wait''"

definition UNBOND_HISTORY_MAP :: "byte list" where
  "UNBOND_HISTORY_MAP = literal_bytes ''history_map''"

definition VALIDATORS :: "byte list" where
  "VALIDATORS = literal_bytes ''validators''"

datatype hub_slot =
    ConfigSlot
  | ParametersSlot
  | CurrentBatchSlot
  | StateSlot
  | WaitSlot string u64
  | HistorySlot u64
  | ValidatorSlot string

datatype hub_value =
    ConfigValue hub_config
  | ParametersValue parameters
  | CurrentBatchValue current_batch
  | StateValue hub_state
  | AmountValue uint128
  | HistoryValue unbond_history
  | FlagValue bool

text \<open>\<open>Bucket::multilevel(storage, &[PREFIX_WAIT_MAP, &addr])\<close>: the prefix of a user's wait list.\<close>

definition wait_prefix :: "lib \<Rightarrow> string \<Rightarrow> byte list" where
  "wait_prefix l user = to_length_prefixed l PREFIX_WAIT_MAP @ to_length_prefixed l (json_string l user)"

text \<open>
  The key of every slot, by the documented layout of the two storage crates: an item's key is its literal, the
  keys of a namespace are its name with the length before it followed by the key of the entry.
\<close>

fun hub_key :: "lib \<Rightarrow> hub_slot \<Rightarrow> byte list" where
  "hub_key l ConfigSlot = CONFIG_KEY"
| "hub_key l ParametersSlot = PARAMETERS_KEY"
| "hub_key l CurrentBatchSlot = CURRENT_BATCH_KEY"
| "hub_key l StateSlot = STATE_KEY"
| "hub_key l (WaitSlot user batch) = wait_prefix l user @ json_u64 l batch"
| "hub_key l (HistorySlot batch) = to_length_prefixed l UNBOND_HISTORY_MAP @ to_be_bytes batch"
| "hub_key l (ValidatorSlot v) = to_length_prefixed l VALIDATORS @ json_string l v"

fun hub_cell :: "hub_storage \<Rightarrow> hub_slot \<Rightarrow> hub_value option" where
  "hub_cell s ConfigSlot = map_option ConfigValue (CONFIG s)"
| "hub_cell s ParametersSlot = map_option ParametersValue (PARAMETERS s)"
| "hub_cell s CurrentBatchSlot = map_option CurrentBatchValue (CURRENT_BATCH s)"
| "hub_cell s StateSlot = map_option StateValue (STATE s)"
| "hub_cell s (WaitSlot user batch) = map_option AmountValue (store_get (user, batch) (wait_map s))"
| "hub_cell s (HistorySlot batch) = map_option HistoryValue (store_get batch (history_map s))"
| "hub_cell s (ValidatorSlot v) = map_option FlagValue (store_get v (validators_map s))"

text \<open>A user's serialised address is a namespace, so it has to be short enough for its length prefix.\<close>

fun hub_short :: "lib \<Rightarrow> hub_slot \<Rightarrow> bool" where
  "hub_short l (WaitSlot user batch) \<longleftrightarrow> length (json_string l user) < 65536"
| "hub_short l _ \<longleftrightarrow> True"

definition hub_stored :: "lib \<Rightarrow> hub_storage \<Rightarrow> (byte list, hub_value) store \<Rightarrow> bool" where
  "hub_stored l s raw \<longleftrightarrow> stored_at (hub_key l) (hub_short l) (hub_cell s) raw"

lemmas hub_names = CONFIG_KEY_def PARAMETERS_KEY_def CURRENT_BATCH_KEY_def STATE_KEY_def wait_prefix_def
  PREFIX_WAIT_MAP_def UNBOND_HISTORY_MAP_def VALIDATORS_def

context length_prefix
begin

lemma item_keys:
  "CONFIG_KEY = to_length_prefixed l (literal_bytes ''config'')"
  "PARAMETERS_KEY = to_length_prefixed l (literal_bytes ''parameteres'')"
  "CURRENT_BATCH_KEY = to_length_prefixed l (literal_bytes ''current_batch'')"
  "STATE_KEY = to_length_prefixed l (literal_bytes ''state'')"
  by (simp_all add: hub_names item_key [symmetric] numeral_2_eq_2)

end

locale storage_text = json_text l + length_prefix l for l :: lib
begin

lemma to_be_bytes_inj: "to_be_bytes a = to_be_bytes b \<longleftrightarrow> a = b"
  using to_be_bytes_le [of a b] to_be_bytes_le [of b a] by auto

lemma hub_key_inj:
  assumes "hub_short l a" and "hub_short l b" and "hub_key l a = hub_key l b"
  shows "a = b"
  using assms
  by (cases a; cases b)
    (auto simp: item_keys wait_prefix_def PREFIX_WAIT_MAP_def UNBOND_HISTORY_MAP_def VALIDATORS_def
      prefixed_simps json_string_inj to_be_bytes_inj dest: json_u64_inj)

lemma hub_namespaces:
  assumes "hub_short l slot"
  shows "length (json_string l user) < 65536 \<Longrightarrow> prefix (wait_prefix l user) (hub_key l slot) \<longleftrightarrow> (\<exists>b. slot = WaitSlot user b)"
    and "prefix (to_length_prefixed l UNBOND_HISTORY_MAP) (hub_key l slot) \<longleftrightarrow> (\<exists>b. slot = HistorySlot b)"
    and "prefix (to_length_prefixed l VALIDATORS) (hub_key l slot) \<longleftrightarrow> (\<exists>v. slot = ValidatorSlot v)"
  using assms
  by (cases slot; auto simp: item_keys wait_prefix_def PREFIX_WAIT_MAP_def UNBOND_HISTORY_MAP_def VALIDATORS_def
      prefixed_simps json_string_inj)+

end

sublocale storage_text \<subseteq> hub_layout: storage_layout "hub_key l" "hub_short l"
  by unfold_locales (rule hub_key_inj)

interpretation std_storage: storage_text std_lib
  by unfold_locales

end
