(* ===== verification/Hub_Writes.thy ===== *)
theory Hub_Writes
  imports Hub_Flow_Properties
begin

text \<open>
  Every operation of the hub changes its storage by a sequence of elementary writes: saving one of the four
  items, and setting or removing one entry of the wait lists, the histories or the whitelist.  What
  elementary writes keep therefore holds in every reachable state: the items are present, and the three
  stores have distinct keys in the order of their encodings.
\<close>

inductive hub_written :: "lib \<Rightarrow> hub_storage \<Rightarrow> hub_storage \<Rightarrow> bool" for l :: lib and s :: hub_storage where
  nothing_written: "hub_written l s s"
| config_written: "hub_written l s s1 \<Longrightarrow> hub_written l s (s1\<lparr>CONFIG := Some c\<rparr>)"
| parameters_written: "hub_written l s s1 \<Longrightarrow> hub_written l s (s1\<lparr>PARAMETERS := Some p\<rparr>)"
| batch_written: "hub_written l s s1 \<Longrightarrow> hub_written l s (s1\<lparr>CURRENT_BATCH := Some b\<rparr>)"
| state_written: "hub_written l s s1 \<Longrightarrow> hub_written l s (s1\<lparr>STATE := Some st\<rparr>)"
| wait_added: "hub_written l s s1 \<Longrightarrow> hub_written l s (s1\<lparr>wait_map := store_set (wait_enc l) (u, i) n (wait_map s1)\<rparr>)"
| wait_removed: "hub_written l s s1 \<Longrightarrow> hub_written l s (s1\<lparr>wait_map := store_remove (u, i) (wait_map s1)\<rparr>)"
| history_written: "hub_written l s s1 \<Longrightarrow> hub_written l s (s1\<lparr>history_map := store_set to_be_bytes i h (history_map s1)\<rparr>)"
| validator_added: "hub_written l s s1 \<Longrightarrow> hub_written l s (s1\<lparr>validators_map := store_set (json_string l) v True (validators_map s1)\<rparr>)"
| validator_removed: "hub_written l s s1 \<Longrightarrow> hub_written l s (s1\<lparr>validators_map := store_remove v (validators_map s1)\<rparr>)"

lemma hub_written_trans:
  assumes "hub_written l s s1" and "hub_written l s1 s2"
  shows "hub_written l s s2"
  using assms(2,1) by (induction rule: hub_written.induct) (auto intro: hub_written.intros)

lemma waits_removed:
  "hub_written l s s1 \<Longrightarrow> hub_written l s (s1\<lparr>wait_map := fold (\<lambda>b. store_remove (u, b)) bs (wait_map s1)\<rparr>)"
proof (induction bs arbitrary: s1)
  case (Cons b bs)
  from Cons.IH [OF wait_removed [OF Cons.prems, of u b]] show ?case by simp
qed simp

definition hub_items :: "hub_storage \<Rightarrow> bool" where
  "hub_items s \<longleftrightarrow> CONFIG s \<noteq> None \<and> PARAMETERS s \<noteq> None \<and> CURRENT_BATCH s \<noteq> None \<and> STATE s \<noteq> None"

definition hub_ordered :: "lib \<Rightarrow> hub_storage \<Rightarrow> bool" where
  "hub_ordered l s \<longleftrightarrow>
     store_ok (wait_map s) \<and> store_sorted (wait_enc l) (wait_map s) \<and>
     store_ok (history_map s) \<and> store_sorted to_be_bytes (history_map s) \<and>
     store_ok (validators_map s) \<and> store_sorted (json_string l) (validators_map s)"

lemma hub_written_items: "hub_written l s s' \<Longrightarrow> hub_items s \<Longrightarrow> hub_items s'"
  by (induction rule: hub_written.induct) (auto simp: hub_items_def)

lemma hub_written_ordered: "hub_written l s s' \<Longrightarrow> hub_ordered l s \<Longrightarrow> hub_ordered l s'"
  by (induction rule: hub_written.induct)
    (auto simp: hub_ordered_def intro: store_ok_set store_ok_remove store_sorted_set store_sorted_remove)


section \<open>The operations\<close>

context cosmwasm_numbers
begin

lemma slashing_written: "dlib d = l \<Longrightarrow> slashing d e s = Ok s' \<Longrightarrow> hub_written l s s'"
  using slashing_frame [of d e s s'] cosmwasm_numbers_axioms by (auto intro: hub_written.intros)

lemma close_batch_written:
  assumes "dlib d = l" and "close_batch d e st b s = Ok (s', st', b', msgs)"
  shows "hub_written l s s'"
  using cosmwasm_numbers_axioms [folded assms(1)] assms(2)
  by (cases rule: close_batch_ok) (auto intro: hub_written.intros)

lemma execute_unbond_written:
  assumes l: "dlib d = l" and run: "execute_unbond d e amt u s = Ok (s', resp)"
  shows "hub_written l s s'"
  using cosmwasm_numbers_axioms [folded l] run
proof (cases rule: execute_unbond_ok)
  case (1 params batch s1 st issued a requested s2 issued' st1 s3 st2 batch2 msgs to burn_msg)
  have s1: "hub_written l s s1" by (rule slashing_written [OF l 1(3)])
  have s2: "hub_written l s1 s2" using 1(8) by (auto simp: store_unbond_wait_list_def l intro: hub_written.intros)
  have s3: "hub_written l s2 s3" using 1(12) close_batch_written [OF l] by (auto split: if_splits intro: nothing_written)
  show ?thesis unfolding 1(13)
    using hub_written_trans [OF hub_written_trans [OF s1 s2] s3] by (intro batch_written state_written)
qed

lemma release_batches_written:
  "release_batches l t tot sl s st i = Ok (s', st') \<Longrightarrow> hub_written l s s'"
proof (induction l t tot sl s st i rule: release_batches.induct)
  case (1 l t tot sl s st i)
  show ?case
  proof (cases "ready_batch s t i")
    case None
    then show ?thesis using 1(2) by (simp add: release_batches.simps [of l] nothing_written)
  next
    case (Some h)
    then obtain h' s1 i' where h': "release_batch l tot sl h = Ok h'" and s1: "store_unbond_history i h' s = Ok s1"
      and i': "u64_add i 1 = Ok i'" and rec: "release_batches l t tot sl s1 (st\<lparr>last_processed_batch := i\<rparr>) i' = Ok (s', st')"
      using 1(2) by (auto simp: release_batches.simps [of l])
    have "hub_written l s s1" using s1 by (auto intro: hub_written.intros)
    with 1(1) [OF Some h' s1 i' rec] show ?thesis by (rule hub_written_trans [rotated])
  qed
qed

lemma process_withdraw_rate_written:
  assumes run: "process_withdraw_rate l t bal s = Ok s'"
  shows "hub_written l s s'"
proof -
  obtain st where st: "STATE s = Some st" using run by (auto simp: process_withdraw_rate_def)
  obtain chg neg where chg: "from_subtraction l bal (prev_hub_balance st) = Ok (SignedInt chg neg)"
    using from_subtraction_value [OF cosmwasm_numbers_axioms] by blast
  obtain actual first tot st2 s2 and count :: u64 where
    rel: "(if 1 \<le> count
        then and_then (from_subtraction l tot actual) (\<lambda>slashed_amount.
               release_batches l t tot slashed_amount s (st\<lparr>actual_unbonded_amount := actual\<rparr>) first)
        else Ok (s, st\<lparr>actual_unbonded_amount := actual\<rparr>)) = Ok (s2, st2)"
    and s': "s' = s2\<lparr>STATE := Some (st2\<lparr>actual_unbonded_amount := 0\<rparr>)\<rparr>"
    using run by (auto simp: process_withdraw_rate_def st chg)
  have "hub_written l s s2"
    using rel release_batches_written by (cases "1 \<le> count") (auto intro: nothing_written)
  then show ?thesis unfolding s' by (rule state_written)
qed

lemma execute_withdraw_written:
  assumes l: "dlib d = l" and run: "execute_withdraw_unbonded d e info s = Ok (s', resp)"
  shows "hub_written l s s'"
  using cosmwasm_numbers_axioms [folded l] run
proof (cases rule: execute_withdraw_unbonded_ok)
  case (1 params t bal s1 w prev st)
  have "hub_written l s s1" using process_withdraw_rate_written 1(4) l by simp
  from state_written [OF waits_removed [OF this]] show ?thesis unfolding 1(9) by simp
qed

lemma execute_bond_written:
  assumes l: "dlib d = l" and run: "execute_bond d e info val s = Ok (s', resp)"
  shows "hub_written l s s'"
  using run
proof (cases rule: execute_bond_ok)
  case (1 params batch payment s1 st supp minted new_supply bonded st' config token token_address msg)
  show ?thesis unfolding 1(18) by (rule state_written [OF slashing_written [OF l 1(7)]])
qed

lemma update_config_field_written: "update_config_field d f upd s = Ok s' \<Longrightarrow> hub_written l s s'"
  by (auto simp: update_config_field_def split: option.splits intro: hub_written.intros)

lemma execute_update_config_written: "execute_update_config d info ow rw tk ad s = Ok (s', resp) \<Longrightarrow> hub_written l s s'"
  by (auto simp: execute_update_config_def split: if_splits
      dest!: update_config_field_written intro: hub_written_trans)

lemma hub_execute_written:
  assumes l: "dlib d = l" and run: "hub_execute d e info msg s = Ok (s', resp)"
  shows "hub_written l s s'"
proof (cases msg)
  case (Receive m)
  then have "execute_unbond d e (cw20_amount m) (cw20_sender m) s = Ok (s', resp)"
    using run by (auto simp: hub_execute_def receive_cw20_def split: res.splits cw20_hook_msg.splits if_splits)
  then show ?thesis by (rule execute_unbond_written [OF l])
next
  case CheckSlashing
  then show ?thesis using run slashing_written [OF l] by (auto simp: hub_execute_def execute_slashing_def)
next
  case (Bond val)
  then show ?thesis using run execute_bond_written [OF l] by (simp add: hub_execute_def)
next
  case WithdrawUnbonded
  then show ?thesis using run execute_withdraw_written [OF l] by (simp add: hub_execute_def)
next
  case (HubUpdateConfig ow rw tk ad)
  then show ?thesis using run execute_update_config_written by (simp add: hub_execute_def)
qed (use run in \<open>auto simp: hub_execute_def execute_update_global_def execute_register_validator_def l
      execute_deregister_validator_def remove_white_validators_def
      store_white_validators_def execute_update_params_def swap_hook_def claim_airdrop_def split: if_splits
      intro: hub_written.intros\<close>)

lemma hub_reachable_well_formed: "hub_reachable l s \<Longrightarrow> hub_items s \<and> hub_ordered l s"
proof (induction rule: hub_reachable.induct)
  case (hub_instantiated d e info msg s resp)
  then show ?case
    by (auto simp: hub_instantiate_def empty_hub_storage_def hub_items_def hub_ordered_def store_ok_def store_sorted_def
        split: option.splits)
next
  case (hub_executed s d e info msg s' resp)
  then show ?case using hub_execute_written hub_written_items hub_written_ordered by blast
qed

end

end
