(* ===== verification/Hub_Storage.thy ===== *)
theory Hub_Storage
  imports Contract_Keys Hub_Writes Example_Hub
begin

text \<open>
  The hub's storage on the chain: the functions of \<open>state.rs\<close> on the model's record are reads, writes,
  removals and ranges at the keys of \<open>Contract_Keys\<close> in the flat storage; no write to one slot touches
  another, and a range over a namespace sees its own entries only.
\<close>

section \<open>Cells after a write\<close>

lemma cells_after_write:
  "hub_cell (s\<lparr>wait_map := store_set enc1 (u, b) n (wait_map s)\<rparr>) = (hub_cell s)(WaitSlot u b \<mapsto> AmountValue n)"
  "hub_cell (s\<lparr>wait_map := store_remove (u, b) (wait_map s)\<rparr>) = (hub_cell s)(WaitSlot u b := None)"
  "hub_cell (s\<lparr>history_map := store_set enc2 b h (history_map s)\<rparr>) = (hub_cell s)(HistorySlot b \<mapsto> HistoryValue h)"
  "hub_cell (s\<lparr>validators_map := store_set enc3 v f (validators_map s)\<rparr>) = (hub_cell s)(ValidatorSlot v \<mapsto> FlagValue f)"
  "hub_cell (s\<lparr>validators_map := store_remove v (validators_map s)\<rparr>) = (hub_cell s)(ValidatorSlot v := None)"
  "hub_cell (s\<lparr>CONFIG := Some cfg\<rparr>) = (hub_cell s)(ConfigSlot \<mapsto> ConfigValue cfg)"
  "hub_cell (s\<lparr>PARAMETERS := Some p\<rparr>) = (hub_cell s)(ParametersSlot \<mapsto> ParametersValue p)"
  "hub_cell (s\<lparr>CURRENT_BATCH := Some cb\<rparr>) = (hub_cell s)(CurrentBatchSlot \<mapsto> CurrentBatchValue cb)"
  "hub_cell (s\<lparr>STATE := Some st\<rparr>) = (hub_cell s)(StateSlot \<mapsto> StateValue st)"
  by (rule ext, rename_tac slot, case_tac slot, auto simp: store_get_set store_get_remove)+

text \<open>A user's bucket is a store of its own, with the batch as key.\<close>

lemma wait_bucket_get: "store_get b (wait_bucket s u) = store_get (u, b) (wait_map s)"
proof -
  have "map_of (map (\<lambda>p. (snd (fst p), snd p)) (filter (\<lambda>p. fst (fst p) = u) m)) b = map_of m (u, b)"
    for m :: "((string \<times> u64) \<times> uint128) list"
    by (induction m) auto
  then show ?thesis by (simp add: wait_bucket_def store_get_def)
qed

lemma wait_bucket_ok: "store_ok (wait_map s) \<Longrightarrow> store_ok (wait_bucket s u)"
  by (auto simp: store_ok_def wait_bucket_def distinct_map comp_def inj_on_def) force

lemma wait_bucket_sorted:
  assumes "store_sorted (wait_enc l) (wait_map s)"
  shows "store_sorted (json_u64 l) (wait_bucket s u)"
proof -
  have "sorted_wrt (\<lambda>p q. wait_enc l (fst p) \<le> wait_enc l (fst q)) (filter (\<lambda>p. fst (fst p) = u) (wait_map s))"
    using assms by (auto simp: store_sorted_def sorted_wrt_map intro: sorted_wrt_filter)
  then show ?thesis
    by (auto simp: store_sorted_def wait_bucket_def sorted_wrt_map wait_enc_def elim!: sorted_wrt_mono_rel [rotated])
qed


section \<open>Writes and ranges\<close>

context storage_text
begin

lemma stored_wait_list:
  assumes "hub_stored l s raw" and "store_unbond_wait_list l b u n s = Ok s'" and "length (json_string l u) < 65536"
  shows "\<exists>v. uint_add l (case store_get (hub_key l (WaitSlot u b)) raw of Some (AmountValue asked) \<Rightarrow> asked | _ \<Rightarrow> 0) n = Ok v \<and>
     hub_stored l s' (store_set id (hub_key l (WaitSlot u b)) (AmountValue v) raw)"
proof -
  have "hub_short l (WaitSlot u b)" using assms(3) by simp
  note at = hub_layout.stored_get [OF assms(1) [unfolded hub_stored_def] this]
    hub_layout.stored_set [OF assms(1) [unfolded hub_stored_def] this]
  from assms(2) obtain v where "uint_add l (case store_get (u, b) (wait_map s) of None \<Rightarrow> 0 | Some asked \<Rightarrow> asked) n = Ok v"
    "s' = s\<lparr>wait_map := store_set (wait_enc l) (u, b) v (wait_map s)\<rparr>"
    by (auto simp: store_unbond_wait_list_def)
  then show ?thesis
    using at by (intro exI [of _ v]) (auto simp: hub_stored_def cells_after_write split: option.splits)
qed

lemma stored_wait_removed:
  assumes "hub_stored l s raw" and "remove_unbond_wait_list bs u s = Ok s'" and "length (json_string l u) < 65536"
  shows "hub_stored l s' (fold (\<lambda>b. store_remove (hub_key l (WaitSlot u b))) bs raw)"
proof -
  have "hub_stored l (s\<lparr>wait_map := fold (\<lambda>b. store_remove (u, b)) bs (wait_map s)\<rparr>)
      (fold (\<lambda>b. store_remove (hub_key l (WaitSlot u b))) bs raw)"
    using assms(1)
  proof (induction bs arbitrary: s raw)
    case (Cons b bs)
    have "hub_short l (WaitSlot u b)" using assms(3) by simp
    from hub_layout.stored_remove [OF Cons.prems [unfolded hub_stored_def] this]
    have "hub_stored l (s\<lparr>wait_map := store_remove (u, b) (wait_map s)\<rparr>) (store_remove (hub_key l (WaitSlot u b)) raw)"
      by (simp add: hub_stored_def cells_after_write)
    from Cons.IH [OF this] show ?case by simp
  qed simp
  with assms(2) show ?thesis by (auto simp: remove_unbond_wait_list_def)
qed

lemma stored_maps:
  assumes "hub_stored l s raw"
  shows "store_unbond_history b h s = Ok s' \<Longrightarrow> hub_stored l s' (store_set id (hub_key l (HistorySlot b)) (HistoryValue h) raw)"
    and "store_white_validators l v s = Ok s' \<Longrightarrow> hub_stored l s' (store_set id (hub_key l (ValidatorSlot v)) (FlagValue True) raw)"
    and "remove_white_validators v s = Ok s' \<Longrightarrow> hub_stored l s' (store_remove (hub_key l (ValidatorSlot v)) raw)"
  using hub_layout.stored_set [OF assms [unfolded hub_stored_def]] hub_layout.stored_remove [OF assms [unfolded hub_stored_def]]
  by (auto simp: hub_stored_def store_unbond_history_def store_white_validators_def remove_white_validators_def cells_after_write
      simp del: hub_key.simps)

lemma stored_ranges:
  assumes st: "hub_stored l s raw" and ord: "hub_ordered l s"
  shows "length (json_string l u) < 65536 \<Longrightarrow>
     raw_range (wait_prefix l u) raw = map (\<lambda>(b, n). (json_u64 l b, AmountValue n)) (wait_bucket s u)"
    and "raw_range (to_length_prefixed l UNBOND_HISTORY_MAP) raw = map (\<lambda>(b, h). (to_be_bytes b, HistoryValue h)) (history_map s)"
    and "raw_range (to_length_prefixed l VALIDATORS) raw = map (\<lambda>(v, f). (json_string l v, FlagValue f)) (validators_map s)"
proof -
  have m: "store_ok (wait_map s)" "store_sorted (wait_enc l) (wait_map s)" "store_ok (history_map s)"
    "store_sorted to_be_bytes (history_map s)" "store_ok (validators_map s)" "store_sorted (json_string l) (validators_map s)"
    using ord by (simp_all add: hub_ordered_def)
  note range = hub_layout.stored_range [OF st [unfolded hub_stored_def]]
  show "raw_range (wait_prefix l u) raw = map (\<lambda>(b, n). (json_u64 l b, AmountValue n)) (wait_bucket s u)"
    if "length (json_string l u) < 65536"
    by (rule range [OF hub_namespaces(1) [OF _ that] _ wait_bucket_ok [OF m(1)] wait_bucket_sorted [OF m(2)]])
      (simp_all add: wait_bucket_get json_u64_inj)
  show "raw_range (to_length_prefixed l UNBOND_HISTORY_MAP) raw = map (\<lambda>(b, h). (to_be_bytes b, HistoryValue h)) (history_map s)"
    by (rule range [OF hub_namespaces(2) _ m(3,4)]) (simp_all add: to_be_bytes_inj)
  show "raw_range (to_length_prefixed l VALIDATORS) raw = map (\<lambda>(v, f). (json_string l v, FlagValue f)) (validators_map s)"
    by (rule range [OF hub_namespaces(3) _ m(5,6)]) (simp_all add: json_string_inj)
qed

end


section \<open>Property\<close>

text \<open>
  C37.  The functions of \<open>state.rs\<close> act on the flat storage of the contract through the keys of their own
  slots.  Recording a request writes the key of that user and batch, withdrawing removes those keys, a
  history or a validator has a key of its own, and no other slot changes; the entries below a user's prefix
  are that user's requests, those below the prefix of the histories the histories in the order of the
  batches, and those below the prefix of the validators the whitelist.
\<close>

theorem hub_storage_refined:
  assumes "storage_text l" and "hub_stored l s raw" and "hub_ordered l s" and "length (json_string l u) < 65536"
  shows "(\<forall>b n s'. store_unbond_wait_list l b u n s = Ok s' \<longrightarrow>
       (\<exists>v. uint_add l (case store_get (hub_key l (WaitSlot u b)) raw of Some (AmountValue asked) \<Rightarrow> asked | _ \<Rightarrow> 0) n = Ok v \<and>
          hub_stored l s' (store_set id (hub_key l (WaitSlot u b)) (AmountValue v) raw))) \<and>
     (\<forall>bs s'. remove_unbond_wait_list bs u s = Ok s' \<longrightarrow>
       hub_stored l s' (fold (\<lambda>b. store_remove (hub_key l (WaitSlot u b))) bs raw)) \<and>
     (\<forall>b h s'. store_unbond_history b h s = Ok s' \<longrightarrow>
       hub_stored l s' (store_set id (hub_key l (HistorySlot b)) (HistoryValue h) raw)) \<and>
     (\<forall>v s'. store_white_validators l v s = Ok s' \<longrightarrow>
       hub_stored l s' (store_set id (hub_key l (ValidatorSlot v)) (FlagValue True) raw)) \<and>
     (\<forall>v s'. remove_white_validators v s = Ok s' \<longrightarrow> hub_stored l s' (store_remove (hub_key l (ValidatorSlot v)) raw)) \<and>
     raw_range (wait_prefix l u) raw = map (\<lambda>(b, n). (json_u64 l b, AmountValue n)) (wait_bucket s u) \<and>
     raw_range (to_length_prefixed l UNBOND_HISTORY_MAP) raw = map (\<lambda>(b, h). (to_be_bytes b, HistoryValue h)) (history_map s) \<and>
     raw_range (to_length_prefixed l VALIDATORS) raw = map (\<lambda>(v, f). (json_string l v, FlagValue f)) (validators_map s)"
  using storage_text.stored_wait_list [OF assms(1,2) _ assms(4)] storage_text.stored_wait_removed [OF assms(1,2) _ assms(4)]
    storage_text.stored_maps [OF assms(1,2)] storage_text.stored_ranges [OF assms(1-3)] assms(4)
  by (intro conjI) blast+

lemma empty_hub_stored: "hub_stored std_lib empty_hub_storage []"
proof -
  have "hub_cell empty_hub_storage = (\<lambda>_. None)"
    by (rule ext, rename_tac slot, case_tac slot) (simp_all add: empty_hub_storage_def store_get_def)
  then show ?thesis using std_storage.hub_layout.stored_empty by (simp add: hub_stored_def)
qed

lemma short_address: "length (json_string std_lib ''u'') < 65536"
  by (simp add: std_lib_def std_json_string_def json_char_def)

definition listed_hub :: hub_storage where
  "listed_hub = empty_hub_storage\<lparr>validators_map := [(''v1'', True)]\<rparr>"

lemma listed_stored: "store_white_validators std_lib ''v1'' empty_hub_storage = Ok listed_hub"
  by (simp add: store_white_validators_def empty_hub_storage_def store_set_def store_remove_def listed_hub_def)

lemma one_entry: "store_set id k v [] = [(k, v)]"
  by (simp add: store_set_def store_remove_def)

theorem hub_storage_refined_witness:
  "hub_stored std_lib empty_hub_storage
     (store_remove (hub_key std_lib (ValidatorSlot ''v1'')) [(hub_key std_lib (ValidatorSlot ''v1''), FlagValue True)]) \<and>
   raw_range (to_length_prefixed std_lib VALIDATORS) [(hub_key std_lib (ValidatorSlot ''v1''), FlagValue True)] =
     [(json_string std_lib ''v1'', FlagValue True)]"
proof -
  have st: "hub_stored std_lib listed_hub [(hub_key std_lib (ValidatorSlot ''v1''), FlagValue True)]"
    using std_storage.stored_maps(2) [OF empty_hub_stored listed_stored] by (simp add: one_entry del: hub_key.simps)
  have ord: "hub_ordered std_lib listed_hub"
    by (simp add: hub_ordered_def listed_hub_def empty_hub_storage_def store_ok_def store_sorted_def)
  have gone: "remove_white_validators ''v1'' listed_hub = Ok empty_hub_storage"
    by (simp add: remove_white_validators_def listed_hub_def empty_hub_storage_def store_remove_def)
  note all = hub_storage_refined [OF std_storage.storage_text_axioms st ord short_address]
  from all gone have "hub_stored std_lib empty_hub_storage
     (store_remove (hub_key std_lib (ValidatorSlot ''v1'')) [(hub_key std_lib (ValidatorSlot ''v1''), FlagValue True)])" by blast
  moreover from all have "raw_range (to_length_prefixed std_lib VALIDATORS) [(hub_key std_lib (ValidatorSlot ''v1''), FlagValue True)] =
     map (\<lambda>(v, f). (json_string std_lib v, FlagValue f)) (validators_map listed_hub)" by blast
  ultimately show ?thesis by (simp add: listed_hub_def del: hub_key.simps)
qed

end
