(* ===== verification/Reward_Contract.thy ===== *)
theory Reward_Contract
  imports Reward_State Tax
begin

text \<open>
  \<open>contracts/anchor_basset_reward/src\<close>: the operations (\<open>user.rs\<close>, \<open>global.rs\<close>,
  \<open>contract.rs\<close>).  A holder's claim is kept lazily: the global index is the reward per token
  since the start, and a holder's record is brought up to date whenever his balance changes or he
  claims.
\<close>

section \<open>user.rs\<close>

definition calculate_decimal_rewards :: "lib \<Rightarrow> decimal \<Rightarrow> decimal \<Rightarrow> uint128 \<Rightarrow> decimal res" where
  "calculate_decimal_rewards l glob_index user_index user_balance =
     and_then (decimal_from_ratio l user_balance 1) (\<lambda>decimal_balance.
     and_then (decimal_subtraction_in_256 l glob_index user_index) (\<lambda>difference.
       decimal_multiplication_in_256 l difference decimal_balance))"

definition get_decimals :: "lib \<Rightarrow> decimal \<Rightarrow> decimal res" where
  "get_decimals l v =
     (case split_str (CHR ''.'') (decimal_to_string l v) of
        [_] \<Rightarrow> Ok decimal_zero
      | [_, fraction] \<Rightarrow> decimal_from_str l (''0.'' @ fraction)
      | _ \<Rightarrow> Err (GenericErr ''Unexpected number of dots''))"

definition execute_claim_rewards ::
    "deps \<Rightarrow> message_info \<Rightarrow> string option \<Rightarrow> reward_storage \<Rightarrow> (reward_storage \<times> response) res" where
  "execute_claim_rewards d info recipient s =
     and_then (addr_canonicalize (dapi d) (sender info)) (\<lambda>holder_addr_raw.
     and_then (case recipient of
         Some value \<Rightarrow> expect_ok ''called `Result::unwrap()` on an `Err` value'' (addr_validate (dapi d) value)
       | None \<Rightarrow> Ok (sender info)) (\<lambda>recipient_addr.
     and_then (read_holder s holder_addr_raw) (\<lambda>h.
     and_then (read_state s) (\<lambda>state.
     and_then (reward_read_config s) (\<lambda>config.
     and_then (calculate_decimal_rewards (dlib d) (global_index state) (holder_index h) (holder_balance h))
       (\<lambda>reward_with_decimals.
     and_then (decimal_summation_in_256 (dlib d) reward_with_decimals (pending_rewards h))
       (\<lambda>all_reward_with_decimals.
     and_then (get_decimals (dlib d) all_reward_with_decimals) (\<lambda>decimals.
     and_then (uint_mul_decimal (dlib d) 1 all_reward_with_decimals) (\<lambda>rewards.
     if rewards = 0 then Err (GenericErr ''No rewards have accrued yet'')
     else
     and_then (uint_checked_sub (dlib d) (prev_reward_balance state) rewards) (\<lambda>new_balance.
     and_then (store_state (state\<lparr>prev_reward_balance := new_balance\<rparr>) s) (\<lambda>s1.
     and_then (store_holder holder_addr_raw
         (h\<lparr>pending_rewards := decimals, holder_index := global_index state\<rparr>) s1) (\<lambda>s2.
     and_then (deduct_tax (dlib d) (dquerier d) (Coin (rc_reward_denom config) rewards)) (\<lambda>taxed.
       Ok (s2,
           \<lparr>messages = [BankSend recipient_addr [taxed]],
            attributes = [(''action'', AttrStr ''claim_reward''),
                          (''holder_address'', AttrStr (sender info)),
                          (''rewards'', AttrUint rewards)]\<rparr>))))))))))))))"

definition execute_increase_balance ::
    "deps \<Rightarrow> message_info \<Rightarrow> string \<Rightarrow> uint128 \<Rightarrow> reward_storage \<Rightarrow> (reward_storage \<times> response) res" where
  "execute_increase_balance d info address amt s =
     and_then (reward_read_config s) (\<lambda>config.
     and_then (addr_humanize (dapi d) (rc_hub_contract config)) (\<lambda>owner_human.
     and_then (addr_canonicalize (dapi d) address) (\<lambda>address_raw.
     and_then (query_token_contract d owner_human) (\<lambda>token_raw.
     and_then (addr_humanize (dapi d) token_raw) (\<lambda>token_address.
     if sender info \<noteq> token_address then Err (GenericErr ''unauthorized'')
     else
     and_then (read_state s) (\<lambda>state.
     and_then (read_holder s address_raw) (\<lambda>h.
     and_then (calculate_decimal_rewards (dlib d) (global_index state) (holder_index h) (holder_balance h))
       (\<lambda>rewards.
     and_then (decimal_summation_in_256 (dlib d) rewards (pending_rewards h)) (\<lambda>pending.
     and_then (uint_add (dlib d) (holder_balance h) amt) (\<lambda>new_balance.
     and_then (uint_add (dlib d) (total_balance state) amt) (\<lambda>new_total.
     and_then (store_holder address_raw
         (h\<lparr>holder_index := global_index state, pending_rewards := pending, holder_balance := new_balance\<rparr>) s)
       (\<lambda>s1.
     and_then (store_state (state\<lparr>total_balance := new_total\<rparr>) s1) (\<lambda>s2.
       Ok (s2,
           \<lparr>messages = [],
            attributes = [(''action'', AttrStr ''increase_balance''),
                          (''holder_address'', AttrStr address), (''amount'', AttrUint amt)]\<rparr>))))))))))))))"

definition execute_decrease_balance ::
    "deps \<Rightarrow> message_info \<Rightarrow> string \<Rightarrow> uint128 \<Rightarrow> reward_storage \<Rightarrow> (reward_storage \<times> response) res" where
  "execute_decrease_balance d info address amt s =
     and_then (reward_read_config s) (\<lambda>config.
     and_then (addr_humanize (dapi d) (rc_hub_contract config)) (\<lambda>hub_human.
     and_then (addr_canonicalize (dapi d) address) (\<lambda>address_raw.
     and_then (query_token_contract d hub_human) (\<lambda>token_raw.
     and_then (addr_canonicalize (dapi d) (sender info)) (\<lambda>sender_raw.
     if token_raw \<noteq> sender_raw then Err (GenericErr ''unauthorized'')
     else
     and_then (read_state s) (\<lambda>state.
     and_then (read_holder s address_raw) (\<lambda>h.
     if holder_balance h < amt
     then Err (GenericErr (''Decrease amount cannot exceed user balance: '' @
                           uint_to_string (dlib d) (holder_balance h)))
     else
     and_then (calculate_decimal_rewards (dlib d) (global_index state) (holder_index h) (holder_balance h))
       (\<lambda>rewards.
     and_then (decimal_summation_in_256 (dlib d) rewards (pending_rewards h)) (\<lambda>pending.
     and_then (uint_checked_sub (dlib d) (holder_balance h) amt) (\<lambda>new_balance.
     and_then (uint_checked_sub (dlib d) (total_balance state) amt) (\<lambda>new_total.
     and_then (store_holder address_raw
         (h\<lparr>holder_index := global_index state, pending_rewards := pending, holder_balance := new_balance\<rparr>) s)
       (\<lambda>s1.
     and_then (store_state (state\<lparr>total_balance := new_total\<rparr>) s1) (\<lambda>s2.
       Ok (s2,
           \<lparr>messages = [],
            attributes = [(''action'', AttrStr ''decrease_balance''),
                          (''holder_address'', AttrStr address), (''amount'', AttrUint amt)]\<rparr>))))))))))))))"

definition query_accrued_rewards :: "deps \<Rightarrow> string \<Rightarrow> reward_storage \<Rightarrow> accrued_rewards_response res" where
  "query_accrued_rewards d address s =
     and_then (read_state s) (\<lambda>state.
     and_then (addr_canonicalize (dapi d) address) (\<lambda>address_raw.
     and_then (read_holder s address_raw) (\<lambda>h.
     and_then (calculate_decimal_rewards (dlib d) (global_index state) (holder_index h) (holder_balance h))
       (\<lambda>reward_with_decimals.
     and_then (decimal_summation_in_256 (dlib d) reward_with_decimals (pending_rewards h))
       (\<lambda>all_reward_with_decimals.
     and_then (uint_mul_decimal (dlib d) 1 all_reward_with_decimals) (\<lambda>rewards.
       Ok \<lparr>arr_rewards = rewards\<rparr>))))))"

definition query_holder :: "deps \<Rightarrow> string \<Rightarrow> reward_storage \<Rightarrow> holder_response res" where
  "query_holder d address s =
     and_then (addr_canonicalize (dapi d) address) (\<lambda>address_raw.
     and_then (read_holder s address_raw) (\<lambda>h.
       Ok \<lparr>hr_address = address, hr_balance = holder_balance h, hr_index = holder_index h,
           hr_pending_rewards = pending_rewards h\<rparr>))"

definition query_holders ::
    "deps \<Rightarrow> string option \<Rightarrow> u32 option \<Rightarrow> reward_storage \<Rightarrow> holders_response res" where
  "query_holders d start_after limit s =
     and_then (case start_after of
         Some a \<Rightarrow> and_then (addr_validate (dapi d) a) (\<lambda>v. Ok (Some v))
       | None \<Rightarrow> Ok None) (\<lambda>start.
     and_then (read_holders d start limit s) (\<lambda>holders. Ok \<lparr>hsr_holders = holders\<rparr>))"


section \<open>global.rs\<close>

definition query_exchange_rates :: "deps \<Rightarrow> string \<Rightarrow> string list \<Rightarrow> exchange_rates_response res" where
  "query_exchange_rates d base quotes = terra_exchange_rates (dquerier d) base quotes"

definition execute_swap ::
    "deps \<Rightarrow> env \<Rightarrow> message_info \<Rightarrow> reward_storage \<Rightarrow> (reward_storage \<times> response) res" where
  "execute_swap d e info s =
     and_then (reward_read_config s) (\<lambda>config.
     and_then (addr_canonicalize (dapi d) (sender info)) (\<lambda>sender_raw.
     if sender_raw \<noteq> rc_hub_contract config then Err (GenericErr ''unauthorized'')
     else
     and_then (query_all_balances (dquerier d) (contract_address e)) (\<lambda>coins.
     and_then (query_exchange_rates d (rc_reward_denom config) (map denom coins)) (\<lambda>rates.
       let known_denoms = map quote_denom (exchange_rates rates) in
       Ok (s,
           \<lparr>messages = map (\<lambda>c. TerraSwap c (rc_reward_denom config))
               (filter (\<lambda>c. \<not> (denom c = rc_reward_denom config \<or> denom c \<notin> set known_denoms)) coins),
            attributes = [(''action'', AttrStr ''swap'')]\<rparr>)))))"

definition execute_update_global_index ::
    "deps \<Rightarrow> env \<Rightarrow> message_info \<Rightarrow> reward_storage \<Rightarrow> (reward_storage \<times> response) res" where
  "execute_update_global_index d e info s =
     and_then (reward_read_config s) (\<lambda>config.
     and_then (read_state s) (\<lambda>state.
     and_then (addr_canonicalize (dapi d) (sender info)) (\<lambda>sender_raw.
     if rc_hub_contract config \<noteq> sender_raw then Err (GenericErr ''Unauthorized'')
     else if total_balance state = 0 then Err (GenericErr ''No asset is bonded by Hub'')
     else
     and_then (query_balance (dquerier d) (contract_address e) (rc_reward_denom config)) (\<lambda>bal.
     and_then (uint_checked_sub (dlib d) (amount bal) (prev_reward_balance state)) (\<lambda>claimed_rewards.
     and_then (decimal_from_ratio (dlib d) claimed_rewards (total_balance state)) (\<lambda>per_token.
     and_then (decimal_summation_in_256 (dlib d) (global_index state) per_token) (\<lambda>new_index.
     and_then (store_state (state\<lparr>prev_reward_balance := amount bal, global_index := new_index\<rparr>) s) (\<lambda>s1.
       Ok (s1,
           \<lparr>messages = [],
            attributes = [(''action'', AttrStr ''update_global_index''),
                          (''claimed_rewards'', AttrUint claimed_rewards)]\<rparr>)))))))))"


section \<open>contract.rs\<close>

definition reward_instantiate ::
    "deps \<Rightarrow> reward_instantiate_msg \<Rightarrow> reward_storage \<Rightarrow> (reward_storage \<times> response) res" where
  "reward_instantiate d msg s =
     and_then (addr_canonicalize (dapi d) (rim_hub_contract msg)) (\<lambda>hub.
     and_then (reward_store_config \<lparr>rc_hub_contract = hub, rc_reward_denom = rim_reward_denom msg\<rparr> s) (\<lambda>s1.
     and_then (store_state \<lparr>global_index = decimal_zero, total_balance = 0, prev_reward_balance = 0\<rparr> s1) (\<lambda>s2.
       Ok (s2, empty_response))))"

definition reward_execute ::
    "deps \<Rightarrow> env \<Rightarrow> message_info \<Rightarrow> reward_execute_msg \<Rightarrow> reward_storage \<Rightarrow> (reward_storage \<times> response) res" where
  "reward_execute d e info msg s =
     (case msg of
        ClaimRewards recipient \<Rightarrow> execute_claim_rewards d info recipient s
      | SwapToRewardDenom \<Rightarrow> execute_swap d e info s
      | RewardUpdateGlobalIndex \<Rightarrow> execute_update_global_index d e info s
      | IncreaseBalance address amt \<Rightarrow> execute_increase_balance d info address amt s
      | DecreaseBalance address amt \<Rightarrow> execute_decrease_balance d info address amt s)"

datatype reward_query_response =
    RewardConfigResponse reward_config_response
  | RewardStateResponse reward_state_response
  | AccruedRewardsResponse accrued_rewards_response
  | HolderResponse holder_response
  | HoldersResponse holders_response

definition query_reward_config :: "deps \<Rightarrow> reward_storage \<Rightarrow> reward_config_response res" where
  "query_reward_config d s =
     and_then (reward_read_config s) (\<lambda>config.
     and_then (addr_humanize (dapi d) (rc_hub_contract config)) (\<lambda>hub.
       Ok \<lparr>rcr_hub_contract = hub, rcr_reward_denom = rc_reward_denom config\<rparr>))"

definition query_reward_state :: "reward_storage \<Rightarrow> reward_state_response res" where
  "query_reward_state s =
     and_then (read_state s) (\<lambda>state.
       Ok \<lparr>rsr_global_index = global_index state, rsr_total_balance = total_balance state,
           rsr_prev_reward_balance = prev_reward_balance state\<rparr>)"

definition reward_query :: "deps \<Rightarrow> reward_query_msg \<Rightarrow> reward_storage \<Rightarrow> reward_query_response res" where
  "reward_query d msg s =
     (case msg of
        RewardQueryConfig \<Rightarrow> and_then (query_reward_config d s) (\<lambda>r. Ok (RewardConfigResponse r))
      | RewardQueryState \<Rightarrow> and_then (query_reward_state s) (\<lambda>r. Ok (RewardStateResponse r))
      | QueryAccruedRewards address \<Rightarrow>
          and_then (query_accrued_rewards d address s) (\<lambda>r. Ok (AccruedRewardsResponse r))
      | QueryHolder address \<Rightarrow> and_then (query_holder d address s) (\<lambda>r. Ok (HolderResponse r))
      | QueryHolders start_after limit \<Rightarrow>
          and_then (query_holders d start_after limit s) (\<lambda>r. Ok (HoldersResponse r)))"

definition reward_migrate :: "deps \<Rightarrow> env \<Rightarrow> migrate_msg \<Rightarrow> reward_storage \<Rightarrow> (reward_storage \<times> response) res" where
  "reward_migrate d e msg s = Ok (s, empty_response)"

end
