(* ===== verification/Reward_Solvency.thy ===== *)
theory Reward_Solvency
  imports Reward_Contract
begin

text \<open>
  What the reward contract owes.  \<open>accrued\<close> is the exact claim of a holder, in atomics: his
  pending rewards plus what the global index has gained on his balance.  Every operation is shown to
  change it as it should, and \<open>reward_inv\<close> (the balances add up to the recorded total, and all
  claims together are covered by the recorded reward balance) holds in every reachable state.
\<close>

section \<open>The arithmetic of a claim\<close>

locale reward_lib = cosmwasm_numbers l + bignumber l + decimal_text l for l :: lib
begin

lemma calculate_decimal_rewards_ok:
  "calculate_decimal_rewards l g i bal = Ok r \<longleftrightarrow>
     unat bal * dec_unit < 2 ^ 128 \<and> datoms i \<le> datoms g \<and>
     datoms r = (datoms g - datoms i) * unat bal"
  (is "?L \<longleftrightarrow> ?R")
proof
  assume ?L
  then obtain b df where b: "datoms b = unat bal * dec_unit" and df: "datoms g = datoms i + datoms df"
    and r: "datoms r = datoms df * datoms b div dec_unit"
    by (auto simp: calculate_decimal_rewards_def decimal_from_ratio_ok decimal_subtraction_ok
        decimal_multiplication_ok)
  have "datoms b < 2 ^ 128" by (rule unat_less_128)
  moreover have "datoms df = datoms g - datoms i" using df by linarith
  ultimately show ?R using b df r by (simp add: mult.assoc [symmetric])
next
  assume R: ?R
  define b where "b = Decimal (of_nat (unat bal * dec_unit))"
  define df where "df = Decimal (of_nat (datoms g - datoms i))"
  have b: "datoms b = unat bal * dec_unit"
    unfolding b_def decimal.sel by (rule unat_of_nat_checked) (use R in simp)
  have "datoms g - datoms i < 2 ^ 128" by (rule le_less_trans [OF diff_le_self unat_less_128])
  then have df: "datoms df = datoms g - datoms i" by (simp add: df_def unat_of_nat_checked)
  have "decimal_from_ratio l bal 1 = Ok b" by (simp add: decimal_from_ratio_ok b)
  moreover have "decimal_subtraction_in_256 l g i = Ok df"
    using R by (simp add: decimal_subtraction_ok df)
  moreover have "decimal_multiplication_in_256 l df b = Ok r"
    using R by (simp add: decimal_multiplication_ok b df mult.assoc [symmetric])
  ultimately show ?L by (simp add: calculate_decimal_rewards_def)
qed

lemma get_decimals_ok: "get_decimals l v = Ok (Decimal (of_nat (datoms v mod dec_unit)))"
proof (cases "datoms v mod dec_unit = 0")
  case True
  then show ?thesis
    using to_string_whole [of v] by (simp add: get_decimals_def split_str_none)
next
  case False
  then obtain w f where "decimal_to_string l v = w @ CHR ''.'' # f" "CHR ''.'' \<notin> set w" "CHR ''.'' \<notin> set f"
    "decimal_from_str l (''0.'' @ f) = Ok (Decimal (of_nat (datoms v mod dec_unit)))"
    using to_string_fraction by blast
  then show ?thesis by (simp add: get_decimals_def split_str_one)
qed

lemma datoms_get_decimals: "get_decimals l v = Ok r \<Longrightarrow> datoms r = datoms v mod dec_unit"
proof -
  assume "get_decimals l v = Ok r"
  moreover have "datoms v mod dec_unit < 2 ^ 128"
    by (rule le_less_trans [OF mod_less_eq_dividend unat_less_128])
  ultimately show ?thesis by (auto simp: get_decimals_ok unat_of_nat_checked)
qed

lemma whole_rewards_ok: "uint_mul_decimal l 1 r = Ok c \<longleftrightarrow> unat c = datoms r div dec_unit"
  by (simp add: uint_mul_decimal_ok)

end

interpretation std_reward: reward_lib std_lib
  by unfold_locales


section \<open>Claims of holders\<close>

definition accrued :: "reward_state \<Rightarrow> holder \<Rightarrow> nat" where
  "accrued st h =
     datoms (pending_rewards h) + (datoms (global_index st) - datoms (holder_index h)) * unat (holder_balance h)"

definition total_accrued :: "reward_state \<Rightarrow> reward_storage \<Rightarrow> nat" where
  "total_accrued st s = store_sum (\<lambda>_. accrued st) (HOLDERS s)"

definition total_held :: "reward_storage \<Rightarrow> nat" where
  "total_held s = store_sum (\<lambda>_ h. unat (holder_balance h)) (HOLDERS s)"

definition reward_inv :: "reward_storage \<Rightarrow> bool" where
  "reward_inv s =
     (case reward_STATE s of
        None \<Rightarrow> True
      | Some st \<Rightarrow>
          store_ok (HOLDERS s) \<and>
          list_all (\<lambda>(a, h). holder_index h \<le> global_index st) (HOLDERS s) \<and>
          total_held s = unat (total_balance st) \<and>
          total_accrued st s \<le> unat (prev_reward_balance st) * dec_unit)"

text \<open>What a successful run of each operation did, in terms of claims.\<close>

lemma settle_ok:
  assumes "reward_lib l"
    and "calculate_decimal_rewards l (global_index st) (holder_index h) (holder_balance h) = Ok r"
    and "decimal_summation_in_256 l r (pending_rewards h) = Ok p"
  shows "datoms p = accrued st h" and "holder_index h \<le> global_index st"
proof -
  have b: "bignumber l" using assms(1) by (simp add: reward_lib_def)
  show "datoms p = accrued st h" "holder_index h \<le> global_index st"
    using assms(2,3)
    by (auto simp: reward_lib.calculate_decimal_rewards_ok [OF assms(1)] bignumber.decimal_summation_ok [OF b]
        accrued_def decimal_le_iff)
qed


lemma accrued_default [simp]:
  "accrued st \<lparr>holder_balance = 0, holder_index = i, pending_rewards = decimal_zero\<rparr> = 0"
  by (simp add: accrued_def)

lemma opt_sum_accrued: "opt_sum (\<lambda>_. accrued st) a (store_get a (HOLDERS s)) = accrued st (holder_of s a)"
  by (auto simp: opt_sum_def holder_of_def split: option.splits)

lemma opt_sum_held:
  "opt_sum (\<lambda>_ h. unat (holder_balance h)) a (store_get a (HOLDERS s)) = unat (holder_balance (holder_of s a))"
  by (auto simp: opt_sum_def holder_of_def split: option.splits)

text \<open>
  The common shape of the three operations on one holder: his record is brought up to the global
  index, the rest of his claim stays, and what is paid leaves the recorded reward balance.
\<close>

lemma settle_holder_inv:
  assumes inv: "reward_inv s" and st: "reward_STATE s = Some st"
    and s': "HOLDERS s' = store_set id a h' (HOLDERS s)" "reward_STATE s' = Some st'"
    and idx: "holder_index h' = global_index st" "global_index st' = global_index st"
    and claim: "datoms (pending_rewards h') + paid * dec_unit = accrued st (holder_of s a)"
    and total: "unat (total_balance st') + unat (holder_balance (holder_of s a))
                 = unat (total_balance st) + unat (holder_balance h')"
    and prev: "unat (prev_reward_balance st') + paid = unat (prev_reward_balance st)"
  shows "reward_inv s'"
proof -
  have ok: "store_ok (HOLDERS s)" and held: "total_held s = unat (total_balance st)"
    and acc: "total_accrued st s \<le> unat (prev_reward_balance st) * dec_unit"
    and le: "list_all (\<lambda>(a, h). holder_index h \<le> global_index st) (HOLDERS s)"
    using inv st by (simp_all add: reward_inv_def)
  have "total_held s' + unat (holder_balance (holder_of s a)) = total_held s + unat (holder_balance h')"
    using kv.total_put [OF ok, of "\<lambda>_ h. unat (holder_balance h)" id a h']
    by (simp add: total_held_def s' opt_sum_held)
  then have 1: "total_held s' = unat (total_balance st')" using held total by linarith
  have "total_accrued st s' + accrued st (holder_of s a) = total_accrued st s + accrued st h'"
    using kv.total_put [OF ok, of "\<lambda>_. accrued st" id a h']
    by (simp add: total_accrued_def s' opt_sum_accrued)
  moreover have "accrued st h' = datoms (pending_rewards h')" by (simp add: accrued_def idx)
  ultimately have "total_accrued st s' + paid * dec_unit = total_accrued st s" using claim by linarith
  moreover have "unat (prev_reward_balance st) * dec_unit = unat (prev_reward_balance st') * dec_unit + paid * dec_unit"
    by (simp add: prev [symmetric] add_mult_distrib)
  ultimately have 2: "total_accrued st s' \<le> unat (prev_reward_balance st') * dec_unit"
    using acc by linarith
  have "accrued st' = accrued st" by (rule ext) (simp add: accrued_def idx)
  then have 3: "total_accrued st' s' = total_accrued st s'" by (simp add: total_accrued_def)
  have "list_all (\<lambda>(a, h). holder_index h \<le> global_index st) (HOLDERS s')"
    using le by (auto simp: s' list_all_iff store_set_set store_remove_def idx)
  with 1 2 3 show ?thesis by (simp add: reward_inv_def s' store_ok_set [OF ok] idx)
qed


section \<open>The operations\<close>

lemma reward_lib_dest:
  assumes "reward_lib l"
  shows "cosmwasm_numbers l" and "bignumber l"
  using assms by (simp_all add: reward_lib_def)

lemma execute_increase_balance_ok:
  assumes lib: "reward_lib (dlib d)"
    and run: "execute_increase_balance d info address amt s = Ok (s', resp)"
  obtains a st h' total where "addr_canonicalize (dapi d) address = Ok a" "reward_STATE s = Some st"
    "unat (holder_balance h') = unat (holder_balance (holder_of s a)) + unat amt"
    "holder_index h' = global_index st" "datoms (pending_rewards h') = accrued st (holder_of s a)"
    "unat total = unat (total_balance st) + unat amt"
    "s' = s\<lparr>HOLDERS := store_set id a h' (HOLDERS s), reward_STATE := Some (st\<lparr>total_balance := total\<rparr>)\<rparr>"
    "messages resp = []"
proof -
  obtain a st r p and nb total :: uint128 where
    a: "addr_canonicalize (dapi d) address = Ok a" and st: "reward_STATE s = Some st"
    and r: "calculate_decimal_rewards (dlib d) (global_index st) (holder_index (holder_of s a))
              (holder_balance (holder_of s a)) = Ok r"
    and p: "decimal_summation_in_256 (dlib d) r (pending_rewards (holder_of s a)) = Ok p"
    and nb: "uint_add (dlib d) (holder_balance (holder_of s a)) amt = Ok nb"
    and total: "uint_add (dlib d) (total_balance st) amt = Ok total"
    and s': "s' = s\<lparr>HOLDERS := store_set id a ((holder_of s a)\<lparr>holder_index := global_index st,
        pending_rewards := p, holder_balance := nb\<rparr>) (HOLDERS s), reward_STATE := Some (st\<lparr>total_balance := total\<rparr>)\<rparr>"
    and m: "messages resp = []"
    using run by (auto simp: execute_increase_balance_def)
  note add = cosmwasm_numbers.uint_add_ok [OF reward_lib_dest(1) [OF lib]]
  show ?thesis
    by (rule that [OF a st _ _ _ _ s' m])
      (use nb total settle_ok(1) [OF lib r p] in \<open>simp_all add: add\<close>)
qed

lemma execute_decrease_balance_ok:
  assumes lib: "reward_lib (dlib d)"
    and run: "execute_decrease_balance d info address amt s = Ok (s', resp)"
  obtains a st h' total where "addr_canonicalize (dapi d) address = Ok a" "reward_STATE s = Some st"
    "unat (holder_balance (holder_of s a)) = unat amt + unat (holder_balance h')"
    "holder_index h' = global_index st" "datoms (pending_rewards h') = accrued st (holder_of s a)"
    "unat (total_balance st) = unat amt + unat total"
    "s' = s\<lparr>HOLDERS := store_set id a h' (HOLDERS s), reward_STATE := Some (st\<lparr>total_balance := total\<rparr>)\<rparr>"
    "messages resp = []"
proof -
  obtain a st r p and nb total :: uint128 where
    a: "addr_canonicalize (dapi d) address = Ok a" and st: "reward_STATE s = Some st"
    and r: "calculate_decimal_rewards (dlib d) (global_index st) (holder_index (holder_of s a))
              (holder_balance (holder_of s a)) = Ok r"
    and p: "decimal_summation_in_256 (dlib d) r (pending_rewards (holder_of s a)) = Ok p"
    and nb: "uint_checked_sub (dlib d) (holder_balance (holder_of s a)) amt = Ok nb"
    and total: "uint_checked_sub (dlib d) (total_balance st) amt = Ok total"
    and s': "s' = s\<lparr>HOLDERS := store_set id a ((holder_of s a)\<lparr>holder_index := global_index st,
        pending_rewards := p, holder_balance := nb\<rparr>) (HOLDERS s), reward_STATE := Some (st\<lparr>total_balance := total\<rparr>)\<rparr>"
    and m: "messages resp = []"
    using run by (auto simp: execute_decrease_balance_def)
  note sub = cosmwasm_numbers.uint_checked_sub_ok [OF reward_lib_dest(1) [OF lib]]
  show ?thesis
    by (rule that [OF a st _ _ _ _ s' m])
      (use nb total settle_ok(1) [OF lib r p] in \<open>simp_all add: sub\<close>)
qed

lemma execute_claim_rewards_ok:
  assumes lib: "reward_lib (dlib d)"
    and run: "execute_claim_rewards d info recipient s = Ok (s', resp)"
  obtains a st c h' rewards prev to taxed where
    "addr_canonicalize (dapi d) (sender info) = Ok a" "reward_STATE s = Some st" "reward_CONFIG s = Some c"
    "rewards \<noteq> 0" "unat rewards = accrued st (holder_of s a) div dec_unit"
    "holder_balance h' = holder_balance (holder_of s a)" "holder_index h' = global_index st"
    "datoms (pending_rewards h') = accrued st (holder_of s a) mod dec_unit"
    "unat (prev_reward_balance st) = unat rewards + unat prev"
    "s' = s\<lparr>reward_STATE := Some (st\<lparr>prev_reward_balance := prev\<rparr>), HOLDERS := store_set id a h' (HOLDERS s)\<rparr>"
    "(case recipient of None \<Rightarrow> Ok (sender info) | Some r \<Rightarrow> addr_validate (dapi d) r) = Ok to"
    "deduct_tax (dlib d) (dquerier d) (Coin (rc_reward_denom c) rewards) = Ok taxed"
    "messages resp = [BankSend to [taxed]]"
proof -
  obtain a st c r p dec to taxed and rewards prev :: uint128 where
    a: "addr_canonicalize (dapi d) (sender info) = Ok a" and st: "reward_STATE s = Some st"
    and c: "reward_CONFIG s = Some c"
    and r: "calculate_decimal_rewards (dlib d) (global_index st) (holder_index (holder_of s a))
              (holder_balance (holder_of s a)) = Ok r"
    and p: "decimal_summation_in_256 (dlib d) r (pending_rewards (holder_of s a)) = Ok p"
    and dec: "get_decimals (dlib d) p = Ok dec" and w: "uint_mul_decimal (dlib d) 1 p = Ok rewards"
    and nz: "rewards \<noteq> 0" and prev: "uint_checked_sub (dlib d) (prev_reward_balance st) rewards = Ok prev"
    and s': "s' = s\<lparr>reward_STATE := Some (st\<lparr>prev_reward_balance := prev\<rparr>),
        HOLDERS := store_set id a ((holder_of s a)\<lparr>pending_rewards := dec, holder_index := global_index st\<rparr>) (HOLDERS s)\<rparr>"
    and to: "(case recipient of None \<Rightarrow> Ok (sender info) | Some r \<Rightarrow> addr_validate (dapi d) r) = Ok to"
    and tax: "deduct_tax (dlib d) (dquerier d) (Coin (rc_reward_denom c) rewards) = Ok taxed"
    and m: "messages resp = [BankSend to [taxed]]"
    using run by (auto simp: execute_claim_rewards_def split: option.splits)
  have p': "datoms p = accrued st (holder_of s a)" by (rule settle_ok(1) [OF lib r p])
  show ?thesis
    by (rule that [where h' = "(holder_of s a)\<lparr>pending_rewards := dec, holder_index := global_index st\<rparr>",
          OF a st c nz _ _ _ _ _ _ to tax m])
      (use p' w s' prev reward_lib.datoms_get_decimals [OF lib dec] in
        \<open>simp_all add: reward_lib.whole_rewards_ok [OF lib]
          cosmwasm_numbers.uint_checked_sub_ok [OF reward_lib_dest(1) [OF lib]]\<close>)
qed

lemma execute_update_global_index_ok:
  assumes lib: "reward_lib (dlib d)"
    and run: "execute_update_global_index d e info s = Ok (s', resp)"
  obtains st c bal g claimed where "reward_STATE s = Some st" "reward_CONFIG s = Some c"
    "total_balance st \<noteq> 0"
    "query_balance (dquerier d) (contract_address e) (rc_reward_denom c) = Ok bal"
    "unat (amount bal) = unat (prev_reward_balance st) + claimed"
    "datoms g = datoms (global_index st) + claimed * dec_unit div unat (total_balance st)"
    "s' = s\<lparr>reward_STATE := Some (st\<lparr>prev_reward_balance := amount bal, global_index := g\<rparr>)\<rparr>"
    "messages resp = []"
proof -
  obtain st c bal g per and cl :: uint128 where st: "reward_STATE s = Some st" and c: "reward_CONFIG s = Some c"
    and nz: "total_balance st \<noteq> 0"
    and q: "query_balance (dquerier d) (contract_address e) (rc_reward_denom c) = Ok bal"
    and cl: "uint_checked_sub (dlib d) (amount bal) (prev_reward_balance st) = Ok cl"
    and per: "decimal_from_ratio (dlib d) cl (total_balance st) = Ok per"
    and g: "decimal_summation_in_256 (dlib d) (global_index st) per = Ok g"
    and s': "s' = s\<lparr>reward_STATE := Some (st\<lparr>prev_reward_balance := amount bal, global_index := g\<rparr>)\<rparr>"
    and m: "messages resp = []"
    using run by (auto simp: execute_update_global_index_def)
  note lib' = reward_lib_dest [OF lib]
  show ?thesis
    by (rule that [OF st c nz q, of "unat cl" g])
      (use cl per g s' m in \<open>simp_all add: cosmwasm_numbers.number_oks [OF lib'(1)]
         bignumber.decimal_summation_ok [OF lib'(2)]\<close>)
qed


lemma execute_swap_ok:
  assumes "execute_swap d e info s = Ok (s', resp)"
  shows "s' = s" and "m \<in> set (messages resp) \<Longrightarrow> \<exists>c to. m = TerraSwap c to"
  using assms by (auto simp: execute_swap_def)


section \<open>The invariant\<close>

lemma increase_inv:
  assumes "reward_inv s" and "reward_lib (dlib d)" and "execute_increase_balance d info address amt s = Ok (s', resp)"
  shows "reward_inv s'"
  using assms(2,3)
proof (cases rule: execute_increase_balance_ok)
  case (1 a st h' total)
  show ?thesis
    by (rule settle_holder_inv [OF assms(1), where paid = 0 and a = a and h' = h' and st = st
          and st' = "st\<lparr>total_balance := total\<rparr>"])
      (use 1 in simp_all)
qed

lemma decrease_inv:
  assumes "reward_inv s" and "reward_lib (dlib d)" and "execute_decrease_balance d info address amt s = Ok (s', resp)"
  shows "reward_inv s'"
  using assms(2,3)
proof (cases rule: execute_decrease_balance_ok)
  case (1 a st h' total)
  show ?thesis
    by (rule settle_holder_inv [OF assms(1), where paid = 0 and a = a and h' = h' and st = st
          and st' = "st\<lparr>total_balance := total\<rparr>"])
      (use 1 in simp_all)
qed

lemma claim_inv:
  assumes "reward_inv s" and "reward_lib (dlib d)" and "execute_claim_rewards d info recipient s = Ok (s', resp)"
  shows "reward_inv s'"
  using assms(2,3)
proof (cases rule: execute_claim_rewards_ok)
  case (1 a st c h' rewards prev to taxed)
  show ?thesis
    by (rule settle_holder_inv [OF assms(1), where paid = "unat rewards" and a = a and h' = h' and st = st
          and st' = "st\<lparr>prev_reward_balance := prev\<rparr>"])
      (use 1 in simp_all)
qed

lemma accrued_raise:
  assumes "holder_index h \<le> global_index st"
    and "datoms (global_index st') = datoms (global_index st) + p"
  shows "accrued st' h = accrued st h + p * unat (holder_balance h)"
proof -
  have "datoms (global_index st') - datoms (holder_index h) =
      (datoms (global_index st) - datoms (holder_index h)) + p"
    using assms by (simp add: decimal_le_iff)
  then show ?thesis by (simp add: accrued_def algebra_simps)
qed

lemma total_accrued_raise:
  assumes "list_all (\<lambda>(a, h). holder_index h \<le> global_index st) (HOLDERS s)"
    and "datoms (global_index st') = datoms (global_index st) + p"
  shows "total_accrued st' s = total_accrued st s + p * total_held s"
proof -
  have "store_sum (\<lambda>_. accrued st') m = store_sum (\<lambda>_. accrued st) m + p * store_sum (\<lambda>_ h. unat (holder_balance h)) m"
    if "list_all (\<lambda>(a, h). holder_index h \<le> global_index st) m" for m :: "(canonical_addr, holder) store"
    using that unfolding store_sum_def
    by (induction m) (auto simp: accrued_raise [OF _ assms(2)] algebra_simps)
  with assms(1) show ?thesis by (simp add: total_accrued_def total_held_def)
qed

lemma update_global_index_inv:
  assumes inv: "reward_inv s" and "reward_lib (dlib d)" and "execute_update_global_index d e info s = Ok (s', resp)"
  shows "reward_inv s'"
  using assms(2,3)
proof (cases rule: execute_update_global_index_ok)
  case (1 st c bal g claimed)
  let ?st' = "st\<lparr>prev_reward_balance := amount bal, global_index := g\<rparr>"
  let ?p = "claimed * dec_unit div unat (total_balance st)"
  have le: "list_all (\<lambda>(a, h). holder_index h \<le> global_index st) (HOLDERS s)"
    and held: "total_held s = unat (total_balance st)"
    and acc: "total_accrued st s \<le> unat (prev_reward_balance st) * dec_unit" and ok: "store_ok (HOLDERS s)"
    using inv 1 by (simp_all add: reward_inv_def)
  have "total_accrued ?st' s = total_accrued st s + ?p * unat (total_balance st)"
    using total_accrued_raise [OF le, of ?st' ?p] 1 held by simp
  also have "\<dots> \<le> unat (prev_reward_balance st) * dec_unit + claimed * dec_unit"
    by (rule add_mono [OF acc div_times_less_eq_dividend])
  also have "\<dots> = unat (amount bal) * dec_unit" using 1 by (simp add: add_mult_distrib)
  finally have "total_accrued ?st' s \<le> unat (amount bal) * dec_unit" .
  moreover have "list_all (\<lambda>(a, h). holder_index h \<le> g) (HOLDERS s)"
  proof -
    have "global_index st \<le> g" using 1 by (simp add: decimal_le_iff)
    then show ?thesis using le by (auto simp: list_all_iff)
  qed
  moreover have "total_accrued ?st' s' = total_accrued ?st' s" "total_held s' = total_held s"
    using 1 by (simp_all add: total_accrued_def total_held_def)
  ultimately show ?thesis using 1 ok held by (simp add: reward_inv_def)
qed

lemma reward_execute_inv:
  assumes "reward_inv s" and "reward_lib (dlib d)" and "reward_execute d e info msg s = Ok (s', resp)"
  shows "reward_inv s'"
  using assms(3) increase_inv [OF assms(1,2)] decrease_inv [OF assms(1,2)] claim_inv [OF assms(1,2)]
    update_global_index_inv [OF assms(1,2)] assms(1)
  by (auto simp: reward_execute_def split: reward_execute_msg.splits dest: execute_swap_ok(1))

lemma reward_instantiate_inv:
  assumes "reward_instantiate d msg empty_reward_storage = Ok (s, resp)"
  shows "reward_inv s"
  using assms
  by (auto simp: reward_instantiate_def reward_store_config_def reward_inv_def empty_reward_storage_def
      store_ok_def total_held_def total_accrued_def store_sum_def)


section \<open>The contract on its chain\<close>

text \<open>
  The coins the contract holds.  Anyone may send it more (staking rewards, the proceeds of a swap, a
  gift); a message is executed against a querier that reports the true balance, and the coins its
  messages take along leave the account: those a bank message sends, together with the tax the chain
  charges on them, those offered for a swap or delegated, and those attached to a call.
\<close>

record reward_chain =
  chain_storage :: reward_storage
  chain_coins :: nat

definition chain_tax :: "querier \<Rightarrow> coin \<Rightarrow> nat" where
  "chain_tax q c =
     (case (query_tax_rate q, query_tax_cap q (denom c)) of
        (Ok r, Ok cap) \<Rightarrow> min (unat (amount c) * datoms r div dec_unit) (unat cap)
      | _ \<Rightarrow> 0)"

fun coins_sent :: "querier \<Rightarrow> string \<Rightarrow> cosmos_msg \<Rightarrow> nat" where
  "coins_sent q dn (BankSend to cs) =
     sum_list (map (\<lambda>c. unat (amount c) + chain_tax q c) (filter (\<lambda>c. denom c = dn) cs))"
| "coins_sent q dn (TerraSwap c to) = (if denom c = dn then unat (amount c) else 0)"
| "coins_sent q dn (StakingDelegate v c) = (if denom c = dn then unat (amount c) else 0)"
| "coins_sent q dn (WasmExecute to msg cs) = sum_list (map (\<lambda>c. unat (amount c)) (filter (\<lambda>c. denom c = dn) cs))"
| "coins_sent q dn _ = 0"

definition chain_outflow :: "querier \<Rightarrow> string \<Rightarrow> response \<Rightarrow> nat" where
  "chain_outflow q dn resp = sum_list (map (coins_sent q dn) (messages resp))"

inductive reward_reachable :: "lib \<Rightarrow> reward_chain \<Rightarrow> bool" for l :: lib where
  instantiated: "reward_instantiate d msg empty_reward_storage = Ok (s, resp) \<Longrightarrow>
     reward_reachable l \<lparr>chain_storage = s, chain_coins = n\<rparr>"
| deposited: "reward_reachable l ch \<Longrightarrow> reward_reachable l (ch\<lparr>chain_coins := chain_coins ch + n\<rparr>)"
| executed: "reward_reachable l ch \<Longrightarrow> dlib d = l \<Longrightarrow> reward_CONFIG (chain_storage ch) = Some c \<Longrightarrow>
     query_balance (dquerier d) (contract_address e) (rc_reward_denom c) = Ok bal \<Longrightarrow>
     unat (amount bal) = chain_coins ch \<Longrightarrow>
     reward_execute d e info msg (chain_storage ch) = Ok (s', resp) \<Longrightarrow>
     reward_reachable l \<lparr>chain_storage = s',
       chain_coins = chain_coins ch - chain_outflow (dquerier d) (rc_reward_denom c) resp\<rparr>"

definition reward_covered :: "reward_chain \<Rightarrow> bool" where
  "reward_covered ch \<longleftrightarrow> (\<exists>st. reward_STATE (chain_storage ch) = Some st \<and>
     unat (prev_reward_balance st) \<le> chain_coins ch)"

lemma deduct_tax_with_chain_tax:
  assumes "cosmwasm_numbers l" and "deduct_tax l q c = Ok c'"
  shows "denom c' = denom c" and "unat (amount c') + chain_tax q c' \<le> unat (amount c)"
proof -
  note oks = cosmwasm_numbers.deduct_tax_ok [OF assms(1)] cosmwasm_numbers.compute_tax_ok [OF assms(1)]
  obtain r cap where q: "query_tax_rate q = Ok r" "query_tax_cap q (denom c) = Ok cap"
    "datoms r + dec_unit < 2 ^ 128" using assms(2) by (auto simp: oks)
  then show den: "denom c' = denom c" using assms(2) by (auto simp: oks)
  have "unat (amount c') * dec_unit + min (unat (amount c') * datoms r) (unat cap * dec_unit)
      \<le> unat (amount c) * dec_unit"
    using deduct_tax_leaves_tax [OF assms(1) q(1,2) assms(2)] .
  then have "(unat (amount c') * dec_unit + min (unat (amount c') * datoms r) (unat cap * dec_unit)) div dec_unit
      \<le> unat (amount c)"
    by (metis div_le_mono div_mult_self_is_m dec_unit_pos(1))
  moreover have "min x y div dec_unit = min (x div dec_unit) (y div dec_unit)" for x y
    by (simp add: min_def div_le_mono)
      (metis div_le_mono le_antisym linorder_linear)
  ultimately show "unat (amount c') + chain_tax q c' \<le> unat (amount c)"
    by (simp add: chain_tax_def q den)
qed

lemma claim_outflow:
  assumes "deduct_tax (dlib d) q (Coin dn rewards) = Ok taxed" and "cosmwasm_numbers (dlib d)"
    and "messages resp = [BankSend to [taxed]]"
  shows "chain_outflow q dn resp \<le> unat rewards"
  using deduct_tax_with_chain_tax [OF assms(2,1)] assms(3) by (simp add: chain_outflow_def)

text \<open>A swap offers every coin but those of the reward denomination.\<close>

lemma swap_outflow:
  assumes "execute_swap d e info s = Ok (s', resp)" and "reward_CONFIG s = Some c"
  shows "chain_outflow q (rc_reward_denom c) resp = 0"
  using assms by (auto simp: execute_swap_def chain_outflow_def comp_def sum_list_eq_0_iff)

text \<open>One message: what leaves the account is covered, and so is what remains owed.\<close>

lemma reward_execute_covered:
  assumes lib: "reward_lib (dlib d)" and cov: "reward_covered ch"
    and c: "reward_CONFIG (chain_storage ch) = Some c"
    and q: "query_balance (dquerier d) (contract_address e) (rc_reward_denom c) = Ok bal"
      "unat (amount bal) = chain_coins ch"
    and run: "reward_execute d e info msg (chain_storage ch) = Ok (s', resp)"
  shows "chain_outflow (dquerier d) (rc_reward_denom c) resp \<le> chain_coins ch"
    and "reward_covered \<lparr>chain_storage = s',
           chain_coins = chain_coins ch - chain_outflow (dquerier d) (rc_reward_denom c) resp\<rparr>"
proof -
  let ?out = "chain_outflow (dquerier d) (rc_reward_denom c) resp"
  obtain st where st: "reward_STATE (chain_storage ch) = Some st" "unat (prev_reward_balance st) \<le> chain_coins ch"
    using cov by (auto simp: reward_covered_def)
  have quiet: "messages resp = [] \<Longrightarrow> ?out = 0" by (simp add: chain_outflow_def)
  have "\<exists>st'. reward_STATE s' = Some st' \<and> unat (prev_reward_balance st') + ?out \<le> chain_coins ch"
  proof (cases msg)
    case (ClaimRewards recipient)
    then have "execute_claim_rewards d info recipient (chain_storage ch) = Ok (s', resp)"
      using run by (simp add: reward_execute_def)
    with lib show ?thesis
    proof (cases rule: execute_claim_rewards_ok)
      case (1 a st2 c2 h' rewards prev to taxed)
      have "?out \<le> unat rewards"
        using claim_outflow [OF 1(12) reward_lib_dest(1) [OF lib] 1(13)] 1(3) c by simp
      with 1 st show ?thesis by simp
    qed
  next
    case SwapToRewardDenom
    then show ?thesis using run st swap_outflow [OF _ c] by (auto simp: reward_execute_def dest: execute_swap_ok(1))
  next
    case RewardUpdateGlobalIndex
    then have "execute_update_global_index d e info (chain_storage ch) = Ok (s', resp)"
      using run by (simp add: reward_execute_def)
    with lib show ?thesis
      by (cases rule: execute_update_global_index_ok) (use c q quiet in auto)
  next
    case (IncreaseBalance address amt)
    then have "execute_increase_balance d info address amt (chain_storage ch) = Ok (s', resp)"
      using run by (simp add: reward_execute_def)
    with lib show ?thesis by (cases rule: execute_increase_balance_ok) (use st quiet in auto)
  next
    case (DecreaseBalance address amt)
    then have "execute_decrease_balance d info address amt (chain_storage ch) = Ok (s', resp)"
      using run by (simp add: reward_execute_def)
    with lib show ?thesis by (cases rule: execute_decrease_balance_ok) (use st quiet in auto)
  qed
  then show "?out \<le> chain_coins ch"
    and "reward_covered \<lparr>chain_storage = s', chain_coins = chain_coins ch - ?out\<rparr>"
    by (auto simp: reward_covered_def)
qed

lemma reward_reachable_inv:
  assumes "reward_lib l" and "reward_reachable l ch"
  shows "reward_inv (chain_storage ch) \<and> reward_covered ch"
  using assms(2)
proof (induction rule: reward_reachable.induct)
  case (instantiated d msg s resp n)
  then have "reward_covered \<lparr>chain_storage = s, chain_coins = n\<rparr>"
    by (auto simp: reward_covered_def reward_instantiate_def reward_store_config_def)
  with instantiated show ?case by (simp add: reward_instantiate_inv)
next
  case (deposited ch n)
  then show ?case by (auto simp: reward_covered_def intro: trans_le_add1)
next
  case (executed ch d c e bal info msg s' resp)
  then have "reward_lib (dlib d)" using assms(1) by simp
  with executed show ?case
    using reward_execute_inv reward_execute_covered(2) by (metis reward_chain.select_convs(1))
qed

end
