(* ===== verification/Reward_Properties.thy ===== *)
theory Reward_Properties
  imports Reward_Solvency Example_Chain
begin

text \<open>
  The properties of the reward contract: solvency in every reachable state, and what each operation
  does to the claims of every holder.
\<close>

section \<open>A reachable example\<close>

lemmas reward_eval = example_eval std_math_eval std_reward.get_decimals_ok read_holder_def store_get_def
  store_set_def store_remove_def calculate_decimal_rewards_def deduct_tax_def compute_tax_def read_state_def
  store_state_def store_holder_def reward_read_config_def reward_store_config_def query_token_contract_def

definition example_config :: reward_config where
  "example_config = \<lparr>rc_hub_contract = [104, 117, 98], rc_reward_denom = ''uusd''\<rparr>"

definition example_reward :: "uint128 \<Rightarrow> uint128 \<Rightarrow> uint128 \<Rightarrow> (canonical_addr, holder) store \<Rightarrow> reward_storage" where
  "example_reward g tot prev hs = \<lparr>reward_CONFIG = Some example_config,
     reward_STATE = Some \<lparr>global_index = Decimal g, total_balance = tot, prev_reward_balance = prev\<rparr>,
     HOLDERS = hs\<rparr>"

definition example_holder :: "uint128 \<Rightarrow> uint128 \<Rightarrow> uint128 \<Rightarrow> holder" where
  "example_holder bal i p = \<lparr>holder_balance = bal, holder_index = Decimal i, pending_rewards = Decimal p\<rparr>"

lemmas example_reward_eval = reward_eval example_config_def example_reward_def example_holder_def

lemma example_instantiated:
  "\<exists>resp. reward_instantiate example_deps \<lparr>rim_hub_contract = ''hub'', rim_reward_denom = ''uusd''\<rparr>
     empty_reward_storage = Ok (example_reward 0 0 0 [], resp)"
  by (simp add: reward_instantiate_def empty_reward_storage_def example_reward_eval)

lemma example_increased:
  "\<exists>resp. messages resp = [] \<and> reward_execute example_deps example_env (example_info ''token'') (IncreaseBalance ''a'' 70)
     (example_reward 0 0 0 []) = Ok (example_reward 0 70 0 [([97], example_holder 70 0 0)], resp)"
  by (simp add: reward_execute_def execute_increase_balance_def example_reward_eval
      example_querier_def char_of_def bit_0)

lemma example_updated:
  "\<exists>resp. messages resp = [] \<and> reward_execute example_deps example_env (example_info ''hub'') RewardUpdateGlobalIndex
     (example_reward 0 70 0 [([97], example_holder 70 0 0)]) =
     Ok (example_reward 7142857142857142857 70 500 [([97], example_holder 70 0 0)], resp)"
  by (simp add: reward_execute_def execute_update_global_index_def example_reward_eval)

lemma example_claimed:
  "\<exists>resp. messages resp = [BankSend ''a'' [Coin ''uusd'' 494]] \<and>
     execute_claim_rewards example_deps (example_info ''a'') None
     (example_reward 7142857142857142857 70 500 [([97], example_holder 70 0 0)]) =
     Ok (example_reward 7142857142857142857 70 1
           [([97], example_holder 70 7142857142857142857 999999999999999990)], resp)"
  by (simp add: execute_claim_rewards_def example_reward_eval)

text \<open>Instantiation, a first holder, 500 coins of rewards, the index update and his claim.\<close>

lemma example_reachable:
  "reward_reachable std_lib \<lparr>chain_storage = example_reward 7142857142857142857 70 500 [([97], example_holder 70 0 0)],
     chain_coins = 500\<rparr>"
proof -
  have q: "query_balance (dquerier example_deps) (contract_address example_env) (rc_reward_denom example_config)
      = Ok (Coin ''uusd'' 500)"
    by (simp add: example_querier_eval example_config_def)
  have c: "reward_CONFIG (example_reward g t p hs) = Some example_config" for g t p hs
    by (simp add: example_reward_def)
  obtain resp where "reward_instantiate example_deps \<lparr>rim_hub_contract = ''hub'', rim_reward_denom = ''uusd''\<rparr>
     empty_reward_storage = Ok (example_reward 0 0 0 [], resp)" using example_instantiated by blast
  then have 1: "reward_reachable std_lib \<lparr>chain_storage = example_reward 0 0 0 [], chain_coins = 500\<rparr>"
    by (rule reward_reachable.instantiated)
  obtain resp where r: "messages resp = []" "reward_execute example_deps example_env (example_info ''token'')
      (IncreaseBalance ''a'' 70) (example_reward 0 0 0 []) = Ok (example_reward 0 70 0 [([97], example_holder 70 0 0)], resp)"
    using example_increased by blast
  have 2: "reward_reachable std_lib \<lparr>chain_storage = example_reward 0 70 0 [([97], example_holder 70 0 0)], chain_coins = 500\<rparr>"
    using reward_reachable.executed [OF 1 _ _ q, of "example_info ''token''" "IncreaseBalance ''a'' 70"] r c
    by (simp add: chain_outflow_def)
  obtain resp where r: "messages resp = []" "reward_execute example_deps example_env (example_info ''hub'') RewardUpdateGlobalIndex
     (example_reward 0 70 0 [([97], example_holder 70 0 0)]) =
     Ok (example_reward 7142857142857142857 70 500 [([97], example_holder 70 0 0)], resp)"
    using example_updated by blast
  show ?thesis
    using reward_reachable.executed [OF 2 _ _ q, of "example_info ''hub''" RewardUpdateGlobalIndex] r c
    by (simp add: chain_outflow_def)
qed


section \<open>Solvency\<close>

text \<open>
  C2.  In every reachable state of the contract and its account, the balances of the holders add up to
  the recorded total, and the claims of all holders together are covered by the recorded reward
  balance, which the account really holds.
\<close>

theorem reward_solvency:
  assumes "reward_lib l" and "reward_reachable l ch"
  shows "\<exists>st. reward_STATE (chain_storage ch) = Some st \<and>
     total_held (chain_storage ch) = unat (total_balance st) \<and>
     total_accrued st (chain_storage ch) \<le> unat (prev_reward_balance st) * dec_unit \<and>
     unat (prev_reward_balance st) \<le> chain_coins ch"
  using reward_reachable_inv [OF assms] by (auto simp: reward_inv_def reward_covered_def)

theorem reward_solvency_witness:
  "\<exists>st. reward_STATE (example_reward 7142857142857142857 70 500 [([97], example_holder 70 0 0)]) = Some st \<and>
     total_accrued st (example_reward 7142857142857142857 70 500 [([97], example_holder 70 0 0)])
      \<le> unat (prev_reward_balance st) * dec_unit \<and> unat (prev_reward_balance st) \<le> 500"
  using reward_solvency [OF std_reward.reward_lib_axioms example_reachable] by auto

text \<open>
  C11.  In every reachable state, whatever message is executed, the coins of the reward denomination that
  its messages take out of the account (sent with the tax the chain charges on it, offered for a swap,
  delegated or attached to a call) are in the account.
\<close>

theorem reward_payments_funded:
  assumes "reward_lib l" and "reward_reachable l ch" and "dlib d = l"
    and "reward_CONFIG (chain_storage ch) = Some c"
    and "query_balance (dquerier d) (contract_address e) (rc_reward_denom c) = Ok bal"
    and "unat (amount bal) = chain_coins ch"
    and "reward_execute d e info msg (chain_storage ch) = Ok (s', resp)"
  shows "chain_outflow (dquerier d) (rc_reward_denom c) resp \<le> chain_coins ch"
  using reward_reachable_inv [OF assms(1,2)] reward_execute_covered(1) assms by metis

theorem reward_payments_funded_witness:
  "\<exists>resp. messages resp = [BankSend ''a'' [Coin ''uusd'' 494]] \<and>
     chain_outflow example_querier ''uusd'' resp \<le> 500"
proof -
  let ?s = "example_reward 7142857142857142857 70 500 [([97], example_holder 70 0 0)]"
  obtain s' resp where r: "messages resp = [BankSend ''a'' [Coin ''uusd'' 494]]"
    "execute_claim_rewards example_deps (example_info ''a'') None ?s = Ok (s', resp)"
    using example_claimed by blast
  have "chain_outflow (dquerier example_deps) (rc_reward_denom example_config) resp \<le> chain_coins \<lparr>chain_storage = ?s, chain_coins = 500\<rparr>"
    by (rule reward_payments_funded [OF std_reward.reward_lib_axioms example_reachable, of example_deps example_config
          example_env "Coin ''uusd'' 500" "example_info ''a''" "ClaimRewards None" s'])
      (use r in \<open>simp_all add: example_reward_def example_config_def example_querier_eval reward_execute_def\<close>)
  with r show ?thesis by (auto simp: example_config_def)
qed


section \<open>Claims\<close>

lemma accrued_settled: "holder_index h = global_index st \<Longrightarrow> accrued st h = datoms (pending_rewards h)"
  by (simp add: accrued_def)

lemma holder_of_set:
  "HOLDERS s' = store_set id a h (HOLDERS s) \<Longrightarrow> holder_of s' b = (if b = a then h else holder_of s b)"
  by (simp add: holder_of_def store_get_set)

text \<open>
  C16.  A claim pays the whole coins of the sender's accrued rewards, less tax, to the recipient he
  names (himself by default), keeps exactly the fraction for later, and leaves every balance and every
  other holder's claim as they were.
\<close>

theorem claim_pays_accrued:
  assumes lib: "reward_lib (dlib d)"
    and run: "execute_claim_rewards d info recipient s = Ok (s', resp)"
  shows "\<exists>a st st' c to taxed. addr_canonicalize (dapi d) (sender info) = Ok a \<and>
     reward_STATE s = Some st \<and> reward_STATE s' = Some st' \<and> reward_CONFIG s = Some c \<and>
     (case recipient of None \<Rightarrow> Ok (sender info) | Some r \<Rightarrow> addr_validate (dapi d) r) = Ok to \<and>
     deduct_tax (dlib d) (dquerier d)
       (Coin (rc_reward_denom c) (of_nat (accrued st (holder_of s a) div dec_unit))) = Ok taxed \<and>
     messages resp = [BankSend to [taxed]] \<and> dec_unit \<le> accrued st (holder_of s a) \<and>
     accrued st' (holder_of s' a) = accrued st (holder_of s a) mod dec_unit \<and>
     (\<forall>b. holder_balance (holder_of s' b) = holder_balance (holder_of s b)) \<and>
     (\<forall>b. b \<noteq> a \<longrightarrow> accrued st' (holder_of s' b) = accrued st (holder_of s b))"
  using lib run
proof (cases rule: execute_claim_rewards_ok)
  case (1 a st c h' rewards prev to taxed)
  have of: "of_nat (accrued st (holder_of s a) div dec_unit) = rewards" using 1(5) word_eq_of_nat by metis
  have "accrued st (holder_of s a) div dec_unit \<noteq> 0" using 1(4,5) by (metis unat_eq_0)
  then have le: "dec_unit \<le> accrued st (holder_of s a)" by (metis div_less not_le)
  have h: "holder_of s' b = (if b = a then h' else holder_of s b)" for b
    using holder_of_set [of s' a h' s] 1(10) by simp
  let ?st' = "st\<lparr>prev_reward_balance := prev\<rparr>"
  have st': "reward_STATE s' = Some ?st'" using 1(10) by simp
  have eq: "accrued ?st' = accrued st" by (rule ext) (simp add: accrued_def)
  have "accrued ?st' (holder_of s' a) = accrued st (holder_of s a) mod dec_unit"
    unfolding eq h using 1(7,8) by (simp add: accrued_settled)
  moreover have "\<forall>b. holder_balance (holder_of s' b) = holder_balance (holder_of s b)"
    using 1(6) by (simp add: h)
  moreover have "\<forall>b. b \<noteq> a \<longrightarrow> accrued ?st' (holder_of s' b) = accrued st (holder_of s b)"
    unfolding eq h by simp
  ultimately show ?thesis using st' of le 1(1-3,11-13) by metis
qed

theorem claim_pays_accrued_witness:
  "\<exists>s' resp st'. execute_claim_rewards example_deps (example_info ''a'') None
     (example_reward 7142857142857142857 70 500 [([97], example_holder 70 0 0)]) = Ok (s', resp) \<and>
     messages resp = [BankSend ''a'' [Coin ''uusd'' 494]] \<and> reward_STATE s' = Some st' \<and>
     accrued st' (holder_of s' [97]) < dec_unit"
proof -
  obtain s' resp where r: "messages resp = [BankSend ''a'' [Coin ''uusd'' 494]]"
    "execute_claim_rewards example_deps (example_info ''a'') None
     (example_reward 7142857142857142857 70 500 [([97], example_holder 70 0 0)]) = Ok (s', resp)"
    using example_claimed by blast
  have "addr_canonicalize (dapi example_deps) (sender (example_info ''a'')) = Ok [97]"
    by (simp add: example_api_eval example_info_def)
  then show ?thesis
    using claim_pays_accrued [OF _ r(2)] std_reward.reward_lib_axioms r
    by (auto simp: example_deps_def)
qed

lemma holder_index_le:
  assumes "reward_inv s" and "reward_STATE s = Some st"
  shows "holder_index (holder_of s a) \<le> global_index st"
  using assms by (auto simp: reward_inv_def holder_of_def store_get_def list_all_iff decimal_le_iff
      split: option.splits dest: map_of_SomeD)

lemma accrued_le_total:
  assumes "reward_inv s" and "reward_STATE s = Some st"
  shows "accrued st (holder_of s a) \<le> unat (prev_reward_balance st) * dec_unit"
proof -
  have ok: "store_ok (HOLDERS s)" and le: "total_accrued st s \<le> unat (prev_reward_balance st) * dec_unit"
    using assms by (simp_all add: reward_inv_def)
  show ?thesis
    using kv.opt_sum_le_total [OF ok, of "\<lambda>_. accrued st" a] le
    by (simp add: opt_sum_accrued total_accrued_def)
qed

lemma settle_returns:
  assumes lib: "reward_lib l" and le: "holder_index h \<le> global_index st"
    and fits: "accrued st h < 2 ^ 128" "unat (holder_balance h) * dec_unit < 2 ^ 128"
  obtains r p where
    "calculate_decimal_rewards l (global_index st) (holder_index h) (holder_balance h) = Ok r"
    "decimal_summation_in_256 l r (pending_rewards h) = Ok p" "datoms p = accrued st h"
proof -
  let ?g = "(datoms (global_index st) - datoms (holder_index h)) * unat (holder_balance h)"
  have g: "?g < 2 ^ 128" using fits(1) by (simp add: accrued_def)
  define r where "r = Decimal (of_nat ?g)"
  define p where "p = Decimal (of_nat (accrued st h))"
  have r: "datoms r = ?g" unfolding r_def decimal.sel by (rule unat_of_nat_checked) (use g in simp)
  have p: "datoms p = accrued st h" unfolding p_def decimal.sel by (rule unat_of_nat_checked) (use fits in simp)
  show ?thesis
    by (rule that [of r p])
      (use r p le fits in \<open>simp_all add: reward_lib.calculate_decimal_rewards_ok [OF lib] decimal_le_iff
        bignumber.decimal_summation_ok [OF reward_lib_dest(2) [OF lib]] accrued_def\<close>)
qed

text \<open>
  C17.  A holder who has accrued at least one whole coin can always claim: when the addresses are valid,
  the chain answers the tax queries and his numbers fit the decimal range, the claim succeeds.
\<close>

theorem claim_succeeds:
  assumes lib: "reward_lib (dlib d)" and inv: "reward_inv s"
    and st: "reward_STATE s = Some st" and c: "reward_CONFIG s = Some c"
    and a: "addr_canonicalize (dapi d) (sender info) = Ok a"
    and to: "(case recipient of None \<Rightarrow> Ok (sender info) | Some r \<Rightarrow> addr_validate (dapi d) r) = Ok to"
    and tax: "query_tax_rate (dquerier d) = Ok r" "query_tax_cap (dquerier d) (rc_reward_denom c) = Ok cap"
      "datoms r + dec_unit < 2 ^ 128"
    and fits: "accrued st (holder_of s a) < 2 ^ 128" "unat (holder_balance (holder_of s a)) * dec_unit < 2 ^ 128"
    and due: "dec_unit \<le> accrued st (holder_of s a)"
  shows "\<exists>s' resp. execute_claim_rewards d info recipient s = Ok (s', resp)"
proof -
  let ?h = "holder_of s a"
  note num = reward_lib_dest(1) [OF lib]
  obtain rw p where rw: "calculate_decimal_rewards (dlib d) (global_index st) (holder_index ?h) (holder_balance ?h) = Ok rw"
    and p: "decimal_summation_in_256 (dlib d) rw (pending_rewards ?h) = Ok p" "datoms p = accrued st ?h"
    using settle_returns [OF lib holder_index_le [OF inv st] fits] by blast
  obtain w where w: "uint_mul_decimal (dlib d) 1 p = Ok w"
    using cosmwasm_numbers.uint_mul_decimal_exists [OF num, of 1 p] le_less_trans [OF div_le_dividend unat_less_128]
    by auto
  then have uw: "unat w = accrued st ?h div dec_unit" by (simp add: reward_lib.whole_rewards_ok [OF lib] p)
  then have "w \<noteq> 0" using due by (metis div_greater_zero_iff dec_unit_pos(1) not_gr_zero unat_0)
  have "accrued st ?h div dec_unit \<le> unat (prev_reward_balance st)"
    using div_le_mono [OF accrued_le_total [OF inv st, of a], of dec_unit] by simp
  then have sub: "uint_checked_sub (dlib d) (prev_reward_balance st) w = Ok (prev_reward_balance st - w)"
    using uw by (simp add: cosmwasm_numbers.uint_checked_sub_exists [OF num] word_le_nat_alt)
  obtain t where t: "deduct_tax (dlib d) (dquerier d) (Coin (rc_reward_denom c) w) = Ok t"
    using cosmwasm_numbers.deduct_tax_total [OF num tax(1) _ tax(3), of "Coin (rc_reward_denom c) w"] tax(2) by auto
  have to': "(case recipient of None \<Rightarrow> Ok (sender info) | Some value \<Rightarrow>
      expect_ok ''called `Result::unwrap()` on an `Err` value'' (addr_validate (dapi d) value)) = Ok to"
    using to by (cases recipient) simp_all
  have "read_holder s a = Ok ?h" "read_state s = Ok st" "reward_read_config s = Ok c" using st c by simp_all
  then show ?thesis
    using a to' rw p w \<open>w \<noteq> 0\<close> sub t reward_lib.get_decimals_ok [OF lib]
    by (simp add: execute_claim_rewards_def)
qed

theorem claim_succeeds_witness:
  "\<exists>s' resp. execute_claim_rewards example_deps (example_info ''a'') (Some ''carol'')
     (example_reward 7142857142857142857 70 500 [([97], example_holder 70 0 0)]) = Ok (s', resp)"
proof (rule claim_succeeds [where a = "[97]" and c = example_config and to = "''carol''"
      and r = "Decimal 10000000000000000" and cap = 1000000
      and st = "\<lparr>global_index = Decimal 7142857142857142857, total_balance = 70, prev_reward_balance = 500\<rparr>"])
  show "reward_inv (example_reward 7142857142857142857 70 500 [([97], example_holder 70 0 0)])"
    by (simp add: reward_inv_def example_reward_def example_holder_def store_ok_def total_held_def
        total_accrued_def store_sum_def accrued_def decimal_le_iff dec_unit_def)
qed (simp_all add: std_reward.reward_lib_axioms example_reward_def example_api_eval example_querier_eval
      example_info_def holder_of_def store_get_def example_holder_def accrued_def dec_unit_def)

text \<open>A record just settled, with less than a coin pending, yields nothing.\<close>

lemma settled_claim_zero:
  fixes st :: reward_state and h :: holder
  assumes lib: "reward_lib l" and idx: "holder_index h = global_index st"
    and bal: "unat (holder_balance h) * dec_unit < 2 ^ 128" and small: "datoms (pending_rewards h) < dec_unit"
  obtains r p where
    "calculate_decimal_rewards l (global_index st) (holder_index h) (holder_balance h) = Ok r"
    "decimal_summation_in_256 l r (pending_rewards h) = Ok p" "uint_mul_decimal l 1 p = Ok 0"
proof -
  have acc: "accrued st h = datoms (pending_rewards h)" by (rule accrued_settled [OF idx])
  have fits: "accrued st h < 2 ^ 128" unfolding acc by (rule unat_less_128)
  obtain r p where rp: "calculate_decimal_rewards l (global_index st) (holder_index h) (holder_balance h) = Ok r"
    "decimal_summation_in_256 l r (pending_rewards h) = Ok p" "datoms p = accrued st h"
    by (rule settle_returns [OF lib _ fits bal]) (simp add: idx)
  have "uint_mul_decimal l 1 p = Ok 0"
    using rp(3) acc small by (simp add: reward_lib.whole_rewards_ok [OF lib])
  with rp that show ?thesis by blast
qed

text \<open>What a successful claim leaves behind.\<close>

lemma after_claim:
  assumes lib: "reward_lib (dlib d)"
    and run: "execute_claim_rewards d info recipient s = Ok (s', resp)"
    and a: "addr_canonicalize (dapi d) (sender info) = Ok a"
  obtains st :: reward_state and c r p where "reward_STATE s' = Some st" "reward_CONFIG s' = Some c"
    "calculate_decimal_rewards (dlib d) (global_index st) (holder_index (holder_of s' a))
       (holder_balance (holder_of s' a)) = Ok r"
    "decimal_summation_in_256 (dlib d) r (pending_rewards (holder_of s' a)) = Ok p"
    "uint_mul_decimal (dlib d) 1 p = Ok 0"
  using lib run
proof (cases rule: execute_claim_rewards_ok)
  case (1 b st c h' rewards prev to taxed)
  have b: "b = a" using a 1(1) by simp
  have h: "holder_of s' a = h'" using holder_of_set [of s' a h' s a] 1(10) b by simp
  have bal: "unat (holder_balance h') * dec_unit < 2 ^ 128"
    using run 1(1,2,6) b
    by (auto simp: execute_claim_rewards_def reward_lib.calculate_decimal_rewards_ok [OF lib])
  have small: "datoms (pending_rewards h') < dec_unit" using 1(8) by simp
  show ?thesis
    by (rule settled_claim_zero [OF lib _ bal small, of "st\<lparr>prev_reward_balance := prev\<rparr>"])
      (use 1(3,7,10) h that in auto)
qed

text \<open>
  Nobody is paid twice: right after a successful claim, a second claim by the same holder is
  rejected because no rewards have accrued.
\<close>

lemma claim_not_twice:
  assumes lib: "reward_lib (dlib d)"
    and run: "execute_claim_rewards d info recipient s = Ok (s', resp)"
    and again: "sender info' = sender info"
      "(case recipient' of None \<Rightarrow> Ok (sender info') | Some r \<Rightarrow> addr_validate (dapi d) r) = Ok to'"
  shows "execute_claim_rewards d info' recipient' s' = Err (GenericErr ''No rewards have accrued yet'')"
proof -
  obtain a where a: "addr_canonicalize (dapi d) (sender info) = Ok a"
    using lib run by (cases rule: execute_claim_rewards_ok)
  obtain st c r p where st: "reward_STATE s' = Some st" and c: "reward_CONFIG s' = Some c"
    and r: "calculate_decimal_rewards (dlib d) (global_index st) (holder_index (holder_of s' a))
       (holder_balance (holder_of s' a)) = Ok r"
    "decimal_summation_in_256 (dlib d) r (pending_rewards (holder_of s' a)) = Ok p"
    "uint_mul_decimal (dlib d) 1 p = Ok 0"
    by (rule after_claim [OF lib run a])
  have to: "(case recipient' of None \<Rightarrow> Ok (sender info') | Some value \<Rightarrow>
      expect_ok ''called `Result::unwrap()` on an `Err` value'' (addr_validate (dapi d) value)) = Ok to'"
    using again by (cases recipient') simp_all
  have rd: "read_holder s' a = Ok (holder_of s' a)" "read_state s' = Ok st" "reward_read_config s' = Ok c"
    using st c by simp_all
  show ?thesis
    by (simp add: execute_claim_rewards_def rd a again(1) to r reward_lib.get_decimals_ok [OF lib])
qed


text \<open>
  C20.  What the query of a holder's accrued rewards answers is what his claim pays (before tax), and
  after the claim the query answers zero.
\<close>

theorem query_accrued_agrees_with_claim:
  assumes lib: "reward_lib (dlib d)"
    and q: "query_accrued_rewards d (sender info) s = Ok \<lparr>arr_rewards = r\<rparr>"
    and run: "execute_claim_rewards d info recipient s = Ok (s', resp)"
  shows "\<exists>c to taxed. reward_CONFIG s = Some c \<and>
     deduct_tax (dlib d) (dquerier d) (Coin (rc_reward_denom c) r) = Ok taxed \<and>
     messages resp = [BankSend to [taxed]] \<and> query_accrued_rewards d (sender info) s' = Ok \<lparr>arr_rewards = 0\<rparr>"
  using lib run
proof (cases rule: execute_claim_rewards_ok)
  case (1 a st c h' rewards prev to taxed)
  have "unat r = accrued st (holder_of s a) div dec_unit"
    using q 1(1,2) settle_ok(1) [OF lib]
    by (auto simp: query_accrued_rewards_def reward_lib.whole_rewards_ok [OF lib])
  then have r: "r = rewards" using 1(5) by (simp add: word_eq_if_unat_eq)
  obtain st2 c2 rw p where st2: "reward_STATE s' = Some st2"
    and rw: "calculate_decimal_rewards (dlib d) (global_index st2) (holder_index (holder_of s' a))
       (holder_balance (holder_of s' a)) = Ok rw"
    "decimal_summation_in_256 (dlib d) rw (pending_rewards (holder_of s' a)) = Ok p"
    "uint_mul_decimal (dlib d) 1 p = Ok 0"
    by (rule after_claim [OF lib run 1(1)])
  have rd: "read_holder s' a = Ok (holder_of s' a)" "read_state s' = Ok st2" using st2 by simp_all
  have "query_accrued_rewards d (sender info) s' = Ok \<lparr>arr_rewards = 0\<rparr>"
    by (simp add: query_accrued_rewards_def rd 1(1) rw)
  with 1(3,12,13) r show ?thesis by blast
qed

theorem query_accrued_agrees_with_claim_witness:
  "query_accrued_rewards example_deps ''a''
     (example_reward 7142857142857142857 70 1 [([97], example_holder 70 7142857142857142857 999999999999999990)]) = Ok \<lparr>arr_rewards = 0\<rparr>"
proof -
  obtain resp where r: "execute_claim_rewards example_deps (example_info ''a'') None
     (example_reward 7142857142857142857 70 500 [([97], example_holder 70 0 0)]) =
     Ok (example_reward 7142857142857142857 70 1
           [([97], example_holder 70 7142857142857142857 999999999999999990)], resp)"
    using example_claimed by blast
  have q: "query_accrued_rewards example_deps (sender (example_info ''a''))
     (example_reward 7142857142857142857 70 500 [([97], example_holder 70 0 0)]) = Ok \<lparr>arr_rewards = 499\<rparr>"
    by (simp add: query_accrued_rewards_def example_reward_eval)
  show ?thesis
    using query_accrued_agrees_with_claim [OF _ q r] std_reward.reward_lib_axioms by (auto simp: example_info_def)
qed


section \<open>The global index and balances\<close>

text \<open>
  C18.  Updating the global index hands the coins that arrived since the last update to the holders in
  proportion to their balances: every claim grows by the same amount per token, no record changes, and
  what rounding leaves undistributed is less than one atomic per token.
\<close>

theorem update_index_is_fair:
  assumes lib: "reward_lib (dlib d)" and inv: "reward_inv s"
    and run: "execute_update_global_index d e info s = Ok (s', resp)"
  shows "\<exists>st st' c bal claimed per_token. reward_STATE s = Some st \<and> reward_STATE s' = Some st' \<and>
     reward_CONFIG s = Some c \<and>
     query_balance (dquerier d) (contract_address e) (rc_reward_denom c) = Ok bal \<and>
     unat (amount bal) = unat (prev_reward_balance st) + claimed \<and>
     prev_reward_balance st' = amount bal \<and> HOLDERS s' = HOLDERS s \<and>
     (\<forall>a. accrued st' (holder_of s' a) =
           accrued st (holder_of s a) + per_token * unat (holder_balance (holder_of s a))) \<and>
     per_token * total_held s \<le> claimed * dec_unit \<and>
     claimed * dec_unit < per_token * total_held s + total_held s"
  using lib run
proof (cases rule: execute_update_global_index_ok)
  case (1 st c bal g claimed)
  let ?st' = "st\<lparr>prev_reward_balance := amount bal, global_index := g\<rparr>"
  let ?T = "unat (total_balance st)" and ?p = "claimed * dec_unit div unat (total_balance st)"
  have held: "total_held s = ?T" using inv 1 by (simp add: reward_inv_def)
  have T: "0 < ?T" using 1(3) by (simp add: unat_gt_0)
  have "accrued ?st' (holder_of s' a) = accrued st (holder_of s a) + ?p * unat (holder_balance (holder_of s a))" for a
  proof -
    have "holder_of s' a = holder_of s a" using 1(7) by (simp add: holder_of_def)
    then show ?thesis
      using accrued_raise [OF holder_index_le [OF inv 1(1)], of ?st' ?p a] 1(6) by simp
  qed
  moreover have "?p * ?T \<le> claimed * dec_unit" by (rule div_times_less_eq_dividend)
  moreover have "claimed * dec_unit < ?p * ?T + ?T"
    using dividend_less_div_times [OF T, of "claimed * dec_unit"] by (simp add: add.commute)
  moreover have "reward_STATE s' = Some ?st'" "HOLDERS s' = HOLDERS s" using 1(7) by simp_all
  moreover have "prev_reward_balance ?st' = amount bal" by simp
  ultimately show ?thesis using 1(1,2,4,5) unfolding held by metis
qed

theorem update_index_is_fair_witness:
  "\<exists>s' resp. execute_update_global_index example_deps example_env (example_info ''hub'')
     (example_reward 0 70 0 [([97], example_holder 70 0 0)]) = Ok (s', resp) \<and>
     (\<exists>per_token. per_token * 70 \<le> 500 * dec_unit \<and> 500 * dec_unit < per_token * 70 + 70)"
proof -
  let ?s = "example_reward 0 70 0 [([97], example_holder 70 0 0)]"
  obtain s' resp where r: "execute_update_global_index example_deps example_env (example_info ''hub'') ?s = Ok (s', resp)"
    using example_updated by (auto simp: reward_execute_def)
  have inv: "reward_inv ?s"
    by (simp add: reward_inv_def example_reward_def example_holder_def store_ok_def total_held_def
        total_accrued_def store_sum_def accrued_def decimal_le_iff)
  have held: "total_held ?s = 70"
    by (simp add: total_held_def store_sum_def example_reward_def example_holder_def)
  have st: "reward_STATE ?s = Some \<lparr>global_index = decimal_zero, total_balance = 70, prev_reward_balance = 0\<rparr>"
    by (simp add: example_reward_def)
  show ?thesis
    using update_index_is_fair [OF _ inv r] std_reward.reward_lib_axioms r
    by (auto simp: held st example_querier_eval)
qed

text \<open>
  Crediting tokens changes the balance of one holder and the total by the amount, and nobody's
  claim: tokens earn from the current index on.
\<close>

lemma increase_keeps_claims:
  assumes lib: "reward_lib (dlib d)"
    and run: "execute_increase_balance d info address amt s = Ok (s', resp)"
  shows "\<exists>a st st'. addr_canonicalize (dapi d) address = Ok a \<and> reward_STATE s = Some st \<and>
     reward_STATE s' = Some st' \<and>
     unat (total_balance st') = unat (total_balance st) + unat amt \<and>
     unat (holder_balance (holder_of s' a)) = unat (holder_balance (holder_of s a)) + unat amt \<and>
     (\<forall>b. b \<noteq> a \<longrightarrow> holder_of s' b = holder_of s b) \<and>
     (\<forall>b. accrued st' (holder_of s' b) = accrued st (holder_of s b))"
  using lib run
proof (cases rule: execute_increase_balance_ok)
  case (1 a st h' tot)
  let ?st' = "st\<lparr>total_balance := tot\<rparr>"
  have h: "holder_of s' b = (if b = a then h' else holder_of s b)" for b
    using holder_of_set [of s' a h' s] 1(7) by simp
  have eq: "accrued ?st' = accrued st" by (rule ext) (simp add: accrued_def)
  have "\<forall>b. accrued ?st' (holder_of s' b) = accrued st (holder_of s b)"
    unfolding eq h using 1(4,5) by (simp add: accrued_settled)
  moreover have "reward_STATE s' = Some ?st'" "total_balance ?st' = tot" using 1(7) by simp_all
  ultimately show ?thesis using 1(1,2,3,6) h by metis
qed

text \<open>
  Debiting tokens takes the amount off the balance of one holder and off the total, fails when the
  balance is too small, and keeps every claim: what was earned before the debit stays due.
\<close>

lemma decrease_keeps_claims:
  assumes lib: "reward_lib (dlib d)"
    and run: "execute_decrease_balance d info address amt s = Ok (s', resp)"
  shows "\<exists>a st st'. addr_canonicalize (dapi d) address = Ok a \<and> reward_STATE s = Some st \<and>
     reward_STATE s' = Some st' \<and>
     unat (total_balance st) = unat amt + unat (total_balance st') \<and>
     unat (holder_balance (holder_of s a)) = unat amt + unat (holder_balance (holder_of s' a)) \<and>
     (\<forall>b. b \<noteq> a \<longrightarrow> holder_of s' b = holder_of s b) \<and>
     (\<forall>b. accrued st' (holder_of s' b) = accrued st (holder_of s b))"
  using lib run
proof (cases rule: execute_decrease_balance_ok)
  case (1 a st h' tot)
  let ?st' = "st\<lparr>total_balance := tot\<rparr>"
  have h: "holder_of s' b = (if b = a then h' else holder_of s b)" for b
    using holder_of_set [of s' a h' s] 1(7) by simp
  have eq: "accrued ?st' = accrued st" by (rule ext) (simp add: accrued_def)
  have "\<forall>b. accrued ?st' (holder_of s' b) = accrued st (holder_of s b)"
    unfolding eq h using 1(4,5) by (simp add: accrued_settled)
  moreover have "reward_STATE s' = Some ?st'" "total_balance ?st' = tot" using 1(7) by simp_all
  ultimately show ?thesis using 1(1,2,3,6) h by metis
qed

lemma example_decreased:
  "\<exists>resp. execute_decrease_balance example_deps (example_info ''token'') ''a'' 30
     (example_reward 7142857142857142857 70 500 [([97], example_holder 70 0 0)]) =
     Ok (example_reward 7142857142857142857 40 500 [([97], example_holder 40 7142857142857142857 499999999999999999990)], resp)"
  by (simp add: execute_decrease_balance_def example_reward_eval example_querier_def char_of_def bit_0)

text \<open>
  C19.  Crediting and debiting tokens change one balance and the total by the amount, which for a debit the
  balance has to cover; no other holder's record changes, and nobody's claim.
\<close>

theorem balance_changes_keep_claims:
  assumes lib: "reward_lib (dlib d)" and run: "reward_execute d e info m s = Ok (s', resp)"
    and m: "m = IncreaseBalance address amt \<or> m = DecreaseBalance address amt"
  shows "\<exists>a st st'. addr_canonicalize (dapi d) address = Ok a \<and> reward_STATE s = Some st \<and> reward_STATE s' = Some st' \<and>
     (if m = IncreaseBalance address amt
      then unat (total_balance st') = unat (total_balance st) + unat amt \<and>
           unat (holder_balance (holder_of s' a)) = unat (holder_balance (holder_of s a)) + unat amt
      else unat (total_balance st) = unat amt + unat (total_balance st') \<and>
           unat (holder_balance (holder_of s a)) = unat amt + unat (holder_balance (holder_of s' a))) \<and>
     (\<forall>b. b \<noteq> a \<longrightarrow> holder_of s' b = holder_of s b) \<and>
     (\<forall>b. accrued st' (holder_of s' b) = accrued st (holder_of s b))"
  using m
proof
  assume "m = IncreaseBalance address amt"
  with run increase_keeps_claims [OF lib] show ?thesis by (simp add: reward_execute_def)
next
  assume "m = DecreaseBalance address amt"
  with run decrease_keeps_claims [OF lib] show ?thesis by (simp add: reward_execute_def)
qed

theorem balance_changes_keep_claims_witness:
  "\<exists>s' st'. reward_STATE s' = Some st' \<and> unat (total_balance st') = 40 \<and> accrued st' (holder_of s' [97]) = 499999999999999999990"
proof -
  let ?s = "example_reward 7142857142857142857 70 500 [([97], example_holder 70 0 0)]"
  obtain s' resp where r: "reward_execute example_deps example_env (example_info ''token'') (DecreaseBalance ''a'' 30) ?s = Ok (s', resp)"
    using example_decreased by (auto simp: reward_execute_def)
  have "reward_lib (dlib example_deps)" by (simp add: std_reward.reward_lib_axioms)
  from balance_changes_keep_claims [OF this r] obtain st st' where "reward_STATE ?s = Some st" "reward_STATE s' = Some st'"
    "unat (total_balance st) = 30 + unat (total_balance st')" "accrued st' (holder_of s' [97]) = accrued st (holder_of ?s [97])"
    by auto
  moreover have "accrued \<lparr>global_index = Decimal 7142857142857142857, total_balance = 70, prev_reward_balance = 500\<rparr>
      (holder_of ?s [97]) = 499999999999999999990"
    by (simp add: accrued_def holder_of_def store_get_def example_reward_def example_holder_def)
  ultimately show ?thesis by (intro exI [of _ s'] exI [of _ st']) (auto simp: example_reward_def)
qed


section \<open>Authorisation\<close>

text \<open>
  C21.  Only the token registered with the hub can change balances, and only the hub can swap rewards or
  update the global index: every other sender's message fails.
\<close>

theorem reward_authorised:
  assumes run: "reward_execute d e info msg s = Ok (s', resp)"
    and msg: "\<forall>recipient. msg \<noteq> ClaimRewards recipient"
  shows "\<exists>c. reward_CONFIG s = Some c \<and>
     (if msg \<in> {SwapToRewardDenom, RewardUpdateGlobalIndex}
      then addr_canonicalize (dapi d) (sender info) = Ok (rc_hub_contract c)
      else \<exists>hub token. addr_humanize (dapi d) (rc_hub_contract c) = Ok hub \<and>
             query_token_contract d hub = Ok token \<and>
             (addr_humanize (dapi d) token = Ok (sender info) \<or>
              addr_canonicalize (dapi d) (sender info) = Ok token))"
proof (cases msg)
  case (IncreaseBalance address amt)
  then show ?thesis using run by (auto simp: reward_execute_def execute_increase_balance_def)
next
  case (DecreaseBalance address amt)
  then show ?thesis using run by (auto simp: reward_execute_def execute_decrease_balance_def)
next
  case SwapToRewardDenom
  then show ?thesis using run by (auto simp: reward_execute_def execute_swap_def)
next
  case RewardUpdateGlobalIndex
  then show ?thesis using run by (auto simp: reward_execute_def execute_update_global_index_def)
qed (use msg in auto)

theorem reward_authorised_witness:
  "addr_canonicalize example_api ''hub'' = Ok (rc_hub_contract example_config)"
proof -
  obtain s' resp where r: "reward_execute example_deps example_env (example_info ''hub'') RewardUpdateGlobalIndex
     (example_reward 0 70 0 [([97], example_holder 70 0 0)]) = Ok (s', resp)"
    using example_updated by blast
  show ?thesis using reward_authorised [OF r] by (simp add: example_reward_def example_info_def)
qed

end
