(* ===== verification/Registry_Properties.thy ===== *)
theory Registry_Properties
  imports Airdrop_Registry Example_Chain
begin

text \<open>
  The registry's invariant and its properties.  Seen from outside the registry is a finite map from
  airdrop tokens to their contracts; the list of tokens in the configuration and the stored entries are
  two views of its domain that every operation keeps in step.
\<close>

section \<open>Invariant\<close>

definition registry_inv :: "lib \<Rightarrow> registry_storage \<Rightarrow> bool" where
  "registry_inv l s \<longleftrightarrow>
     store_ok (AIRDROP_INFO s) \<and> store_sorted (json_string l) (AIRDROP_INFO s) \<and>
     (case registry_CONFIG s of
        None \<Rightarrow> AIRDROP_INFO s = []
      | Some c \<Rightarrow> distinct (airdrop_tokens c) \<and> set (airdrop_tokens c) = fst ` set (AIRDROP_INFO s))"

abbreviation infos :: "registry_storage \<Rightarrow> string \<Rightarrow> airdrop_info option" where
  "infos s t \<equiv> store_get t (AIRDROP_INFO s)"

lemma registry_read_config_ok [simp]: "registry_read_config s = Ok c \<longleftrightarrow> registry_CONFIG s = Some c"
  by (simp add: registry_read_config_def)

lemma read_airdrop_info_ok [simp]: "read_airdrop_info s t = Ok ai \<longleftrightarrow> infos s t = Some ai"
  by (simp add: read_airdrop_info_def)

lemma is_ok_read_airdrop_info [simp]: "is_ok (read_airdrop_info s t) \<longleftrightarrow> infos s t \<noteq> None"
  by (simp add: is_ok_iff)

lemma keys_of_store: "t \<in> fst ` set m \<longleftrightarrow> store_get t m \<noteq> None"
  by (simp add: store_get_def map_of_eq_None_iff)

lemma store_set_keys: "fst ` set (store_set enc k v m) = insert k (fst ` set m)"
  by (auto simp: store_set_set store_remove_def image_iff)

lemma store_remove_keys: "fst ` set (store_remove k m) = fst ` set m - {k}"
  by (auto simp: store_remove_def)

text \<open>What a successful message did.\<close>

lemma registry_update_config_ok:
  assumes "registry_update_config d info ow hub rw s = Ok (s', resp)"
  shows "\<exists>c c' raw. registry_CONFIG s = Some c \<and> addr_canonicalize (dapi d) (sender info) = Ok raw \<and>
     raw = gc_owner c \<and> airdrop_tokens c' = airdrop_tokens c \<and> s' = s\<lparr>registry_CONFIG := Some c'\<rparr>"
proof -
  obtain c c1 where c: "registry_CONFIG s = Some c" "addr_canonicalize (dapi d) (sender info) = Ok (gc_owner c)"
    and c1: "(case ow of None \<Rightarrow> Ok c
        | Some w \<Rightarrow> and_then (addr_canonicalize (dapi d) w) (\<lambda>owner_raw. Ok (c\<lparr>gc_owner := owner_raw\<rparr>))) = Ok c1"
    and s': "s' = s\<lparr>registry_CONFIG := Some
       (let c2 = (case hub of None \<Rightarrow> c1 | Some h \<Rightarrow> c1\<lparr>gc_hub_contract := h\<rparr>)
        in case rw of None \<Rightarrow> c2 | Some r \<Rightarrow> c2\<lparr>gc_reward_contract := r\<rparr>)\<rparr>" (is "_ = s\<lparr>registry_CONFIG := Some ?c3\<rparr>")
    using assms by (auto simp: registry_update_config_def registry_store_config_def Let_def)
  have "airdrop_tokens c1 = airdrop_tokens c" using c1 by (auto split: option.splits)
  then have "airdrop_tokens ?c3 = airdrop_tokens c" by (auto simp: Let_def split: option.splits)
  then show ?thesis using c s' by blast
qed

lemma registry_execute_ok:
  assumes "registry_execute d info msg s = Ok (s', resp)"
  obtains (fabricated) "s' = s" "\<exists>stage amt pf. msg = FabricateMIRClaim stage amt pf \<or> msg = FabricateANCClaim stage amt pf"
  | (configured) c c' raw where "registry_CONFIG s = Some c" "addr_canonicalize (dapi d) (sender info) = Ok raw"
      "raw = gc_owner c" "airdrop_tokens c' = airdrop_tokens c" "s' = s\<lparr>registry_CONFIG := Some c'\<rparr>"
      "\<exists>ow hub rw. msg = RegistryUpdateConfig ow hub rw"
  | (added) c raw t ai where "registry_CONFIG s = Some c" "addr_canonicalize (dapi d) (sender info) = Ok raw"
      "raw = gc_owner c" "msg = AddAirdropInfo t ai" "infos s t = None"
      "s' = \<lparr>registry_CONFIG = Some (c\<lparr>airdrop_tokens := airdrop_tokens c @ [t]\<rparr>),
             AIRDROP_INFO = store_set (json_string (dlib d)) t ai (AIRDROP_INFO s)\<rparr>"
  | (updated) c raw t ai where "registry_CONFIG s = Some c" "addr_canonicalize (dapi d) (sender info) = Ok raw"
      "raw = gc_owner c" "msg = UpdateAirdropInfo t ai" "infos s t \<noteq> None"
      "s' = s\<lparr>AIRDROP_INFO := store_set (json_string (dlib d)) t ai (AIRDROP_INFO s)\<rparr>"
  | (removed) c raw t where "registry_CONFIG s = Some c" "addr_canonicalize (dapi d) (sender info) = Ok raw"
      "raw = gc_owner c" "msg = RemoveAirdropInfo t" "infos s t \<noteq> None"
      "s' = \<lparr>registry_CONFIG = Some (c\<lparr>airdrop_tokens := filter (\<lambda>x. x \<noteq> t) (airdrop_tokens c)\<rparr>),
             AIRDROP_INFO = store_remove t (AIRDROP_INFO s)\<rparr>"
proof (cases msg)
  case (FabricateMIRClaim stage amt pf)
  then show ?thesis using assms fabricated by (auto simp: registry_execute_def execute_fabricate_mir_claim_def)
next
  case (FabricateANCClaim stage amt pf)
  then show ?thesis using assms fabricated by (auto simp: registry_execute_def execute_fabricate_anchor_claim_def)
next
  case (RegistryUpdateConfig ow hub rw)
  then have "registry_update_config d info ow hub rw s = Ok (s', resp)" using assms by (simp add: registry_execute_def)
  from registry_update_config_ok [OF this] show ?thesis using configured RegistryUpdateConfig by metis
next
  case (AddAirdropInfo t ai)
  then show ?thesis using assms added
    by (auto simp: registry_execute_def execute_add_airdrop_def registry_update_tokens_def store_airdrop_info_def
        split: if_splits)
next
  case (UpdateAirdropInfo t ai)
  then show ?thesis using assms updated
    by (auto simp: registry_execute_def execute_update_airdrop_def update_airdrop_info_def split: if_splits)
next
  case (RemoveAirdropInfo t)
  then show ?thesis using assms removed
    by (auto simp: registry_execute_def execute_remove_airdrop_def registry_update_tokens_def remove_airdrop_info_def
        split: if_splits)
qed

lemma registry_execute_inv:
  assumes "registry_execute d info msg s = Ok (s', resp)" and inv: "registry_inv (dlib d) s"
  shows "registry_inv (dlib d) s'"
  using assms(1)
proof (cases rule: registry_execute_ok)
  case (added c raw t ai)
  then have "t \<notin> set (airdrop_tokens c)" using inv by (simp add: registry_inv_def keys_of_store)
  with added inv show ?thesis
    by (simp add: registry_inv_def store_ok_set store_sorted_set store_set_keys)
next
  case (updated c raw t ai)
  then have "t \<in> fst ` set (AIRDROP_INFO s)" by (simp add: keys_of_store)
  with updated inv show ?thesis
    by (simp add: registry_inv_def store_ok_set store_sorted_set store_set_keys insert_absorb)
next
  case (removed c raw t)
  with inv show ?thesis
    by (auto simp: registry_inv_def store_ok_remove store_sorted_remove store_remove_keys)
qed (use inv in \<open>simp_all add: registry_inv_def\<close>)

text \<open>The states the registry can reach.\<close>

inductive registry_reachable :: "lib \<Rightarrow> registry_storage \<Rightarrow> bool" for l :: lib where
  registry_instantiated: "registry_instantiate d info msg empty_registry_storage = Ok (s, resp) \<Longrightarrow> registry_reachable l s"
| registry_executed: "registry_reachable l s \<Longrightarrow> dlib d = l \<Longrightarrow> registry_execute d info msg s = Ok (s', resp) \<Longrightarrow>
     registry_reachable l s'"

lemma registry_reachable_inv: "registry_reachable l s \<Longrightarrow> registry_inv l s \<and> registry_CONFIG s \<noteq> None"
proof (induction rule: registry_reachable.induct)
  case (registry_instantiated d info msg s resp)
  then show ?case
    by (auto simp: registry_instantiate_def registry_store_config_def empty_registry_storage_def registry_inv_def
        store_ok_def store_sorted_def)
next
  case (registry_executed s d info msg s' resp)
  then have "registry_inv l s'" using registry_execute_inv by blast
  moreover have "registry_CONFIG s' \<noteq> None"
    using registry_executed(3,4) by (cases rule: registry_execute_ok) auto
  ultimately show ?case by blast
qed

section \<open>A registry in use\<close>

definition example_airdrop :: airdrop_info where
  "example_airdrop = \<lparr>airdrop_token_contract = ''mir'', airdrop_contract = ''mirdrop'', airdrop_swap_contract = ''mirpair'',
     swap_belief_price = None, swap_max_spread = None\<rparr>"

definition example_registry_config :: registry_config where
  "example_registry_config = \<lparr>gc_owner = [111], gc_hub_contract = ''hub'', gc_reward_contract = ''reward'', airdrop_tokens = []\<rparr>"

definition example_registry :: registry_storage where
  "example_registry = \<lparr>registry_CONFIG = Some (example_registry_config\<lparr>airdrop_tokens := [''MIR'']\<rparr>),
     AIRDROP_INFO = [(''MIR'', example_airdrop)]\<rparr>"

lemma example_registered:
  "registry_execute example_deps (example_info ''o'') (AddAirdropInfo ''MIR'' example_airdrop)
     \<lparr>registry_CONFIG = Some example_registry_config, AIRDROP_INFO = []\<rparr> =
   Ok (example_registry, \<lparr>messages = [], attributes = [(''action'', AttrStr ''add_airdrop_info''), (''airdrop_token'', AttrStr ''MIR'')]\<rparr>)"
  by (simp add: registry_execute_def execute_add_airdrop_def registry_read_config_def example_info_def example_api_eval
      example_registry_config_def example_registry_def registry_update_tokens_def store_airdrop_info_def store_get_def
      store_set_def store_remove_def)

lemma example_registry_instantiated:
  "registry_instantiate example_deps (example_info ''o'') \<lparr>gim_hub_contract = ''hub'', gim_reward_contract = ''reward''\<rparr>
     empty_registry_storage = Ok (\<lparr>registry_CONFIG = Some example_registry_config, AIRDROP_INFO = []\<rparr>, empty_response)"
  by (simp add: registry_instantiate_def registry_store_config_def example_info_def example_api_eval
      example_registry_config_def empty_registry_storage_def)

lemma example_registry_reachable: "registry_reachable std_lib example_registry"
  by (rule registry_executed [OF registry_instantiated [OF example_registry_instantiated] _ example_registered]) simp


section \<open>Properties\<close>

text \<open>
  C30.  In every reachable state the list of airdrop tokens in the registry's configuration names exactly
  the tokens for which contracts are stored, each once.
\<close>

theorem registry_listing_exact:
  assumes "registry_reachable l s"
  shows "\<exists>c. registry_CONFIG s = Some c \<and> distinct (airdrop_tokens c) \<and>
     (\<forall>t. t \<in> set (airdrop_tokens c) \<longleftrightarrow> store_get t (AIRDROP_INFO s) \<noteq> None)"
  using registry_reachable_inv [OF assms] by (auto simp: registry_inv_def keys_of_store)

theorem registry_listing_exact_witness:
  "\<exists>c. registry_CONFIG example_registry = Some c \<and> distinct (airdrop_tokens c) \<and> ''MIR'' \<in> set (airdrop_tokens c) \<and>
     ''ANC'' \<notin> set (airdrop_tokens c)"
proof -
  have "store_get ''MIR'' (AIRDROP_INFO example_registry) \<noteq> None" "store_get ''ANC'' (AIRDROP_INFO example_registry) = None"
    by (simp_all add: example_registry_def store_get_def)
  then show ?thesis using registry_listing_exact [OF example_registry_reachable] by blast
qed

text \<open>The abstract registry: a map, and which changes of it are refused.\<close>

fun registry_spec ::
    "registry_execute_msg \<Rightarrow> (string \<rightharpoonup> airdrop_info) \<Rightarrow> (string \<rightharpoonup> airdrop_info) option" where
  "registry_spec (AddAirdropInfo t ai) m = (if m t = None then Some (m(t \<mapsto> ai)) else None)"
| "registry_spec (UpdateAirdropInfo t ai) m = (if m t = None then None else Some (m(t \<mapsto> ai)))"
| "registry_spec (RemoveAirdropInfo t) m = (if m t = None then None else Some (m(t := None)))"
| "registry_spec _ m = Some m"

fun changes_infos :: "registry_execute_msg \<Rightarrow> bool" where
  "changes_infos (AddAirdropInfo t ai) = True"
| "changes_infos (UpdateAirdropInfo t ai) = True"
| "changes_infos (RemoveAirdropInfo t) = True"
| "changes_infos _ = False"

text \<open>
  C29.  For its owner the registry implements a finite map: adding, updating and removing succeed exactly
  when the map allows it (a new token, a known token, a known token), change the map accordingly, send
  nothing, and keep owner, hub and reward address; otherwise they return an error.
\<close>

theorem registry_refines_map:
  assumes config: "registry_CONFIG s = Some c" and owner: "addr_canonicalize (dapi d) (sender info) = Ok (gc_owner c)"
    and msg: "changes_infos msg"
  shows "case registry_spec msg (\<lambda>t. store_get t (AIRDROP_INFO s)) of
      None \<Rightarrow> (\<exists>text. registry_execute d info msg s = Err (GenericErr text))
    | Some m \<Rightarrow> (\<exists>s' resp tokens. registry_execute d info msg s = Ok (s', resp) \<and> messages resp = [] \<and>
        (\<lambda>t. store_get t (AIRDROP_INFO s')) = m \<and> registry_CONFIG s' = Some (c\<lparr>airdrop_tokens := tokens\<rparr>))"
proof -
  have ok: "registry_read_config s = Ok c" "load_item ''Config'' (registry_CONFIG s) = Ok c" using config by simp_all
  show ?thesis
  proof (cases msg)
    case (AddAirdropInfo t ai)
    then show ?thesis
      by (auto simp: registry_execute_def execute_add_airdrop_def ok owner registry_update_tokens_def
          store_airdrop_info_def store_get_set)
  next
    case (UpdateAirdropInfo t ai)
    then show ?thesis using config
      by (auto simp: registry_execute_def execute_update_airdrop_def ok owner update_airdrop_info_def store_get_set
          intro: exI [of _ "airdrop_tokens c"])
  next
    case (RemoveAirdropInfo t)
    then show ?thesis
      by (auto simp: registry_execute_def execute_remove_airdrop_def ok owner registry_update_tokens_def
          remove_airdrop_info_def store_get_remove)
  qed (use msg in simp_all)
qed

theorem registry_refines_map_witness:
  "\<exists>s' resp. registry_execute example_deps (example_info ''o'') (RemoveAirdropInfo ''MIR'') example_registry = Ok (s', resp) \<and>
     store_get ''MIR'' (AIRDROP_INFO s') = None"
proof -
  have c: "registry_CONFIG example_registry = Some (example_registry_config\<lparr>airdrop_tokens := [''MIR'']\<rparr>)"
    "store_get ''MIR'' (AIRDROP_INFO example_registry) = Some example_airdrop"
    by (simp_all add: example_registry_def store_get_def)
  have o: "addr_canonicalize (dapi example_deps) (sender (example_info ''o'')) =
      Ok (gc_owner (example_registry_config\<lparr>airdrop_tokens := [''MIR'']\<rparr>))"
    by (simp add: example_info_def example_api_eval example_registry_config_def)
  show ?thesis
    using registry_refines_map [OF c(1) o, of "RemoveAirdropInfo ''MIR''"] c(2) by (auto dest!: fun_cong [where x = "''MIR''"])
qed

text \<open>
  Only the owner changes the registry: whoever sends a message that changes the storage has the
  owner's canonical address; anybody may have a claim fabricated.
\<close>

lemma registry_owner_only:
  assumes run: "registry_execute d info msg s = Ok (s', resp)" and change: "s' \<noteq> s"
  shows "\<exists>c. registry_CONFIG s = Some c \<and> addr_canonicalize (dapi d) (sender info) = Ok (gc_owner c)"
  using run change by (cases rule: registry_execute_ok) auto

text \<open>
  A client that asks for pages of airdrop infos, each time behind the last token of the page before,
  gets every stored info exactly once, in the order of the store, whatever positive limit it asks for.
\<close>

lemma registry_pages_complete:
  assumes json: "json_text (dlib d)" and reach: "registry_reachable (dlib d) s"
    and n: "0 < n" and rounds: "length (AIRDROP_INFO s) \<le> rounds"
  shows "page_walk (\<lambda>start. and_then (query_airdrop_infos d s None start (Some n)) (\<lambda>r. Ok (air_airdrop_info r)))
       elem_token rounds None =
     Ok (map (\<lambda>(t, ai). \<lparr>elem_token = t, elem_info = ai\<rparr>) (AIRDROP_INFO s))"
proof -
  have inv: "store_ok (AIRDROP_INFO s)" "store_sorted (json_string (dlib d)) (AIRDROP_INFO s)"
    using registry_reachable_inv [OF reach] by (simp_all add: registry_inv_def)
  have lim: "0 < unat (min n 30)" using n by (auto simp: min_def unat_gt_0)
  show ?thesis
    by (rule json_text.walk_json_pages [OF json inv _ _ _ lim rounds])
      (auto simp: query_airdrop_infos_def read_all_airdrop_infos_def registry_calc_range_start_def split: option.splits)
qed


end
