(* ===== verification/Reward_Storage.thy ===== *)
theory Reward_Storage
  imports Contract_Keys Reward_Properties Registry_Properties
begin

text \<open>
  The storages of the reward contract and of the airdrop registry on the chain, in the way
  \<open>Hub_Storage\<close> treats the hub: the keys of their items and of the entries of their maps, the functions of
  \<open>state.rs\<close> as reads, writes and ranges at these keys, and the pages of the holders' list.
\<close>

section \<open>The reward contract's keys\<close>

definition REWARD_STATE_KEY :: "byte list" where
  "REWARD_STATE_KEY = [0, 5] @ literal_bytes ''state''"

definition REWARD_CONFIG_KEY :: "byte list" where
  "REWARD_CONFIG_KEY = [0, 6] @ literal_bytes ''config''"

definition HOLDERS_NAMESPACE :: "byte list" where
  "HOLDERS_NAMESPACE = literal_bytes ''holders''"

datatype reward_slot =
    RewardConfigSlot
  | RewardStateSlot
  | HolderSlot canonical_addr

datatype reward_value =
    RewardConfigValue reward_config
  | RewardStateValue reward_state
  | HolderValue holder

fun reward_key :: "lib \<Rightarrow> reward_slot \<Rightarrow> byte list" where
  "reward_key l RewardConfigSlot = REWARD_CONFIG_KEY"
| "reward_key l RewardStateSlot = REWARD_STATE_KEY"
| "reward_key l (HolderSlot a) = to_length_prefixed l HOLDERS_NAMESPACE @ a"

fun reward_cell :: "reward_storage \<Rightarrow> reward_slot \<Rightarrow> reward_value option" where
  "reward_cell s RewardConfigSlot = map_option RewardConfigValue (reward_CONFIG s)"
| "reward_cell s RewardStateSlot = map_option RewardStateValue (reward_STATE s)"
| "reward_cell s (HolderSlot a) = map_option HolderValue (store_get a (HOLDERS s))"

definition reward_stored :: "lib \<Rightarrow> reward_storage \<Rightarrow> (byte list, reward_value) store \<Rightarrow> bool" where
  "reward_stored l s raw \<longleftrightarrow> stored_at (reward_key l) (\<lambda>_. True) (reward_cell s) raw"


section \<open>The registry's keys\<close>

definition REGISTRY_CONFIG_KEY :: "byte list" where
  "REGISTRY_CONFIG_KEY = [0, 6] @ literal_bytes ''config''"

definition AIRDROP_INFO_NAMESPACE :: "byte list" where
  "AIRDROP_INFO_NAMESPACE = literal_bytes ''airdrop_info''"

datatype registry_slot =
    RegistryConfigSlot
  | AirdropInfoSlot string

datatype registry_value =
    RegistryConfigValue registry_config
  | AirdropInfoValue airdrop_info

fun registry_key :: "lib \<Rightarrow> registry_slot \<Rightarrow> byte list" where
  "registry_key l RegistryConfigSlot = REGISTRY_CONFIG_KEY"
| "registry_key l (AirdropInfoSlot t) = to_length_prefixed l AIRDROP_INFO_NAMESPACE @ json_string l t"

fun registry_cell :: "registry_storage \<Rightarrow> registry_slot \<Rightarrow> registry_value option" where
  "registry_cell s RegistryConfigSlot = map_option RegistryConfigValue (registry_CONFIG s)"
| "registry_cell s (AirdropInfoSlot t) = map_option AirdropInfoValue (store_get t (AIRDROP_INFO s))"

definition registry_stored :: "lib \<Rightarrow> registry_storage \<Rightarrow> (byte list, registry_value) store \<Rightarrow> bool" where
  "registry_stored l s raw \<longleftrightarrow> stored_at (registry_key l) (\<lambda>_. True) (registry_cell s) raw"


section \<open>Separation\<close>

context length_prefix
begin

lemma map_item_keys:
  "REWARD_CONFIG_KEY = to_length_prefixed l (literal_bytes ''config'')"
  "REWARD_STATE_KEY = to_length_prefixed l (literal_bytes ''state'')"
  "REGISTRY_CONFIG_KEY = to_length_prefixed l (literal_bytes ''config'')"
  by (simp_all add: REWARD_CONFIG_KEY_def REWARD_STATE_KEY_def REGISTRY_CONFIG_KEY_def item_key [symmetric] numeral_2_eq_2)

lemmas map_names = map_item_keys HOLDERS_NAMESPACE_def AIRDROP_INFO_NAMESPACE_def

lemma reward_key_inj: "reward_key l a = reward_key l b \<Longrightarrow> a = b"
  by (cases a; cases b) (simp_all add: map_names prefixed_simps)

lemma reward_namespace:
  "prefix (to_length_prefixed l HOLDERS_NAMESPACE) (reward_key l slot) \<longleftrightarrow> (\<exists>a. slot = HolderSlot a)"
  by (cases slot) (simp_all add: map_names prefixed_simps)

end

sublocale length_prefix \<subseteq> reward_layout: storage_layout "reward_key l" "\<lambda>_. True"
  by unfold_locales (rule reward_key_inj)

context storage_text
begin

lemma registry_key_inj: "registry_key l a = registry_key l b \<Longrightarrow> a = b"
  by (cases a; cases b) (simp_all add: map_names prefixed_simps json_string_inj)

lemma registry_namespace:
  "prefix (to_length_prefixed l AIRDROP_INFO_NAMESPACE) (registry_key l slot) \<longleftrightarrow> (\<exists>t. slot = AirdropInfoSlot t)"
  by (cases slot) (simp_all add: map_names prefixed_simps)

end

sublocale storage_text \<subseteq> registry_layout: storage_layout "registry_key l" "\<lambda>_. True"
  by unfold_locales (rule registry_key_inj)


section \<open>Reads, writes and ranges\<close>

lemma reward_cells:
  "reward_cell (s\<lparr>reward_CONFIG := Some c\<rparr>) = (reward_cell s)(RewardConfigSlot \<mapsto> RewardConfigValue c)"
  "reward_cell (s\<lparr>reward_STATE := Some st\<rparr>) = (reward_cell s)(RewardStateSlot \<mapsto> RewardStateValue st)"
  "reward_cell (s\<lparr>HOLDERS := store_set id a h (HOLDERS s)\<rparr>) = (reward_cell s)(HolderSlot a \<mapsto> HolderValue h)"
  by (rule ext, rename_tac slot, case_tac slot, auto simp: store_get_set)+

lemma registry_cells:
  "registry_cell (s\<lparr>registry_CONFIG := Some c\<rparr>) = (registry_cell s)(RegistryConfigSlot \<mapsto> RegistryConfigValue c)"
  "registry_cell (s\<lparr>AIRDROP_INFO := store_set enc t i (AIRDROP_INFO s)\<rparr>) =
     (registry_cell s)(AirdropInfoSlot t \<mapsto> AirdropInfoValue i)"
  "registry_cell (s\<lparr>AIRDROP_INFO := store_remove t (AIRDROP_INFO s)\<rparr>) = (registry_cell s)(AirdropInfoSlot t := None)"
  by (rule ext, rename_tac slot, case_tac slot, auto simp: store_get_set store_get_remove)+

definition reward_ordered :: "reward_storage \<Rightarrow> bool" where
  "reward_ordered s \<longleftrightarrow> store_ok (HOLDERS s) \<and> store_sorted id (HOLDERS s)"

context length_prefix
begin

lemma reward_writes:
  assumes "reward_stored l s raw"
  shows "reward_store_config c s = Ok s' \<Longrightarrow> reward_stored l s' (store_set id REWARD_CONFIG_KEY (RewardConfigValue c) raw)"
    and "store_state st s = Ok s' \<Longrightarrow> reward_stored l s' (store_set id REWARD_STATE_KEY (RewardStateValue st) raw)"
    and "store_holder a h s = Ok s' \<Longrightarrow>
      reward_stored l s' (store_set id (to_length_prefixed l HOLDERS_NAMESPACE @ a) (HolderValue h) raw)"
  using reward_layout.stored_set [OF assms [unfolded reward_stored_def] TrueI, of RewardConfigSlot]
    reward_layout.stored_set [OF assms [unfolded reward_stored_def] TrueI, of RewardStateSlot]
    reward_layout.stored_set [OF assms [unfolded reward_stored_def] TrueI, of "HolderSlot a"]
  by (auto simp: reward_stored_def reward_cells reward_store_config_def)

lemma reward_reads:
  assumes "reward_stored l s raw"
  shows "store_get REWARD_CONFIG_KEY raw = map_option RewardConfigValue (reward_CONFIG s)"
    and "store_get REWARD_STATE_KEY raw = map_option RewardStateValue (reward_STATE s)"
    and "store_get (to_length_prefixed l HOLDERS_NAMESPACE @ a) raw = map_option HolderValue (store_get a (HOLDERS s))"
  using reward_layout.stored_get [OF assms [unfolded reward_stored_def] TrueI, of RewardConfigSlot]
    reward_layout.stored_get [OF assms [unfolded reward_stored_def] TrueI, of RewardStateSlot]
    reward_layout.stored_get [OF assms [unfolded reward_stored_def] TrueI, of "HolderSlot a"]
  by simp_all

lemma reward_range:
  assumes "reward_stored l s raw" and "reward_ordered s"
  shows "raw_range (to_length_prefixed l HOLDERS_NAMESPACE) raw = map (\<lambda>(a, h). (a, HolderValue h)) (HOLDERS s)"
  using reward_layout.stored_range [OF assms(1) [unfolded reward_stored_def], where enc = id and at = HolderSlot
      and m = "HOLDERS s" and val = HolderValue] assms(2) reward_namespace
  by (simp add: reward_ordered_def)

end

context storage_text
begin

lemma registry_writes:
  assumes "registry_stored l s raw"
  shows "registry_store_config c s = Ok s' \<Longrightarrow> registry_stored l s' (store_set id REGISTRY_CONFIG_KEY (RegistryConfigValue c) raw)"
    and "store_airdrop_info l t i s = Ok s' \<Longrightarrow>
      registry_stored l s' (store_set id (to_length_prefixed l AIRDROP_INFO_NAMESPACE @ json_string l t) (AirdropInfoValue i) raw)"
    and "update_airdrop_info l t i s = Ok s' \<Longrightarrow>
      registry_stored l s' (store_set id (to_length_prefixed l AIRDROP_INFO_NAMESPACE @ json_string l t) (AirdropInfoValue i) raw)"
    and "remove_airdrop_info t s = Ok s' \<Longrightarrow>
      registry_stored l s' (store_remove (to_length_prefixed l AIRDROP_INFO_NAMESPACE @ json_string l t) raw)"
  using registry_layout.stored_set [OF assms [unfolded registry_stored_def] TrueI, of RegistryConfigSlot]
    registry_layout.stored_set [OF assms [unfolded registry_stored_def] TrueI, of "AirdropInfoSlot t"]
    registry_layout.stored_remove [OF assms [unfolded registry_stored_def] TrueI, of "AirdropInfoSlot t"]
  by (auto simp: registry_stored_def registry_cells registry_store_config_def store_airdrop_info_def update_airdrop_info_def
      remove_airdrop_info_def)

lemma registry_reads:
  assumes "registry_stored l s raw"
  shows "store_get REGISTRY_CONFIG_KEY raw = map_option RegistryConfigValue (registry_CONFIG s)"
    and "store_get (to_length_prefixed l AIRDROP_INFO_NAMESPACE @ json_string l t) raw =
      map_option AirdropInfoValue (store_get t (AIRDROP_INFO s))"
  using registry_layout.stored_get [OF assms [unfolded registry_stored_def] TrueI, of RegistryConfigSlot]
    registry_layout.stored_get [OF assms [unfolded registry_stored_def] TrueI, of "AirdropInfoSlot t"]
  by simp_all

lemma registry_range:
  assumes "registry_stored l s raw" and "store_ok (AIRDROP_INFO s)" "store_sorted (json_string l) (AIRDROP_INFO s)"
  shows "raw_range (to_length_prefixed l AIRDROP_INFO_NAMESPACE) raw =
     map (\<lambda>(t, i). (json_string l t, AirdropInfoValue i)) (AIRDROP_INFO s)"
  using registry_layout.stored_range [OF assms(1) [unfolded registry_stored_def], where enc = "json_string l" and at = AirdropInfoSlot
      and m = "AIRDROP_INFO s" and val = AirdropInfoValue] assms(2,3) registry_namespace
  by (simp add: json_string_inj)

end


section \<open>Holders in order\<close>

lemma reward_execute_ordered:
  assumes "reward_execute d e info m s = Ok (s', resp)" and "reward_ordered s"
  shows "reward_ordered s'"
  using assms
  by (cases m)
    (auto simp: reward_execute_def execute_claim_rewards_def execute_increase_balance_def execute_decrease_balance_def
      execute_swap_def execute_update_global_index_def Let_def reward_ordered_def intro: store_ok_set store_sorted_set
      split: if_splits)

lemma reward_reachable_ordered:
  assumes "reward_reachable l ch"
  shows "reward_ordered (chain_storage ch)"
  using assms
proof (induction rule: reward_reachable.induct)
  case (instantiated d msg s resp n)
  then show ?case
    by (auto simp: reward_instantiate_def reward_store_config_def empty_reward_storage_def reward_ordered_def store_ok_def
        store_sorted_def)
next
  case (deposited ch n)
  then show ?case by simp
next
  case (executed ch d c e bal info msg s' resp)
  then show ?case using reward_execute_ordered by simp
qed


section \<open>Pages of holders\<close>

text \<open>
  What the paging relies on of the host's address functions: \<open>addr_humanize\<close> is the inverse of
  \<open>addr_canonicalize\<close>, and the human form of a canonical address is a valid address.
\<close>

locale host_addresses =
  fixes ap :: api
  assumes human_form: "addr_canonicalize ap a = Ok c \<Longrightarrow>
      \<exists>b. addr_humanize ap c = Ok b \<and> addr_canonicalize ap b = Ok c \<and> addr_validate ap b = Ok b"
begin

definition canonical_bytes :: "string \<Rightarrow> byte list" where
  "canonical_bytes a = (case addr_canonicalize ap a of Ok c \<Rightarrow> c | _ \<Rightarrow> [])"

definition human_text :: "byte list \<Rightarrow> string" where
  "human_text c = (case addr_humanize ap c of Ok a \<Rightarrow> a | _ \<Rightarrow> [])"

definition normal :: "string \<Rightarrow> bool" where
  "normal a \<longleftrightarrow> (\<exists>c. addr_canonicalize ap a = Ok c \<and> addr_humanize ap c = Ok a \<and> addr_validate ap a = Ok a)"

lemma normal_human:
  assumes "addr_canonicalize ap a = Ok c"
  shows "normal (human_text c)" "canonical_bytes (human_text c) = c" "addr_humanize ap c = Ok (human_text c)"
  using human_form [OF assms] by (auto simp: normal_def human_text_def canonical_bytes_def)

end

text \<open>
  A page starts strictly behind the last address with a zero byte appended.  Of all byte strings behind the
  address this leaves out just that one.
\<close>

lemma snoc_zero_less_iff: "u @ [0] < v \<longleftrightarrow> u < v \<and> v \<noteq> u @ [0]" for u v :: "byte list"
proof (induction u arbitrary: v)
  case Nil
  show ?case
  proof (cases v)
    case (Cons b w)
    then show ?thesis by (cases w) (auto simp: word_gt_0)
  qed simp
next
  case (Cons a u)
  then show ?case by (cases v) auto
qed

text \<open>So pages can be asked for over addresses none of which is another one with a zero byte appended.\<close>

definition zero_separated :: "byte list set \<Rightarrow> bool" where
  "zero_separated C \<longleftrightarrow> (\<forall>c\<in>C. c @ [0] \<notin> C)"

context host_addresses
begin

lemma address_pages:
  assumes "zero_separated C"
  shows "paging canonical_bytes (\<lambda>a b. canonical_bytes a @ [0] < b) (\<lambda>a. normal a \<and> canonical_bytes a \<in> C)"
proof
  show "normal a \<and> canonical_bytes a \<in> C \<Longrightarrow> normal b \<and> canonical_bytes b \<in> C \<Longrightarrow> canonical_bytes a = canonical_bytes b \<Longrightarrow> a = b" for a b
    by (auto simp: normal_def canonical_bytes_def)
  show "normal a \<and> canonical_bytes a \<in> C \<Longrightarrow> normal b \<and> canonical_bytes b \<in> C \<Longrightarrow>
      canonical_bytes a @ [0] < canonical_bytes b \<longleftrightarrow> canonical_bytes a < canonical_bytes b" for a b
    using assms by (auto simp: snoc_zero_less_iff zero_separated_def)
qed

end

text \<open>What the query answers for a holder.\<close>

definition holder_answer :: "api \<Rightarrow> canonical_addr \<times> holder \<Rightarrow> holder_response" where
  "holder_answer ap p = \<lparr>hr_address = (case addr_humanize ap (fst p) of Ok a \<Rightarrow> a | _ \<Rightarrow> []),
     hr_balance = holder_balance (snd p), hr_index = holder_index (snd p), hr_pending_rewards = pending_rewards (snd p)\<rparr>"

context host_addresses
begin

lemma page_answers:
  assumes "\<forall>p \<in> set hs. \<exists>a. addr_canonicalize ap a = Ok (fst p)"
  shows "map_res (\<lambda>(k, v). and_then (addr_humanize ap k) (\<lambda>address.
      Ok \<lparr>hr_address = address, hr_balance = holder_balance v, hr_index = holder_index v, hr_pending_rewards = pending_rewards v\<rparr>)) hs =
    Ok (map (holder_answer ap) hs)"
  using assms
proof (induction hs)
  case (Cons p hs)
  then obtain a where "addr_canonicalize ap a = Ok (fst p)" by auto
  from normal_human(3) [OF this] Cons show ?case by (simp add: holder_answer_def split_def)
qed simp

lemma holders_walk:
  assumes ap: "dapi d = ap" and ord: "reward_ordered s" and keys: "\<forall>p \<in> set (HOLDERS s). \<exists>a. addr_canonicalize ap a = Ok (fst p)"
    and sep: "zero_separated (fst ` set (HOLDERS s))"
    and k: "0 < k" and rounds: "length (HOLDERS s) \<le> rounds"
  shows "page_walk (\<lambda>start. and_then (query_holders d start (Some k) s) (\<lambda>r. Ok (hsr_holders r))) hr_address rounds None =
     Ok (map (holder_answer ap) (HOLDERS s))"
proof -
  let ?m = "map (\<lambda>p. (human_text (fst p), snd p)) (HOLDERS s)"
  let ?g = "\<lambda>p :: string \<times> holder. \<lparr>hr_address = fst p, hr_balance = holder_balance (snd p), hr_index = holder_index (snd p),
      hr_pending_rewards = pending_rewards (snd p)\<rparr>"
  let ?lim = "unat (min k REWARD_MAX_LIMIT)"
  define C where "C = fst ` set (HOLDERS s)"
  have inverse: "canonical_bytes (human_text (fst p)) = fst p"
    "normal (human_text (fst p)) \<and> canonical_bytes (human_text (fst p)) \<in> C" if "p \<in> set (HOLDERS s)" for p
    using keys that normal_human unfolding C_def by force+
  have ok: "store_ok ?m"
  proof -
    have d: "distinct (HOLDERS s)" "inj_on fst (set (HOLDERS s))"
      using ord by (simp_all add: reward_ordered_def store_ok_def distinct_map)
    have "inj_on (\<lambda>p. human_text (fst p)) (set (HOLDERS s))"
      using inverse(1) d(2) unfolding inj_on_def by metis
    with d(1)
    show ?thesis by (simp add: store_ok_def distinct_map comp_def)
  qed
  have sorted: "store_sorted canonical_bytes ?m"
    using ord inverse(1) unfolding reward_ordered_def store_sorted_def sorted_wrt_map
    by (auto elim: sorted_wrt_mono_rel [rotated])
  have query: "and_then (query_holders d c (Some k) s) (\<lambda>r. Ok (hsr_holders r)) =
      Ok (map ?g (take ?lim (case c of None \<Rightarrow> ?m | Some a \<Rightarrow> filter (\<lambda>p. canonical_bytes a @ [0] < canonical_bytes (fst p)) ?m)))"
    if c: "\<forall>a. c = Some a \<longrightarrow> normal a \<and> canonical_bytes a \<in> C" for c
  proof -
    define hs where "hs = take ?lim (case c of None \<Rightarrow> HOLDERS s | Some a \<Rightarrow> filter (\<lambda>p. canonical_bytes a @ [0] < fst p) (HOLDERS s))"
    have sub: "set hs \<subseteq> set (HOLDERS s)" unfolding hs_def by (auto split: option.splits dest!: in_set_takeD)
    have start: "reward_calc_range_start d c = Ok (map_option (\<lambda>a. canonical_bytes a @ [0]) c)"
      using c by (cases c) (auto simp: reward_calc_range_start_def ap normal_def canonical_bytes_def)
    have "map_res (\<lambda>(k, v). and_then (addr_humanize ap k) (\<lambda>address.
        Ok \<lparr>hr_address = address, hr_balance = holder_balance v, hr_index = holder_index v, hr_pending_rewards = pending_rewards v\<rparr>)) hs =
      Ok (map (holder_answer ap) hs)"
      by (rule page_answers) (use keys sub in blast)
    then have "read_holders d c (Some k) s = Ok (map (holder_answer ap) hs)"
      unfolding read_holders_def start Let_def hs_def ap by (cases c) simp_all
    moreover have "query_holders d c (Some k) s = and_then (read_holders d c (Some k) s) (\<lambda>holders. Ok \<lparr>hsr_holders = holders\<rparr>)"
      using c by (auto simp: query_holders_def ap normal_def split: option.splits)
    moreover have "map (holder_answer ap) hs = map ?g (map (\<lambda>p. (human_text (fst p), snd p)) hs)"
      by (simp add: holder_answer_def human_text_def)
    moreover have "map (\<lambda>p. (human_text (fst p), snd p)) hs =
        take ?lim (case c of None \<Rightarrow> ?m | Some a \<Rightarrow> filter (\<lambda>p. canonical_bytes a @ [0] < canonical_bytes (fst p)) ?m)"
      using inverse(1) by (auto simp: hs_def take_map filter_map comp_def split: option.splits intro!: arg_cong [where f = "take ?lim"] map_cong filter_cong)
    ultimately show ?thesis by simp
  qed
  have "0 < ?lim" using k by (auto simp: min_def unat_gt_0 REWARD_MAX_LIMIT_def)
  have valid: "\<forall>p\<in>set ?m. normal (fst p) \<and> canonical_bytes (fst p) \<in> C" using inverse(2) by auto
  have "page_walk (\<lambda>start. and_then (query_holders d start (Some k) s) (\<lambda>r. Ok (hsr_holders r))) hr_address rounds None = Ok (map ?g ?m)"
    by (rule paging.walk_all [OF address_pages [OF sep [folded C_def]] ok sorted valid query _ \<open>0 < ?lim\<close>]) (use rounds in simp_all)
  then show ?thesis by (simp add: holder_answer_def human_text_def comp_def)
qed

end


section \<open>Properties\<close>

text \<open>
  C38.  The functions of the reward contract's \<open>state.rs\<close> act on the flat storage through the keys of their
  own slots: the configuration, the state and every holder have a key that no other slot has, reading a
  holder reads the bytes stored for that address and an address without an entry has an empty record, and
  the range over the holders, on which the list query is based, is exactly the stored holders in the order
  of their addresses.
\<close>

theorem reward_storage_refined:
  assumes "length_prefix l" and "reward_reachable l' ch" and "reward_stored l (chain_storage ch) raw"
  shows "(\<forall>c s'. reward_store_config c (chain_storage ch) = Ok s' \<longrightarrow>
        reward_stored l s' (store_set id REWARD_CONFIG_KEY (RewardConfigValue c) raw)) \<and>
     (\<forall>st s'. store_state st (chain_storage ch) = Ok s' \<longrightarrow>
        reward_stored l s' (store_set id REWARD_STATE_KEY (RewardStateValue st) raw)) \<and>
     (\<forall>a h s'. store_holder a h (chain_storage ch) = Ok s' \<longrightarrow>
        reward_stored l s' (store_set id (to_length_prefixed l HOLDERS_NAMESPACE @ a) (HolderValue h) raw)) \<and>
     (\<forall>st. read_state (chain_storage ch) = Ok st \<longleftrightarrow> store_get REWARD_STATE_KEY raw = Some (RewardStateValue st)) \<and>
     (\<forall>a. read_holder (chain_storage ch) a = Ok (case store_get (to_length_prefixed l HOLDERS_NAMESPACE @ a) raw of
          Some (HolderValue h) \<Rightarrow> h
        | _ \<Rightarrow> \<lparr>holder_balance = 0, holder_index = decimal_zero, pending_rewards = decimal_zero\<rparr>)) \<and>
     raw_range (to_length_prefixed l HOLDERS_NAMESPACE) raw = map (\<lambda>(a, h). (a, HolderValue h)) (HOLDERS (chain_storage ch))"
  using length_prefix.reward_writes [OF assms(1,3)] length_prefix.reward_reads [OF assms(1,3)]
    length_prefix.reward_range [OF assms(1,3) reward_reachable_ordered [OF assms(2)]]
  by (intro conjI) (auto simp: holder_of_def split: option.splits)

lemma fresh_reward_stored:
  "\<exists>raw. reward_stored std_lib (example_reward 7142857142857142857 70 500 [([97], example_holder 70 0 0)]) raw"
proof -
  have "reward_cell empty_reward_storage = (\<lambda>_. None)"
    by (rule ext, rename_tac slot, case_tac slot) (simp_all add: empty_reward_storage_def store_get_def)
  then have "reward_stored std_lib empty_reward_storage []"
    using std_prefix.reward_layout.stored_empty by (simp add: reward_stored_def)
  from std_prefix.reward_writes(1) [OF this]
  have "reward_stored std_lib (empty_reward_storage\<lparr>reward_CONFIG := Some example_config\<rparr>)
      (store_set id REWARD_CONFIG_KEY (RewardConfigValue example_config) [])" by (simp add: reward_store_config_def)
  from std_prefix.reward_writes(3) [OF std_prefix.reward_writes(2) [OF this store_state_ok [THEN iffD2, OF refl]] store_holder_ok [THEN iffD2, OF refl],
      of "[97]" "example_holder 70 0 0" "\<lparr>global_index = Decimal 7142857142857142857, total_balance = 70, prev_reward_balance = 500\<rparr>"]
  show ?thesis by (auto simp: empty_reward_storage_def example_reward_def store_set_def [of id "[97]"] store_remove_def)
qed

theorem reward_storage_refined_witness:
  "\<exists>raw. reward_stored std_lib (example_reward 7142857142857142857 70 500 [([97], example_holder 70 0 0)]) raw \<and>
     raw_range (to_length_prefixed std_lib HOLDERS_NAMESPACE) raw = [([97], HolderValue (example_holder 70 0 0))]"
proof -
  obtain raw where raw: "reward_stored std_lib (example_reward 7142857142857142857 70 500 [([97], example_holder 70 0 0)]) raw"
    using fresh_reward_stored by blast
  with reward_storage_refined [OF std_prefix.length_prefix_axioms example_reachable, of raw] show ?thesis
    by (auto simp: example_reward_def)
qed

text \<open>
  C31.  A client that asks for pages of holders, each time behind the last address of the page before, gets
  every holder exactly once, in the order of the canonical addresses, whatever positive limit it asks for,
  provided that no holder's canonical address is another holder's with a zero byte appended (the one
  address the bound of \<open>calc_range_start\<close> leaves out) and that \<open>addr_humanize\<close> inverts \<open>addr_canonicalize\<close>
  on the holders' addresses.
\<close>

theorem holders_pages_complete:
  assumes "host_addresses (dapi d)" and "reward_reachable l ch"
    and "\<forall>p \<in> set (HOLDERS (chain_storage ch)). \<exists>a. addr_canonicalize (dapi d) a = Ok (fst p)"
    and "zero_separated (fst ` set (HOLDERS (chain_storage ch)))"
    and "0 < k" and "length (HOLDERS (chain_storage ch)) \<le> rounds"
  shows "page_walk (\<lambda>start. and_then (query_holders d start (Some k) (chain_storage ch)) (\<lambda>r. Ok (hsr_holders r)))
       hr_address rounds None =
     Ok (map (holder_answer (dapi d)) (HOLDERS (chain_storage ch)))"
  by (rule host_addresses.holders_walk [OF assms(1) refl reward_reachable_ordered [OF assms(2)] assms(3-6)])

text \<open>The addresses of the example chain are texts, canonical as their bytes.\<close>

interpretation bytes: host_addresses example_api
proof
  fix a c
  assume "addr_canonicalize example_api a = Ok c"
  then have c: "c = map (\<lambda>x. of_nat (of_char x)) a" and a: "a \<noteq> []" by (simp_all add: example_api_def split: if_splits)
  have "char_of (unat (of_nat (of_char x) :: byte)) = x" for x
  proof -
    have "(of_char x :: nat) < 256" using of_char_mod_256 [where ?'a = nat, of x] mod_less_divisor [of 256 "of_char x :: nat"] by simp
    then show ?thesis by (simp add: unat_of_nat)
  qed
  then have "addr_humanize example_api c = Ok a" by (simp add: c example_api_def comp_def)
  moreover have "addr_canonicalize example_api a = Ok c" "addr_validate example_api a = Ok a" using a by (simp_all add: c example_api_def)
  ultimately show "\<exists>b. addr_humanize example_api c = Ok b \<and> addr_canonicalize example_api b = Ok c \<and> addr_validate example_api b = Ok b"
    by blast
qed

theorem holders_pages_complete_witness:
  "page_walk (\<lambda>start. and_then (query_holders example_deps start (Some 1)
       (example_reward 7142857142857142857 70 500 [([97], example_holder 70 0 0)])) (\<lambda>r. Ok (hsr_holders r))) hr_address 5 None =
     Ok [\<lparr>hr_address = ''a'', hr_balance = 70, hr_index = Decimal 0, hr_pending_rewards = Decimal 0\<rparr>]"
proof -
  have "addr_canonicalize example_api ''a'' = Ok [97]" by (simp add: example_api_def)
  then have "\<forall>p \<in> set (HOLDERS (example_reward 7142857142857142857 70 500 [([97], example_holder 70 0 0)])).
      \<exists>a. addr_canonicalize example_api a = Ok (fst p)" by (auto simp: example_reward_def)
  moreover have "zero_separated (fst ` set (HOLDERS (example_reward 7142857142857142857 70 500 [([97], example_holder 70 0 0)])))"
    by (simp add: zero_separated_def example_reward_def)
  ultimately show ?thesis
    using holders_pages_complete [of example_deps _ _ 1 5, OF _ example_reachable] bytes.host_addresses_axioms
    by (simp add: example_reward_def holder_answer_def example_holder_def example_api_def char_of_def bit_0)
qed

text \<open>
  The condition is needed: of two holders whose addresses differ in a zero byte at the end, pages of one
  entry show the first only.
\<close>

lemma zero_byte_holder_skipped:
  "page_walk (\<lambda>start. and_then (query_holders example_deps start (Some 1)
       (example_reward 0 90 0 [([97], example_holder 70 0 0), ([97, 0], example_holder 20 0 0)])) (\<lambda>r. Ok (hsr_holders r))) hr_address 5 None =
     Ok [\<lparr>hr_address = ''a'', hr_balance = 70, hr_index = Decimal 0, hr_pending_rewards = Decimal 0\<rparr>]"
proof -
  let ?s = "example_reward 0 90 0 [([97], example_holder 70 0 0), ([97, 0], example_holder 20 0 0)]"
  have lim: "unat (min 1 REWARD_MAX_LIMIT) = 1" by (simp add: REWARD_MAX_LIMIT_def)
  have a: "addr_canonicalize example_api ''a'' = Ok [97]" "addr_humanize example_api [97] = Ok ''a''"
    "addr_validate example_api ''a'' = Ok ''a''"
    by (simp_all add: example_api_def char_of_def bit_0)
  have "query_holders example_deps None (Some 1) ?s =
      Ok \<lparr>hsr_holders = [\<lparr>hr_address = ''a'', hr_balance = 70, hr_index = Decimal 0, hr_pending_rewards = Decimal 0\<rparr>]\<rparr>"
    by (simp add: query_holders_def read_holders_def reward_calc_range_start_def lim a example_reward_def example_holder_def)
  moreover have "query_holders example_deps (Some ''a'') (Some 1) ?s = Ok \<lparr>hsr_holders = []\<rparr>"
    by (simp add: query_holders_def read_holders_def reward_calc_range_start_def lim a example_reward_def)
  ultimately show ?thesis by (simp add: numeral_eq_Suc)
qed

end
