(* ===== verification/Legacy_Storage.thy ===== *)
theory Legacy_Storage
  imports Hub_Storage Reward_Storage
begin

text \<open>
  The contracts once kept their items in \<open>Singleton\<close>s and \<open>Bucket\<close>s of \<open>cosmwasm_storage\<close>; now they
  use the \<open>Item\<close>s and \<open>Map\<close>s of \<open>cw_storage_plus\<close>, with key literals chosen such that storages
  written by the old code stay readable.  The old accessors are kept in the test modules of the three
  \<open>state.rs\<close> files; here it is shown, for every value and every storage and every instance of the old crate
  that keeps to its documented keys, that they and the present functions read and write the same cells.
\<close>

section \<open>Singletons and buckets\<close>

text \<open>
  The operations of the crate \<open>cosmwasm_storage\<close> the accessors call, as parameters: a value is stored as it
  is, and reading returns the stored value or the error of the crate.  \<open>wrong_type\<close> is the error a reader of
  one type gets for bytes written at another.
\<close>

record 'v storage_crate =
  singleton_save :: "byte list \<Rightarrow> 'v \<Rightarrow> (byte list, 'v) store \<Rightarrow> (byte list, 'v) store res"
  singleton_load :: "string \<Rightarrow> byte list \<Rightarrow> (byte list, 'v) store \<Rightarrow> 'v res"
  bucket_save :: "byte list \<Rightarrow> byte list \<Rightarrow> 'v \<Rightarrow> (byte list, 'v) store \<Rightarrow> (byte list, 'v) store res"
  bucket_load :: "string \<Rightarrow> byte list \<Rightarrow> byte list \<Rightarrow> (byte list, 'v) store \<Rightarrow> 'v res"
  wrong_type :: error

text \<open>
  What the crate documents: a singleton's key is its name with the length before it, a bucket's keys are its
  namespace with the length before it followed by the key, and a missing value is \<open>NotFound\<close> with the name
  of its type.
\<close>

locale legacy_crate = length_prefix l for l :: lib +
  fixes c :: "'v storage_crate"
  assumes save_singleton: "singleton_save c key v raw = Ok (store_set id (to_length_prefixed l key) v raw)"
    and load_singleton: "singleton_load c name key raw = load_item name (store_get (to_length_prefixed l key) raw)"
    and save_bucket: "bucket_save c ns key v raw = Ok (store_set id (to_length_prefixed l ns @ key) v raw)"
    and load_bucket: "bucket_load c name ns key raw = load_item name (store_get (to_length_prefixed l ns @ key) raw)"
begin

lemmas crate_laws = save_singleton load_singleton save_bucket load_bucket

end

text \<open>Reading at a type.\<close>

definition typed :: "'v storage_crate \<Rightarrow> ('v \<Rightarrow> 'a option) \<Rightarrow> 'v res \<Rightarrow> 'a res" where
  "typed c as r = and_then r (\<lambda>v. case as v of Some a \<Rightarrow> Ok a | None \<Rightarrow> Err (wrong_type c))"

lemma typed_stored [simp]: "(\<And>a. as (mk a) = Some a) \<Longrightarrow> typed c as (load_item name (map_option mk x)) = load_item name x"
  by (cases x) (simp_all add: typed_def)

lemma typed_as_stored [simp]: "typed c Some r = r"
  by (cases r) (simp_all add: typed_def)

text \<open>An instance of the crate.\<close>

definition prefixed_crate :: "lib \<Rightarrow> 'v storage_crate" where
  "prefixed_crate l = \<lparr>
     singleton_save = (\<lambda>key v raw. Ok (store_set id (to_length_prefixed l key) v raw)),
     singleton_load = (\<lambda>name key raw. load_item name (store_get (to_length_prefixed l key) raw)),
     bucket_save = (\<lambda>ns key v raw. Ok (store_set id (to_length_prefixed l ns @ key) v raw)),
     bucket_load = (\<lambda>name ns key raw. load_item name (store_get (to_length_prefixed l ns @ key) raw)),
     wrong_type = GenericErr ''parse error''\<rparr>"

interpretation std_crate: legacy_crate std_lib "prefixed_crate std_lib"
  by unfold_locales (simp_all add: prefixed_crate_def)


section \<open>Hub\<close>

type_synonym hub_raw = "(byte list, hub_value) store"

fun as_config :: "hub_value \<Rightarrow> hub_config option" where
  "as_config (ConfigValue c) = Some c"
| "as_config _ = None"

fun as_parameters :: "hub_value \<Rightarrow> parameters option" where
  "as_parameters (ParametersValue p) = Some p"
| "as_parameters _ = None"

fun as_batch :: "hub_value \<Rightarrow> current_batch option" where
  "as_batch (CurrentBatchValue b) = Some b"
| "as_batch _ = None"

fun as_state :: "hub_value \<Rightarrow> hub_state option" where
  "as_state (StateValue st) = Some st"
| "as_state _ = None"

definition legacy_STATE_KEY :: "byte list" where
  "legacy_STATE_KEY = literal_bytes ''state''"

definition legacy_CURRENT_BATCH_KEY :: "byte list" where
  "legacy_CURRENT_BATCH_KEY = literal_bytes ''current_batch''"

definition legacy_PARAMETERS_KEY :: "byte list" where
  "legacy_PARAMETERS_KEY = literal_bytes ''parameteres''"

definition legacy_CONFIG_KEY :: "byte list" where
  "legacy_CONFIG_KEY = literal_bytes ''config''"

definition legacy_store_state :: "hub_value storage_crate \<Rightarrow> hub_state \<Rightarrow> hub_raw \<Rightarrow> hub_raw res" where
  "legacy_store_state c params raw = singleton_save c legacy_STATE_KEY (StateValue params) raw"

definition legacy_read_state :: "hub_value storage_crate \<Rightarrow> hub_raw \<Rightarrow> hub_state res" where
  "legacy_read_state c raw = typed c as_state (singleton_load c ''State'' legacy_STATE_KEY raw)"

definition store_legacy_config :: "hub_value storage_crate \<Rightarrow> hub_config \<Rightarrow> hub_raw \<Rightarrow> hub_raw res" where
  "store_legacy_config c params raw = singleton_save c legacy_CONFIG_KEY (ConfigValue params) raw"

definition read_legacy_config :: "hub_value storage_crate \<Rightarrow> hub_raw \<Rightarrow> hub_config res" where
  "read_legacy_config c raw = typed c as_config (singleton_load c ''Config'' legacy_CONFIG_KEY raw)"

definition store_batch :: "hub_value storage_crate \<Rightarrow> current_batch \<Rightarrow> hub_raw \<Rightarrow> hub_raw res" where
  "store_batch c params raw = singleton_save c legacy_CURRENT_BATCH_KEY (CurrentBatchValue params) raw"

definition read_batch :: "hub_value storage_crate \<Rightarrow> hub_raw \<Rightarrow> current_batch res" where
  "read_batch c raw = typed c as_batch (singleton_load c ''CurrentBatch'' legacy_CURRENT_BATCH_KEY raw)"

definition store_params :: "hub_value storage_crate \<Rightarrow> parameters \<Rightarrow> hub_raw \<Rightarrow> hub_raw res" where
  "store_params c params raw = singleton_save c legacy_PARAMETERS_KEY (ParametersValue params) raw"

definition read_params :: "hub_value storage_crate \<Rightarrow> hub_raw \<Rightarrow> parameters res" where
  "read_params c raw = typed c as_parameters (singleton_load c ''Parameters'' legacy_PARAMETERS_KEY raw)"

lemmas legacy_hub_defs = legacy_store_state_def legacy_read_state_def store_legacy_config_def read_legacy_config_def
  store_batch_def read_batch_def store_params_def read_params_def legacy_STATE_KEY_def legacy_CURRENT_BATCH_KEY_def
  legacy_PARAMETERS_KEY_def legacy_CONFIG_KEY_def


section \<open>Reward contract\<close>

type_synonym reward_raw = "(byte list, reward_value) store"

fun as_reward_config :: "reward_value \<Rightarrow> reward_config option" where
  "as_reward_config (RewardConfigValue c) = Some c"
| "as_reward_config _ = None"

fun as_reward_state :: "reward_value \<Rightarrow> reward_state option" where
  "as_reward_state (RewardStateValue st) = Some st"
| "as_reward_state _ = None"

fun as_holder :: "reward_value \<Rightarrow> holder option" where
  "as_holder (HolderValue h) = Some h"
| "as_holder _ = None"

definition reward_legacy_STATE_KEY :: "byte list" where
  "reward_legacy_STATE_KEY = literal_bytes ''state''"

definition reward_legacy_CONFIG_KEY :: "byte list" where
  "reward_legacy_CONFIG_KEY = literal_bytes ''config''"

definition PREFIX_HOLDERS :: "byte list" where
  "PREFIX_HOLDERS = literal_bytes ''holders''"

definition reward_legacy_store_state :: "reward_value storage_crate \<Rightarrow> reward_state \<Rightarrow> reward_raw \<Rightarrow> reward_raw res" where
  "reward_legacy_store_state c params raw = singleton_save c reward_legacy_STATE_KEY (RewardStateValue params) raw"

definition reward_legacy_read_state :: "reward_value storage_crate \<Rightarrow> reward_raw \<Rightarrow> reward_state res" where
  "reward_legacy_read_state c raw = typed c as_reward_state (singleton_load c ''State'' reward_legacy_STATE_KEY raw)"

definition reward_store_legacy_config :: "reward_value storage_crate \<Rightarrow> reward_config \<Rightarrow> reward_raw \<Rightarrow> reward_raw res" where
  "reward_store_legacy_config c params raw = singleton_save c reward_legacy_CONFIG_KEY (RewardConfigValue params) raw"

definition reward_read_legacy_config :: "reward_value storage_crate \<Rightarrow> reward_raw \<Rightarrow> reward_config res" where
  "reward_read_legacy_config c raw = typed c as_reward_config (singleton_load c ''Config'' reward_legacy_CONFIG_KEY raw)"

definition legacy_holders :: "reward_value storage_crate \<Rightarrow> canonical_addr \<Rightarrow> holder \<Rightarrow> reward_raw \<Rightarrow> reward_raw res" where
  "legacy_holders c key h raw = bucket_save c PREFIX_HOLDERS key (HolderValue h) raw"

definition legacy_holders_read :: "reward_value storage_crate \<Rightarrow> canonical_addr \<Rightarrow> reward_raw \<Rightarrow> holder res" where
  "legacy_holders_read c key raw = typed c as_holder (bucket_load c ''Holder'' PREFIX_HOLDERS key raw)"

lemmas legacy_reward_defs = reward_legacy_store_state_def reward_legacy_read_state_def reward_store_legacy_config_def
  reward_read_legacy_config_def legacy_holders_def legacy_holders_read_def PREFIX_HOLDERS_def
  reward_legacy_STATE_KEY_def reward_legacy_CONFIG_KEY_def


section \<open>Token\<close>

text \<open>
  Of the token's storage only the address of the hub is the contract's own; the rest belongs to the wrapped
  ledger.
\<close>

definition TOKEN_HUB_KEY :: "byte list" where
  "TOKEN_HUB_KEY = [0, 12] @ literal_bytes ''hub_contract''"

definition token_stored :: "'c token_storage \<Rightarrow> (byte list, canonical_addr) store \<Rightarrow> bool" where
  "token_stored s raw \<longleftrightarrow> store_get TOKEN_HUB_KEY raw = HUB_CONTRACT_KEY s"

definition HUB_CONTRACT :: "byte list" where
  "HUB_CONTRACT = literal_bytes ''hub_contract''"

definition store_hub :: "canonical_addr storage_crate \<Rightarrow> canonical_addr \<Rightarrow> (byte list, canonical_addr) store \<Rightarrow> (byte list, canonical_addr) store res" where
  "store_hub c params raw = singleton_save c HUB_CONTRACT params raw"

definition read_hub :: "canonical_addr storage_crate \<Rightarrow> (byte list, canonical_addr) store \<Rightarrow> canonical_addr res" where
  "read_hub c raw = typed c Some (singleton_load c ''CanonicalAddr'' HUB_CONTRACT raw)"


section \<open>Old and new accessors agree\<close>

context storage_text
begin

lemma hub_stored_item:
  assumes "hub_stored l s raw" and "hub_short l slot"
  shows "store_get (hub_key l slot) raw = hub_cell s slot"
    and "stored_at (hub_key l) (hub_short l) ((hub_cell s)(slot \<mapsto> v)) (store_set id (hub_key l slot) v raw)"
  using hub_layout.stored_get [OF assms(1) [unfolded hub_stored_def] assms(2)]
    hub_layout.stored_set [OF assms(1) [unfolded hub_stored_def] assms(2)] by blast+

lemma hub_legacy_reads:
  assumes "hub_stored l s raw" and "legacy_crate l c"
  shows "legacy_read_state c raw = load_item ''State'' (STATE s)" "read_legacy_config c raw = load_item ''Config'' (CONFIG s)"
    "read_batch c raw = load_item ''CurrentBatch'' (CURRENT_BATCH s)" "read_params c raw = load_item ''Parameters'' (PARAMETERS s)"
  using hub_stored_item(1) [OF assms(1), of StateSlot] hub_stored_item(1) [OF assms(1), of ConfigSlot]
    hub_stored_item(1) [OF assms(1), of CurrentBatchSlot] hub_stored_item(1) [OF assms(1), of ParametersSlot]
  by (simp_all add: legacy_hub_defs item_keys legacy_crate.crate_laws [OF assms(2)])

lemma hub_legacy_writes:
  assumes "hub_stored l s raw" and "legacy_crate l c"
  shows "\<exists>raw'. legacy_store_state c st raw = Ok raw' \<and> hub_stored l (s\<lparr>STATE := Some st\<rparr>) raw'"
    "\<exists>raw'. store_legacy_config c cfg raw = Ok raw' \<and> hub_stored l (s\<lparr>CONFIG := Some cfg\<rparr>) raw'"
    "\<exists>raw'. store_batch c b raw = Ok raw' \<and> hub_stored l (s\<lparr>CURRENT_BATCH := Some b\<rparr>) raw'"
    "\<exists>raw'. store_params c p raw = Ok raw' \<and> hub_stored l (s\<lparr>PARAMETERS := Some p\<rparr>) raw'"
  using hub_stored_item(2) [OF assms(1), of StateSlot] hub_stored_item(2) [OF assms(1), of ConfigSlot]
    hub_stored_item(2) [OF assms(1), of CurrentBatchSlot] hub_stored_item(2) [OF assms(1), of ParametersSlot]
  by (simp_all add: legacy_hub_defs item_keys legacy_crate.crate_laws [OF assms(2)] hub_stored_def cells_after_write)

end

context length_prefix
begin

lemma reward_legacy_reads:
  assumes "reward_stored l s raw" and "legacy_crate l c"
  shows "reward_legacy_read_state c raw = read_state s" "reward_read_legacy_config c raw = reward_read_config s"
    "legacy_holders_read c a raw = load_item ''Holder'' (store_get a (HOLDERS s))"
  using reward_reads [OF assms(1)]
  by (simp_all add: legacy_reward_defs map_names legacy_crate.crate_laws [OF assms(2)] read_state_def reward_read_config_def)

lemma reward_legacy_writes:
  assumes "reward_stored l s raw" and "legacy_crate l c"
  shows "\<exists>raw' s'. reward_legacy_store_state c st raw = Ok raw' \<and> store_state st s = Ok s' \<and> reward_stored l s' raw'"
    "\<exists>raw' s'. reward_store_legacy_config c cfg raw = Ok raw' \<and> reward_store_config cfg s = Ok s' \<and> reward_stored l s' raw'"
    "\<exists>raw' s'. legacy_holders c a h raw = Ok raw' \<and> store_holder a h s = Ok s' \<and> reward_stored l s' raw'"
  using reward_writes [OF assms(1)]
  by (simp_all add: legacy_reward_defs map_names legacy_crate.crate_laws [OF assms(2)] reward_store_config_def)

lemma token_hub_key: "TOKEN_HUB_KEY = to_length_prefixed l HUB_CONTRACT"
  by (simp add: TOKEN_HUB_KEY_def HUB_CONTRACT_def item_key [symmetric] numeral_2_eq_2)

lemma token_legacy:
  assumes "token_stored s raw" and "legacy_crate l c"
  shows "read_hub c raw = read_hub_contract s"
    and "\<exists>raw' s'. store_hub c a raw = Ok raw' \<and> store_hub_contract a s = Ok s' \<and> token_stored s' raw'"
  using assms(1)
  by (auto simp: token_stored_def token_hub_key read_hub_def store_hub_def legacy_crate.crate_laws [OF assms(2)]
      read_hub_contract_def store_hub_contract_def store_get_set split: option.splits)

end

end
