(* ===== verification/Source_Tests.thy ===== *)
theory Source_Tests
  imports Legacy_Storage
begin

text \<open>
  The unit tests in the implementation files, as predicates over the crates they use: a test holds when it
  runs to its end and all its assertions are true.  They pass on the reference instance of the crates, which
  ties the definitions and that instance to results the authors wrote down; the compatibility tests pass for
  every instance with length-prefixed keys.
\<close>

section \<open>Numbers\<close>

definition passes :: "bool res \<Rightarrow> bool" where
  "passes r \<longleftrightarrow> r = Ok True"

definition test_from_subtraction :: "lib \<Rightarrow> bool" where
  "test_from_subtraction l = passes (
     and_then (from_subtraction l 1000010 1000000) (\<lambda>a.
     and_then (from_subtraction l 1000000 1100000) (\<lambda>b.
       Ok (a = SignedInt 10 False \<and> b = SignedInt 100000 True))))"

definition test_decimal_division :: "lib \<Rightarrow> bool" where
  "test_decimal_division l = passes (
     and_then (decimal_from_ratio l 10 50) (\<lambda>b.
     and_then (decimal_division l 100 b) (\<lambda>r. Ok (r = 500))))"

definition test_decimal_multiplication :: "lib \<Rightarrow> bool" where
  "test_decimal_multiplication l = passes (
     and_then (decimal_from_ratio l 1111111 10000000) (\<lambda>b.
     and_then (decimal_from_ratio l 100 1) (\<lambda>a.
     and_then (decimal_multiplication_in_256 l a b) (\<lambda>multiplication.
       Ok (decimal_to_string l multiplication = ''11.11111'')))))"

definition test_decimal_sumation :: "lib \<Rightarrow> bool" where
  "test_decimal_sumation l = passes (
     and_then (decimal_from_ratio l 20 50) (\<lambda>a.
     and_then (decimal_from_ratio l 10 50) (\<lambda>b.
     and_then (decimal_summation_in_256 l a b) (\<lambda>r. Ok (decimal_to_string l r = ''0.6'')))))"

definition test_decimal_subtraction :: "lib \<Rightarrow> bool" where
  "test_decimal_subtraction l = passes (
     and_then (decimal_from_ratio l 20 50) (\<lambda>a.
     and_then (decimal_from_ratio l 10 50) (\<lambda>b.
     and_then (decimal_subtraction_in_256 l a b) (\<lambda>r. Ok (decimal_to_string l r = ''0.2'')))))"

definition proper_calculate_rewards :: "lib \<Rightarrow> bool" where
  "proper_calculate_rewards l = passes (
     and_then (decimal_from_ratio l 9 100) (\<lambda>global_index.
     and_then (calculate_decimal_rewards l global_index decimal_zero 1000) (\<lambda>reward.
       Ok (decimal_to_string l reward = ''90''))))"

definition proper_get_decimals :: "lib \<Rightarrow> bool" where
  "proper_get_decimals l = passes (
     and_then (decimal_from_ratio l 9999999 100000000) (\<lambda>global_index.
     and_then (calculate_decimal_rewards l global_index decimal_zero 10) (\<lambda>all.
     and_then (get_decimals l all) (\<lambda>reward. Ok (decimal_to_string l reward = ''0.9999999'')))))"

lemmas number_tests = passes_def test_from_subtraction_def test_decimal_division_def test_decimal_multiplication_def
  test_decimal_sumation_def test_decimal_subtraction_def proper_calculate_rewards_def proper_get_decimals_def

lemma digit_chars:
  "digit_char 0 = CHR ''0''" "digit_char 1 = CHR ''1''" "digit_char 2 = CHR ''2''" "digit_char 6 = CHR ''6''" "digit_char 9 = CHR ''9''"
  "digit_char (Suc 0) = CHR ''1''"
  by (simp_all add: digit_char_def char_of_def bit_0)

lemma fixed_string_numeral: "fixed_string (numeral k) n = fixed_string (pred_numeral k) (n div 10) @ [digit_char (n mod 10)]"
  unfolding numeral_eq_Suc [of k] by (rule fixed_string.simps)

lemma decimal_texts:
  "decimal_to_string std_lib (Decimal 11111110000000000000) = ''11.11111''"
  "decimal_to_string std_lib (Decimal 600000000000000000) = ''0.6''"
  "decimal_to_string std_lib (Decimal 200000000000000000) = ''0.2''"
  "decimal_to_string std_lib (Decimal 90000000000000000000) = ''90''"
  "decimal_to_string std_lib (Decimal 999999900000000000) = ''0.9999999''"
  by (simp_all add: std_lib_def std_to_string_def dec_unit_def nat_string.simps fixed_string_numeral digit_chars trim_zeros_def)

lemma number_tests_pass:
  "test_from_subtraction std_lib" "test_decimal_division std_lib" "test_decimal_multiplication std_lib"
  "test_decimal_sumation std_lib" "test_decimal_subtraction std_lib" "proper_calculate_rewards std_lib"
  "proper_get_decimals std_lib"
  by (simp_all add: number_tests from_subtraction_def decimal_division_def HUB_DECIMAL_FRACTIONAL_def std_math_eval
      calculate_decimal_rewards_def std_reward.get_decimals_ok std_eval decimal_texts)


section \<open>Storage\<close>

text \<open>\<open>Item::load\<close> and \<open>Map::load\<close> on the flat storage.\<close>

definition item_load :: "'v storage_crate \<Rightarrow> string \<Rightarrow> ('v \<Rightarrow> 'a option) \<Rightarrow> byte list \<Rightarrow> (byte list, 'v) store \<Rightarrow> 'a res" where
  "item_load c name as key raw = typed c as (load_item name (store_get key raw))"

definition same_result :: "'a res \<Rightarrow> 'a res \<Rightarrow> bool res" where
  "same_result x y = and_then x (\<lambda>a. and_then y (\<lambda>b. Ok (a = b)))"

definition state_legacy_compatibility :: "hub_value storage_crate \<Rightarrow> bool" where
  "state_legacy_compatibility c = passes (
     and_then (legacy_store_state c \<lparr>exchange_rate = decimal_zero, total_bond_amount = 0, last_index_modification = 0,
         prev_hub_balance = 0, actual_unbonded_amount = 0, last_unbonded_time = 0, last_processed_batch = 0\<rparr> []) (\<lambda>raw.
       same_result (item_load c ''State'' as_state STATE_KEY raw) (legacy_read_state c raw)))"

definition legacy_compatibility :: "hub_value storage_crate \<Rightarrow> bool" where
  "legacy_compatibility c = passes (
     and_then (store_batch c \<lparr>cb_id = 0, requested_with_fee = 0\<rparr> []) (\<lambda>raw.
       same_result (item_load c ''CurrentBatch'' as_batch CURRENT_BATCH_KEY raw) (read_batch c raw)))"

definition config_legacy_compatibility :: "hub_value storage_crate \<Rightarrow> api \<Rightarrow> bool" where
  "config_legacy_compatibility c ap = passes (
     and_then (unwrap (addr_canonicalize ap ''dasd'')) (\<lambda>owner.
     and_then (store_legacy_config c \<lparr>creator = owner, reward_contract = None, token_contract = None,
         airdrop_registry_contract = None\<rparr> []) (\<lambda>raw.
       same_result (item_load c ''Config'' as_config CONFIG_KEY raw) (read_legacy_config c raw))))"

definition params_legacy_compatibility :: "hub_value storage_crate \<Rightarrow> bool" where
  "params_legacy_compatibility c = passes (
     and_then (store_params c \<lparr>epoch_period = 10, underlying_coin_denom = ''uluna'', unbonding_period = 1000,
         peg_recovery_fee = decimal_zero, er_threshold = decimal_zero, reward_denom = ''uusd''\<rparr> []) (\<lambda>raw.
       same_result (item_load c ''Parameters'' as_parameters PARAMETERS_KEY raw) (read_params c raw)))"

definition reward_state_legacy_compatibility :: "reward_value storage_crate \<Rightarrow> bool" where
  "reward_state_legacy_compatibility c = passes (
     and_then (reward_legacy_store_state c \<lparr>global_index = decimal_zero, total_balance = 0, prev_reward_balance = 0\<rparr> []) (\<lambda>raw.
       same_result (item_load c ''State'' as_reward_state REWARD_STATE_KEY raw) (reward_legacy_read_state c raw)))"

definition reward_config_legacy_compatibility :: "reward_value storage_crate \<Rightarrow> api \<Rightarrow> bool" where
  "reward_config_legacy_compatibility c ap = passes (
     and_then (unwrap (addr_canonicalize ap ''hub'')) (\<lambda>hub.
     and_then (reward_store_legacy_config c \<lparr>rc_hub_contract = hub, rc_reward_denom = []\<rparr> []) (\<lambda>raw.
       same_result (item_load c ''Config'' as_reward_config REWARD_CONFIG_KEY raw) (reward_read_legacy_config c raw))))"

definition holders_legacy_compatibility :: "lib \<Rightarrow> reward_value storage_crate \<Rightarrow> api \<Rightarrow> bool" where
  "holders_legacy_compatibility l c ap = passes (
     and_then (unwrap (addr_canonicalize ap ''addr0000'')) (\<lambda>key1.
     and_then (legacy_holders c key1 \<lparr>holder_balance = 200, holder_index = decimal_zero, pending_rewards = decimal_zero\<rparr> []) (\<lambda>raw.
       same_result (item_load c ''Holder'' as_holder (to_length_prefixed l HOLDERS_NAMESPACE @ key1) raw)
         (legacy_holders_read c key1 raw))))"

definition hub_legacy_compatibility :: "canonical_addr storage_crate \<Rightarrow> api \<Rightarrow> bool" where
  "hub_legacy_compatibility c ap = passes (
     and_then (unwrap (addr_canonicalize ap ''hub'')) (\<lambda>hub.
     and_then (store_hub c hub []) (\<lambda>raw.
       same_result (item_load c ''CanonicalAddr'' Some TOKEN_HUB_KEY raw) (read_hub c raw))))"

lemmas storage_tests = passes_def same_result_def item_load_def typed_def store_get_set
  state_legacy_compatibility_def legacy_compatibility_def config_legacy_compatibility_def params_legacy_compatibility_def
  reward_state_legacy_compatibility_def reward_config_legacy_compatibility_def holders_legacy_compatibility_def
  hub_legacy_compatibility_def

context length_prefix
begin

lemma storage_tests_pass:
  assumes "legacy_crate l c" and "legacy_crate l c'"
  shows "state_legacy_compatibility c" "legacy_compatibility c" "params_legacy_compatibility c" "reward_state_legacy_compatibility c'"
  by (simp_all add: storage_tests legacy_hub_defs legacy_reward_defs item_keys map_names
      legacy_crate.crate_laws [OF assms(1)] legacy_crate.crate_laws [OF assms(2)])

lemma address_tests_pass:
  assumes "addr_canonicalize ap ''dasd'' = Ok x" "addr_canonicalize ap ''hub'' = Ok y" "addr_canonicalize ap ''addr0000'' = Ok z"
    and "legacy_crate l c" and "legacy_crate l c'" and "legacy_crate l c''"
  shows "config_legacy_compatibility c ap" "reward_config_legacy_compatibility c' ap" "holders_legacy_compatibility l c' ap"
    "hub_legacy_compatibility c'' ap"
  using assms(1-3)
  by (simp_all add: storage_tests legacy_hub_defs legacy_reward_defs item_keys map_names token_hub_key store_hub_def read_hub_def
      legacy_crate.crate_laws [OF assms(4)] legacy_crate.crate_laws [OF assms(5)] legacy_crate.crate_laws [OF assms(6)])

end

end
