(* ===== verification/Contract_Error.thy ===== *)
theory Contract_Error
  imports Main
begin

text \<open>
  \<open>packages/basset/src/contract_error.rs\<close>: the error enum of the package, for contracts to come; the
  present ones return \<open>StdError\<close> or the error of the wrapped ledger.  The two wrapped error types of
  \<open>cosmwasm_std\<close> are type parameters and their texts parameters of the text.
\<close>

datatype ('std, 'overflow) contract_error =
    Std 'std
  | OverflowError 'overflow
  | Unauthorized
  | InvalidZeroAmount
  | MaxSpreadAssertion
  | MaxSlippageAssertion
  | AssetMismatch

fun contract_error_text :: "('std \<Rightarrow> string) \<Rightarrow> ('overflow \<Rightarrow> string) \<Rightarrow> ('std, 'overflow) contract_error \<Rightarrow> string" where
  "contract_error_text std ovf (Std e) = std e"
| "contract_error_text std ovf (OverflowError e) = ovf e"
| "contract_error_text std ovf Unauthorized = ''Unauthorized''"
| "contract_error_text std ovf InvalidZeroAmount = ''Invalid zero amount''"
| "contract_error_text std ovf MaxSpreadAssertion = ''Max spread assertion''"
| "contract_error_text std ovf MaxSlippageAssertion = ''Max slippage assertion''"
| "contract_error_text std ovf AssetMismatch = ''Asset mismatch''"

text \<open>The package's own errors are told apart by their texts.\<close>

lemma contract_error_text_inj:
  assumes "contract_error_text std ovf a = contract_error_text std ovf b"
    and "a \<notin> range Std \<union> range OverflowError" "b \<notin> range Std \<union> range OverflowError"
  shows "a = b"
  using assms by (cases a; cases b) auto

end
