(* ===== verification/Hub_Admin_Properties.thy ===== *)
theory Hub_Admin_Properties
  imports Hub_Writes Paging Example_Hub
begin

text \<open>
  The administration of the hub: who may send what, the validator whitelist, the order of the messages
  that distribute rewards, and paging through the history of batches.
\<close>

section \<open>What the operations leave alone\<close>

text \<open>Configuration, parameters and whitelist are kept by everything but their own operations.\<close>

abbreviation admin_kept :: "hub_storage \<Rightarrow> hub_storage \<Rightarrow> bool" where
  "admin_kept s s' \<equiv> CONFIG s' = CONFIG s \<and> PARAMETERS s' = PARAMETERS s \<and> validators_map s' = validators_map s"

context cosmwasm_numbers
begin

lemma slashing_admin: "dlib d = l \<Longrightarrow> slashing d e s = Ok s' \<Longrightarrow> admin_kept s s'"
  using slashing_frame [of d e s s'] cosmwasm_numbers_axioms by auto

lemma execute_unbond_admin:
  assumes l: "dlib d = l" and run: "execute_unbond d e amt u s = Ok (s', resp)"
  shows "admin_kept s s'"
  using cosmwasm_numbers_axioms [folded l] run
proof (cases rule: execute_unbond_ok)
  case (1 params batch s1 st issued a requested s2 issued' st1 s3 st2 batch2 msgs to burn_msg)
  have s2: "admin_kept s s2" using slashing_admin [OF l 1(3)] 1(8) by (auto simp: store_unbond_wait_list_def)
  have "admin_kept s2 s3"
  proof (cases "unat (epoch_period params) + unat (last_unbonded_time st1) < unat (block_seconds e)")
    case True
    then have "close_batch d e st1 (batch\<lparr>requested_with_fee := requested\<rparr>) s2 = Ok (s3, st2, batch2, msgs)"
      using 1(12) by simp
    then show ?thesis using cosmwasm_numbers_axioms [folded l] by (cases rule: close_batch_ok [rotated]) auto
  qed (use 1(12) in simp)
  then show ?thesis using 1(13) s2 by simp
qed

lemma release_batches_admin:
  "release_batches l t tot sl s st i = Ok (s', st') \<Longrightarrow> admin_kept s s'"
proof (induction l t tot sl s st i rule: release_batches.induct)
  case (1 l t tot sl s st i)
  show ?case
  proof (cases "ready_batch s t i")
    case None
    then show ?thesis using 1(2) by (simp add: release_batches.simps [of l])
  next
    case (Some h)
    then obtain h' s1 i' where h': "release_batch l tot sl h = Ok h'" and s1: "store_unbond_history i h' s = Ok s1"
      and i': "u64_add i 1 = Ok i'" and rec: "release_batches l t tot sl s1 (st\<lparr>last_processed_batch := i\<rparr>) i' = Ok (s', st')"
      using 1(2) by (auto simp: release_batches.simps [of l])
    from s1 1(1) [OF Some h' s1 i' rec] show ?thesis by (auto simp: store_unbond_history_def)
  qed
qed

lemma process_withdraw_rate_admin:
  assumes run: "process_withdraw_rate l t bal s = Ok s'"
  shows "admin_kept s s'"
proof -
  obtain st where st: "STATE s = Some st" using run by (auto simp: process_withdraw_rate_def)
  obtain chg neg where chg: "from_subtraction l bal (prev_hub_balance st) = Ok (SignedInt chg neg)"
    using from_subtraction_value [OF cosmwasm_numbers_axioms] by blast
  obtain actual first tot st2 s2 and count :: u64 where
    rel: "(if 1 \<le> count
        then and_then (from_subtraction l tot actual) (\<lambda>slashed_amount.
               release_batches l t tot slashed_amount s (st\<lparr>actual_unbonded_amount := actual\<rparr>) first)
        else Ok (s, st\<lparr>actual_unbonded_amount := actual\<rparr>)) = Ok (s2, st2)"
    and s': "s' = s2\<lparr>STATE := Some (st2\<lparr>actual_unbonded_amount := 0\<rparr>)\<rparr>"
    using run by (auto simp: process_withdraw_rate_def st chg)
  have "admin_kept s s2" using rel release_batches_admin by (cases "1 \<le> count") auto
  then show ?thesis by (simp add: s')
qed

lemma execute_withdraw_admin:
  assumes l: "dlib d = l" and run: "execute_withdraw_unbonded d e info s = Ok (s', resp)"
  shows "admin_kept s s'"
  using cosmwasm_numbers_axioms [folded l] run
  by (cases rule: execute_withdraw_unbonded_ok) (use process_withdraw_rate_admin l in fastforce)

lemma execute_bond_admin:
  assumes l: "dlib d = l" and run: "execute_bond d e info val s = Ok (s', resp)"
  shows "admin_kept s s'"
  using run
proof (cases rule: execute_bond_ok)
  case (1 params batch payment s1 st supp minted new_supply bonded st' config token token_address msg)
  then show ?thesis using slashing_admin [OF l 1(7)] by auto
qed

lemma hub_execute_admin:
  assumes l: "dlib d = l" and run: "hub_execute d e info msg s = Ok (s', resp)"
  shows "(\<And>a b x y. msg \<noteq> UpdateParams a b x y) \<Longrightarrow> PARAMETERS s' = PARAMETERS s"
    and "(\<And>ow rw tk ad. msg \<noteq> HubUpdateConfig ow rw tk ad) \<Longrightarrow> CONFIG s' = CONFIG s"
    and "(\<And>v. msg \<noteq> RegisterValidator v \<and> msg \<noteq> DeregisterValidator v) \<Longrightarrow> validators_map s' = validators_map s"
proof -
  have "((\<forall>a b x y. msg \<noteq> UpdateParams a b x y) \<longrightarrow> PARAMETERS s' = PARAMETERS s) \<and>
    ((\<forall>ow rw tk ad. msg \<noteq> HubUpdateConfig ow rw tk ad) \<longrightarrow> CONFIG s' = CONFIG s) \<and>
    ((\<forall>v. msg \<noteq> RegisterValidator v \<and> msg \<noteq> DeregisterValidator v) \<longrightarrow> validators_map s' = validators_map s)"
  proof (cases msg)
    case (Receive m)
    then have "execute_unbond d e (cw20_amount m) (cw20_sender m) s = Ok (s', resp)"
      using run by (auto simp: hub_execute_def receive_cw20_def split: res.splits cw20_hook_msg.splits if_splits)
    then show ?thesis using execute_unbond_admin [OF l] by blast
  next
    case CheckSlashing
    then show ?thesis using run slashing_admin [OF l] by (auto simp: hub_execute_def execute_slashing_def)
  next
    case (Bond val)
    then show ?thesis using run execute_bond_admin [OF l] by (simp add: hub_execute_def)
  next
    case WithdrawUnbonded
    then show ?thesis using run execute_withdraw_admin [OF l] by (simp add: hub_execute_def)
  next
    case (HubUpdateConfig ow rw tk ad)
    then show ?thesis using run
      by (auto simp: hub_execute_def execute_update_config_def update_config_field_def split: if_splits option.splits)
  next
    case (DeregisterValidator val)
    then show ?thesis using run
      by (auto simp: hub_execute_def execute_deregister_validator_def remove_white_validators_def split: if_splits)
  qed (use run in \<open>auto simp: hub_execute_def execute_update_global_def execute_register_validator_def
        store_white_validators_def execute_update_params_def swap_hook_def claim_airdrop_def split: if_splits\<close>)
  then show "(\<And>a b x y. msg \<noteq> UpdateParams a b x y) \<Longrightarrow> PARAMETERS s' = PARAMETERS s"
    "(\<And>ow rw tk ad. msg \<noteq> HubUpdateConfig ow rw tk ad) \<Longrightarrow> CONFIG s' = CONFIG s"
    "(\<And>v. msg \<noteq> RegisterValidator v \<and> msg \<noteq> DeregisterValidator v) \<Longrightarrow> validators_map s' = validators_map s"
    by blast+
qed

end


section \<open>Who may send what\<close>

text \<open>
  The sender a message of the hub requires: the owner for parameters, configuration and removals, the
  owner or the hub itself for registrations, the token contract for the receive hook, the airdrop registry
  for claims, and the hub itself for the swap that follows a claim.
\<close>

fun hub_sender :: "deps \<Rightarrow> env \<Rightarrow> message_info \<Rightarrow> hub_config \<Rightarrow> hub_execute_msg \<Rightarrow> bool" where
  "hub_sender d e info c (Receive m) \<longleftrightarrow> (\<exists>a. addr_canonicalize (dapi d) (sender info) = Ok a \<and> token_contract c = Some a)"
| "hub_sender d e info c (UpdateParams ep up fee thr) \<longleftrightarrow> addr_canonicalize (dapi d) (sender info) = Ok (creator c)"
| "hub_sender d e info c (HubUpdateConfig ow rw tk ad) \<longleftrightarrow> addr_canonicalize (dapi d) (sender info) = Ok (creator c)"
| "hub_sender d e info c (DeregisterValidator v) \<longleftrightarrow> addr_canonicalize (dapi d) (sender info) = Ok (creator c)"
| "hub_sender d e info c (RegisterValidator v) \<longleftrightarrow>
     (\<exists>a. addr_canonicalize (dapi d) (sender info) = Ok a \<and>
        (a = creator c \<or> addr_canonicalize (dapi d) (contract_address e) = Ok a))"
| "hub_sender d e info c (SwapHook tok swp m) \<longleftrightarrow> sender info = contract_address e"
| "hub_sender d e info c (ClaimAirdrop tok ad swp cm sm) \<longleftrightarrow>
     (\<exists>a. addr_canonicalize (dapi d) (sender info) = Ok a \<and> airdrop_registry_contract c = Some a)"
| "hub_sender d e info c (Bond v) \<longleftrightarrow> True"
| "hub_sender d e info c (HubUpdateGlobalIndex hooks) \<longleftrightarrow> True"
| "hub_sender d e info c WithdrawUnbonded \<longleftrightarrow> True"
| "hub_sender d e info c CheckSlashing \<longleftrightarrow> True"

text \<open>
  C34.  A message to the hub succeeds only from the sender it requires: nobody but the owner changes
  parameters, addresses or the whitelist (the hub itself may register validators), only the token
  contract starts an unbonding, only the airdrop registry claims airdrops, and only the hub swaps them.
\<close>

theorem hub_authorised:
  assumes "CONFIG s = Some c" and "hub_execute d e info msg s = Ok (s', resp)"
  shows "hub_sender d e info c msg"
proof (cases msg)
  case (Receive m)
  then show ?thesis using assms
    by (auto simp: hub_execute_def receive_cw20_def split: res.splits cw20_hook_msg.splits if_splits)
qed (use assms in \<open>auto simp: hub_execute_def execute_update_params_def execute_update_config_def
    execute_register_validator_def execute_deregister_validator_def swap_hook_def claim_airdrop_def split: if_splits\<close>)

lemma example_params_updated:
  "\<exists>s' resp. hub_execute example_deps example_env (example_info ''o'') (UpdateParams (Some 40) None None None) example_hub = Ok (s', resp)"
  by (simp add: hub_execute_def execute_update_params_def example_hub_eval example_info_def example_api_eval)

theorem hub_authorised_witness:
  "addr_canonicalize example_api ''o'' = Ok (creator example_hub_config)"
proof -
  have "CONFIG example_hub = Some example_hub_config" by (simp add: example_hub_def)
  then show ?thesis using hub_authorised example_params_updated by (fastforce simp: example_info_def)
qed


section \<open>The whitelist\<close>

text \<open>
  C35.  A validator gets on the whitelist only by a registration, and only when the chain knows it as a
  validator; and no message empties a whitelist that has a validator.
\<close>

theorem whitelist_never_emptied:
  assumes num: "cosmwasm_numbers (dlib d)" and reach: "hub_reachable (dlib d) s"
    and run: "hub_execute d e info msg s = Ok (s', resp)"
  shows "(validators_map s \<noteq> [] \<longrightarrow> validators_map s' \<noteq> []) \<and>
     (\<forall>v. store_get v (validators_map s') \<noteq> None \<and> store_get v (validators_map s) = None \<longrightarrow>
        msg = RegisterValidator v \<and> (\<exists>vals. query_all_validators (dquerier d) = Ok vals \<and> v \<in> set vals))"
proof (cases msg)
  case (RegisterValidator w)
  then have "validators_map s' = store_set (json_string (dlib d)) w True (validators_map s)"
    and "\<exists>vals. query_all_validators (dquerier d) = Ok vals \<and> w \<in> set vals"
    using run by (auto simp: hub_execute_def execute_register_validator_def store_white_validators_def split: if_splits)
  moreover have "store_set (json_string (dlib d)) w True (validators_map s) \<noteq> []" by (simp add: store_set_def Let_def)
  ultimately show ?thesis using RegisterValidator by (auto simp: store_get_set split: if_splits)
next
  case (DeregisterValidator w)
  then have s': "validators_map s' = store_remove w (validators_map s)" and two: "length (validators_map s) \<noteq> 1"
    using run by (auto simp: hub_execute_def execute_deregister_validator_def remove_white_validators_def read_validators_def
        split: if_splits)
  have ok: "store_ok (validators_map s)" using hub_reachable_inv [OF reach num] by (auto elim: hub_invE)
  have "store_remove w (validators_map s) \<noteq> []" if ne: "validators_map s \<noteq> []"
  proof
    assume "store_remove w (validators_map s) = []"
    then have "set (map fst (validators_map s)) \<subseteq> {w}" by (auto simp: store_remove_def filter_empty_conv)
    moreover have "distinct (map fst (validators_map s))" using ok by (simp add: store_ok_def)
    ultimately have "length (validators_map s) \<le> 1"
      using distinct_card [of "map fst (validators_map s)"] card_mono [of "{w}" "set (map fst (validators_map s))"] by simp
    with two ne show False by (simp add: le_Suc_eq)
  qed
  then show ?thesis by (auto simp: s' store_get_remove split: if_splits)
qed (use cosmwasm_numbers.hub_execute_admin(3) [OF num refl run] in auto)

lemma example_registered_validator:
  "\<exists>s s' resp. hub_reachable std_lib s \<and> validators_map s = [] \<and> validators_map s' = [(''v1'', True)] \<and>
     hub_execute example_deps example_env (example_info ''hub'') (RegisterValidator ''v1'') s = Ok (s', resp)"
proof -
  let ?msg = "\<lparr>im_epoch_period = 30, im_underlying_coin_denom = ''uluna'', im_unbonding_period = 100,
     im_peg_recovery_fee = decimal_zero, im_er_threshold = decimal_one, im_reward_denom = ''uusd'', im_validator = ''v1''\<rparr>"
  obtain s resp c where s: "hub_instantiate example_deps example_env (example_info ''o'') ?msg empty_hub_storage = Ok (s, resp)"
    "validators_map s = []" "CONFIG s = Some c"
    by (simp add: hub_instantiate_def example_eval empty_hub_storage_def)
  have "\<exists>s' resp. validators_map s' = [(''v1'', True)] \<and>
      hub_execute example_deps example_env (example_info ''hub'') (RegisterValidator ''v1'') s = Ok (s', resp)"
    by (simp add: hub_execute_def execute_register_validator_def s(2,3) example_env_def example_info_def example_api_eval
        example_querier_eval store_white_validators_def store_set_def store_remove_def)
  then show ?thesis using hub_reachable.hub_instantiated [OF s(1)] s(2) by blast
qed

theorem whitelist_never_emptied_witness:
  "\<exists>vals. query_all_validators example_querier = Ok vals \<and> ''v1'' \<in> set vals"
proof -
  obtain s s' resp where r: "hub_reachable std_lib s" "validators_map s = []" "validators_map s' = [(''v1'', True)]"
    "hub_execute example_deps example_env (example_info ''hub'') (RegisterValidator ''v1'') s = Ok (s', resp)"
    using example_registered_validator by blast
  have l: "cosmwasm_numbers (dlib example_deps)" "hub_reachable (dlib example_deps) s"
    using r(1) by (simp_all add: std_num.cosmwasm_numbers_axioms)
  have v: "store_get ''v1'' (validators_map s') \<noteq> None" "store_get ''v1'' (validators_map s) = None"
    by (simp_all add: r(2,3) store_get_def)
  have "RegisterValidator ''v1'' = RegisterValidator ''v1'' \<and>
      (\<exists>vals. query_all_validators (dquerier example_deps) = Ok vals \<and> ''v1'' \<in> set vals)"
    using whitelist_never_emptied [OF l r(4), THEN conjunct2, rule_format, of "''v1''"] v by blast
  then show ?thesis by simp
qed

text \<open>
  C36.  Removing a validator takes it off the whitelist and changes nothing else in the storage; when the
  hub has a delegation with it, all of that is redelegated to a validator that is still on the whitelist,
  after which the hub updates the global index; when there is none, no message is sent.
\<close>

theorem deregister_redelegates:
  assumes "hub_execute d e info (DeregisterValidator v) s = Ok (s', resp)"
  shows "s' = s\<lparr>validators_map := validators_map s'\<rparr> \<and>
     (\<forall>b. store_get b (validators_map s') = (if b = v then None else store_get b (validators_map s))) \<and>
     (case query_delegation (dquerier d) (contract_address e) v of
        Ok (Some del) \<Rightarrow> \<exists>b msg. b \<noteq> v \<and> store_get b (validators_map s) \<noteq> None \<and>
          to_binary (dlib d) (HubPayload (HubUpdateGlobalIndex None)) = Ok msg \<and>
          messages resp = [StakingRedelegate v b (delegated del), WasmExecute (contract_address e) msg []]
      | _ \<Rightarrow> messages resp = [])"
proof -
  have s': "s' = s\<lparr>validators_map := store_remove v (validators_map s)\<rparr>"
    using assms by (auto simp: hub_execute_def execute_deregister_validator_def remove_white_validators_def split: if_splits)
  have target: "store_get (map fst (validators_map s') ! i) (validators_map s) \<noteq> None" "map fst (validators_map s') ! i \<noteq> v"
    if "i < length (validators_map s')" for i
  proof -
    have "map fst (validators_map s') ! i \<in> set (map fst (validators_map s'))" using that by (intro nth_mem) simp
    then show "store_get (map fst (validators_map s') ! i) (validators_map s) \<noteq> None"
      "map fst (validators_map s') ! i \<noteq> v"
      by (auto simp: s' store_remove_def store_get_def map_of_eq_None_iff)
  qed
  consider (none) "messages resp = []" "\<forall>del. query_delegation (dquerier d) (contract_address e) v \<noteq> Ok (Some del)"
    | (moved) del i msg where "query_delegation (dquerier d) (contract_address e) v = Ok (Some del)"
      "i < length (validators_map s')" "to_binary (dlib d) (HubPayload (HubUpdateGlobalIndex None)) = Ok msg"
      "messages resp =
        [StakingRedelegate v (map fst (validators_map s') ! i) (delegated del), WasmExecute (contract_address e) msg []]"
    using assms by (auto simp: hub_execute_def execute_deregister_validator_def remove_white_validators_def read_validators_def
        split: if_splits res.splits option.splits)
  then show ?thesis
  proof cases
    case none
    then show ?thesis by (auto simp: s' store_get_remove split: res.splits option.splits)
  next
    case moved
    then show ?thesis using target [of i] by (auto simp: s' store_get_remove)
  qed
qed

theorem deregister_redelegates_witness:
  "\<exists>s' resp b msg. hub_execute example_deps example_env (example_info ''o'') (DeregisterValidator ''v1'') example_hub = Ok (s', resp) \<and>
     store_get ''v1'' (validators_map s') = None \<and> store_get ''v2'' (validators_map s') = Some True \<and> b \<noteq> ''v1'' \<and>
     messages resp = [StakingRedelegate ''v1'' b (Coin ''uluna'' 600), WasmExecute ''hub'' msg []]"
proof -
  obtain s' resp where r: "hub_execute example_deps example_env (example_info ''o'') (DeregisterValidator ''v1'') example_hub = Ok (s', resp)"
    by (simp add: hub_execute_def execute_deregister_validator_def example_hub_def example_hub_config_def example_info_def
        example_env_def example_api_eval example_querier_eval remove_white_validators_def read_validators_def store_remove_def std_eval)
  have "contract_address example_env = ''hub''" "store_get ''v2'' (validators_map example_hub) = Some True"
    by (simp_all add: example_env_def example_hub_def store_get_def)
  with deregister_redelegates [OF r] r show ?thesis by (fastforce simp: example_querier_eval)
qed


section \<open>Distributing rewards\<close>

text \<open>
  Updating the global index sends, in this order, the airdrop hooks to the registry, a withdrawal for
  every delegation of the hub, and then to the reward contract the swap and after it the index update;
  it fails when hooks are given and no registry is configured; of the storage only the time of the last
  update changes.
\<close>

lemma update_global_order:
  assumes run: "execute_update_global d e hooks s = Ok (s', resp)"
  shows "\<exists>c reward reward_addr st hook_msgs dels swap_msg update_msg.
     CONFIG s = Some c \<and> reward_contract c = Some reward \<and> addr_humanize (dapi d) reward = Ok reward_addr \<and>
     STATE s = Some st \<and> s' = s\<lparr>STATE := Some (st\<lparr>last_index_modification := block_seconds e\<rparr>)\<rparr> \<and>
     messages resp = hook_msgs @ map (\<lambda>del. WithdrawDelegatorReward (validator del)) dels @
       [WasmExecute reward_addr swap_msg [], WasmExecute reward_addr update_msg []] \<and>
     (case query_all_delegations (dquerier d) (contract_address e) of Ok ds \<Rightarrow> dels = ds | _ \<Rightarrow> dels = []) \<and>
     to_binary (dlib d) (RewardPayload SwapToRewardDenom) = Ok swap_msg \<and>
     to_binary (dlib d) (RewardPayload RewardUpdateGlobalIndex) = Ok update_msg \<and>
     (case hooks of None \<Rightarrow> hook_msgs = []
      | Some hs \<Rightarrow> \<exists>raw registry. airdrop_registry_contract c = Some raw \<and> addr_humanize (dapi d) raw = Ok registry \<and>
          hook_msgs = map (\<lambda>h. WasmExecute registry h []) hs)"
proof -
  obtain c reward reward_addr st hook_msgs withdraw_msgs swap_msg update_msg where
    r: "CONFIG s = Some c" "reward_contract c = Some reward" "addr_humanize (dapi d) reward = Ok reward_addr"
    "STATE s = Some st" "s' = s\<lparr>STATE := Some (st\<lparr>last_index_modification := block_seconds e\<rparr>)\<rparr>"
    and w: "withdraw_all_rewards d (contract_address e) = Ok withdraw_msgs"
    and m: "to_binary (dlib d) (RewardPayload SwapToRewardDenom) = Ok swap_msg"
      "to_binary (dlib d) (RewardPayload RewardUpdateGlobalIndex) = Ok update_msg"
      "messages resp = hook_msgs @ withdraw_msgs @ [WasmExecute reward_addr swap_msg [], WasmExecute reward_addr update_msg []]"
    and h: "case hooks of None \<Rightarrow> hook_msgs = []
      | Some hs \<Rightarrow> \<exists>raw registry. airdrop_registry_contract c = Some raw \<and> addr_humanize (dapi d) raw = Ok registry \<and>
          hook_msgs = map (\<lambda>h. WasmExecute registry h []) hs"
    using run by (auto simp: execute_update_global_def split: option.splits)
  obtain dels where "withdraw_msgs = map (\<lambda>del. WithdrawDelegatorReward (validator del)) dels"
    "case query_all_delegations (dquerier d) (contract_address e) of Ok ds \<Rightarrow> dels = ds | _ \<Rightarrow> dels = []"
    using w by (cases "query_all_delegations (dquerier d) (contract_address e)") (auto simp: withdraw_all_rewards_def)
  with r m h show ?thesis by blast
qed

section \<open>Paging through the history\<close>

interpretation history_pages: paging to_be_bytes "\<lambda>k b. to_be_bytes k @ [1] \<le> b" "\<lambda>_. True"
proof
  fix a b
  show "to_be_bytes a @ [1] \<le> to_be_bytes b \<longleftrightarrow> to_be_bytes a < to_be_bytes b"
    using to_be_bytes_less [of a "[]" b "[]"] by (simp add: convert_le)
  show "to_be_bytes a = to_be_bytes b \<Longrightarrow> a = b"
    using to_be_bytes_le [of a b] to_be_bytes_le [of b a] by simp
qed

text \<open>
  C39.  A client that asks for pages of the batch history, each time behind the id of the last batch it
  got, receives every closed batch exactly once, in the order of the ids, whatever positive limit it asks
  for.
\<close>

theorem history_pages_complete:
  assumes num: "cosmwasm_numbers l" and reach: "hub_reachable l s" and n: "0 < n"
    and rounds: "length (history_map s) \<le> rounds"
  shows "page_walk (\<lambda>start. all_unbond_history s start (Some n)) batch_id rounds None = Ok (map snd (history_map s))"
proof -
  obtain st b where bi: "batch_inv s st b" using hub_reachable_inv [OF reach num] by (auto elim: hub_invE)
  have ok: "store_ok (history_map s)" and sorted: "store_sorted to_be_bytes (history_map s)"
    using cosmwasm_numbers.hub_reachable_well_formed [OF num reach] by (simp_all add: hub_ordered_def)
  have ids: "batch_id (snd p) = fst p" if p: "p \<in> set (history_map s)" for p
  proof -
    have "store_get (fst p) (history_map s) = Some (snd p)" using p store_get_entries [OF ok] by simp
    then show ?thesis using bi by (simp add: batch_inv_def history_inv_def)
  qed
  have lim: "0 < unat (min n MAX_LIMIT)" using n by (auto simp: min_def unat_gt_0)
  show ?thesis
    by (rule history_pages.walk_all [where n = "unat (min n MAX_LIMIT)", OF ok sorted _ _ _ lim rounds])
      (auto simp: ids all_unbond_history_def convert_def store_from_def split: option.splits)
qed

theorem history_pages_complete_witness:
  "\<exists>s h. hub_reachable std_lib s \<and> history_map s = [(1, h)] \<and>
     page_walk (\<lambda>start. all_unbond_history s start (Some 1)) batch_id 5 None = Ok [h]"
proof -
  obtain s where s: "hub_reachable std_lib s" "map fst (history_map s) = [1]"
    using example_history_reachable by (elim exE conjE) (rule that)
  then obtain h where "history_map s = [(1, h)]" by (cases "history_map s") auto
  with history_pages_complete [OF std_num.cosmwasm_numbers_axioms s(1), of 1 5] s(1) show ?thesis by auto
qed

end
