(* ===== verification/Airdrop_Flow.thy ===== *)
theory Airdrop_Flow
  imports Registry_Properties Hub_Admin_Properties
begin

text \<open>
  An airdrop runs through two contracts: the registry fabricates a claim and sends it to the hub, the hub
  claims the airdrop and calls itself to swap what it received, and the swap pays the reward contract.
\<close>

text \<open>The token a fabricated claim is about, and the claim its airdrop contract gets.\<close>

fun fabricates :: "registry_execute_msg \<Rightarrow> (string \<times> payload) option" where
  "fabricates (FabricateMIRClaim stage amt pf) = Some (''MIR'', MIRPayload (MIRClaim stage amt pf))"
| "fabricates (FabricateANCClaim stage amt pf) = Some (''ANC'', ANCPayload (ANCClaim stage amt pf))"
| "fabricates _ = None"

lemma registry_fabricates:
  assumes "fabricates msg = Some (t, claim)" and "registry_execute d info msg rs = Ok (rs', resp)"
  shows "\<exists>config ai claim_msg swap_msg b. registry_CONFIG rs = Some config \<and> infos rs t = Some ai \<and> rs' = rs \<and>
     to_binary (dlib d) claim = Ok claim_msg \<and>
     to_binary (dlib d) (PairPayload (Swap (swap_belief_price ai) (swap_max_spread ai) (Some (gc_reward_contract config)))) = Ok swap_msg \<and>
     to_binary (dlib d) (HubPayload (ClaimAirdrop (airdrop_token_contract ai) (airdrop_contract ai)
       (airdrop_swap_contract ai) claim_msg swap_msg)) = Ok b \<and>
     messages resp = [WasmExecute (gc_hub_contract config) b []]"
  using assms
  by (cases msg) (auto simp: registry_execute_def execute_fabricate_mir_claim_def execute_fabricate_anchor_claim_def)

text \<open>
  C33.  A claim fabricated by the registry goes through: the one message it sends to its hub is accepted
  when it comes from the registry the hub knows; the hub then claims at the airdrop contract stored for
  the token and calls its own swap hook, and that sends the hub's whole balance of the airdrop token to the
  stored pair, with the order to pay the reward contract.  Neither contract changes its storage.
\<close>

theorem airdrop_claim_flow:
  assumes fab: "fabricates msg = Some (t, claim)" and run: "registry_execute d info msg rs = Ok (rs', resp)"
    and config: "CONFIG hs = Some c" and known: "airdrop_registry_contract c = Some raw"
    and registry: "addr_canonicalize (dapi d) registry_addr = Ok raw" "addr_humanize (dapi d) raw = Ok registry_addr"
    and serialises: "\<And>p. \<exists>b. to_binary (dlib d) p = Ok b"
  shows "\<exists>rc ai b hub_msg claim_msg swap_msg hook swp hresp.
     registry_CONFIG rs = Some rc \<and> store_get t (AIRDROP_INFO rs) = Some ai \<and> rs' = rs \<and>
     messages resp = [WasmExecute (gc_hub_contract rc) b []] \<and> to_binary (dlib d) (HubPayload hub_msg) = Ok b \<and>
     hub_execute d e \<lparr>sender = registry_addr, funds = []\<rparr> hub_msg hs = Ok (hs, hresp) \<and>
     messages hresp = [WasmExecute (airdrop_contract ai) claim_msg [], WasmExecute (contract_address e) hook []] \<and>
     to_binary (dlib d) claim = Ok claim_msg \<and> to_binary (dlib d) (HubPayload swp) = Ok hook \<and>
     to_binary (dlib d) (PairPayload (Swap (swap_belief_price ai) (swap_max_spread ai) (Some (gc_reward_contract rc)))) = Ok swap_msg \<and>
     (\<forall>d' n. dlib d' = dlib d \<and> query_cw20_balance (dquerier d') (airdrop_token_contract ai) (contract_address e) = Ok n \<and> n \<noteq> 0 \<longrightarrow>
        (\<exists>send sresp. hub_execute d' e \<lparr>sender = contract_address e, funds = []\<rparr> swp hs = Ok (hs, sresp) \<and>
           to_binary (dlib d) (Cw20Payload (Send (airdrop_swap_contract ai) n swap_msg)) = Ok send \<and>
           messages sresp = [WasmExecute (airdrop_token_contract ai) send []]))"
proof -
  obtain rc ai claim_msg swap_msg b where r: "registry_CONFIG rs = Some rc" "infos rs t = Some ai" "rs' = rs"
    "to_binary (dlib d) claim = Ok claim_msg"
    "to_binary (dlib d) (PairPayload (Swap (swap_belief_price ai) (swap_max_spread ai) (Some (gc_reward_contract rc)))) = Ok swap_msg"
    "to_binary (dlib d) (HubPayload (ClaimAirdrop (airdrop_token_contract ai) (airdrop_contract ai)
       (airdrop_swap_contract ai) claim_msg swap_msg)) = Ok b"
    "messages resp = [WasmExecute (gc_hub_contract rc) b []]"
    using registry_fabricates [OF fab run] by blast
  let ?claim = "ClaimAirdrop (airdrop_token_contract ai) (airdrop_contract ai) (airdrop_swap_contract ai) claim_msg swap_msg"
  let ?swap = "SwapHook (airdrop_token_contract ai) (airdrop_swap_contract ai) swap_msg"
  obtain hook where hook: "to_binary (dlib d) (HubPayload ?swap) = Ok hook" using serialises by blast
  have claimed: "hub_execute d e \<lparr>sender = registry_addr, funds = []\<rparr> ?claim hs =
      Ok (hs, \<lparr>messages = [WasmExecute (airdrop_contract ai) claim_msg [], WasmExecute (contract_address e) hook []], attributes = []\<rparr>)"
    using config known registry hook by (simp add: hub_execute_def claim_airdrop_def)
  have swapped: "\<exists>send sresp. hub_execute d' e \<lparr>sender = contract_address e, funds = []\<rparr> ?swap hs = Ok (hs, sresp) \<and>
      to_binary (dlib d) (Cw20Payload (Send (airdrop_swap_contract ai) n swap_msg)) = Ok send \<and>
      messages sresp = [WasmExecute (airdrop_token_contract ai) send []]"
    if "dlib d' = dlib d \<and> query_cw20_balance (dquerier d') (airdrop_token_contract ai) (contract_address e) = Ok n \<and> n \<noteq> 0" for d' n
    using that serialises [of "Cw20Payload (Send (airdrop_swap_contract ai) n swap_msg)"]
    by (auto simp: hub_execute_def swap_hook_def)
  show ?thesis
    by (rule exI [of _ rc], rule exI [of _ ai], rule exI [of _ b], rule exI [of _ ?claim], rule exI [of _ claim_msg],
        rule exI [of _ swap_msg], rule exI [of _ hook], rule exI [of _ ?swap], rule exI, intro conjI,
        rule r(1), rule r(2), rule r(3), rule r(7), rule r(6), rule claimed)
      (use r hook swapped in simp_all)
qed

lemma example_fabricated:
  "\<exists>resp. registry_execute example_deps (example_info ''u'') (FabricateMIRClaim 1 10 []) example_registry = Ok (example_registry, resp)"
  by (simp add: registry_execute_def execute_fabricate_mir_claim_def registry_read_config_def read_airdrop_info_def
      example_registry_def store_get_def std_lib_eval)

theorem airdrop_claim_flow_witness:
  "\<exists>hub_msg hresp. hub_execute example_deps example_env \<lparr>sender = ''g'', funds = []\<rparr> hub_msg example_hub = Ok (example_hub, hresp) \<and>
     length (messages hresp) = 2"
proof -
  obtain resp where r: "registry_execute example_deps (example_info ''u'') (FabricateMIRClaim 1 10 []) example_registry =
      Ok (example_registry, resp)" using example_fabricated by blast
  have f: "fabricates (FabricateMIRClaim 1 10 []) = Some (''MIR'', MIRPayload (MIRClaim 1 10 []))" by simp
  have c: "CONFIG example_hub = Some example_hub_config" "airdrop_registry_contract example_hub_config = Some [103]"
    by (simp_all add: example_hub_def example_hub_config_def)
  have a: "addr_canonicalize (dapi example_deps) ''g'' = Ok [103]" "addr_humanize (dapi example_deps) [103] = Ok ''g''"
    by (simp_all add: example_api_eval char_of_def bit_0)
  have s: "\<exists>b. to_binary (dlib example_deps) p = Ok b" for p by (simp add: std_lib_eval)
  obtain hub_msg hresp x y where
    h: "hub_execute example_deps example_env \<lparr>sender = ''g'', funds = []\<rparr> hub_msg example_hub = Ok (example_hub, hresp)"
    and m: "messages hresp = [x, y]"
    using airdrop_claim_flow [OF f r c a s, of example_env] by (elim exE conjE) (rule that)
  have "length (messages hresp) = 2" by (simp add: m)
  with h show ?thesis by blast
qed

end
