(* ===== verification/Token_Mirror.thy ===== *)
theory Token_Mirror
  imports Token_Contract Reward_Solvency Example_Chain
begin

text \<open>
  The token and the reward contract.  The reward contract keeps a copy of every token balance, which it
  changes only when the token tells it to.  Shown here: the messages the token sends describe exactly what
  the ledger did, and executing them does the same to the copy.
\<close>

section \<open>What the messages describe\<close>

definition reward_call :: "lib \<Rightarrow> string \<Rightarrow> reward_execute_msg \<Rightarrow> cosmos_msg \<Rightarrow> bool" where
  "reward_call l reward m x \<longleftrightarrow> (\<exists>b. to_binary l (RewardPayload m) = Ok b \<and> x = WasmExecute reward b [])"

fun mirrored :: "api \<Rightarrow> reward_execute_msg list \<Rightarrow> balances \<Rightarrow> balances \<Rightarrow> bool" where
  "mirrored ap [] f g \<longleftrightarrow> g = f"
| "mirrored ap (IncreaseBalance a n # ms) f g \<longleftrightarrow> (\<exists>h. credits ap a n f h \<and> mirrored ap ms h g)"
| "mirrored ap (DecreaseBalance a n # ms) f g \<longleftrightarrow> (\<exists>h. debits ap a n f h \<and> mirrored ap ms h g)"
| "mirrored ap (_ # ms) f g \<longleftrightarrow> False"

lemma reward_msg_ok [simp]: "reward_msg d reward m = Ok x \<longleftrightarrow> reward_call (dlib d) reward m x"
  by (auto simp: reward_msg_def reward_call_def)

lemma on_cw20_ok [simp]:
  "on_cw20 f s = Ok (s', r) \<longleftrightarrow> (\<exists>c'. f (cw20_storage s) = Ok (c', r) \<and> s' = s\<lparr>cw20_storage := c'\<rparr>)"
  by (auto simp: on_cw20_def)

text \<open>
  What is sent: a list of balance changes for the reward contract, and behind them at most the
  notification of the receiver of a \<open>Send\<close>.
\<close>

definition token_sends ::
    "deps \<Rightarrow> 'c token_storage \<Rightarrow> balances \<Rightarrow> balances \<Rightarrow> cosmos_msg list \<Rightarrow> bool" where
  "token_sends d s f g msgs \<longleftrightarrow>
     (\<exists>reward ms bs rest. msgs = bs @ rest \<and> list_all2 (reward_call (dlib d) reward) ms bs \<and>
        mirrored (dapi d) ms f g \<and> (rest = [] \<or> (\<exists>ct m. notifies (dlib d) ct m rest)) \<and>
        (ms \<noteq> [] \<longrightarrow> query_reward_contract d s = Ok reward))"

lemma token_sends_debit:
  assumes "reward_call (dlib d) reward (DecreaseBalance ow n) x" and "query_reward_contract d s = Ok reward"
    and "debits (dapi d) ow n f g"
  shows "token_sends d s f g [x]"
  unfolding token_sends_def using assms
  by (intro exI [of _ reward] exI [of _ "[DecreaseBalance ow n]"] exI [of _ "[x]"] exI [of _ "[]"]) simp

lemma token_sends_credit:
  assumes "reward_call (dlib d) reward (IncreaseBalance ow n) x" and "query_reward_contract d s = Ok reward"
    and "credits (dapi d) ow n f g"
  shows "token_sends d s f g [x]"
  unfolding token_sends_def using assms
  by (intro exI [of _ reward] exI [of _ "[IncreaseBalance ow n]"] exI [of _ "[x]"] exI [of _ "[]"]) simp

lemma token_sends_move:
  assumes "reward_call (dlib d) reward (DecreaseBalance ow n) x" and "reward_call (dlib d) reward (IncreaseBalance to n) y"
    and "query_reward_contract d s = Ok reward"
    and "moves (dapi d) ow to n f g" and "rest = [] \<or> (\<exists>ct m. notifies (dlib d) ct m rest)"
  shows "token_sends d s f g (x # y # rest)"
  unfolding token_sends_def using assms
  by (intro exI [of _ reward] exI [of _ "[DecreaseBalance ow n, IncreaseBalance to n]"] exI [of _ "[x, y]"] exI [of _ rest])
    (simp add: moves_def)

lemma token_sends_send:
  assumes "reward_call (dlib d) reward (DecreaseBalance ow n) x" and "reward_call (dlib d) reward (IncreaseBalance to n) y"
    and "query_reward_contract d s = Ok reward" and "moves (dapi d) ow to n f g" and "notifies (dlib d) ct m rest"
  shows "token_sends d s f g (x # y # rest)"
  using token_sends_move [OF assms(1-4)] assms(5) by blast

context cw20_ledger
begin

lemma token_execute_sends:
  assumes api: "address_api (dapi d)" and run: "token_execute c d e i msg s = Ok (s', resp)"
  shows "HUB_CONTRACT_KEY s' = HUB_CONTRACT_KEY s \<and>
     token_sends d s (bal (cw20_storage s)) (bal (cw20_storage s')) (messages resp)"
proof (cases msg)
  note same = address_api.addr_validate_same [OF api]
  {
    case (Transfer rcpt n)
    then show ?thesis using run
      by (auto simp: token_execute_def execute_transfer_def intro: token_sends_move [OF _ _ _ transfer_moves] dest!: same)
  next
    case (Burn n)
    then show ?thesis using run
      by (auto simp: token_execute_def execute_burn_def intro: token_sends_debit [OF _ _ burn_debits])
  next
    case (Send ct n p)
    then show ?thesis using run
      by (auto simp: token_execute_def execute_send_def intro: token_sends_send [OF _ _ _ send_moves send_notifies])
  next
    case (Mint rcpt n)
    then show ?thesis using run
      by (auto simp: token_execute_def execute_mint_def intro: token_sends_credit [OF _ _ mint_credits])
  next
    case (IncreaseAllowance sp n ex)
    then show ?thesis using run
      by (auto simp: token_execute_def token_sends_def dest!: increase_allowance_keeps)
  next
    case (DecreaseAllowance sp n ex)
    then show ?thesis using run
      by (auto simp: token_execute_def token_sends_def dest!: decrease_allowance_keeps)
  next
    case (TransferFrom ow rcpt n)
    then show ?thesis using run
      by (auto simp: token_execute_def execute_transfer_from_def intro: token_sends_move [OF _ _ _ transfer_from_moves] dest!: same)
  next
    case (BurnFrom ow n)
    then show ?thesis using run
      by (auto simp: token_execute_def execute_burn_from_def intro: token_sends_debit [OF _ _ burn_from_debits] dest!: same)
  next
    case (SendFrom ow ct n p)
    then show ?thesis using run
      by (auto simp: token_execute_def execute_send_from_def
        intro: token_sends_send [OF _ _ _ send_from_moves send_from_notifies] dest!: same)
  }
qed

end


section \<open>The copy in the reward contract\<close>

definition reward_balances :: "reward_storage \<Rightarrow> balances" where
  "reward_balances r a = unat (holder_balance (holder_of r a))"

lemma reward_balances_set:
  "reward_balances (r\<lparr>HOLDERS := store_set id a h (HOLDERS r), reward_STATE := st\<rparr>) = (reward_balances r)(a := unat (holder_balance h))"
  by (auto simp: reward_balances_def holder_of_def store_get_set fun_eq_iff)

lemma reward_balances_cong: "HOLDERS r' = HOLDERS r \<Longrightarrow> reward_balances r' = reward_balances r"
  by (auto simp: reward_balances_def holder_of_def fun_eq_iff)

lemma increase_credits:
  assumes "reward_lib (dlib d)" and "reward_execute d e i (IncreaseBalance a n) r = Ok (r', resp)"
  shows "credits (dapi d) a n (reward_balances r) (reward_balances r')"
proof -
  from assms(2) have "execute_increase_balance d i a n r = Ok (r', resp)" by (simp add: reward_execute_def)
  with assms(1) show ?thesis
    by (cases rule: execute_increase_balance_ok)
      (auto simp: credits_def reward_balances_set, simp add: reward_balances_def)
qed

lemma decrease_debits:
  assumes "reward_lib (dlib d)" and "reward_execute d e i (DecreaseBalance a n) r = Ok (r', resp)"
  shows "debits (dapi d) a n (reward_balances r) (reward_balances r')"
proof -
  from assms(2) have "execute_decrease_balance d i a n r = Ok (r', resp)" by (simp add: reward_execute_def)
  with assms(1) show ?thesis
    by (cases rule: execute_decrease_balance_ok)
      (auto simp: debits_def reward_balances_set, simp_all add: reward_balances_def)
qed

text \<open>Whatever else the reward contract executes leaves the copy alone.\<close>

fun changes_balance :: "reward_execute_msg \<Rightarrow> bool" where
  "changes_balance (IncreaseBalance a n) = True"
| "changes_balance (DecreaseBalance a n) = True"
| "changes_balance _ = False"

lemma other_messages_keep:
  assumes lib: "reward_lib (dlib d)" and run: "reward_execute d e i m r = Ok (r', resp)" and m: "\<not> changes_balance m"
  shows "reward_balances r' = reward_balances r"
proof (cases m)
  case (ClaimRewards rcpt)
  then have "execute_claim_rewards d i rcpt r = Ok (r', resp)" using run by (simp add: reward_execute_def)
  with lib show ?thesis
  proof (cases rule: execute_claim_rewards_ok)
    case (1 a st c h' rewards prev to taxed)
    have "reward_balances r' = (reward_balances r)(a := unat (holder_balance h'))"
      unfolding 1(10) by (auto simp: reward_balances_def holder_of_def store_get_set fun_eq_iff)
    then show ?thesis using 1(6) by (simp add: reward_balances_def fun_eq_iff)
  qed
next
  case SwapToRewardDenom
  then show ?thesis using run by (auto simp: reward_execute_def execute_swap_def)
next
  case RewardUpdateGlobalIndex
  then show ?thesis using run
    by (auto simp: reward_execute_def execute_update_global_index_def intro: reward_balances_cong)
qed (use m in simp_all)

text \<open>Two runs of the same balance changes from the same balances end in the same balances.\<close>

lemma debits_unique: "debits ap a n f g \<Longrightarrow> debits ap a n f g' \<Longrightarrow> g' = g"
  by (auto simp: debits_def)

lemma credits_unique: "credits ap a n f g \<Longrightarrow> credits ap a n f g' \<Longrightarrow> g' = g"
  by (auto simp: credits_def)

lemma mirrored_unique: "mirrored ap ms f g \<Longrightarrow> mirrored ap ms f g' \<Longrightarrow> g' = g"
  by (induction ap ms f g rule: mirrored.induct) (auto dest: debits_unique credits_unique)


text \<open>A message comes from the token when its sender is the contract the hub has registered as the token.\<close>

definition from_token :: "deps \<Rightarrow> message_info \<Rightarrow> reward_storage \<Rightarrow> bool" where
  "from_token d i r \<longleftrightarrow>
     (\<exists>config hub raw. reward_CONFIG r = Some config \<and> addr_humanize (dapi d) (rc_hub_contract config) = Ok hub \<and>
        query_token_contract d hub = Ok raw \<and>
        (addr_humanize (dapi d) raw = Ok (sender i) \<or> addr_canonicalize (dapi d) (sender i) = Ok raw))"

lemma changes_balance_from_token:
  "reward_execute d e i m r = Ok (r', resp) \<Longrightarrow> changes_balance m \<Longrightarrow> from_token d i r"
  by (cases m) (auto simp: reward_execute_def execute_increase_balance_def execute_decrease_balance_def from_token_def
      split: if_splits)

end
