(* ===== verification/World.thy ===== *)
theory World
  imports Token_Mirror Contract_Keys Hub_Admin_Properties Registry_Properties
begin

text \<open>
  The four contracts on one chain.  A state is the storage of each contract and a list of pending messages
  with their senders.  The chain executes the first pending message; the messages of the response come
  before the others, so calls are executed depth first and contracts can be re-entered.  Contracts outside
  this repository may send any messages at any time.  A transaction starts with messages of accounts that
  are not one of the four contracts and is over when no message is pending; one that fails leaves the state
  before it, so only completed steps are described.

  What a contract reads of another is tied to the other's storage: a raw query of the hub returns what the
  hub stores under the key asked for, and the token's supply is the one its ledger keeps.  The other answers
  of the querier are arbitrary, except that the reward contract is told its true balance.
\<close>

section \<open>States and steps\<close>

record deployment =
  hub_at :: string
  token_at :: string
  reward_at :: string
  registry_at :: string

definition contracts :: "deployment \<Rightarrow> string list" where
  "contracts A = [hub_at A, token_at A, reward_at A, registry_at A]"

text \<open>An address in the form in which the chain reports it: humanising its canonical form gives it back.\<close>

definition normal_address :: "api \<Rightarrow> string \<Rightarrow> bool" where
  "normal_address ap a \<longleftrightarrow> (\<forall>raw. addr_canonicalize ap a = Ok raw \<longrightarrow> addr_humanize ap raw = Ok a)"

definition deployed :: "api \<Rightarrow> deployment \<Rightarrow> bool" where
  "deployed ap A \<longleftrightarrow> distinct (contracts A) \<and>
     (\<forall>a \<in> set (contracts A). normal_address ap a \<and> (\<exists>raw. addr_canonicalize ap a = Ok raw))"

type_synonym job = "string \<times> cosmos_msg"

record 'c world =
  w_hub :: hub_storage
  w_token :: "'c token_storage"
  w_reward :: reward_storage
  w_registry :: registry_storage
  w_coins :: nat

text \<open>
  The answers the chain gives: raw queries of the hub read its storage, the token reports its total supply,
  and the reward contract's balance in its reward denomination is the number of its coins.
\<close>

definition chain_answers :: "'c cw20_legacy \<Rightarrow> deployment \<Rightarrow> deps \<Rightarrow> 'c world \<Rightarrow> bool" where
  "chain_answers c A d w \<longleftrightarrow>
     (\<forall>key cfg. query_raw_config (dquerier d) (hub_at A) key = Ok cfg \<longleftrightarrow>
        (\<exists>slot. hub_key (dlib d) slot = key \<and> hub_cell (w_hub w) slot = Some (ConfigValue cfg))) \<and>
     query_token_supply (dquerier d) (token_at A) = Ok (cw20_total_supply c (cw20_storage (w_token w))) \<and>
     (\<forall>rc. reward_CONFIG (w_reward w) = Some rc \<longrightarrow>
        (\<exists>bal. query_balance (dquerier d) (reward_at A) (rc_reward_denom rc) = Ok bal \<and> unat (amount bal) = w_coins w))"

text \<open>The owner registers this token, reward contract and registry and no other.\<close>

fun registers :: "deployment \<Rightarrow> hub_execute_msg \<Rightarrow> bool" where
  "registers A (HubUpdateConfig ow rw tk ad) \<longleftrightarrow>
     (rw = None \<or> rw = Some (reward_at A)) \<and> (tk = None \<or> tk = Some (token_at A)) \<and>
     (ad = None \<or> ad = Some (registry_at A))"
| "registers A _ \<longleftrightarrow> True"

fun is_wasm :: "cosmos_msg \<Rightarrow> bool" where
  "is_wasm (WasmExecute to b fs) = True"
| "is_wasm _ = False"

inductive world_step ::
    "'c cw20_legacy \<Rightarrow> lib \<Rightarrow> api \<Rightarrow> deployment \<Rightarrow> 'c world \<Rightarrow> job list \<Rightarrow> 'c world \<Rightarrow> job list \<Rightarrow> bool"
  for c :: "'c cw20_legacy" and l :: lib and ap :: api and A :: deployment where
  hub_step: "dlib d = l \<Longrightarrow> dapi d = ap \<Longrightarrow> chain_answers c A d w \<Longrightarrow> contract_address e = hub_at A \<Longrightarrow>
     to_binary l (HubPayload m) = Ok b \<Longrightarrow> registers A m \<Longrightarrow>
     hub_execute d e \<lparr>sender = who, funds = fs\<rparr> m (w_hub w) = Ok (h, resp) \<Longrightarrow>
     world_step c l ap A w ((who, WasmExecute (hub_at A) b fs) # js)
       (w\<lparr>w_hub := h\<rparr>) (map (Pair (hub_at A)) (messages resp) @ js)"
| token_step: "dlib d = l \<Longrightarrow> dapi d = ap \<Longrightarrow> chain_answers c A d w \<Longrightarrow> contract_address e = token_at A \<Longrightarrow>
     to_binary l (Cw20Payload tm) = Ok b \<Longrightarrow>
     token_execute c d e \<lparr>sender = who, funds = fs\<rparr> tm (w_token w) = Ok (t, resp) \<Longrightarrow>
     world_step c l ap A w ((who, WasmExecute (token_at A) b fs) # js)
       (w\<lparr>w_token := t\<rparr>) (map (Pair (token_at A)) (messages resp) @ js)"
| reward_step: "dlib d = l \<Longrightarrow> dapi d = ap \<Longrightarrow> chain_answers c A d w \<Longrightarrow> contract_address e = reward_at A \<Longrightarrow>
     to_binary l (RewardPayload rm) = Ok b \<Longrightarrow> reward_CONFIG (w_reward w) = Some rc \<Longrightarrow>
     reward_execute d e \<lparr>sender = who, funds = fs\<rparr> rm (w_reward w) = Ok (r, resp) \<Longrightarrow>
     world_step c l ap A w ((who, WasmExecute (reward_at A) b fs) # js)
       (w\<lparr>w_reward := r, w_coins := w_coins w - chain_outflow (dquerier d) (rc_reward_denom rc) resp\<rparr>)
       (map (Pair (reward_at A)) (messages resp) @ js)"
| registry_step: "dlib d = l \<Longrightarrow> dapi d = ap \<Longrightarrow> chain_answers c A d w \<Longrightarrow>
     registry_execute d \<lparr>sender = who, funds = fs\<rparr> gm (w_registry w) = Ok (g, resp) \<Longrightarrow>
     world_step c l ap A w ((who, WasmExecute (registry_at A) b fs) # js)
       (w\<lparr>w_registry := g\<rparr>) (map (Pair (registry_at A)) (messages resp) @ js)"
| outside_step: "to \<notin> set (contracts A) \<Longrightarrow> normal_address ap to \<Longrightarrow>
     world_step c l ap A w ((who, WasmExecute to b fs) # js) w (map (Pair to) msgs @ js)"
| native_step: "\<not> is_wasm m \<Longrightarrow> world_step c l ap A w ((who, m) # js) w js"

text \<open>
  Deployment: the hub is instantiated, and the token and the reward contract with the hub's address.  Coins
  arrive at the reward contract at any time (staking rewards, proceeds of swaps, gifts).
\<close>

inductive world_reachable ::
    "'c cw20_legacy \<Rightarrow> 'c \<Rightarrow> lib \<Rightarrow> api \<Rightarrow> deployment \<Rightarrow> 'c world \<Rightarrow> job list \<Rightarrow> bool"
  for c :: "'c cw20_legacy" and fresh :: 'c and l :: lib and ap :: api and A :: deployment where
  world_started: "hub_instantiate dh eh ih mh empty_hub_storage = Ok (h, resp) \<Longrightarrow> contract_address eh = hub_at A \<Longrightarrow>
     dapi dt = ap \<Longrightarrow> token_instantiate c dt et it mt \<lparr>HUB_CONTRACT_KEY = None, cw20_storage = fresh\<rparr> = Ok (t, respt) \<Longrightarrow>
     tim_hub_contract mt = hub_at A \<Longrightarrow> tim_initial_balances mt = [] \<Longrightarrow>
     dapi dr = ap \<Longrightarrow> reward_instantiate dr mr empty_reward_storage = Ok (r, respr) \<Longrightarrow> rim_hub_contract mr = hub_at A \<Longrightarrow>
     registry_instantiate dg ig mg empty_registry_storage = Ok (g, respg) \<Longrightarrow>
     world_reachable c fresh l ap A
       \<lparr>w_hub = h, w_token = t, w_reward = r, w_registry = g, w_coins = n\<rparr> (map (Pair (hub_at A)) (messages resp))"
| transaction: "world_reachable c fresh l ap A w [] \<Longrightarrow>
     \<forall>(who, m) \<in> set js. who \<notin> set (contracts A) \<and> normal_address ap who \<Longrightarrow> world_reachable c fresh l ap A w js"
| stepped: "world_reachable c fresh l ap A w js \<Longrightarrow> world_step c l ap A w js w' js' \<Longrightarrow>
     world_reachable c fresh l ap A w' js'"
| coins_arrive: "world_reachable c fresh l ap A w js \<Longrightarrow>
     world_reachable c fresh l ap A (w\<lparr>w_coins := w_coins w + n\<rparr>) js"


section \<open>Reading the hub's configuration\<close>

lemma hub_cell_config: "hub_cell s slot = Some (ConfigValue c) \<longleftrightarrow> slot = ConfigSlot \<and> CONFIG s = Some c"
  by (cases slot) auto

lemma raw_config:
  assumes "length_prefix (dlib d)" and "chain_answers c A d w"
  shows "query_raw_config (dquerier d) (hub_at A) (to_length_prefixed (dlib d) (literal_bytes ''config'')) = Ok cfg \<longleftrightarrow>
     CONFIG (w_hub w) = Some cfg"
  using assms(2)
  by (auto simp: chain_answers_def hub_cell_config length_prefix.item_keys(1) [OF assms(1), symmetric])


section \<open>Invariants\<close>

text \<open>The contracts refer to each other: what is registered is registered correctly.\<close>

definition wired :: "api \<Rightarrow> deployment \<Rightarrow> 'c world \<Rightarrow> bool" where
  "wired ap A w \<longleftrightarrow>
     (\<exists>cfg rc hub. CONFIG (w_hub w) = Some cfg \<and> reward_CONFIG (w_reward w) = Some rc \<and>
        addr_canonicalize ap (hub_at A) = Ok hub \<and> HUB_CONTRACT_KEY (w_token w) = Some hub \<and> rc_hub_contract rc = hub \<and>
        (\<forall>raw. reward_contract cfg = Some raw \<longrightarrow> addr_canonicalize ap (reward_at A) = Ok raw) \<and>
        (\<forall>raw. token_contract cfg = Some raw \<longrightarrow> addr_canonicalize ap (token_at A) = Ok raw) \<and>
        (\<forall>raw. airdrop_registry_contract cfg = Some raw \<longrightarrow> addr_canonicalize ap (registry_at A) = Ok raw))"

text \<open>What the registry sends: to its hub, the order to claim an airdrop.\<close>

fun is_claim :: "payload \<Rightarrow> bool" where
  "is_claim (MIRPayload m) = True"
| "is_claim (ANCPayload m) = True"
| "is_claim _ = False"

definition claim_call :: "lib \<Rightarrow> cosmos_msg \<Rightarrow> bool" where
  "claim_call l x \<longleftrightarrow>
     (\<exists>to b tok ad swp cm sm claim. x = WasmExecute to b [] \<and> to_binary l (HubPayload (ClaimAirdrop tok ad swp cm sm)) = Ok b \<and>
        is_claim claim \<and> to_binary l claim = Ok cm)"

lemma claim_callI:
  "to_binary l (HubPayload (ClaimAirdrop tok ad swp cm sm)) = Ok b \<Longrightarrow> to_binary l claim = Ok cm \<Longrightarrow> is_claim claim \<Longrightarrow>
     claim_call l (WasmExecute to b [])"
  unfolding claim_call_def by blast

lemma registry_sends: "registry_execute d i gm g = Ok (g', resp) \<Longrightarrow> list_all (claim_call (dlib d)) (messages resp)"
  by (cases gm)
    (auto simp: registry_execute_def registry_update_config_def execute_add_airdrop_def execute_update_airdrop_def
      execute_remove_airdrop_def execute_fabricate_mir_claim_def execute_fabricate_anchor_claim_def Let_def
      intro!: claim_callI split: if_splits option.splits)

text \<open>
  The pending messages: first the balance changes the token has reported and the reward contract has not
  executed yet; nothing behind them changes balances of the reward contract.
\<close>

definition job_ok :: "lib \<Rightarrow> api \<Rightarrow> deployment \<Rightarrow> job \<Rightarrow> bool" where
  "job_ok l ap A j \<longleftrightarrow> normal_address ap (fst j) \<and>
     (fst j = token_at A \<longrightarrow> (\<exists>ct m. notifies l ct m [snd j])) \<and> (fst j = registry_at A \<longrightarrow> claim_call l (snd j))"

definition in_step :: "('c \<Rightarrow> balances) \<Rightarrow> lib \<Rightarrow> api \<Rightarrow> deployment \<Rightarrow> 'c world \<Rightarrow> job list \<Rightarrow> bool" where
  "in_step bal l ap A w js \<longleftrightarrow>
     (\<exists>ms bs rest. js = map (Pair (token_at A)) bs @ rest \<and> list_all2 (reward_call l (reward_at A)) ms bs \<and>
        mirrored ap ms (reward_balances (w_reward w)) (bal (cw20_storage (w_token w))) \<and> list_all (job_ok l ap A) rest)"

locale basset_world = cw20_ledger c bal fresh + reward_lib l + json_text l + length_prefix l + address_api ap
  for c :: "'c cw20_legacy" and bal fresh l ap +
  fixes A :: deployment
  assumes deployed: "deployed ap A"
begin

lemma contracts_apart:
  "hub_at A \<noteq> token_at A" "hub_at A \<noteq> reward_at A" "hub_at A \<noteq> registry_at A" "token_at A \<noteq> hub_at A"
  "token_at A \<noteq> reward_at A" "token_at A \<noteq> registry_at A" "reward_at A \<noteq> hub_at A" "reward_at A \<noteq> token_at A"
  "reward_at A \<noteq> registry_at A" "registry_at A \<noteq> hub_at A" "registry_at A \<noteq> token_at A" "registry_at A \<noteq> reward_at A"
  using deployed by (auto simp: deployed_def contracts_def)

lemma contracts_normal:
  "normal_address ap (hub_at A)" "normal_address ap (token_at A)" "normal_address ap (reward_at A)"
  "normal_address ap (registry_at A)"
  using deployed by (auto simp: deployed_def contracts_def)

text \<open>The reward contract's client check and the token's lookup, in a wired world.\<close>

lemma reward_contract_found:
  assumes "wired ap A w" and "dlib d = l" "dapi d = ap" "chain_answers c A d w"
    and "query_reward_contract d (w_token w) = Ok reward"
  shows "reward = reward_at A"
proof -
  have "length_prefix (dlib d)" using length_prefix_axioms assms(2) by simp
  note config = raw_config [OF this assms(4)]
  show ?thesis
    using assms contracts_normal
    by (auto simp: wired_def query_reward_contract_def read_hub_contract_def normal_address_def config)
qed

lemma from_token_sender:
  assumes "wired ap A w" and "dlib d = l" "dapi d = ap" "chain_answers c A d w"
    and "from_token d \<lparr>sender = who, funds = fs\<rparr> (w_reward w)" and "normal_address ap who"
  shows "who = token_at A"
proof -
  have "length_prefix (dlib d)" using length_prefix_axioms assms(2) by simp
  note config = raw_config [OF this assms(4)]
  show ?thesis
    using assms contracts_normal
    by (auto simp: wired_def from_token_def query_token_contract_def normal_address_def config)
qed

lemma hub_keeps_wiring:
  assumes d: "dlib d = l" "dapi d = ap" and run: "hub_execute d e i m h = Ok (h', resp)" and m: "registers A m"
    and cfg: "CONFIG h = Some cfg" "\<forall>raw. reward_contract cfg = Some raw \<longrightarrow> addr_canonicalize ap (reward_at A) = Ok raw"
      "\<forall>raw. token_contract cfg = Some raw \<longrightarrow> addr_canonicalize ap (token_at A) = Ok raw"
      "\<forall>raw. airdrop_registry_contract cfg = Some raw \<longrightarrow> addr_canonicalize ap (registry_at A) = Ok raw"
  shows "\<exists>cfg'. CONFIG h' = Some cfg' \<and>
     (\<forall>raw. reward_contract cfg' = Some raw \<longrightarrow> addr_canonicalize ap (reward_at A) = Ok raw) \<and>
     (\<forall>raw. token_contract cfg' = Some raw \<longrightarrow> addr_canonicalize ap (token_at A) = Ok raw) \<and>
     (\<forall>raw. airdrop_registry_contract cfg' = Some raw \<longrightarrow> addr_canonicalize ap (registry_at A) = Ok raw)"
proof (cases "\<exists>ow rw tk ad. m = HubUpdateConfig ow rw tk ad")
  case True
  then obtain ow rw tk ad where m': "m = HubUpdateConfig ow rw tk ad" by blast
  then obtain s1 s2 s3 where f: "update_config_field d ow (\<lambda>raw c. c\<lparr>creator := raw\<rparr>) h = Ok s1"
    "update_config_field d rw (\<lambda>raw c. c\<lparr>reward_contract := Some raw\<rparr>) s1 = Ok s2"
    "update_config_field d tk (\<lambda>raw c. c\<lparr>token_contract := Some raw\<rparr>) s2 = Ok s3"
    "update_config_field d ad (\<lambda>raw c. c\<lparr>airdrop_registry_contract := Some raw\<rparr>) s3 = Ok h'"
    using run by (auto simp: hub_execute_def execute_update_config_def split: if_splits)
  let ?ok = "\<lambda>s. \<exists>cfg. CONFIG s = Some cfg \<and>
     (\<forall>raw. reward_contract cfg = Some raw \<longrightarrow> addr_canonicalize ap (reward_at A) = Ok raw) \<and>
     (\<forall>raw. token_contract cfg = Some raw \<longrightarrow> addr_canonicalize ap (token_at A) = Ok raw) \<and>
     (\<forall>raw. airdrop_registry_contract cfg = Some raw \<longrightarrow> addr_canonicalize ap (registry_at A) = Ok raw)"
  have "?ok h" using cfg by blast
  then have "?ok s1" using f(1) by (auto elim: update_config_field_ok)
  then have "?ok s2" using f(2) m m' d(2) by (auto elim!: update_config_field_ok)
  then have "?ok s3" using f(3) m m' d(2) by (auto elim!: update_config_field_ok)
  then show ?thesis using f(4) m m' d(2) by (auto elim!: update_config_field_ok)
next
  case False
  then have "CONFIG h' = CONFIG h" using hub_execute_admin(2) [OF d(1) run] by blast
  with cfg show ?thesis by simp
qed

lemma reward_execute_config: "reward_execute d e i m r = Ok (r', resp) \<Longrightarrow> reward_CONFIG r' = reward_CONFIG r"
  by (cases m)
    (auto simp: reward_execute_def execute_swap_def execute_update_global_index_def execute_claim_rewards_def
      execute_increase_balance_def execute_decrease_balance_def store_state_def store_holder_def split: if_splits option.splits)

lemma wired_step:
  assumes w: "wired ap A w" and step: "world_step c l ap A w js w' js'"
  shows "wired ap A w'"
  using step
proof (cases rule: world_step.cases)
  case (hub_step d e m b who fs h resp js)
  obtain cfg where "CONFIG (w_hub w) = Some cfg" "\<forall>raw. reward_contract cfg = Some raw \<longrightarrow> addr_canonicalize ap (reward_at A) = Ok raw"
    "\<forall>raw. token_contract cfg = Some raw \<longrightarrow> addr_canonicalize ap (token_at A) = Ok raw"
    "\<forall>raw. airdrop_registry_contract cfg = Some raw \<longrightarrow> addr_canonicalize ap (registry_at A) = Ok raw"
    using w by (auto simp: wired_def)
  from hub_keeps_wiring [OF hub_step(4,5,10,9) this] w show ?thesis by (auto simp: wired_def hub_step(2))
next
  case (token_step d e tm b who fs t resp js)
  have "address_api (dapi d)" using address_api_axioms token_step(5) by simp
  from token_execute_sends [OF this token_step(9)] w show ?thesis by (simp add: wired_def token_step(2))
next
  case (reward_step d e rm b rc who fs r resp js)
  from reward_execute_config [OF reward_step(10)] w show ?thesis by (simp add: wired_def reward_step(2))
qed (use w in \<open>simp_all add: wired_def\<close>)

text \<open>Executing the pending messages keeps the copy of the balances in step.\<close>

lemma in_step_intro:
  "reward_balances (w_reward w) = bal (cw20_storage (w_token w)) \<Longrightarrow> list_all (job_ok l ap A) js \<Longrightarrow> in_step bal l ap A w js"
  unfolding in_step_def by (intro exI [of _ "[]"] exI [of _ js]) simp

lemma in_step_head:
  assumes "in_step bal l ap A w ((who, x) # js)" and "\<And>b. x \<noteq> WasmExecute (reward_at A) b []"
  shows "reward_balances (w_reward w) = bal (cw20_storage (w_token w))" and "list_all (job_ok l ap A) ((who, x) # js)"
proof -
  obtain ms bs rest where m: "(who, x) # js = map (Pair (token_at A)) bs @ rest" "list_all2 (reward_call l (reward_at A)) ms bs"
    "mirrored ap ms (reward_balances (w_reward w)) (bal (cw20_storage (w_token w)))" "list_all (job_ok l ap A) rest"
    using assms(1) by (auto simp: in_step_def)
  have "bs = []"
  proof (cases bs)
    case (Cons b bs')
    then have "x = b" using m(1) by simp
    moreover obtain y where "reward_call l (reward_at A) y b" using m(2) Cons by (auto simp: list_all2_Cons2)
    ultimately show ?thesis using assms(2) by (auto simp: reward_call_def)
  qed simp
  with m show "reward_balances (w_reward w) = bal (cw20_storage (w_token w))" "list_all (job_ok l ap A) ((who, x) # js)"
    by simp_all
qed

lemma jobs_ok: "normal_address ap a \<Longrightarrow> a \<noteq> token_at A \<Longrightarrow> a \<noteq> registry_at A \<Longrightarrow> list_all (job_ok l ap A) (map (Pair a) ms)"
  by (simp add: job_ok_def list_all_iff)

lemma in_step_token:
  assumes w: "wired ap A w" and st: "in_step bal l ap A w ((who, WasmExecute (token_at A) b fs) # js)"
    and d: "dlib d = l" "dapi d = ap" "chain_answers c A d w" and run: "token_execute c d e i tm (w_token w) = Ok (t, resp)"
  shows "in_step bal l ap A (w\<lparr>w_token := t\<rparr>) (map (Pair (token_at A)) (messages resp) @ js)"
proof -
  have eq: "reward_balances (w_reward w) = bal (cw20_storage (w_token w))" and ok: "list_all (job_ok l ap A) js"
    using in_step_head [OF st] contracts_apart by auto
  have "address_api (dapi d)" using address_api_axioms d(2) by simp
  from token_execute_sends [OF this run] obtain reward ms bs rest where
    m: "messages resp = bs @ rest" "list_all2 (reward_call l reward) ms bs"
    "mirrored ap ms (bal (cw20_storage (w_token w))) (bal (cw20_storage t))" "rest = [] \<or> (\<exists>ct m. notifies l ct m rest)"
    and reward: "ms \<noteq> [] \<longrightarrow> query_reward_contract d (w_token w) = Ok reward"
    unfolding token_sends_def d by (elim conjE exE) (rule that)
  have "list_all2 (reward_call l (reward_at A)) ms bs"
    using m(2) reward reward_contract_found [OF w d] by (cases ms) auto
  moreover have "list_all (job_ok l ap A) (map (Pair (token_at A)) rest @ js)"
    using m(4) ok contracts_normal(2) contracts_apart by (auto simp: job_ok_def notifies_def)
  ultimately show ?thesis
    unfolding in_step_def using m(1,3) eq
    by (intro exI [of _ ms] exI [of _ bs] exI [of _ "map (Pair (token_at A)) rest @ js"]) simp
qed

lemma balance_change_quiet:
  "reward_execute d e i m r = Ok (r', resp) \<Longrightarrow> changes_balance m \<Longrightarrow> messages resp = []"
  by (cases m) (auto simp: reward_execute_def execute_increase_balance_def execute_decrease_balance_def split: if_splits)

lemma mirrored_Cons:
  assumes d: "dlib d = l" "dapi d = ap" and run: "reward_execute d e i m r = Ok (r', resp)"
    and mir: "mirrored ap (m # ms) (reward_balances r) g"
  shows "changes_balance m \<and> mirrored ap ms (reward_balances r') g"
proof -
  have lib: "reward_lib (dlib d)" using reward_lib_axioms d(1) by simp
  show ?thesis
    using mir run increase_credits [OF lib] decrease_debits [OF lib] unfolding d(2)
    by (cases m) (simp_all, (metis credits_unique debits_unique)+)
qed

lemma in_step_reward:
  assumes w: "wired ap A w" and st: "in_step bal l ap A w ((who, WasmExecute (reward_at A) b fs) # js)"
    and d: "dlib d = l" "dapi d = ap" "chain_answers c A d w" and b: "to_binary l (RewardPayload rm) = Ok b"
    and run: "reward_execute d e \<lparr>sender = who, funds = fs\<rparr> rm (w_reward w) = Ok (r, resp)"
  shows "in_step bal l ap A (w\<lparr>w_reward := r, w_coins := n\<rparr>) (map (Pair (reward_at A)) (messages resp) @ js)"
proof -
  have lib: "reward_lib (dlib d)" using reward_lib_axioms d(1) by simp
  obtain ms bs rest where m: "(who, WasmExecute (reward_at A) b fs) # js = map (Pair (token_at A)) bs @ rest"
    "list_all2 (reward_call l (reward_at A)) ms bs"
    "mirrored ap ms (reward_balances (w_reward w)) (bal (cw20_storage (w_token w)))" "list_all (job_ok l ap A) rest"
    using st by (auto simp: in_step_def)
  show ?thesis
  proof (cases bs)
    case Nil
    then have rest: "rest = (who, WasmExecute (reward_at A) b fs) # js" and "ms = []" using m(1,2) by auto
    then have ok: "job_ok l ap A (who, WasmExecute (reward_at A) b fs)" "list_all (job_ok l ap A) js" using m(4) by simp_all
    have "\<not> changes_balance rm"
    proof
      assume "changes_balance rm"
      then have "who = token_at A"
        using changes_balance_from_token [OF run] from_token_sender [OF w d] ok(1) by (auto simp: job_ok_def)
      then obtain ct x where "notifies l ct x [WasmExecute (reward_at A) b fs]" using ok(1) by (auto simp: job_ok_def)
      then show False using receive_not_reward [OF b] by (auto simp: notifies_def)
    qed
    then have "reward_balances r = reward_balances (w_reward w)" by (rule other_messages_keep [OF lib run])
    then show ?thesis
      using m(3) \<open>ms = []\<close> ok(2) jobs_ok [OF contracts_normal(3)] contracts_apart by (intro in_step_intro) simp_all
  next
    case (Cons x bs')
    then obtain m' ms' where ms: "ms = m' # ms'" "reward_call l (reward_at A) m' x" "list_all2 (reward_call l (reward_at A)) ms' bs'"
      using m(2) by (auto simp: list_all2_Cons2)
    have "m' = rm" using m(1) ms(2) Cons reward_messages_distinct [OF _ b] by (auto simp: reward_call_def)
    then have r: "changes_balance rm" "mirrored ap ms' (reward_balances r) (bal (cw20_storage (w_token w)))"
      using mirrored_Cons [OF d(1,2) run] m(3) ms(1) by blast+
    have "js = map (Pair (token_at A)) bs' @ rest" using m(1) Cons by simp
    then show ?thesis
      unfolding in_step_def using ms(3) r(2) m(4) balance_change_quiet [OF run r(1)]
      by (intro exI [of _ ms'] exI [of _ bs'] exI [of _ rest]) simp
  qed
qed

lemma in_step_step:
  assumes w: "wired ap A w" and st: "in_step bal l ap A w js" and step: "world_step c l ap A w js w' js'"
  shows "in_step bal l ap A w' js'"
  using step
proof (cases rule: world_step.cases)
  case (hub_step d e m b who fs h resp js0)
  then show ?thesis
    using in_step_head [OF st [unfolded hub_step(1)]] contracts_apart jobs_ok [OF contracts_normal(1)]
    by (intro in_step_intro) simp_all
next
  case (token_step d e tm b who fs t resp js0)
  then show ?thesis using in_step_token [OF w st [unfolded token_step(1)]] by simp
next
  case (reward_step d e rm b rc who fs r resp js0)
  then show ?thesis using in_step_reward [OF w st [unfolded reward_step(1)]] by simp
next
  case (registry_step d who fs gm g resp b js0)
  then have "list_all (job_ok l ap A) (map (Pair (registry_at A)) (messages resp))"
    using registry_sends [OF registry_step(7)] contracts_normal(4) contracts_apart by (auto simp: job_ok_def list_all_iff)
  with registry_step show ?thesis
    using in_step_head [OF st [unfolded registry_step(1)]] contracts_apart
    by (intro in_step_intro) simp_all
next
  case (outside_step to who b fs js0 msgs)
  then have "to \<noteq> reward_at A" "to \<noteq> token_at A" "to \<noteq> registry_at A" by (auto simp: contracts_def)
  then show ?thesis
    using in_step_head [OF st [unfolded outside_step(1)]] outside_step jobs_ok [OF outside_step(5)]
    by (intro in_step_intro) simp_all
next
  case (native_step m who)
  then show ?thesis
    using in_step_head [OF st [unfolded native_step(1)]] by (intro in_step_intro) (auto elim: is_wasm.elims)
qed

text \<open>Each contract, seen alone, is in a state it can reach, and the contracts are wired and in step.\<close>

definition world_inv :: "'c world \<Rightarrow> job list \<Rightarrow> bool" where
  "world_inv w js \<longleftrightarrow> hub_reachable l (w_hub w) \<and> reward_reachable l \<lparr>chain_storage = w_reward w, chain_coins = w_coins w\<rparr> \<and>
     registry_reachable l (w_registry w) \<and> wired ap A w \<and> in_step bal l ap A w js"

lemma world_inv_started:
  assumes hub: "hub_instantiate dh eh ih mh empty_hub_storage = Ok (h, resp)"
    and token: "dapi dt = ap" "token_instantiate c dt et it mt \<lparr>HUB_CONTRACT_KEY = None, cw20_storage = fresh\<rparr> = Ok (t, respt)"
      "tim_hub_contract mt = hub_at A" "tim_initial_balances mt = []"
    and reward: "dapi dr = ap" "reward_instantiate dr mr empty_reward_storage = Ok (r, respr)" "rim_hub_contract mr = hub_at A"
    and registry: "registry_instantiate dg ig mg empty_registry_storage = Ok (g, respg)"
  shows "world_inv \<lparr>w_hub = h, w_token = t, w_reward = r, w_registry = g, w_coins = n\<rparr> (map (Pair (hub_at A)) (messages resp))"
proof -
  have "reward_balances r = (\<lambda>_. 0)"
    using reward(2) by (auto simp: reward_instantiate_def empty_reward_storage_def reward_store_config_def
        reward_balances_def holder_of_def store_get_def fun_eq_iff)
  moreover have "bal (cw20_storage t) = (\<lambda>_. 0)"
    using token by (auto simp: token_instantiate_def store_hub_contract_def intro!: init_empty)
  ultimately have "in_step bal l ap A \<lparr>w_hub = h, w_token = t, w_reward = r, w_registry = g, w_coins = n\<rparr>
      (map (Pair (hub_at A)) (messages resp))"
    using jobs_ok [OF contracts_normal(1)] contracts_apart by (intro in_step_intro) simp_all
  moreover have "wired ap A \<lparr>w_hub = h, w_token = t, w_reward = r, w_registry = g, w_coins = n\<rparr>"
    using hub token reward
    by (auto simp: wired_def hub_instantiate_def token_instantiate_def store_hub_contract_def on_cw20_def
        reward_instantiate_def reward_store_config_def store_state_def split: option.splits)
  ultimately show ?thesis
    using hub_instantiated [OF hub] instantiated [OF reward(2)] registry_instantiated [OF registry]
    by (auto simp: world_inv_def)
qed

lemma world_inv_step:
  assumes inv: "world_inv w js" and step: "world_step c l ap A w js w' js'"
  shows "world_inv w' js'"
proof -
  have w: "wired ap A w" "in_step bal l ap A w js" using inv by (simp_all add: world_inv_def)
  have "hub_reachable l (w_hub w') \<and> registry_reachable l (w_registry w') \<and>
      reward_reachable l \<lparr>chain_storage = w_reward w', chain_coins = w_coins w'\<rparr>"
    using step
  proof (cases rule: world_step.cases)
    case (hub_step d e m b who fs h resp js0)
    then show ?thesis using inv hub_executed [OF _ hub_step(4,10)] by (simp add: world_inv_def)
  next
    case (registry_step d who fs gm g resp b js0)
    then show ?thesis using inv registry_executed [OF _ registry_step(4,7)] by (simp add: world_inv_def)
  next
    case (reward_step d e rm b rc who fs r resp js0)
    obtain coin where "query_balance (dquerier d) (contract_address e) (rc_reward_denom rc) = Ok coin"
      "unat (amount coin) = w_coins w"
      using reward_step(6,7,9) by (auto simp: chain_answers_def)
    then show ?thesis
      using inv reward_step(2) executed [of l "\<lparr>chain_storage = w_reward w, chain_coins = w_coins w\<rparr>" d rc e coin
          "\<lparr>sender = who, funds = fs\<rparr>" rm r resp] reward_step(4,9,10)
      by (simp add: world_inv_def)
  qed (use inv in \<open>simp_all add: world_inv_def\<close>)
  then show ?thesis using wired_step [OF w(1) step] in_step_step [OF w step] by (simp add: world_inv_def)
qed

lemma world_reachable_inv: "world_reachable c fresh l ap A w js \<Longrightarrow> world_inv w js"
proof (induction rule: world_reachable.induct)
  case (world_started dh eh ih mh h resp dt et it mt t respt dr mr r respr dg ig mg g respg n)
  then show ?case by (intro world_inv_started)
next
  case (transaction w js)
  have "reward_balances (w_reward w) = bal (cw20_storage (w_token w))"
    using transaction(3) by (auto simp: world_inv_def in_step_def)
  moreover have "list_all (job_ok l ap A) js" using transaction(2) by (auto simp: list_all_iff job_ok_def contracts_def)
  ultimately show ?case using transaction(3) in_step_intro by (auto simp: world_inv_def)
next
  case (stepped w js w' js')
  then show ?case using world_inv_step by blast
next
  case (coins_arrive w js n)
  then show ?case
    using deposited [of l "\<lparr>chain_storage = w_reward w, chain_coins = w_coins w\<rparr>" n]
    by (auto simp: world_inv_def wired_def in_step_def)
qed

end

end
