(* ===== verification/World_Transactions.thy ===== *)
theory World_Transactions
  imports World
begin

text \<open>
  Whole transactions: what a bond and an unbond do to the four contracts when every message they lead to
  has been executed.
\<close>

inductive world_run ::
    "'c cw20_legacy \<Rightarrow> lib \<Rightarrow> api \<Rightarrow> deployment \<Rightarrow> 'c world \<Rightarrow> job list \<Rightarrow> 'c world \<Rightarrow> job list \<Rightarrow> bool"
  for c :: "'c cw20_legacy" and l :: lib and ap :: api and A :: deployment where
  run_none: "world_run c l ap A w js w js"
| run_step: "world_step c l ap A w js w1 js1 \<Longrightarrow> world_run c l ap A w1 js1 w' js' \<Longrightarrow> world_run c l ap A w js w' js'"


lemma run_next:
  assumes "world_run c l ap A w (j # js) w' []"
  obtains w1 js1 where "world_step c l ap A w (j # js) w1 js1" "world_run c l ap A w1 js1 w' []"
  using assms by (cases rule: world_run.cases) auto

lemma run_nil: "world_run c l ap A w [] w' [] \<Longrightarrow> w' = w"
  by (cases rule: world_run.cases) (auto elim: world_step.cases)

lemma run_reachable:
  "world_run c l ap A w js w' js' \<Longrightarrow> world_reachable c fresh l ap A w js \<Longrightarrow> world_reachable c fresh l ap A w' js'"
  by (induction rule: world_run.induct) (auto intro: stepped)

text \<open>Messages that are not calls of a contract change nothing here.\<close>

lemma run_native:
  assumes "world_run c l ap A w (map (Pair a) ms @ js) w' []" and "list_all (\<lambda>m. \<not> is_wasm m) ms"
  shows "world_run c l ap A w js w' []"
  using assms
proof (induction ms)
  case (Cons m ms)
  then have "world_run c l ap A w ((a, m) # map (Pair a) ms @ js) w' []" by simp
  then obtain w1 js1 where step: "world_step c l ap A w ((a, m) # map (Pair a) ms @ js) w1 js1"
    and run: "world_run c l ap A w1 js1 w' []"
    by (rule run_next)
  have "w1 = w \<and> js1 = map (Pair a) ms @ js" using step Cons.prems(2) by (cases rule: world_step.cases) auto
  then show ?case using Cons.IH run Cons.prems(2) by simp
qed simp

context basset_world
begin

lemma inv_native:
  assumes "world_inv w (map (Pair a) ms @ js)" and "list_all (\<lambda>m. \<not> is_wasm m) ms"
  shows "world_inv w js"
  using assms
proof (induction ms)
  case (Cons m ms)
  then have "world_inv w ((a, m) # map (Pair a) ms @ js)" "\<not> is_wasm m" by simp_all
  from world_inv_step [OF this(1) native_step [OF this(2)]] Cons show ?case by simp
qed simp

text \<open>The first pending message, by its receiver.\<close>

lemma run_hub:
  assumes "world_run c l ap A w ((who, WasmExecute (hub_at A) b fs) # js) w' []" and "to_binary l (HubPayload m) = Ok b"
    and inv: "world_inv w ((who, WasmExecute (hub_at A) b fs) # js)"
  obtains d e h resp where "dlib d = l" "dapi d = ap" "chain_answers c A d w" "contract_address e = hub_at A"
    "hub_execute d e \<lparr>sender = who, funds = fs\<rparr> m (w_hub w) = Ok (h, resp)"
    "world_run c l ap A (w\<lparr>w_hub := h\<rparr>) (map (Pair (hub_at A)) (messages resp) @ js) w' []"
    "world_inv (w\<lparr>w_hub := h\<rparr>) (map (Pair (hub_at A)) (messages resp) @ js)"
proof -
  obtain w1 js1 where step: "world_step c l ap A w ((who, WasmExecute (hub_at A) b fs) # js) w1 js1"
    and rest: "world_run c l ap A w1 js1 w' []"
    by (rule run_next [OF assms(1)])
  note after = world_inv_step [OF inv step]
  from step show ?thesis
  proof (cases rule: world_step.cases)
    case (hub_step d e m' h resp)
    have "m' = m" using hub_messages_distinct [OF _ assms(2)] hub_step by simp
    with hub_step rest after show ?thesis by (intro that [of d e h resp]) simp_all
  qed (use contracts_apart in \<open>auto simp: contracts_def\<close>)
qed

lemma run_token:
  assumes "world_run c l ap A w ((who, WasmExecute (token_at A) b fs) # js) w' []" and "to_binary l (Cw20Payload tm) = Ok b"
    and inv: "world_inv w ((who, WasmExecute (token_at A) b fs) # js)"
  obtains d e t resp where "dlib d = l" "dapi d = ap" "chain_answers c A d w" "contract_address e = token_at A"
    "token_execute c d e \<lparr>sender = who, funds = fs\<rparr> tm (w_token w) = Ok (t, resp)"
    "world_run c l ap A (w\<lparr>w_token := t\<rparr>) (map (Pair (token_at A)) (messages resp) @ js) w' []"
    "world_inv (w\<lparr>w_token := t\<rparr>) (map (Pair (token_at A)) (messages resp) @ js)"
proof -
  obtain w1 js1 where step: "world_step c l ap A w ((who, WasmExecute (token_at A) b fs) # js) w1 js1"
    and rest: "world_run c l ap A w1 js1 w' []"
    by (rule run_next [OF assms(1)])
  note after = world_inv_step [OF inv step]
  from step show ?thesis
  proof (cases rule: world_step.cases)
    case (token_step d e m' t resp)
    have "m' = tm" using cw20_messages_distinct [OF _ assms(2)] token_step by simp
    with token_step rest after show ?thesis by (intro that [of d e t resp]) simp_all
  qed (use contracts_apart in \<open>auto simp: contracts_def\<close>)
qed

text \<open>A balance change at the reward contract leaves the rest of the chain alone.\<close>

lemma run_reward:
  assumes "world_run c l ap A w ((who, x) # js) w' []" and call: "reward_call l (reward_at A) rm x" and "changes_balance rm"
    and inv: "world_inv w ((who, x) # js)"
  shows "\<exists>r n. world_run c l ap A (w\<lparr>w_reward := r, w_coins := n\<rparr>) js w' [] \<and> world_inv (w\<lparr>w_reward := r, w_coins := n\<rparr>) js"
proof -
  obtain b where b: "to_binary l (RewardPayload rm) = Ok b" "x = WasmExecute (reward_at A) b []"
    using call by (auto simp: reward_call_def)
  obtain w1 js1 where step: "world_step c l ap A w ((who, x) # js) w1 js1" and rest: "world_run c l ap A w1 js1 w' []"
    by (rule run_next [OF assms(1)])
  note after = world_inv_step [OF inv step]
  from step [unfolded b(2)] show ?thesis
  proof (cases rule: world_step.cases)
    case (reward_step d e m' rc r resp)
    have "m' = rm" using reward_messages_distinct [OF _ b(1)] reward_step by simp
    moreover from this have "messages resp = []" using balance_change_quiet reward_step assms(3) by blast
    ultimately show ?thesis using reward_step rest after by auto
  qed (use contracts_apart in \<open>auto simp: contracts_def\<close>)
qed

text \<open>The token's operations with the balance changes they report, executed to the end.\<close>

lemma token_reward_call:
  assumes "world_inv w js" and "dlib d = l" "dapi d = ap" "chain_answers c A d w" and "query_reward_contract d (w_token w) = Ok reward"
    and "reward_call (dlib d) reward rm x"
  shows "reward_call l (reward_at A) rm x"
proof -
  have "wired ap A w" using assms(1) by (simp add: world_inv_def)
  from reward_contract_found [OF this assms(2-5)] assms(2,6) show ?thesis by simp
qed

lemma run_reported:
  assumes run: "world_run c l ap A w ((who, WasmExecute (token_at A) b fs) # js) w' []" and b: "to_binary l (Cw20Payload tm) = Ok b"
    and inv: "world_inv w ((who, WasmExecute (token_at A) b fs) # js)" and rm: "changes_balance rm"
    and one: "\<And>d e t resp. dlib d = l \<Longrightarrow> dapi d = ap \<Longrightarrow>
      token_execute c d e \<lparr>sender = who, funds = fs\<rparr> tm (w_token w) = Ok (t, resp) \<Longrightarrow>
      (\<exists>reward x. query_reward_contract d (w_token w) = Ok reward \<and> reward_call l reward rm x \<and> messages resp = [x]) \<and> P t"
  shows "\<exists>t r k. P t \<and> world_run c l ap A (w\<lparr>w_token := t, w_reward := r, w_coins := k\<rparr>) js w' [] \<and>
     world_inv (w\<lparr>w_token := t, w_reward := r, w_coins := k\<rparr>) js"
proof -
  obtain d e t resp where d: "dlib d = l" "dapi d = ap" "chain_answers c A d w"
    and ex: "token_execute c d e \<lparr>sender = who, funds = fs\<rparr> tm (w_token w) = Ok (t, resp)"
    and after: "world_run c l ap A (w\<lparr>w_token := t\<rparr>) (map (Pair (token_at A)) (messages resp) @ js) w' []"
      "world_inv (w\<lparr>w_token := t\<rparr>) (map (Pair (token_at A)) (messages resp) @ js)"
    by (rule run_token [OF run b inv])
  obtain reward x where q: "query_reward_contract d (w_token w) = Ok reward" "reward_call l reward rm x" "messages resp = [x]"
    and P: "P t" using one [OF d(1,2) ex] by blast
  have call: "reward_call l (reward_at A) rm x" using token_reward_call [OF inv d q(1)] q(2) d(1) by simp
  have "world_run c l ap A (w\<lparr>w_token := t\<rparr>) ((token_at A, x) # js) w' []" "world_inv (w\<lparr>w_token := t\<rparr>) ((token_at A, x) # js)"
    using after by (simp_all add: q(3))
  from run_reward [OF this(1) call rm this(2)] P show ?thesis by blast
qed

lemma run_mint:
  assumes "world_run c l ap A w ((who, WasmExecute (token_at A) b fs) # js) w' []" and "to_binary l (Cw20Payload (Mint rcpt n)) = Ok b"
    and "world_inv w ((who, WasmExecute (token_at A) b fs) # js)"
  shows "\<exists>t r k. credits ap rcpt n (bal (cw20_storage (w_token w))) (bal (cw20_storage t)) \<and>
    world_run c l ap A (w\<lparr>w_token := t, w_reward := r, w_coins := k\<rparr>) js w' [] \<and>
    world_inv (w\<lparr>w_token := t, w_reward := r, w_coins := k\<rparr>) js"
  by (rule run_reported [OF assms, where rm = "IncreaseBalance rcpt n"])
    (auto simp: token_execute_def execute_mint_def dest!: mint_credits)

lemma run_burn:
  assumes "world_run c l ap A w ((who, WasmExecute (token_at A) b fs) # js) w' []" and "to_binary l (Cw20Payload (Burn n)) = Ok b"
    and "world_inv w ((who, WasmExecute (token_at A) b fs) # js)"
  shows "\<exists>t r k. debits ap who n (bal (cw20_storage (w_token w))) (bal (cw20_storage t)) \<and>
    world_run c l ap A (w\<lparr>w_token := t, w_reward := r, w_coins := k\<rparr>) js w' [] \<and>
    world_inv (w\<lparr>w_token := t, w_reward := r, w_coins := k\<rparr>) js"
  by (rule run_reported [OF assms, where rm = "DecreaseBalance who n"])
    (auto simp: token_execute_def execute_burn_def dest!: burn_debits)

lemma run_send:
  assumes run: "world_run c l ap A w ((who, WasmExecute (token_at A) b fs) # js) w' []" and b: "to_binary l (Cw20Payload (Send ct n p)) = Ok b"
    and inv: "world_inv w ((who, WasmExecute (token_at A) b fs) # js)"
  obtains t r k y where "moves ap who ct n (bal (cw20_storage (w_token w))) (bal (cw20_storage t))"
    "to_binary l (HubPayload (Receive \<lparr>cw20_sender = who, cw20_amount = n, cw20_payload = p\<rparr>)) = Ok y"
    "world_run c l ap A (w\<lparr>w_token := t, w_reward := r, w_coins := k\<rparr>) ((token_at A, WasmExecute ct y []) # js) w' []"
    "world_inv (w\<lparr>w_token := t, w_reward := r, w_coins := k\<rparr>) ((token_at A, WasmExecute ct y []) # js)"
proof -
  obtain d e t resp where d: "dlib d = l" "dapi d = ap" "chain_answers c A d w"
    and ex: "token_execute c d e \<lparr>sender = who, funds = fs\<rparr> (Send ct n p) (w_token w) = Ok (t, resp)"
    and after: "world_run c l ap A (w\<lparr>w_token := t\<rparr>) (map (Pair (token_at A)) (messages resp) @ js) w' []"
      "world_inv (w\<lparr>w_token := t\<rparr>) (map (Pair (token_at A)) (messages resp) @ js)"
    by (rule run_token [OF run b inv])
  obtain reward x x' cr where q: "query_reward_contract d (w_token w) = Ok reward" "reward_call l reward (DecreaseBalance who n) x"
    "reward_call l reward (IncreaseBalance ct n) x'" "messages resp = x # x' # messages cr"
    and m: "cw20_send c d e \<lparr>sender = who, funds = fs\<rparr> ct n p (cw20_storage (w_token w)) = Ok (cw20_storage t, cr)"
    using ex by (auto simp: token_execute_def execute_send_def d)
  obtain y where y: "to_binary l (HubPayload (Receive \<lparr>cw20_sender = who, cw20_amount = n, cw20_payload = p\<rparr>)) = Ok y"
    "messages cr = [WasmExecute ct y []]" using send_notifies [OF m] d(1) by (auto simp: notifies_def)
  have calls: "reward_call l (reward_at A) (DecreaseBalance who n) x" "reward_call l (reward_at A) (IncreaseBalance ct n) x'"
    using token_reward_call [OF inv d q(1)] q(2,3) d(1) by simp_all
  let ?js = "(token_at A, WasmExecute ct y []) # js"
  have "world_run c l ap A (w\<lparr>w_token := t\<rparr>) ((token_at A, x) # (token_at A, x') # ?js) w' []"
    "changes_balance (DecreaseBalance who n)" "world_inv (w\<lparr>w_token := t\<rparr>) ((token_at A, x) # (token_at A, x') # ?js)"
    using after by (simp_all add: q(4) y(2))
  from run_reward [OF this(1) calls(1) this(2,3)] obtain r k where
    r: "world_run c l ap A (w\<lparr>w_token := t, w_reward := r, w_coins := k\<rparr>) ((token_at A, x') # ?js) w' []"
    "world_inv (w\<lparr>w_token := t, w_reward := r, w_coins := k\<rparr>) ((token_at A, x') # ?js)" by blast
  have "changes_balance (IncreaseBalance ct n)" by simp
  from run_reward [OF r(1) calls(2) this r(2)] obtain r' k' where
    "world_run c l ap A (w\<lparr>w_token := t, w_reward := r', w_coins := k'\<rparr>) ?js w' []"
    "world_inv (w\<lparr>w_token := t, w_reward := r', w_coins := k'\<rparr>) ?js" by auto
  moreover have "moves ap who ct n (bal (cw20_storage (w_token w))) (bal (cw20_storage t))"
    using send_moves [OF m] d(2) by simp
  ultimately show ?thesis using y(1) by (intro that)
qed

text \<open>A transaction of one message, sent by an account.\<close>

lemma account_starts:
  assumes "world_reachable c fresh l ap A w []" and "user \<notin> set (contracts A)" and "normal_address ap user"
  shows "world_inv w [(user, m)]"
  by (rule world_reachable_inv [OF transaction [OF assms(1)]]) (use assms in simp)

lemma at_rest: "world_inv w [] \<Longrightarrow> reward_balances (w_reward w) = bal (cw20_storage (w_token w))"
  by (simp add: world_inv_def in_step_def)

text \<open>The hub sends to the token it has registered.\<close>

lemma hub_token_address:
  assumes "world_inv w js" and "CONFIG (w_hub w) = Some cfg" "token_contract cfg = Some raw" "addr_humanize ap raw = Ok to"
  shows "to = token_at A"
  using assms contracts_normal(2) by (auto simp: world_inv_def wired_def normal_address_def)

lemma bond_run:
  assumes reach: "world_reachable c fresh l ap A w []" and user: "user \<notin> set (contracts A)" "normal_address ap user"
    and b: "to_binary l (HubPayload (Bond v)) = Ok b"
    and run: "world_run c l ap A w [(user, WasmExecute (hub_at A) b fs)] w' []"
  shows "\<exists>payment minted a d e s1 st st' params batch. fs = [payment] \<and> addr_canonicalize ap user = Ok a \<and>
     dlib d = l \<and> dapi d = ap \<and> chain_answers c A d w \<and> contract_address e = hub_at A \<and>
     slashing d e (w_hub w) = Ok s1 \<and> STATE s1 = Some st \<and> STATE (w_hub w') = Some st' \<and>
     unat (total_bond_amount st') = unat (total_bond_amount st) + unat (amount payment) \<and>
     PARAMETERS (w_hub w) = Some params \<and> CURRENT_BATCH (w_hub w) = Some batch \<and>
     mint_with_fee l params st (cw20_total_supply c (cw20_storage (w_token w))) (requested_with_fee batch) (amount payment) = Ok minted \<and>
     bal (cw20_storage (w_token w')) = (bal (cw20_storage (w_token w)))(a := bal (cw20_storage (w_token w)) a + unat minted) \<and>
     reward_balances (w_reward w') = bal (cw20_storage (w_token w'))"
proof -
  obtain d e h resp where d: "dlib d = l" "dapi d = ap" "chain_answers c A d w" "contract_address e = hub_at A"
    and ex: "hub_execute d e \<lparr>sender = user, funds = fs\<rparr> (Bond v) (w_hub w) = Ok (h, resp)"
    and after: "world_run c l ap A (w\<lparr>w_hub := h\<rparr>) (map (Pair (hub_at A)) (messages resp) @ []) w' []"
      "world_inv (w\<lparr>w_hub := h\<rparr>) (map (Pair (hub_at A)) (messages resp) @ [])"
    by (rule run_hub [OF run b account_starts [OF reach user]])
  have "execute_bond d e \<lparr>sender = user, funds = fs\<rparr> v (w_hub w) = Ok (h, resp)" using ex by (simp add: hub_execute_def)
  then show ?thesis
  proof (cases rule: execute_bond_ok)
    case (1 params batch payment s1 st supp minted new_supply bonded st' config token to mint_msg)
    have num: "cosmwasm_numbers (dlib d)" using cosmwasm_numbers_axioms d(1) by simp
    have "CONFIG (w_hub (w\<lparr>w_hub := h\<rparr>)) = Some config" using 1(14,18) by simp
    then have to: "to = token_at A" using hub_token_address [OF after(2) _ 1(15)] 1(16) d(2) by simp
    let ?w = "w\<lparr>w_hub := h\<rparr>" and ?js = "[(hub_at A, WasmExecute (token_at A) mint_msg [])]"
    have "world_run c l ap A ?w ?js w' []" "world_inv ?w ?js" "to_binary l (Cw20Payload (Mint user minted)) = Ok mint_msg"
      using run_native [of c l ap A ?w "hub_at A" "[StakingDelegate v payment]" ?js]
        inv_native [of ?w "hub_at A" "[StakingDelegate v payment]" ?js] after 1(17,19) to d(1) by simp_all
    from run_mint [OF this(1,3,2)] obtain t r k where
      t: "credits ap user minted (bal (cw20_storage (w_token w))) (bal (cw20_storage t))"
      and rest: "world_run c l ap A (?w\<lparr>w_token := t, w_reward := r, w_coins := k\<rparr>) [] w' []"
        "world_inv (?w\<lparr>w_token := t, w_reward := r, w_coins := k\<rparr>) []"
      by auto
    note w' = run_nil [OF rest(1)]
    have eq: "reward_balances (w_reward w') = bal (cw20_storage (w_token w'))" using at_rest [OF rest(2)] by (simp add: w')
    obtain a where a: "addr_canonicalize ap user = Ok a"
      "bal (cw20_storage (w_token w')) = (bal (cw20_storage (w_token w)))(a := bal (cw20_storage (w_token w)) a + unat minted)"
      using t by (auto simp: credits_def w')
    have st': "STATE (w_hub w') = Some st'" using 1(18) by (simp add: w')
    have sum: "unat (total_bond_amount st') = unat (total_bond_amount st) + unat (amount payment)"
      using 1(12,13) by (auto simp: uint_add_ok d(1) update_exchange_rate_def split: if_splits)
    have fs: "fs = [payment]" using 1(4) by simp
    have supp: "supp = cw20_total_supply c (cw20_storage (w_token w))"
      using 1(9) 1(14,15,16) d(3) by (simp add: query_total_issued_def chain_answers_def to)
    show ?thesis using fs a d 1(2,3,7,8) 1(10) [unfolded d(1) supp] st' sum eq by blast
  qed
qed

text \<open>Undelegations are not calls, and closing a batch leaves the wait lists alone.\<close>

lemma close_batch_messages:
  assumes "dlib d = l" and "close_batch d e st b s = Ok (s', st', b', msgs)"
  shows "wait_map s' = wait_map s \<and> CONFIG s' = CONFIG s \<and> list_all (\<lambda>m. \<not> is_wasm m) msgs"
proof -
  have num: "cosmwasm_numbers (dlib d)" using cosmwasm_numbers_axioms assms(1) by simp
  from num assms(2) show ?thesis
  proof (cases rule: close_batch_ok)
    case (1 u bonded next_id)
    obtain params ds where "list_all2 (undelegates params) ds msgs" using pick_validator_ok [OF num 1(3)] by blast
    then have "list_all (\<lambda>m. \<not> is_wasm m) msgs"
      by (induction rule: list_all2_induct) (auto elim: undelegates.elims)
    with 1(6) show ?thesis by simp
  qed
qed

lemma unbond_hub:
  assumes d: "dlib d = l" "dapi d = ap" and run: "execute_unbond d e n user s = Ok (s', resp)"
  shows "\<exists>batch (x :: uint128) v msgs cfg raw to b. CURRENT_BATCH s = Some batch \<and> unat x \<le> unat n \<and>
     wait_map s' = store_set (wait_enc l) (user, cb_id batch) v (wait_map s) \<and>
     unat v = (case store_get (user, cb_id batch) (wait_map s) of None \<Rightarrow> 0 | Some y \<Rightarrow> unat y) + unat x \<and>
     list_all (\<lambda>m. \<not> is_wasm m) msgs \<and> messages resp = msgs @ [WasmExecute to b []] \<and>
     to_binary l (Cw20Payload (Burn n)) = Ok b \<and> CONFIG s' = Some cfg \<and> token_contract cfg = Some raw \<and> addr_humanize ap raw = Ok to"
proof -
  have num: "cosmwasm_numbers (dlib d)" using cosmwasm_numbers_axioms d(1) by simp
  from num run show ?thesis
  proof (cases rule: execute_unbond_ok)
    case (1 params batch s1 st issued a requested s2 issued' st1 s3 st2 batch2 msgs to b cfg raw)
    have s1: "wait_map s1 = wait_map s" using slashing_frame [OF num 1(3)] by auto
    obtain v where v: "unat v = (case store_get (user, cb_id batch) (wait_map s) of None \<Rightarrow> 0 | Some y \<Rightarrow> unat y) + unat a"
      "wait_map s2 = store_set (wait_enc l) (user, cb_id batch) v (wait_map s)"
      using 1(8) by (auto simp: d(1) store_unbond_wait_list_ok s1)
    have s3: "wait_map s3 = wait_map s2 \<and> list_all (\<lambda>m. \<not> is_wasm m) msgs"
      using 1(12) close_batch_messages [OF d(1)] by (auto split: if_splits)
    have "unat a \<le> unat n" using unbond_with_fee_ok(1) 1(6) d(1) by simp
    with 1(2,13-18) v s3 d show ?thesis by auto
  qed
qed

lemma unbond_balances:
  assumes "moves ap user (hub_at A) n f g" and "debits ap (hub_at A) n g h"
  shows "\<exists>a. addr_canonicalize ap user = Ok a \<and> unat n \<le> f a \<and> h = f(a := f a - unat n)"
proof -
  obtain a hb where a: "addr_canonicalize ap user = Ok a" "unat n \<le> f a"
    and g: "g = (f(a := f a - unat n))(hb := (f(a := f a - unat n)) hb + unat n)" and h: "h = g(hb := g hb - unat n)"
    using assms by (auto simp: moves_def debits_def credits_def)
  have "h = (f(a := f a - unat n))(hb := (f(a := f a - unat n)) hb)" by (simp only: h g fun_upd_upd fun_upd_same add_diff_cancel_right')
  then have "h = f(a := f a - unat n)" by (simp only: fun_upd_triv)
  with a show ?thesis by blast
qed

lemma unbond_run:
  assumes reach: "world_reachable c fresh l ap A w []" and user: "user \<notin> set (contracts A)" "normal_address ap user"
    and b: "to_binary l (Cw20Payload (Send (hub_at A) n p)) = Ok b" and hook: "from_binary_hook l p = Ok Unbond"
    and run: "world_run c l ap A w [(user, WasmExecute (token_at A) b fs)] w' []"
  shows "\<exists>a batch (x :: uint128) v. addr_canonicalize ap user = Ok a \<and> unat n \<le> bal (cw20_storage (w_token w)) a \<and>
     bal (cw20_storage (w_token w')) = (bal (cw20_storage (w_token w)))(a := bal (cw20_storage (w_token w)) a - unat n) \<and>
     reward_balances (w_reward w') = bal (cw20_storage (w_token w')) \<and>
     CURRENT_BATCH (w_hub w) = Some batch \<and> unat x \<le> unat n \<and>
     wait_map (w_hub w') = store_set (wait_enc l) (user, cb_id batch) v (wait_map (w_hub w)) \<and>
     unat v = (case store_get (user, cb_id batch) (wait_map (w_hub w)) of None \<Rightarrow> 0 | Some y \<Rightarrow> unat y) + unat x"
proof -
  obtain t r k y where t: "moves ap user (hub_at A) n (bal (cw20_storage (w_token w))) (bal (cw20_storage t))"
    and y: "to_binary l (HubPayload (Receive \<lparr>cw20_sender = user, cw20_amount = n, cw20_payload = p\<rparr>)) = Ok y"
    and 1: "world_run c l ap A (w\<lparr>w_token := t, w_reward := r, w_coins := k\<rparr>) [(token_at A, WasmExecute (hub_at A) y [])] w' []"
      "world_inv (w\<lparr>w_token := t, w_reward := r, w_coins := k\<rparr>) [(token_at A, WasmExecute (hub_at A) y [])]"
    by (rule run_send [OF run b account_starts [OF reach user]])
  let ?w1 = "w\<lparr>w_token := t, w_reward := r, w_coins := k\<rparr>"
  obtain d e h resp where d: "dlib d = l" "dapi d = ap"
    and ex: "hub_execute d e \<lparr>sender = token_at A, funds = []\<rparr> (Receive \<lparr>cw20_sender = user, cw20_amount = n, cw20_payload = p\<rparr>)
      (w_hub ?w1) = Ok (h, resp)"
    and 2: "world_run c l ap A (?w1\<lparr>w_hub := h\<rparr>) (map (Pair (hub_at A)) (messages resp) @ []) w' []"
      "world_inv (?w1\<lparr>w_hub := h\<rparr>) (map (Pair (hub_at A)) (messages resp) @ [])"
    by (rule run_hub [OF 1(1) y 1(2)])
  have "execute_unbond d e n user (w_hub w) = Ok (h, resp)"
    using ex hook d by (auto simp: hub_execute_def receive_cw20_def split: if_splits)
  from unbond_hub [OF d this] obtain batch v msgs cfg raw to burn and x :: uint128 where
    batch: "CURRENT_BATCH (w_hub w) = Some batch" "unat x \<le> unat n"
    and wait: "wait_map h = store_set (wait_enc l) (user, cb_id batch) v (wait_map (w_hub w))"
      "unat v = (case store_get (user, cb_id batch) (wait_map (w_hub w)) of None \<Rightarrow> 0 | Some y \<Rightarrow> unat y) + unat x"
    and msgs: "list_all (\<lambda>m. \<not> is_wasm m) msgs" "messages resp = msgs @ [WasmExecute to burn []]"
    and burn: "to_binary l (Cw20Payload (Burn n)) = Ok burn"
    and cfg: "CONFIG h = Some cfg" "token_contract cfg = Some raw" "addr_humanize ap raw = Ok to"
    by (elim exE conjE) (rule that)
  let ?w2 = "?w1\<lparr>w_hub := h\<rparr>" and ?js = "[(hub_at A, WasmExecute (token_at A) burn [])]"
  have "to = token_at A" using hub_token_address [OF 2(2) _ cfg(2,3)] cfg(1) by simp
  then have "world_run c l ap A ?w2 ?js w' []" "world_inv ?w2 ?js"
    using run_native [OF _ msgs(1), of c l ap A ?w2 "hub_at A" ?js] inv_native [OF _ msgs(1), of ?w2 "hub_at A" ?js] 2 msgs(2)
    by simp_all
  from run_burn [OF this(1) burn this(2)] obtain t' r' k' where
    t': "debits ap (hub_at A) n (bal (cw20_storage t)) (bal (cw20_storage t'))"
    and rest: "world_run c l ap A (?w2\<lparr>w_token := t', w_reward := r', w_coins := k'\<rparr>) [] w' []"
      "world_inv (?w2\<lparr>w_token := t', w_reward := r', w_coins := k'\<rparr>) []"
    by auto
  note w' = run_nil [OF rest(1)]
  have eq: "reward_balances (w_reward w') = bal (cw20_storage (w_token w'))" using at_rest [OF rest(2)] by (simp add: w')
  have "wait_map (w_hub w') = wait_map h" by (simp add: w')
  moreover have "bal (cw20_storage (w_token w')) = bal (cw20_storage t')" by (simp add: w')
  ultimately show ?thesis
    using unbond_balances [OF t t'] eq batch wait by auto
qed

end

end
