(* ===== verification/Token_Properties.thy ===== *)
theory Token_Properties
  imports Token_Mirror Reward_Properties
begin

text \<open>
  The properties of the token contract.
\<close>

section \<open>A token in use\<close>

text \<open>The hub mints seventy tokens to an account.\<close>

definition example_token_msg :: token_init_msg where
  "example_token_msg = \<lparr>tim_name = ''Bonded Luna'', tim_symbol = ''BLUNA'', tim_decimals = 6, tim_initial_balances = [],
     tim_mint = None, tim_hub_contract = ''hub''\<rparr>"

definition example_hub_raw :: canonical_addr where
  "example_hub_raw = map (\<lambda>ch. of_nat (of_char ch)) ''hub''"

definition example_token :: "ledger token_storage" where
  "example_token = \<lparr>HUB_CONTRACT_KEY = Some example_hub_raw, cw20_storage = fresh_ledger\<lparr>led_minter := Some example_hub_raw\<rparr>\<rparr>"

definition minted_token :: "ledger token_storage" where
  "minted_token = example_token\<lparr>cw20_storage := (cw20_storage example_token)\<lparr>led_balance := (\<lambda>_. 0)([97] := 70), led_supply := 70\<rparr>\<rparr>"

abbreviation example_reward_address :: string where
  "example_reward_address \<equiv> [char_of (2 :: nat)]"

lemma example_hub_human: "addr_humanize example_api example_hub_raw = Ok ''hub''"
  by (simp add: example_api_eval example_hub_raw_def char_of_def bit_0)

lemma example_token_started:
  "token_instantiate std_cw20 example_deps example_env (example_info ''o'') example_token_msg
     \<lparr>HUB_CONTRACT_KEY = None, cw20_storage = fresh_ledger\<rparr> = Ok (example_token, empty_response)"
  by (simp add: token_instantiate_def example_api_eval example_token_msg_def store_hub_contract_def on_cw20_def
      std_cw20_def example_token_def example_hub_raw_def)

lemma example_reward_contract: "query_reward_contract example_deps example_token = Ok example_reward_address"
  by (simp add: query_reward_contract_def read_hub_contract_def example_token_def example_hub_human example_querier_def)
    (simp add: example_api_eval)

lemma example_minted:
  "token_execute std_cw20 example_deps example_env (example_info ''hub'') (Mint ''a'' 70) example_token =
     Ok (minted_token, \<lparr>messages = [WasmExecute example_reward_address (std_encode (RewardPayload (IncreaseBalance ''a'' 70))) []],
       attributes = []\<rparr>)"
proof -
  have "cw20_minting std_cw20 example_deps example_env (example_info ''hub'') ''a'' 70 (cw20_storage example_token) =
      Ok (cw20_storage minted_token, empty_response)"
    by (simp add: std_cw20_def example_info_def example_api_eval quiet_def ledger_credit_def ledger_issue_def example_token_def
        minted_token_def fresh_ledger_def std_uint_of_nat_def example_hub_raw_def)
  then show ?thesis
    by (simp add: token_execute_def execute_mint_def example_reward_contract on_cw20_def reward_msg_def std_lib_eval
        minted_token_def)
qed


section \<open>Properties\<close>

text \<open>
  C28.  Every successful message to the token is reported to the reward contract that the hub names:
  the balance changes it sends, applied in their order to the balances before, are possible there and
  give the balances after, and they come before the notification of a receiving contract.
\<close>

theorem token_reports_changes:
  assumes "cw20_ledger c bal fresh" and "address_api (dapi d)" and "token_execute c d e i msg s = Ok (s', resp)"
  shows "\<exists>reward ms bs rest. messages resp = bs @ rest \<and> list_all2 (reward_call (dlib d) reward) ms bs \<and>
     mirrored (dapi d) ms (bal (cw20_storage s)) (bal (cw20_storage s')) \<and>
     (rest = [] \<or> (\<exists>ct m. notifies (dlib d) ct m rest)) \<and> (ms \<noteq> [] \<longrightarrow> query_reward_contract d s = Ok reward)"
  using cw20_ledger.token_execute_sends [OF assms] by (simp add: token_sends_def)

theorem token_reports_changes_witness:
  "\<exists>ms. mirrored example_api ms (std_balances (cw20_storage example_token)) (std_balances (cw20_storage minted_token))"
proof -
  have "address_api (dapi example_deps)" by (simp add: example_addresses.address_api_axioms)
  from token_reports_changes [OF std_cw20.cw20_ledger_axioms this example_minted] show ?thesis by auto
qed

text \<open>
  Until the hub has registered a reward contract, no message moves tokens: minting, burning,
  transferring and sending all panic; only allowances can be set.
\<close>

lemma token_needs_reward_contract:
  assumes hub: "HUB_CONTRACT_KEY s = Some hub" "addr_humanize (dapi d) hub = Ok hub_address"
    and config: "query_raw_config (dquerier d) hub_address (to_length_prefixed (dlib d) (literal_bytes ''config'')) = Ok config" "reward_contract config = None"
  shows "(\<exists>sp n ex. msg = IncreaseAllowance sp n ex \<or> msg = DecreaseAllowance sp n ex) \<or>
     token_execute c d e i msg s = Panic ''the reward contract must have been registered''"
proof -
  have "query_reward_contract d s = Panic ''the reward contract must have been registered''"
    using hub config by (simp add: query_reward_contract_def read_hub_contract_def)
  then show ?thesis
    by (cases msg) (simp_all add: token_execute_def execute_transfer_def execute_burn_def execute_mint_def
        execute_send_def execute_transfer_from_def execute_burn_from_def execute_send_from_def)
qed

section \<open>Limits\<close>

text \<open>
  The minter in the instantiation message is not used, and initial balances are not reported: the reward
  contract knows nothing of them, so the message that takes them away again fails there.
\<close>

lemma token_mint_field_ignored: "token_instantiate c d e i (msg\<lparr>tim_mint := m\<rparr>) s = token_instantiate c d e i msg s"
  by (simp add: token_instantiate_def)

lemma unreported_balance_stuck:
  assumes "reward_lib (dlib d)" and "HOLDERS r = []" and "n \<noteq> 0"
  shows "reward_execute d e i (DecreaseBalance a n) r \<noteq> Ok (r', resp)"
proof
  assume "reward_execute d e i (DecreaseBalance a n) r = Ok (r', resp)"
  from decrease_debits [OF assms(1) this] have "unat n = 0"
    by (auto simp: debits_def reward_balances_def holder_of_def assms(2) store_get_def)
  with assms(3) show False by (simp add: unat_eq_zero)
qed

end
