(* ===== verification/Example_World.thy ===== *)
theory Example_World
  imports World_Transactions Token_Properties
begin

text \<open>
  A concrete chain: the four contracts are deployed, the owner registers the token and the reward contract,
  an account bonds 200 coins and unbonds 100 of the tokens again.  Every step is executed on the model.
\<close>

section \<open>The chain\<close>

definition example_deployment :: deployment where
  "example_deployment = \<lparr>hub_at = ''hub'', token_at = ''t'', reward_at = ''r'', registry_at = ''g''\<rparr>"

lemma example_deployment_simps [simp]:
  "hub_at example_deployment = ''hub''" "token_at example_deployment = ''t''"
  "reward_at example_deployment = ''r''" "registry_at example_deployment = ''g''"
  by (simp_all add: example_deployment_def)

lemma char_of_char_byte: "char_of (unat (of_nat (of_char ch) :: byte)) = ch"
proof -
  have "(of_char ch :: nat) < 256" using of_char_mod_256 [where ?'a = nat, of ch] mod_less_divisor [of 256 "of_char ch :: nat"] by simp
  then show ?thesis by (simp add: unat_of_nat)
qed

lemma example_normal: "normal_address example_api a"
  by (auto simp: normal_address_def example_api_eval comp_def char_of_char_byte split: if_splits)

lemma example_deployed: "deployed example_api example_deployment"
  by (simp add: deployed_def contracts_def example_normal) (simp add: example_api_eval)

interpretation example: basset_world std_cw20 std_balances fresh_ledger std_lib example_api example_deployment
  by unfold_locales (rule example_deployed)

text \<open>The querier that reads the contracts' storage.\<close>

definition world_querier :: "ledger world \<Rightarrow> querier" where
  "world_querier w = example_querier\<lparr>
     query_raw_config := (\<lambda>a key. if a = ''hub'' \<and> key = CONFIG_KEY
        then (case CONFIG (w_hub w) of Some cfg \<Rightarrow> Ok cfg | None \<Rightarrow> Err (NotFound ''Config''))
        else Err (NotFound ''key'')),
     query_token_supply := (\<lambda>a. Ok (led_supply (cw20_storage (w_token w)))),
     query_balance := (\<lambda>a dn. Ok (Coin dn (of_nat (w_coins w))))\<rparr>"

definition world_deps :: "ledger world \<Rightarrow> deps" where
  "world_deps w = example_deps\<lparr>dquerier := world_querier w\<rparr>"

lemma world_deps_simps [simp]:
  "dlib (world_deps w) = std_lib" "dapi (world_deps w) = example_api" "dquerier (world_deps w) = world_querier w"
  by (simp_all add: world_deps_def)

lemma world_querier_eval:
  "query_all_delegations (world_querier w) a = query_all_delegations example_querier a"
  "query_all_validators (world_querier w) = query_all_validators example_querier"
  "query_token_supply (world_querier w) a = Ok (led_supply (cw20_storage (w_token w)))"
  "query_raw_config (world_querier w) a key = (if a = ''hub'' \<and> key = CONFIG_KEY
     then (case CONFIG (w_hub w) of Some cfg \<Rightarrow> Ok cfg | None \<Rightarrow> Err (NotFound ''Config'')) else Err (NotFound ''key''))"
  by (simp_all add: world_querier_def)

lemma world_answers: "w_coins w = 0 \<Longrightarrow> chain_answers std_cw20 example_deployment (world_deps w) w"
  by (auto simp: chain_answers_def world_querier_def std_cw20_def hub_cell_config split: option.splits)

definition env_at :: "string \<Rightarrow> env" where
  "env_at a = example_env\<lparr>contract_address := a\<rparr>"


section \<open>Deployment and registration\<close>

abbreviation world_of :: "hub_storage \<Rightarrow> ledger token_storage \<Rightarrow> reward_storage \<Rightarrow> ledger world" where
  "world_of h t r \<equiv> \<lparr>w_hub = h, w_token = t, w_reward = r,
     w_registry = \<lparr>registry_CONFIG = Some example_registry_config, AIRDROP_INFO = []\<rparr>, w_coins = 0\<rparr>"

definition open_hub :: hub_storage where
  "open_hub = life_hub\<lparr>validators_map := [(''v1'', True)]\<rparr>"

definition live_hub :: hub_storage where
  "live_hub = open_hub\<lparr>CONFIG := Some wired_config\<rparr>"

abbreviation example_reachable_world :: "ledger world \<Rightarrow> job list \<Rightarrow> bool" where
  "example_reachable_world \<equiv> world_reachable std_cw20 fresh_ledger std_lib example_api example_deployment"

abbreviation example_run :: "ledger world \<Rightarrow> job list \<Rightarrow> ledger world \<Rightarrow> job list \<Rightarrow> bool" where
  "example_run \<equiv> world_run std_cw20 std_lib example_api example_deployment"

lemma deployed_hub:
  "\<exists>msg resp. hub_instantiate example_deps example_env (example_info ''o'') msg empty_hub_storage = Ok (life_hub, resp) \<and>
     messages resp = [WasmExecute ''hub'' (std_encode (HubPayload (RegisterValidator ''v1''))) [], StakingDelegate ''v1'' (Coin ''uluna'' 200)]"
  by (rule exI [of _ "\<lparr>im_epoch_period = 30, im_underlying_coin_denom = ''uluna'', im_unbonding_period = 100,
      im_peg_recovery_fee = Decimal 5000000000000000, im_er_threshold = decimal_one, im_reward_denom = ''uusd'', im_validator = ''v1''\<rparr>"])
    (simp add: hub_instantiate_def example_eval empty_hub_storage_def life_hub_def life_config_def life_state_def
      example_params_def example_info_def example_env_def)

lemma world_deployed:
  "example_reachable_world (world_of life_hub example_token (example_reward 0 0 0 []))
     [(''hub'', WasmExecute ''hub'' (std_encode (HubPayload (RegisterValidator ''v1''))) []),
      (''hub'', StakingDelegate ''v1'' (Coin ''uluna'' 200))]"
proof -
  obtain msg resp where h: "hub_instantiate example_deps example_env (example_info ''o'') msg empty_hub_storage = Ok (life_hub, resp)"
    and m: "messages resp = [WasmExecute ''hub'' (std_encode (HubPayload (RegisterValidator ''v1''))) [], StakingDelegate ''v1'' (Coin ''uluna'' 200)]"
    using deployed_hub by (elim exE conjE) (rule that)
  obtain rr where r: "reward_instantiate example_deps \<lparr>rim_hub_contract = ''hub'', rim_reward_denom = ''uusd''\<rparr>
     empty_reward_storage = Ok (example_reward 0 0 0 [], rr)" using example_instantiated by blast
  show ?thesis
    using world_started [OF h _ _ example_token_started _ _ _ r _ example_registry_instantiated,
        where A = example_deployment and ap = example_api and l = std_lib and n = 0]
    by (simp add: m example_token_msg_def example_env_def)
qed

lemma validator_registered:
  "\<exists>resp. hub_execute (world_deps w) (env_at ''hub'') \<lparr>sender = ''hub'', funds = []\<rparr> (RegisterValidator ''v1'') life_hub =
     Ok (open_hub, resp) \<and> messages resp = []"
  by (simp add: hub_execute_def execute_register_validator_def life_hub_def life_config_def env_at_def example_api_eval
      world_querier_eval example_querier_eval store_white_validators_def store_set_def store_remove_def open_hub_def)

lemma contracts_registered:
  "\<exists>resp. hub_execute (world_deps w) (env_at ''hub'') \<lparr>sender = ''o'', funds = []\<rparr> (HubUpdateConfig None (Some ''r'') (Some ''t'') None) open_hub =
     Ok (live_hub, resp) \<and> messages resp = [SetWithdrawAddress ''r'']"
  by (simp add: hub_execute_def execute_update_config_def update_config_field_def open_hub_def live_hub_def life_hub_def
      life_config_def wired_config_def example_api_eval)

lemma example_hub_run:
  assumes ex: "hub_execute (world_deps w) (env_at ''hub'') \<lparr>sender = who, funds = fs\<rparr> m (w_hub w) = Ok (h, resp)"
    and "w_coins w = 0" and "registers example_deployment m"
    and rest: "example_run (w\<lparr>w_hub := h\<rparr>) (map (Pair ''hub'') (messages resp) @ js) w' js'"
  shows "example_run w ((who, WasmExecute ''hub'' (std_encode (HubPayload m)) fs) # js) w' js'"
  using run_step [OF hub_step [OF _ _ world_answers [OF assms(2)] _ _ assms(3) ex, where b = "std_encode (HubPayload m)" and js = js]] rest
  by (simp add: env_at_def std_lib_eval)

lemma example_native_run:
  "\<not> is_wasm m \<Longrightarrow> example_run w js w' js' \<Longrightarrow> example_run w ((who, m) # js) w' js'"
  by (rule run_step [OF native_step])

lemma example_token_run:
  assumes ex: "token_execute std_cw20 (world_deps w) (env_at ''t'') \<lparr>sender = who, funds = fs\<rparr> m (w_token w) = Ok (t, resp)"
    and "w_coins w = 0" and rest: "example_run (w\<lparr>w_token := t\<rparr>) (map (Pair ''t'') (messages resp) @ js) w' js'"
  shows "example_run w ((who, WasmExecute ''t'' (std_encode (Cw20Payload m)) fs) # js) w' js'"
  using run_step [OF token_step [OF _ _ world_answers [OF assms(2)] _ _ ex, where b = "std_encode (Cw20Payload m)" and js = js]] rest
  by (simp add: env_at_def std_lib_eval)

lemma example_reward_run:
  assumes ex: "reward_execute (world_deps w) (env_at ''r'') \<lparr>sender = who, funds = fs\<rparr> m (w_reward w) = Ok (r, resp)"
    and "w_coins w = 0" and "reward_CONFIG (w_reward w) = Some rc" and "messages resp = []"
    and rest: "example_run (w\<lparr>w_reward := r\<rparr>) js w' js'"
  shows "example_run w ((who, WasmExecute ''r'' (std_encode (RewardPayload m)) fs) # js) w' js'"
proof -
  have eq: "w\<lparr>w_reward := r, w_coins := 0\<rparr> = w\<lparr>w_reward := r\<rparr>" using assms(2) by simp
  have "example_run (w\<lparr>w_reward := r, w_coins := 0\<rparr>) js w' js'" unfolding eq by (rule rest)
  then show ?thesis
    using run_step [OF reward_step [OF _ _ world_answers [OF assms(2)] _ _ assms(3) ex, where b = "std_encode (RewardPayload m)" and js = js]]
    by (simp add: env_at_def std_lib_eval assms(2,4))
qed

lemma world_live: "example_reachable_world (world_of live_hub example_token (example_reward 0 0 0 [])) []"
proof -
  let ?w0 = "world_of life_hub example_token (example_reward 0 0 0 [])"
  let ?w1 = "world_of open_hub example_token (example_reward 0 0 0 [])"
  let ?w2 = "world_of live_hub example_token (example_reward 0 0 0 [])"
  let ?config = "WasmExecute ''hub'' (std_encode (HubPayload (HubUpdateConfig None (Some ''r'') (Some ''t'') None))) []"
  obtain resp where "hub_execute (world_deps ?w0) (env_at ''hub'') \<lparr>sender = ''hub'', funds = []\<rparr> (RegisterValidator ''v1'') (w_hub ?w0) =
     Ok (open_hub, resp)" "messages resp = []" using validator_registered [of ?w0] by auto
  from example_hub_run [OF this(1)] this(2) have "example_run ?w0
     [(''hub'', WasmExecute ''hub'' (std_encode (HubPayload (RegisterValidator ''v1''))) []), (''hub'', StakingDelegate ''v1'' (Coin ''uluna'' 200))] ?w1 []"
    by (simp add: example_native_run run_none)
  from run_reachable [OF this world_deployed] have 1: "example_reachable_world ?w1 []" .
  obtain resp where r: "hub_execute (world_deps ?w1) (env_at ''hub'') \<lparr>sender = ''o'', funds = []\<rparr> (HubUpdateConfig None (Some ''r'') (Some ''t'') None) (w_hub ?w1) =
     Ok (live_hub, resp)" "messages resp = [SetWithdrawAddress ''r'']" using contracts_registered [of ?w1] by auto
  have 2: "example_reachable_world ?w1 [(''o'', ?config)]"
    by (rule transaction [OF 1]) (simp add: contracts_def example_normal)
  from example_hub_run [OF r(1)] r(2) have "example_run ?w1 [(''o'', ?config)] ?w2 []"
    by (simp add: example_native_run run_none)
  from run_reachable [OF this 2] show ?thesis .
qed


section \<open>Bonding\<close>

definition bonded_state :: hub_state where
  "bonded_state = life_state\<lparr>total_bond_amount := 400, exchange_rate := Decimal 2000000000000000000\<rparr>"

definition bonded_hub :: hub_storage where
  "bonded_hub = live_hub\<lparr>STATE := Some bonded_state\<rparr>"

definition token_with :: "uint128 \<Rightarrow> uint128 \<Rightarrow> ledger token_storage" where
  "token_with n m = example_token\<lparr>cw20_storage := (cw20_storage example_token)\<lparr>
     led_balance := (\<lambda>_. 0)([117] := n, [104, 117, 98] := m), led_supply := n + m\<rparr>\<rparr>"

lemma live_hub_simps [simp]:
  "PARAMETERS live_hub = Some example_params" "STATE live_hub = Some life_state" "CONFIG live_hub = Some wired_config"
  "CURRENT_BATCH live_hub = Some \<lparr>cb_id = 1, requested_with_fee = 0\<rparr>" "validators_map live_hub = [(''v1'', True)]"
  "wait_map live_hub = []"
  by (simp_all add: live_hub_def open_hub_def life_hub_def)

lemma live_issued: "query_total_issued (world_deps w) live_hub = Ok (led_supply (cw20_storage (w_token w)))"
  by (simp add: query_total_issued_def wired_config_def world_querier_eval example_eval)

lemma live_slashing: "slashing (world_deps w) e live_hub = Ok live_hub"
  by (simp add: slashing_def live_issued life_state_def example_params_def world_querier_eval example_querier_eval sum_delegations_def std_eval)

lemma hub_bonded:
  assumes "led_supply (cw20_storage (w_token w)) = 0"
  shows "\<exists>resp. hub_execute (world_deps w) (env_at ''hub'') \<lparr>sender = ''u'', funds = [Coin ''uluna'' 200]\<rparr> (Bond ''v1'') live_hub =
     Ok (bonded_hub, resp) \<and> messages resp = [StakingDelegate ''v1'' (Coin ''uluna'' 200),
       WasmExecute ''t'' (std_encode (Cw20Payload (Mint ''u'' 200))) []]"
proof -
  have q: "query_total_issued (world_deps w) live_hub = Ok 0" by (simp add: live_issued assms)
  have m: "mint_with_fee std_lib example_params life_state 0 0 200 = Ok 200"
    by (simp add: mint_with_fee_def decimal_division_def example_params_def life_state_def std_eval
        HUB_DECIMAL_FRACTIONAL_def decimal_less_iff)
  have u: "update_exchange_rate std_lib 200 0 (life_state\<lparr>total_bond_amount := 400\<rparr>) = Ok bonded_state"
    by (simp add: update_exchange_rate_def bonded_state_def life_state_def std_eval)
  have v: "is_valid_validator live_hub ''v1'' = Ok True" by (simp add: is_valid_validator_def store_get_def)
  have t: "token_contract wired_config = Some [116]" "total_bond_amount life_state = 200" "underlying_coin_denom example_params = ''uluna''"
    by (simp_all add: wired_config_def life_state_def example_params_def)
  show ?thesis
    by (simp add: hub_execute_def execute_bond_def live_slashing q m u v t example_api_eval std_eval bonded_hub_def
        char_of_def bit_0)
qed

lemma example_reward_found:
  assumes "HUB_CONTRACT_KEY t = Some example_hub_raw" and "CONFIG (w_hub w) = Some wired_config"
  shows "query_reward_contract (world_deps w) t = Ok ''r''"
  by (simp add: query_reward_contract_def read_hub_contract_def assms example_hub_human world_querier_eval
      std_prefix.item_keys(1) [symmetric] wired_config_def)
    (simp add: example_api_eval char_of_def bit_0)

lemma token_with_key [simp]: "HUB_CONTRACT_KEY (token_with n m) = Some example_hub_raw" "HUB_CONTRACT_KEY example_token = Some example_hub_raw"
  by (simp_all add: token_with_def example_token_def)

lemma token_minted:
  assumes "CONFIG (w_hub w) = Some wired_config"
  shows "\<exists>resp. token_execute std_cw20 (world_deps w) (env_at ''t'') \<lparr>sender = ''hub'', funds = []\<rparr> (Mint ''u'' 200) example_token =
     Ok (token_with 200 0, resp) \<and> messages resp = [WasmExecute ''r'' (std_encode (RewardPayload (IncreaseBalance ''u'' 200))) []]"
proof -
  have "cw20_minting std_cw20 (world_deps w) (env_at ''t'') \<lparr>sender = ''hub'', funds = []\<rparr> ''u'' 200 (cw20_storage example_token) =
      Ok (cw20_storage (token_with 200 0), empty_response)"
    by (simp add: std_cw20_def example_api_eval quiet_def ledger_credit_def ledger_issue_def example_token_def token_with_def fun_eq_iff
        fresh_ledger_def std_uint_of_nat_def example_hub_raw_def)
  then show ?thesis
    by (simp add: token_execute_def execute_mint_def example_reward_found assms on_cw20_def reward_msg_def std_lib_eval
        token_with_def)
qed

lemmas reward_world_eval = reward_execute_def example_reward_eval world_querier_eval std_prefix.item_keys(1) [symmetric]
  wired_config_def char_of_def bit_0

lemma reward_increased:
  assumes "CONFIG (w_hub w) = Some wired_config"
  shows "\<exists>resp. reward_execute (world_deps w) (env_at ''r'') \<lparr>sender = ''t'', funds = []\<rparr> (IncreaseBalance ''u'' 200) (example_reward 0 0 0 []) =
     Ok (example_reward 0 200 0 [([117], example_holder 200 0 0)], resp) \<and> messages resp = []"
  by (simp add: execute_increase_balance_def assms reward_world_eval)

definition bonded_world :: "ledger world" where
  "bonded_world = world_of bonded_hub (token_with 200 0) (example_reward 0 200 0 [([117], example_holder 200 0 0)])"

lemma bond_executed:
  "example_run (world_of live_hub example_token (example_reward 0 0 0 []))
     [(''u'', WasmExecute ''hub'' (std_encode (HubPayload (Bond ''v1''))) [Coin ''uluna'' 200])] bonded_world []"
proof -
  let ?w0 = "world_of live_hub example_token (example_reward 0 0 0 [])"
  let ?w1 = "world_of bonded_hub example_token (example_reward 0 0 0 [])"
  let ?w2 = "world_of bonded_hub (token_with 200 0) (example_reward 0 0 0 [])"
  have c: "CONFIG (w_hub ?w1) = Some wired_config" "CONFIG (w_hub ?w2) = Some wired_config" by (simp_all add: bonded_hub_def)
  obtain r0 where 0: "hub_execute (world_deps ?w0) (env_at ''hub'') \<lparr>sender = ''u'', funds = [Coin ''uluna'' 200]\<rparr> (Bond ''v1'') (w_hub ?w0) =
     Ok (bonded_hub, r0)" "messages r0 = [StakingDelegate ''v1'' (Coin ''uluna'' 200), WasmExecute ''t'' (std_encode (Cw20Payload (Mint ''u'' 200))) []]"
    using hub_bonded [of ?w0] by (auto simp: example_token_def fresh_ledger_def)
  obtain r1 where 1: "token_execute std_cw20 (world_deps ?w1) (env_at ''t'') \<lparr>sender = ''hub'', funds = []\<rparr> (Mint ''u'' 200) (w_token ?w1) =
     Ok (token_with 200 0, r1)" "messages r1 = [WasmExecute ''r'' (std_encode (RewardPayload (IncreaseBalance ''u'' 200))) []]"
    using token_minted [OF c(1)] by auto
  obtain r2 where 2: "reward_execute (world_deps ?w2) (env_at ''r'') \<lparr>sender = ''t'', funds = []\<rparr> (IncreaseBalance ''u'' 200) (w_reward ?w2) =
     Ok (example_reward 0 200 0 [([117], example_holder 200 0 0)], r2)" "messages r2 = []"
    using reward_increased [OF c(2)] by auto
  have "example_run ?w2 [(''t'', WasmExecute ''r'' (std_encode (RewardPayload (IncreaseBalance ''u'' 200))) [])] bonded_world []"
    by (rule example_reward_run [OF 2(1) _ _ 2(2)]) (simp_all add: example_reward_def bonded_world_def run_none)
  then have "example_run ?w1 [(''hub'', WasmExecute ''t'' (std_encode (Cw20Payload (Mint ''u'' 200))) [])] bonded_world []"
    by (intro example_token_run [OF 1(1)]) (simp_all add: 1(2))
  then show ?thesis
    by (intro example_hub_run [OF 0(1)]) (simp_all add: 0(2) example_native_run)
qed

lemma bonded_reachable: "example_reachable_world bonded_world []"
  by (rule run_reachable [OF bond_executed], rule transaction [OF world_live]) (simp add: contracts_def example_normal)


section \<open>Unbonding\<close>

definition requested_hub :: hub_storage where
  "requested_hub = bonded_hub\<lparr>wait_map := [((''u'', 1), 100)], CURRENT_BATCH := Some \<lparr>cb_id = 1, requested_with_fee = 100\<rparr>,
     STATE := Some (bonded_state\<lparr>exchange_rate := Decimal 2000000000000000000\<rparr>)\<rparr>"

definition hub_holds :: "uint128 \<Rightarrow> reward_storage" where
  "hub_holds n = example_reward 0 (100 + n) 0 [([104, 117, 98], example_holder n 0 0), ([117], example_holder 100 0 0)]"

definition unbond_note :: binary where
  "unbond_note = std_encode (HubPayload (Receive \<lparr>cw20_sender = ''u'', cw20_amount = 100, cw20_payload = []\<rparr>))"

lemma token_sent:
  assumes "CONFIG (w_hub w) = Some wired_config"
  shows "\<exists>resp. token_execute std_cw20 (world_deps w) (env_at ''t'') \<lparr>sender = ''u'', funds = []\<rparr> (Send ''hub'' 100 []) (token_with 200 0) =
     Ok (token_with 100 100, resp) \<and> messages resp = [WasmExecute ''r'' (std_encode (RewardPayload (DecreaseBalance ''u'' 100))) [],
       WasmExecute ''r'' (std_encode (RewardPayload (IncreaseBalance ''hub'' 100))) [], WasmExecute ''hub'' unbond_note []]"
proof -
  have "cw20_send std_cw20 (world_deps w) (env_at ''t'') \<lparr>sender = ''u'', funds = []\<rparr> ''hub'' 100 [] (cw20_storage (token_with 200 0)) =
      Ok (cw20_storage (token_with 100 100), \<lparr>messages = [WasmExecute ''hub'' unbond_note []], attributes = []\<rparr>)"
    by (simp add: std_cw20_def example_api_eval notifying_def ledger_move_def ledger_debit_def ledger_credit_def example_token_def
        token_with_def fun_eq_iff fresh_ledger_def std_uint_of_nat_def std_lib_eval unbond_note_def)
  then show ?thesis
    by (simp add: token_execute_def execute_send_def example_reward_found assms on_cw20_def reward_msg_def std_lib_eval
        token_with_def)
qed

lemma token_burnt:
  assumes "CONFIG (w_hub w) = Some wired_config"
  shows "\<exists>resp. token_execute std_cw20 (world_deps w) (env_at ''t'') \<lparr>sender = ''hub'', funds = []\<rparr> (Burn 100) (token_with 100 100) =
     Ok (token_with 100 0, resp) \<and> messages resp = [WasmExecute ''r'' (std_encode (RewardPayload (DecreaseBalance ''hub'' 100))) []]"
proof -
  have "cw20_burn std_cw20 (world_deps w) (env_at ''t'') \<lparr>sender = ''hub'', funds = []\<rparr> 100 (cw20_storage (token_with 100 100)) =
      Ok (cw20_storage (token_with 100 0), empty_response)"
    by (simp add: std_cw20_def example_api_eval quiet_def ledger_debit_def ledger_retire_def example_token_def token_with_def fun_eq_iff fresh_ledger_def)
  then show ?thesis
    by (simp add: token_execute_def execute_burn_def example_reward_found assms on_cw20_def reward_msg_def std_lib_eval
        token_with_def)
qed

lemma reward_moved:
  assumes "CONFIG (w_hub w) = Some wired_config"
  shows "\<exists>resp. reward_execute (world_deps w) (env_at ''r'') \<lparr>sender = ''t'', funds = []\<rparr> (DecreaseBalance ''u'' 100)
      (example_reward 0 200 0 [([117], example_holder 200 0 0)]) = Ok (example_reward 0 100 0 [([117], example_holder 100 0 0)], resp) \<and> messages resp = []"
    and "\<exists>resp. reward_execute (world_deps w) (env_at ''r'') \<lparr>sender = ''t'', funds = []\<rparr> (IncreaseBalance ''hub'' 100)
      (example_reward 0 100 0 [([117], example_holder 100 0 0)]) = Ok (hub_holds 100, resp) \<and> messages resp = []"
    and "\<exists>resp. reward_execute (world_deps w) (env_at ''r'') \<lparr>sender = ''t'', funds = []\<rparr> (DecreaseBalance ''hub'' 100) (hub_holds 100) =
      Ok (hub_holds 0, resp) \<and> messages resp = []"
  by (simp_all add: execute_decrease_balance_def execute_increase_balance_def assms reward_world_eval hub_holds_def)

lemma hub_unbonded:
  assumes "led_supply (cw20_storage (w_token w)) = 200"
  shows "\<exists>resp. hub_execute (world_deps w) (env_at ''hub'') \<lparr>sender = ''t'', funds = []\<rparr> (Receive \<lparr>cw20_sender = ''u'', cw20_amount = 100, cw20_payload = []\<rparr>)
      bonded_hub = Ok (requested_hub, resp) \<and> messages resp = [WasmExecute ''t'' (std_encode (Cw20Payload (Burn 100))) []]"
proof -
  have 1: "PARAMETERS bonded_hub = Some example_params" "STATE bonded_hub = Some bonded_state" "CONFIG bonded_hub = Some wired_config"
    "CURRENT_BATCH bonded_hub = Some \<lparr>cb_id = 1, requested_with_fee = 0\<rparr>" "epoch_period example_params = 30"
    "block_seconds (env_at ''hub'') = 2000000" "token_contract wired_config = Some [116]"
    by (simp_all add: bonded_hub_def example_params_def env_at_def example_env_def wired_config_def)
  have q: "query_total_issued (world_deps w) bonded_hub = Ok 200"
    by (simp add: query_total_issued_def 1 assms world_querier_eval example_eval)
  have 2: "slashing (world_deps w) (env_at ''hub'') bonded_hub = Ok bonded_hub"
    by (simp add: slashing_def 1 q bonded_state_def life_state_def example_params_def world_querier_eval example_querier_eval sum_delegations_def std_eval)
  have 3: "unbond_with_fee std_lib example_params bonded_state 200 0 100 = Ok 100"
    by (simp add: unbond_with_fee_def bonded_state_def life_state_def example_params_def decimal_less_iff std_eval)
  have 4: "store_unbond_wait_list std_lib 1 ''u'' 100 bonded_hub = Ok (bonded_hub\<lparr>wait_map := [((''u'', 1), 100)]\<rparr>)"
    by (simp add: store_unbond_wait_list_def bonded_hub_def store_get_def store_set_def store_remove_def std_eval)
  have 5: "update_exchange_rate std_lib 100 100 bonded_state = Ok (bonded_state\<lparr>exchange_rate := Decimal 2000000000000000000\<rparr>)"
    "last_unbonded_time bonded_state = 2000000"
    by (simp_all add: update_exchange_rate_def bonded_state_def life_state_def std_eval)
  show ?thesis
    by (simp add: hub_execute_def receive_cw20_def execute_unbond_def 1 2 3 4 5 q u64_sub_def std_eval example_api_eval
        char_of_def bit_0 requested_hub_def)
qed

definition unbonded_world :: "ledger world" where
  "unbonded_world = world_of requested_hub (token_with 100 0) (hub_holds 0)"

lemma unbond_executed:
  "example_run bonded_world [(''u'', WasmExecute ''t'' (std_encode (Cw20Payload (Send ''hub'' 100 []))) [])] unbonded_world []"
proof -
  let ?r0 = "example_reward 0 200 0 [([117], example_holder 200 0 0)]" and ?r1 = "example_reward 0 100 0 [([117], example_holder 100 0 0)]"
  let ?w1 = "world_of bonded_hub (token_with 100 100) ?r0" and ?w2 = "world_of bonded_hub (token_with 100 100) ?r1"
    and ?w3 = "world_of bonded_hub (token_with 100 100) (hub_holds 100)" and ?w4 = "world_of requested_hub (token_with 100 100) (hub_holds 100)"
    and ?w5 = "world_of requested_hub (token_with 100 0) (hub_holds 100)"
  have c: "CONFIG (w_hub bonded_world) = Some wired_config" "CONFIG (w_hub ?w1) = Some wired_config" "CONFIG (w_hub ?w2) = Some wired_config"
    "CONFIG (w_hub ?w4) = Some wired_config" "CONFIG (w_hub ?w5) = Some wired_config"
    by (simp_all add: bonded_world_def bonded_hub_def requested_hub_def)
  have rc: "reward_CONFIG (hub_holds n) = Some example_config" "reward_CONFIG (example_reward a b x y) = Some example_config" for n a b x y
    by (simp_all add: hub_holds_def example_reward_def)
  obtain s where 5: "reward_execute (world_deps ?w5) (env_at ''r'') \<lparr>sender = ''t'', funds = []\<rparr> (DecreaseBalance ''hub'' 100) (w_reward ?w5) =
      Ok (hub_holds 0, s)" "messages s = []" using reward_moved(3) [OF c(5)] by auto
  have r5: "example_run ?w5 [(''t'', WasmExecute ''r'' (std_encode (RewardPayload (DecreaseBalance ''hub'' 100))) [])] unbonded_world []"
    by (rule example_reward_run [OF 5(1) _ _ 5(2)]) (simp_all add: rc unbonded_world_def run_none)
  obtain s where 4: "token_execute std_cw20 (world_deps ?w4) (env_at ''t'') \<lparr>sender = ''hub'', funds = []\<rparr> (Burn 100) (w_token ?w4) =
     Ok (token_with 100 0, s)" "messages s = [WasmExecute ''r'' (std_encode (RewardPayload (DecreaseBalance ''hub'' 100))) []]"
    using token_burnt [OF c(4)] by auto
  have r4: "example_run ?w4 [(''hub'', WasmExecute ''t'' (std_encode (Cw20Payload (Burn 100))) [])] unbonded_world []"
    by (rule example_token_run [OF 4(1)]) (use r5 in \<open>simp_all add: 4(2)\<close>)
  obtain s where 3: "hub_execute (world_deps ?w3) (env_at ''hub'') \<lparr>sender = ''t'', funds = []\<rparr> (Receive \<lparr>cw20_sender = ''u'', cw20_amount = 100, cw20_payload = []\<rparr>)
      (w_hub ?w3) = Ok (requested_hub, s)" "messages s = [WasmExecute ''t'' (std_encode (Cw20Payload (Burn 100))) []]" using hub_unbonded [of ?w3] by (auto simp: token_with_def)
  have r3: "example_run ?w3 [(''t'', WasmExecute ''hub'' unbond_note [])] unbonded_world []"
    unfolding unbond_note_def by (rule example_hub_run [OF 3(1)]) (use r4 in \<open>simp_all add: 3(2)\<close>)
  obtain s where 2: "reward_execute (world_deps ?w2) (env_at ''r'') \<lparr>sender = ''t'', funds = []\<rparr> (IncreaseBalance ''hub'' 100) (w_reward ?w2) =
      Ok (hub_holds 100, s)" "messages s = []" using reward_moved(2) [OF c(3)] by auto
  have r2: "example_run ?w2 [(''t'', WasmExecute ''r'' (std_encode (RewardPayload (IncreaseBalance ''hub'' 100))) []),
      (''t'', WasmExecute ''hub'' unbond_note [])] unbonded_world []"
    by (rule example_reward_run [OF 2(1) _ _ 2(2)]) (use r3 in \<open>simp_all add: rc\<close>)
  obtain s where 1: "reward_execute (world_deps ?w1) (env_at ''r'') \<lparr>sender = ''t'', funds = []\<rparr> (DecreaseBalance ''u'' 100) (w_reward ?w1) =
      Ok (?r1, s)" "messages s = []" using reward_moved(1) [OF c(2)] by auto
  have r1: "example_run ?w1 [(''t'', WasmExecute ''r'' (std_encode (RewardPayload (DecreaseBalance ''u'' 100))) []),
      (''t'', WasmExecute ''r'' (std_encode (RewardPayload (IncreaseBalance ''hub'' 100))) []), (''t'', WasmExecute ''hub'' unbond_note [])] unbonded_world []"
    by (rule example_reward_run [OF 1(1) _ _ 1(2)]) (use r2 in \<open>simp_all add: rc\<close>)
  obtain s where 0: "token_execute std_cw20 (world_deps bonded_world) (env_at ''t'') \<lparr>sender = ''u'', funds = []\<rparr> (Send ''hub'' 100 []) (w_token bonded_world) =
     Ok (token_with 100 100, s)" "messages s = [WasmExecute ''r'' (std_encode (RewardPayload (DecreaseBalance ''u'' 100))) [],
       WasmExecute ''r'' (std_encode (RewardPayload (IncreaseBalance ''hub'' 100))) [], WasmExecute ''hub'' unbond_note []]"
    using token_sent [OF c(1)] by (auto simp: bonded_world_def)
  show ?thesis
    by (rule example_token_run [OF 0(1)]) (use r1 in \<open>simp_all add: 0(2) bonded_world_def\<close>)
qed

end
