(* ===== verification/World_Minting.thy ===== *)
theory World_Minting
  imports World_Transactions
begin

text \<open>
  Who can create tokens.  The token accepts a mint order from the hub only, and the hub gives one only
  while it executes a bond: the other messages it sends go elsewhere or are no mint orders, whatever the
  airdrop hooks, the registry or a token sent to the hub make it say.
\<close>

section \<open>What the hub sends to the token\<close>

definition mint_order :: "lib \<Rightarrow> string \<Rightarrow> uint128 \<Rightarrow> binary \<Rightarrow> bool" where
  "mint_order l rcpt n b \<longleftrightarrow> to_binary l (Cw20Payload (Mint rcpt n)) = Ok b"

lemma deregister_calls:
  assumes "execute_deregister_validator d e i v s = Ok (s', resp)" and "WasmExecute to b fs \<in> set (messages resp)"
  shows "to = contract_address e"
  using assms
  by (cases "query_delegation (dquerier d) (contract_address e) v")
    (auto simp: execute_deregister_validator_def split: if_splits option.splits)

context basset_world
begin

text \<open>An order to claim an airdrop comes from the registry, with a claim in it.\<close>

lemma airdrop_claim_text:
  assumes w: "wired ap A w" and job: "job_ok l ap A (who, WasmExecute (hub_at A) b fs)"
    and b: "to_binary l (HubPayload (ClaimAirdrop tok ad swp cm sm)) = Ok b" and d: "dlib d = l" "dapi d = ap"
    and run: "claim_airdrop d e \<lparr>sender = who, funds = fs\<rparr> tok ad swp cm sm (w_hub w) = Ok (h, resp)"
  shows "\<exists>claim. is_claim claim \<and> to_binary l claim = Ok cm"
proof -
  obtain cfg raw where cfg: "CONFIG (w_hub w) = Some cfg" "airdrop_registry_contract cfg = Some raw"
    "addr_canonicalize ap who = Ok raw"
    using run d by (auto simp: claim_airdrop_def split: if_splits)
  then have "addr_canonicalize ap (registry_at A) = Ok raw" using w by (auto simp: wired_def)
  then have "who = registry_at A" using cfg(3) job contracts_normal(4) by (auto simp: job_ok_def normal_address_def)
  then have "claim_call l (WasmExecute (hub_at A) b fs)" using job by (simp add: job_ok_def)
  then obtain tok' ad' swp' cm' sm' claim where c: "to_binary l (HubPayload (ClaimAirdrop tok' ad' swp' cm' sm')) = Ok b"
    "is_claim claim" "to_binary l claim = Ok cm'"
    by (auto simp: claim_call_def)
  then have "cm' = cm" using hub_messages_distinct [OF c(1) b] by simp
  with c(2,3) show ?thesis by blast
qed

lemma not_a_claim: "mint_order l rcpt n b \<Longrightarrow> is_claim claim \<Longrightarrow> to_binary l claim \<noteq> Ok b"
  by (cases claim) (auto simp: mint_order_def dest: claim_not_cw20)

lemma mint_order_text: "to_binary l (Cw20Payload m) = Ok b \<Longrightarrow> mint_order l rcpt n b \<longleftrightarrow> m = Mint rcpt n"
  by (auto simp: mint_order_def dest: cw20_messages_distinct)

text \<open>The contracts registered with the hub are the deployed ones.\<close>

lemma registered_addresses:
  assumes "wired ap A w" and "CONFIG (w_hub w) = Some cfg" and "addr_humanize ap raw = Ok to"
  shows "reward_contract cfg = Some raw \<Longrightarrow> to = reward_at A"
    and "airdrop_registry_contract cfg = Some raw \<Longrightarrow> to = registry_at A"
  using assms contracts_normal by (auto simp: wired_def normal_address_def)

lemma hub_mint_orders:
  assumes w: "wired ap A w" and job: "job_ok l ap A (who, WasmExecute (hub_at A) b fs)"
    and b: "to_binary l (HubPayload m) = Ok b" and d: "dlib d = l" "dapi d = ap" and e: "contract_address e = hub_at A"
    and run: "hub_execute d e \<lparr>sender = who, funds = fs\<rparr> m (w_hub w) = Ok (h, resp)"
    and x: "WasmExecute (token_at A) y gs \<in> set (messages resp)" "mint_order l rcpt n y"
  shows "\<exists>v payment. m = Bond v \<and> rcpt = who \<and> fs = [payment] \<and> 0 < amount payment"
proof (cases m)
  case (Bond v)
  then have "execute_bond d e \<lparr>sender = who, funds = fs\<rparr> v (w_hub w) = Ok (h, resp)" using run by (simp add: hub_execute_def)
  then show ?thesis by (rule execute_bond_ok) (use x d mint_order_text Bond in auto)
next
  case (Receive r)
  then obtain k u where "execute_unbond d e k u (w_hub w) = Ok (h, resp)"
    using run by (auto simp: hub_execute_def receive_cw20_def split: if_splits cw20_hook_msg.splits res.splits)
  then obtain msgs to burn where "list_all (\<lambda>z. \<not> is_wasm z) msgs" "messages resp = msgs @ [WasmExecute to burn []]"
    "to_binary l (Cw20Payload (Burn k)) = Ok burn"
    using unbond_hub [OF d] by blast
  then show ?thesis using x mint_order_text by (auto simp: list_all_iff)
next
  case (HubUpdateGlobalIndex hooks)
  then show ?thesis using run x d registered_addresses [OF w] contracts_apart
    by (auto simp: hub_execute_def execute_update_global_def withdraw_all_rewards_def split: option.splits res.splits)
next
  case (DeregisterValidator v)
  then show ?thesis using run x(1) e contracts_apart by (auto simp: hub_execute_def dest!: deregister_calls)
next
  case (SwapHook tok swp sm)
  then show ?thesis using run x d mint_order_text
    by (auto simp: hub_execute_def swap_hook_def split: if_splits)
next
  case (ClaimAirdrop tok ad swp cm sm)
  then have c: "claim_airdrop d e \<lparr>sender = who, funds = fs\<rparr> tok ad swp cm sm (w_hub w) = Ok (h, resp)"
    using run by (simp add: hub_execute_def)
  with ClaimAirdrop b obtain claim where "is_claim claim" "to_binary l claim = Ok cm"
    using airdrop_claim_text [OF w job _ d] by blast
  with c x e contracts_apart not_a_claim show ?thesis by (auto simp: claim_airdrop_def split: if_splits)
qed (use run x in \<open>auto simp: hub_execute_def execute_withdraw_unbonded_def execute_register_validator_def execute_slashing_def
    execute_update_params_def execute_update_config_def split: if_splits option.splits\<close>)

end


section \<open>The token's minter\<close>

locale minting_world = basset_world c bal fresh l ap A + cw20_minter c bal fresh minter_of
  for c :: "'c cw20_legacy" and bal fresh l ap A minter_of
begin

definition minter_is_hub :: "'c world \<Rightarrow> bool" where
  "minter_is_hub w \<longleftrightarrow> (\<exists>hub. addr_canonicalize ap (hub_at A) = Ok hub \<and> minter_of (cw20_storage (w_token w)) = Some hub)"

lemma token_execute_minter:
  "token_execute c d e i m t = Ok (t', resp) \<Longrightarrow> minter_of (cw20_storage t') = minter_of (cw20_storage t)"
  by (cases m)
    (auto simp: token_execute_def execute_transfer_def execute_burn_def execute_send_def execute_mint_def
      execute_transfer_from_def execute_burn_from_def execute_send_from_def dest!: minter_kept)

lemma minter_step: "minter_is_hub w \<Longrightarrow> world_step c l ap A w js w' js' \<Longrightarrow> minter_is_hub w'"
  by (erule world_step.cases) (auto simp: minter_is_hub_def token_execute_minter)

lemma minter_reachable: "world_reachable c fresh l ap A w js \<Longrightarrow> minter_is_hub w"
proof (induction rule: world_reachable.induct)
  case (world_started dh eh ih mh h resp dt et it mt t respt dr mr r respr dg ig mg g respg n)
  then show ?case by (auto simp: minter_is_hub_def token_instantiate_def store_hub_contract_def dest!: init_minter)
qed (auto simp: minter_step, simp add: minter_is_hub_def)

lemma mint_from_hub:
  assumes "world_reachable c fresh l ap A w ((who, WasmExecute (token_at A) b fs) # js)"
    and step: "world_step c l ap A w ((who, WasmExecute (token_at A) b fs) # js) w' js'" and b: "mint_order l rcpt n b"
  shows "who = hub_at A"
proof -
  have norm: "normal_address ap who"
    using world_reachable_inv [OF assms(1)] contracts_normal(2) contracts_apart
    by (auto simp: world_inv_def dest!: in_step_head)
      (auto simp: job_ok_def)
  from step show ?thesis
  proof (cases rule: world_step.cases)
    case (token_step d e tm t resp)
    have "tm = Mint rcpt n" using mint_order_text token_step b by blast
    then show ?thesis
      using token_step minter_reachable [OF assms(1)] norm contracts_normal(1)
      by (auto simp: token_execute_def execute_mint_def minter_is_hub_def normal_address_def dest!: mint_by_minter)
  qed (use contracts_apart in \<open>auto simp: contracts_def\<close>)
qed

lemma order_from_bond:
  assumes reach: "world_reachable c fresh l ap A w js" and step: "world_step c l ap A w js w' js'"
    and new: "count_list js (hub_at A, WasmExecute (token_at A) b fs) < count_list js' (hub_at A, WasmExecute (token_at A) b fs)"
    and b: "mint_order l rcpt n b"
  shows "\<exists>v x payment rest. js = (rcpt, WasmExecute (hub_at A) x [payment]) # rest \<and>
     to_binary l (HubPayload (Bond v)) = Ok x \<and> 0 < amount payment"
proof -
  note inv = world_reachable_inv [OF reach]
  have sent: "a = hub_at A \<and> WasmExecute (token_at A) b fs \<in> set ms" if "js' = map (Pair a) ms @ rest" "js = j # rest" for a ms rest j
  proof -
    have "count_list (map (Pair a) ms) (hub_at A, WasmExecute (token_at A) b fs) \<noteq> 0" using new that by (auto split: if_splits)
    then show ?thesis by (auto simp: count_list_0_iff)
  qed
  from step show ?thesis
  proof (cases rule: world_step.cases)
    case (hub_step d e m x who gs h resp rest)
    have "job_ok l ap A (who, WasmExecute (hub_at A) x gs)" and w: "wired ap A w"
      using inv in_step_head(2) [of w who "WasmExecute (hub_at A) x gs" rest] contracts_apart
      by (simp_all add: world_inv_def hub_step(1))
    note bond = hub_mint_orders [OF w this(1) hub_step(8,4,5,7,10) _ b, of fs]
    have "WasmExecute (token_at A) b fs \<in> set (messages resp)" using sent [OF hub_step(3,1)] by simp
    from bond [OF this] hub_step(1,8) show ?thesis by blast
  next
    case (native_step m who)
    then show ?thesis using sent [of "hub_at A" "[]" js'] by simp
  qed (use contracts_apart in \<open>auto dest!: sent simp: contracts_def\<close>)
qed

end

end
