(* ===== verification/World_Backing.thy ===== *)
theory World_Backing
  imports World_Minting
begin

text \<open>
  The backing of the token.  At the exchange rate the hub has stored, all tokens in existence together with
  the requests of the current batch are worth no more than the coins the hub has bonded.  The rate is
  computed by the hub before the token executes the mint or burn order that goes with it, so while an order
  is pending the supply after it counts.
\<close>

section \<open>The hub alone\<close>

text \<open>Once everything is slashed or undelegated the hub uses the rate one, whatever the supply.\<close>

definition backed :: "hub_state \<Rightarrow> uint128 \<Rightarrow> nat \<Rightarrow> bool" where
  "backed st requested supp \<longleftrightarrow> total_bond_amount st = 0 \<or>
     datoms (exchange_rate st) * (supp + unat requested) \<le> unat (total_bond_amount st) * dec_unit"

definition hub_backed :: "hub_storage \<Rightarrow> nat \<Rightarrow> bool" where
  "hub_backed s supp \<longleftrightarrow>
     (\<exists>st batch. STATE s = Some st \<and> CURRENT_BATCH s = Some batch \<and> backed st (requested_with_fee batch) supp)"

lemma backed_mono:
  assumes "backed st requested supp" and "supp' \<le> supp"
  shows "backed st requested supp'"
proof -
  have "datoms (exchange_rate st) * (supp' + unat requested) \<le> datoms (exchange_rate st) * (supp + unat requested)"
    using assms(2) by simp
  with assms(1) show ?thesis unfolding backed_def by (meson le_trans)
qed

context cosmwasm_numbers
begin

lemma update_exchange_rate_backed:
  assumes "update_exchange_rate l issued requested st = Ok st'"
  shows "backed st' requested (unat issued)"
proof -
  obtain r where st': "st' = st\<lparr>exchange_rate := r\<rparr>"
    and r: "datoms r = rate_atoms (unat (total_bond_amount st)) (unat issued + unat requested)"
    using assms unfolding update_exchange_rate_ok by (elim conjE exE) (rule that)
  show ?thesis
  proof (cases "unat issued + unat requested = 0 \<or> total_bond_amount st = 0")
    case True
    then show ?thesis by (auto simp: backed_def st')
  next
    case False
    then have "unat (total_bond_amount st) \<noteq> 0" "unat issued + unat requested \<noteq> 0" by (simp_all add: unat_eq_zero)
    from rate_atoms_times_supply [OF this(2,1)] have "datoms r * (unat issued + unat requested) \<le> unat (total_bond_amount st) * dec_unit"
      by (simp only: r)
    then show ?thesis by (simp add: backed_def st')
  qed
qed

lemma slashing_backed:
  assumes l: "dlib d = l" and run: "slashing d e s = Ok s'" and s: "hub_backed s supp"
    and issued: "\<And>n. query_total_issued d s = Ok n \<Longrightarrow> unat n = supp"
  shows "hub_backed s' supp \<and> CONFIG s' = CONFIG s \<and> CURRENT_BATCH s' = CURRENT_BATCH s"
  using cosmwasm_numbers_axioms [folded l] run
proof (rule slashing_ok)
  fix params st and ds :: "delegation list"
  assume st: "STATE s = Some st"
  assume "s' = s \<and> (ds = [] \<or> unat (total_bond_amount st) \<le> delegation_total (underlying_coin_denom params) ds)
     \<or> (\<exists>n batch st'. ds \<noteq> [] \<and> query_total_issued d s = Ok n \<and> CURRENT_BATCH s = Some batch \<and> s' = s\<lparr>STATE := Some st'\<rparr> \<and>
         unat (total_bond_amount st') = delegation_total (underlying_coin_denom params) ds \<and>
         unat (total_bond_amount st') < unat (total_bond_amount st) \<and>
         update_exchange_rate (dlib d) n (requested_with_fee batch) (st\<lparr>total_bond_amount := total_bond_amount st'\<rparr>) = Ok st')"
  then show ?thesis
  proof (elim disjE exE conjE)
    fix n batch st'
    assume "query_total_issued d s = Ok n" "CURRENT_BATCH s = Some batch" "s' = s\<lparr>STATE := Some st'\<rparr>"
      "update_exchange_rate (dlib d) n (requested_with_fee batch) (st\<lparr>total_bond_amount := total_bond_amount st'\<rparr>) = Ok st'"
    with update_exchange_rate_backed issued l show ?thesis by (auto simp: hub_backed_def)
  qed (use s in simp_all)
qed

text \<open>Closing a batch undelegates at most what the requests are worth.\<close>

lemma close_batch_backed:
  assumes l: "dlib d = l" and run: "close_batch d e st b s = Ok (s', st', b', msgs)" and st: "backed st (requested_with_fee b) supp"
  shows "backed st' (requested_with_fee b') supp"
  using cosmwasm_numbers_axioms [folded l] run
proof (cases rule: close_batch_ok)
  case (1 u bonded next_id)
  have st': "total_bond_amount st' = bonded" "exchange_rate st' = exchange_rate st" "requested_with_fee b' = 0"
    by (simp_all add: 1)
  have u: "unat u = unat (requested_with_fee b) * datoms (exchange_rate st) div dec_unit"
    and bond: "unat (total_bond_amount st) = unat u + unat bonded" using 1 by simp_all
  have "unat u * dec_unit \<le> unat (requested_with_fee b) * datoms (exchange_rate st)" by (simp add: u div_times_less_eq_dividend)
  moreover have "datoms (exchange_rate st) * supp + unat (requested_with_fee b) * datoms (exchange_rate st)
      \<le> unat u * dec_unit + unat bonded * dec_unit" if "bonded \<noteq> 0"
    using st that bond by (auto simp: backed_def algebra_simps unat_eq_zero [symmetric])
  ultimately show ?thesis unfolding backed_def st' by fastforce
qed


text \<open>The operations that change the rate; \<open>supp\<close> is the supply the token reports.\<close>

lemma bond_backed:
  assumes l: "dlib d = l" and run: "execute_bond d e i v s = Ok (s', resp)"
    and issued: "\<forall>s1 n. CONFIG s1 = CONFIG s \<longrightarrow> ok_or_default 0 (query_total_issued d s1) = Ok n \<longrightarrow> n = supp"
  shows "\<exists>payment to n b cfg raw. messages resp = [StakingDelegate v payment, WasmExecute to b []] \<and> mint_order l (sender i) n b \<and>
     hub_backed s' (unat supp + unat n) \<and> CONFIG s = Some cfg \<and> token_contract cfg = Some raw \<and> addr_humanize (dapi d) raw = Ok to"
  using run
proof (cases rule: execute_bond_ok)
  case (1 params batch payment s1 st issued0 minted new_supply bonded st' config token to mint_msg)
  have s1: "CONFIG s1 = CONFIG s" "CURRENT_BATCH s1 = Some batch"
    using slashing_frame [OF cosmwasm_numbers_axioms [folded l] 1(7)] 1(3) by auto
  have "issued0 = supp" using issued s1(1) 1(9) by blast
  then have "unat new_supply = unat supp + unat minted" using 1(11) by (simp add: l uint_add_ok)
  with update_exchange_rate_backed 1(13) l have "backed st' (requested_with_fee batch) (unat supp + unat minted)" by metis
  then have "hub_backed s' (unat supp + unat minted)" using s1 by (simp add: hub_backed_def 1(18))
  with 1(14-17,19) s1(1) l show ?thesis by (auto simp: mint_order_def)
qed

lemma unbond_backed:
  assumes l: "dlib d = l" and run: "execute_unbond d e n u s = Ok (s', resp)"
    and issued: "\<forall>s1 n. CONFIG s1 = CONFIG s \<longrightarrow> ok_or_default 0 (query_total_issued d s1) = Ok n \<longrightarrow> n = supp"
  shows "\<exists>rest. unat supp = unat n + rest \<and> hub_backed s' rest"
  using cosmwasm_numbers_axioms [folded l] run
proof (cases rule: execute_unbond_ok)
  case (1 params batch s1 st issued0 a requested s2 issued1 st1 s3 st2 batch2 msgs to b cfg raw)
  have "CONFIG s1 = CONFIG s" using slashing_frame [OF cosmwasm_numbers_axioms [folded l] 1(3)] by auto
  then have supp: "unat supp = unat n + unat issued1" using issued 1(5,9) by metis
  have st1: "backed st1 (requested_with_fee (batch\<lparr>requested_with_fee := requested\<rparr>)) (unat issued1)"
    using update_exchange_rate_backed 1(10) l by simp
  have "backed st2 (requested_with_fee batch2) (unat issued1)"
    using 1(12) st1 close_batch_backed [OF l _ st1] by (auto split: if_splits)
  with supp show ?thesis by (auto simp: hub_backed_def 1(13))
qed

lemma withdraw_backed:
  assumes l: "dlib d = l" and run: "execute_withdraw_unbonded d e i s = Ok (s', resp)" and s: "hub_backed s supp"
    and hist: "store_ok (history_map s)"
  shows "hub_backed s' supp"
  using cosmwasm_numbers_axioms [folded l] run
proof (cases rule: execute_withdraw_unbonded_ok)
  case (1 params t bal s1 w prev st)
  from 1(4) have "hub_backed s1 supp" unfolding l
    by (cases rule: process_withdraw_rate_ok [OF cosmwasm_numbers_axioms hist, consumes 1])
      (use s in \<open>auto simp: hub_backed_def backed_def\<close>)
  then show ?thesis using 1(8) by (auto simp: hub_backed_def backed_def 1(9))
qed

text \<open>All other messages leave the rate, the bonded amount and the current batch alone.\<close>

lemma other_backed:
  assumes l: "dlib d = l" and run: "hub_execute d e i m s = Ok (s', resp)" and s: "hub_backed s (unat supp)"
    and issued: "\<forall>s1 n. CONFIG s1 = CONFIG s \<longrightarrow> ok_or_default 0 (query_total_issued d s1) = Ok n \<longrightarrow> n = supp"
    and hist: "store_ok (history_map s)" and m: "\<And>v. m \<noteq> Bond v" "\<And>r. m \<noteq> Receive r"
  shows "hub_backed s' (unat supp)"
proof (cases m)
  case CheckSlashing
  then have "slashing d e s = Ok s'" using run by (auto simp: hub_execute_def execute_slashing_def)
  from slashing_backed [OF l this s] issued show ?thesis by fastforce
next
  case WithdrawUnbonded
  then show ?thesis using withdraw_backed [OF l _ s hist] run by (simp add: hub_execute_def)
next
  case (DeregisterValidator v)
  then have "\<exists>vm. s' = s\<lparr>validators_map := vm\<rparr>"
    using run by (auto simp: hub_execute_def execute_deregister_validator_def remove_white_validators_def split: if_splits)
  then show ?thesis using s by (auto simp: hub_backed_def)
next
  case (HubUpdateConfig ow rw tk ad)
  have "STATE t' = STATE t \<and> CURRENT_BATCH t' = CURRENT_BATCH t" if "update_config_field d f upd t = Ok t'" for f upd t t'
    using that by (rule update_config_field_ok) simp_all
  then have "STATE s' = STATE s \<and> CURRENT_BATCH s' = CURRENT_BATCH s"
    using run HubUpdateConfig by (auto simp: hub_execute_def execute_update_config_def split: if_splits)
  then show ?thesis using s by (simp add: hub_backed_def)
qed (use run s m in \<open>auto simp: hub_execute_def execute_update_global_def execute_register_validator_def store_white_validators_def
    execute_update_params_def swap_hook_def claim_airdrop_def hub_backed_def backed_def split: if_splits option.splits\<close>)

end


section \<open>Pending orders\<close>

definition no_mints :: "lib \<Rightarrow> deployment \<Rightarrow> job list \<Rightarrow> bool" where
  "no_mints l A js \<longleftrightarrow>
     (\<forall>b fs rcpt n. (hub_at A, WasmExecute (token_at A) b fs) \<in> set js \<longrightarrow> \<not> mint_order l rcpt n b)"

text \<open>\<open>due l A js n m\<close>: of \<open>n\<close> tokens, \<open>m\<close> remain or exist once the hub's order in front is executed.\<close>

inductive due :: "lib \<Rightarrow> deployment \<Rightarrow> job list \<Rightarrow> nat \<Rightarrow> nat \<Rightarrow> bool" for l A where
  none_due: "no_mints l A js \<Longrightarrow> due l A js n n"
| later_due: "\<not> is_wasm x \<Longrightarrow> due l A js n m \<Longrightarrow> due l A ((hub_at A, x) # js) n m"
| mint_due: "mint_order l rcpt k b \<Longrightarrow> no_mints l A js \<Longrightarrow>
     due l A ((hub_at A, WasmExecute (token_at A) b []) # js) n (n + unat k)"
| burn_due: "to_binary l (Cw20Payload (Burn k)) = Ok b \<Longrightarrow> no_mints l A js \<Longrightarrow>
     due l A ((hub_at A, WasmExecute (token_at A) b []) # js) (unat k + m) m"

inductive_cases due_Nil: "due l A [] n m"
inductive_cases due_wasm: "due l A ((who, WasmExecute to b fs) # js) n m"
inductive_cases due_Cons: "due l A ((who, x) # js) n m"

lemma no_mints_simps [simp]:
  "no_mints l A []"
  "no_mints l A (xs @ ys) \<longleftrightarrow> no_mints l A xs \<and> no_mints l A ys"
  by (auto simp: no_mints_def)

lemma no_mints_Cons: "no_mints l A (j # js) \<Longrightarrow> no_mints l A js"
  by (auto simp: no_mints_def)

lemma no_mints_from: "a \<noteq> hub_at A \<Longrightarrow> no_mints l A (map (Pair a) ms)"
  by (auto simp: no_mints_def)

lemma due_natives:
  "list_all (\<lambda>x. \<not> is_wasm x) ms \<Longrightarrow> due l A js n m \<Longrightarrow> due l A (map (Pair (hub_at A)) ms @ js) n m"
  by (induction ms) (auto intro: later_due)

lemma due_other:
  assumes "due l A ((who, WasmExecute to b fs) # js) n m" and "to \<noteq> token_at A"
  shows "m = n \<and> no_mints l A js"
  using assms by (auto elim!: due_wasm dest: no_mints_Cons)


section \<open>Sums of balances\<close>

definition balance_sum :: "balances \<Rightarrow> nat" where
  "balance_sum f = (\<Sum>a | f a \<noteq> 0. f a)"

lemma balance_sum_over:
  assumes "finite {a. f a \<noteq> 0}"
  shows "balance_sum f = (\<Sum>b \<in> {b. f b \<noteq> 0} - {a}. f b) + f a"
proof -
  have "balance_sum f = (\<Sum>b \<in> insert a {b. f b \<noteq> 0}. f b)"
    unfolding balance_sum_def by (rule sum.mono_neutral_left) (use assms in auto)
  also have "\<dots> = f a + (\<Sum>b \<in> {b. f b \<noteq> 0} - {a}. f b)" by (rule sum.insert_remove [OF assms])
  finally show ?thesis by simp
qed

lemma balance_sum_upd:
  assumes "finite {a. f a \<noteq> 0}"
  shows "finite {b. (f(a := v)) b \<noteq> 0}" and "balance_sum (f(a := v)) + f a = balance_sum f + v"
proof -
  show fin: "finite {b. (f(a := v)) b \<noteq> 0}"
    by (rule finite_subset [of _ "insert a {b. f b \<noteq> 0}"]) (use assms in \<open>auto split: if_splits\<close>)
  have "{b. (f(a := v)) b \<noteq> 0} - {a} = {b. f b \<noteq> 0} - {a}" by auto
  with balance_sum_over [OF fin, of a] have "balance_sum (f(a := v)) = (\<Sum>b \<in> {b. f b \<noteq> 0} - {a}. (f(a := v)) b) + v"
    by (simp only: fun_upd_same)
  also have "(\<Sum>b \<in> {b. f b \<noteq> 0} - {a}. (f(a := v)) b) = (\<Sum>b \<in> {b. f b \<noteq> 0} - {a}. f b)" by (rule sum.cong) auto
  finally show "balance_sum (f(a := v)) + f a = balance_sum f + v" using balance_sum_over [OF assms, of a] by linarith
qed

lemma debits_sum:
  assumes "debits ap u n f g" and "finite {a. f a \<noteq> 0}"
  shows "finite {a. g a \<noteq> 0} \<and> balance_sum f = balance_sum g + unat n"
proof -
  obtain a where "unat n \<le> f a" "g = f(a := f a - unat n)" using assms(1) by (auto simp: debits_def)
  with balance_sum_upd [OF assms(2), of a "f a - unat n"] show ?thesis by auto
qed

lemma credits_sum:
  assumes "credits ap u n f g" and "finite {a. f a \<noteq> 0}"
  shows "finite {a. g a \<noteq> 0} \<and> balance_sum g = balance_sum f + unat n"
proof -
  obtain a where "g = f(a := f a + unat n)" using assms(1) by (auto simp: credits_def)
  with balance_sum_upd [OF assms(2), of a "f a + unat n"] show ?thesis by auto
qed

lemma moves_sum:
  assumes "moves ap u v n f g" and "finite {a. f a \<noteq> 0}"
  shows "finite {a. g a \<noteq> 0} \<and> balance_sum g = balance_sum f"
  using assms debits_sum credits_sum unfolding moves_def by fastforce


section \<open>The chain\<close>

locale backed_world = minting_world c bal fresh l ap A minter_of + cw20_supply c bal fresh
  for c :: "'c cw20_legacy" and bal fresh l ap A minter_of
begin

abbreviation issued_tokens :: "'c world \<Rightarrow> uint128" where
  "issued_tokens w \<equiv> cw20_total_supply c (cw20_storage (w_token w))"

definition rate_inv :: "'c world \<Rightarrow> job list \<Rightarrow> bool" where
  "rate_inv w js \<longleftrightarrow> (\<exists>m. due l A js (unat (issued_tokens w)) m \<and> hub_backed (w_hub w) m)"

lemma rate_inv_quiet: "no_mints l A js \<Longrightarrow> hub_backed (w_hub w) (unat (issued_tokens w)) \<Longrightarrow> rate_inv w js"
  unfolding rate_inv_def by (blast intro: none_due)

text \<open>The hub learns the true supply.\<close>

lemma true_supply:
  assumes "wired ap A w" and "dapi d = ap" and "chain_answers c A d w" and "CONFIG s = CONFIG (w_hub w)"
    and "ok_or_default 0 (query_total_issued d s) = Ok n"
  shows "n = issued_tokens w"
proof -
  obtain cfg where cfg: "CONFIG s = Some cfg"
    "\<forall>raw. token_contract cfg = Some raw \<longrightarrow> addr_canonicalize ap (token_at A) = Ok raw"
    using assms(1,4) by (auto simp: wired_def)
  show ?thesis
  proof (cases "token_contract cfg")
    case None
    then show ?thesis using assms(5) cfg(1) by (simp add: query_total_issued_def)
  next
    case (Some raw)
    then have "addr_humanize ap raw = Ok (token_at A)" using cfg(2) contracts_normal(2) by (simp add: normal_address_def)
    then show ?thesis using assms(2,3,5) cfg(1) Some by (simp add: query_total_issued_def chain_answers_def)
  qed
qed

lemma rate_inv_hub:
  assumes inv: "world_inv w ((who, WasmExecute (hub_at A) b fs) # js)" and rate: "rate_inv w ((who, WasmExecute (hub_at A) b fs) # js)"
    and d: "dlib d = l" "dapi d = ap" "chain_answers c A d w" and e: "contract_address e = hub_at A"
    and b: "to_binary l (HubPayload m) = Ok b" and run: "hub_execute d e \<lparr>sender = who, funds = fs\<rparr> m (w_hub w) = Ok (h, resp)"
  shows "rate_inv (w\<lparr>w_hub := h\<rparr>) (map (Pair (hub_at A)) (messages resp) @ js)"
proof -
  have w: "wired ap A w" using inv by (simp add: world_inv_def)
  have now: "hub_backed (w_hub w) (unat (issued_tokens w))" and js: "no_mints l A js"
    using rate contracts_apart by (auto simp: rate_inv_def dest!: due_other)
  have supp: "\<forall>s n. CONFIG s = CONFIG (w_hub w) \<longrightarrow> ok_or_default 0 (query_total_issued d s) = Ok n \<longrightarrow> n = issued_tokens w"
    using true_supply [OF w d(2,3)] by blast
  have job: "job_ok l ap A (who, WasmExecute (hub_at A) b fs)"
    using inv contracts_apart by (auto simp: world_inv_def dest!: in_step_head(2))
  show ?thesis
  proof (cases "(\<exists>v. m = Bond v) \<or> (\<exists>r. m = Receive r)")
    case False
    have "store_ok (history_map (w_hub w))"
      using inv hub_reachable_well_formed by (auto simp: world_inv_def hub_ordered_def)
    from other_backed [OF d(1) run now supp this] False have "hub_backed h (unat (issued_tokens w))" by blast
    moreover have "no_mints l A (map (Pair (hub_at A)) (messages resp))"
      using hub_mint_orders [OF w job b d(1,2) e run] False by (fastforce simp: no_mints_def)
    ultimately show ?thesis using js by (intro rate_inv_quiet) simp_all
  next
    case True
    then consider v where "execute_bond d e \<lparr>sender = who, funds = fs\<rparr> v (w_hub w) = Ok (h, resp)"
      | n u where "execute_unbond d e n u (w_hub w) = Ok (h, resp)"
      using run by (auto simp: hub_execute_def receive_cw20_def split: if_splits cw20_hook_msg.splits res.splits)
    then show ?thesis
    proof cases
      case 1
      from bond_backed [OF d(1) 1 supp] obtain payment to n x cfg raw where
        r: "messages resp = [StakingDelegate v payment, WasmExecute to x []]" "mint_order l who n x"
        "hub_backed h (unat (issued_tokens w) + unat n)"
        and cfg: "CONFIG (w_hub w) = Some cfg" "token_contract cfg = Some raw" "addr_humanize ap raw = Ok to"
        unfolding d(2) by auto
      have "to = token_at A" using hub_token_address [OF inv cfg] .
      with mint_due [OF r(2) js] have "due l A (map (Pair (hub_at A)) (messages resp) @ js) (unat (issued_tokens w)) (unat (issued_tokens w) + unat n)"
        by (auto simp: r(1) intro: later_due)
      with r(3) show ?thesis by (auto simp: rate_inv_def)
    next
      case 2
      from unbond_backed [OF d(1) 2 supp] obtain rest where rest: "unat (issued_tokens w) = unat n + rest" "hub_backed h rest" by blast
      from unbond_hub [OF d(1,2) 2] obtain msgs cfg raw to x where
        r: "list_all (\<lambda>m. \<not> is_wasm m) msgs" "messages resp = msgs @ [WasmExecute to x []]" "to_binary l (Cw20Payload (Burn n)) = Ok x"
        and cfg: "CONFIG h = Some cfg" "token_contract cfg = Some raw" "addr_humanize ap raw = Ok to"
        by (elim exE conjE) (rule that)
      have "wired ap A (w\<lparr>w_hub := h\<rparr>)"
        by (rule wired_step [OF w hub_step [OF d e b _ run, where js = js]]) (use True in auto)
      then have "to = token_at A" using cfg contracts_normal(2) by (auto simp: wired_def normal_address_def)
      with due_natives [OF r(1) burn_due [OF r(3) js, of rest]] rest(1)
      have "due l A (map (Pair (hub_at A)) (messages resp) @ js) (unat (issued_tokens w)) rest" by (simp add: r(2))
      with rest(2) show ?thesis by (auto simp: rate_inv_def)
    qed
  qed
qed

lemma token_execute_supply:
  assumes "token_execute c d e i tm t = Ok (t', resp)"
  shows "(\<forall>rcpt n. tm = Mint rcpt n \<longrightarrow>
        unat (cw20_total_supply c (cw20_storage t')) = unat (cw20_total_supply c (cw20_storage t)) + unat n) \<and>
     (\<forall>n. tm = Burn n \<longrightarrow> unat (cw20_total_supply c (cw20_storage t)) = unat (cw20_total_supply c (cw20_storage t')) + unat n) \<and>
     ((\<forall>rcpt n. tm \<noteq> Mint rcpt n) \<longrightarrow> unat (cw20_total_supply c (cw20_storage t')) \<le> unat (cw20_total_supply c (cw20_storage t)))"
  using assms
  by (cases tm)
    (auto simp: token_execute_def execute_transfer_def execute_burn_def execute_send_def execute_mint_def
      execute_transfer_from_def execute_burn_from_def execute_send_from_def
      dest!: supply_kept mint_supply burn_supply burn_from_supply)

lemma rate_inv_token:
  assumes reach: "world_reachable c fresh l ap A w ((who, WasmExecute (token_at A) b fs) # js)"
    and rate: "rate_inv w ((who, WasmExecute (token_at A) b fs) # js)"
    and step: "world_step c l ap A w ((who, WasmExecute (token_at A) b fs) # js) (w\<lparr>w_token := t\<rparr>) js'"
    and b: "to_binary l (Cw20Payload tm) = Ok b"
    and run: "token_execute c d e i tm (w_token w) = Ok (t, resp)"
  shows "rate_inv (w\<lparr>w_token := t\<rparr>) (map (Pair (token_at A)) (messages resp) @ js)"
proof -
  obtain m where due: "due l A ((who, WasmExecute (token_at A) b fs) # js) (unat (issued_tokens w)) m" and m: "hub_backed (w_hub w) m"
    using rate by (auto simp: rate_inv_def)
  note supp = token_execute_supply [OF run]
  have "no_mints l A js \<and> unat (cw20_total_supply c (cw20_storage t)) \<le> m"
    using due
  proof (cases rule: due.cases)
    case none_due
    have "tm \<noteq> Mint rcpt n" for rcpt n
    proof
      assume "tm = Mint rcpt n"
      then have "mint_order l rcpt n b" using b by (simp add: mint_order_def)
      with mint_from_hub [OF reach step] none_due show False by (auto simp: no_mints_def)
    qed
    with supp none_due show ?thesis by (auto dest: no_mints_Cons)
  next
    case (mint_due rcpt k)
    then have "tm = Mint rcpt k" using mint_order_text [OF b] by blast
    with supp mint_due show ?thesis by simp
  next
    case (burn_due k)
    then have "tm = Burn k" using cw20_messages_distinct [OF b] by blast
    with supp burn_due show ?thesis by simp
  qed simp
  moreover from this m have "hub_backed (w_hub w) (unat (cw20_total_supply c (cw20_storage t)))"
    by (auto simp: hub_backed_def intro: backed_mono)
  ultimately show ?thesis using no_mints_from contracts_apart by (intro rate_inv_quiet) auto
qed

lemma rate_inv_step:
  assumes reach: "world_reachable c fresh l ap A w js" and rate: "rate_inv w js" and step: "world_step c l ap A w js w' js'"
  shows "rate_inv w' js'"
proof -
  note inv = world_reachable_inv [OF reach]
  have other: "rate_inv w' (map (Pair a) ms @ rest)"
    if "js = (who, WasmExecute to b fs) # rest" "to \<noteq> token_at A" "a \<noteq> hub_at A" "w_hub w' = w_hub w" "w_token w' = w_token w"
    for who to b fs rest a ms
    using rate that no_mints_from [OF that(3)] by (intro rate_inv_quiet) (auto simp: rate_inv_def dest!: due_other)
  from step show ?thesis
  proof (cases rule: world_step.cases)
    case (hub_step d e m b who fs h resp rest)
    then show ?thesis
      using rate_inv_hub [OF inv [unfolded hub_step(1)] rate [unfolded hub_step(1)] hub_step(4-8,10)] by simp
  next
    case (token_step d e tm b who fs t resp rest)
    show ?thesis
      using rate_inv_token [OF reach [unfolded token_step(1)] rate [unfolded token_step(1)] step [unfolded token_step(1,2)] token_step(8,9)]
      by (simp add: token_step(2,3))
  next
    case (reward_step d e rm b rc who fs r resp rest)
    then show ?thesis using other [of who "reward_at A"] contracts_apart by simp
  next
    case (registry_step d who fs gm g resp b rest)
    then show ?thesis using other [of who "registry_at A"] contracts_apart by simp
  next
    case (outside_step to who b fs rest msgs)
    then show ?thesis using other [of who to] by (simp add: contracts_def)
  next
    case (native_step m who)
    then show ?thesis using rate by (auto simp: rate_inv_def elim!: due_Cons intro: none_due dest: no_mints_Cons)
  qed
qed

lemma reachable_rate: "world_reachable c fresh l ap A w js \<Longrightarrow> rate_inv w js"
proof (induction rule: world_reachable.induct)
  case (world_started dh eh ih mh h resp dt et it mt t respt dr mr r respr dg ig mg g respg n)
  have "no_mints l A (map (Pair (hub_at A)) (messages resp))"
    using world_started(1,2) contracts_apart by (auto simp: hub_instantiate_def no_mints_def split: option.splits)
  moreover have "hub_backed h 0"
    using world_started(1) by (auto simp: hub_instantiate_def hub_backed_def backed_def split: option.splits)
  moreover have "cw20_total_supply c (cw20_storage t) = 0"
    using world_started by (auto simp: token_instantiate_def store_hub_contract_def intro!: init_supply)
  ultimately show ?case by (intro rate_inv_quiet) simp_all
next
  case (transaction w js)
  then have "no_mints l A js" by (auto simp: no_mints_def contracts_def)
  with transaction(3) show ?case by (auto simp: rate_inv_def elim!: due_Nil intro: none_due)
next
  case (stepped w js w' js')
  then show ?case using rate_inv_step by blast
qed (simp add: rate_inv_def)

text \<open>The supply is what the accounts hold together.\<close>

definition supply_held :: "'c \<Rightarrow> bool" where
  "supply_held s \<longleftrightarrow> finite {a. bal s a \<noteq> 0} \<and> unat (cw20_total_supply c s) = balance_sum (bal s)"

lemma supply_held_change:
  "moves x u v n (bal s) (bal s') \<Longrightarrow> cw20_total_supply c s' = cw20_total_supply c s \<Longrightarrow> supply_held s \<Longrightarrow> supply_held s'"
  "debits x u n (bal s) (bal s') \<Longrightarrow> unat (cw20_total_supply c s) = unat (cw20_total_supply c s') + unat n \<Longrightarrow> supply_held s \<Longrightarrow> supply_held s'"
  "credits x u n (bal s) (bal s') \<Longrightarrow> unat (cw20_total_supply c s') = unat (cw20_total_supply c s) + unat n \<Longrightarrow> supply_held s \<Longrightarrow> supply_held s'"
  "bal s' = bal s \<and> messages r = [] \<Longrightarrow> cw20_total_supply c s' = cw20_total_supply c s \<Longrightarrow> supply_held s \<Longrightarrow> supply_held s'"
  using moves_sum debits_sum credits_sum unfolding supply_held_def by fastforce+

lemmas supply_held_ops =
  supply_held_change(1) [OF transfer_moves supply_kept(1)] supply_held_change(1) [OF send_moves supply_kept(2)]
  supply_held_change(1) [OF transfer_from_moves supply_kept(3)] supply_held_change(1) [OF send_from_moves supply_kept(4)]
  supply_held_change(2) [OF burn_debits burn_supply] supply_held_change(2) [OF burn_from_debits burn_from_supply]
  supply_held_change(3) [OF mint_credits mint_supply]
  supply_held_change(4) [OF increase_allowance_keeps supply_kept(5)] supply_held_change(4) [OF decrease_allowance_keeps supply_kept(6)]

lemma supply_held_execute:
  "token_execute c d e i tm t = Ok (t', resp) \<Longrightarrow> supply_held (cw20_storage t) \<Longrightarrow> supply_held (cw20_storage t')"
  by (cases tm)
    (auto simp: token_execute_def execute_transfer_def execute_burn_def execute_send_def execute_mint_def
      execute_transfer_from_def execute_burn_from_def execute_send_from_def intro: supply_held_ops)

lemma reachable_supply_held: "world_reachable c fresh l ap A w js \<Longrightarrow> supply_held (cw20_storage (w_token w))"
proof (induction rule: world_reachable.induct)
  case (world_started dh eh ih mh h resp dt et it mt t respt dr mr r respr dg ig mg g respg n)
  then have "bal (cw20_storage t) = (\<lambda>_. 0)" "cw20_total_supply c (cw20_storage t) = 0"
    by (auto simp: token_instantiate_def store_hub_contract_def intro!: init_empty init_supply)
  then show ?case by (simp add: supply_held_def balance_sum_def)
next
  case (stepped w js w' js')
  from stepped(2) show ?case
    by (cases rule: world_step.cases) (use stepped(3) supply_held_execute in auto)
qed simp_all

end

end
