(* ===== verification/World_Properties.thy ===== *)
theory World_Properties
  imports Example_World World_Backing
begin

text \<open>
  The properties of the contracts together: what holds in every reachable state of the chain, and what a
  whole bond and a whole unbond do to all of them.
\<close>

interpretation example_backed: backed_world std_cw20 std_balances fresh_ledger std_lib example_api example_deployment led_minter
  by unfold_locales

section \<open>The token and the reward contract\<close>

text \<open>The balances of the reward contract, added up over its holders.\<close>

lemma total_held_sum:
  assumes "store_ok (HOLDERS r)"
  shows "total_held r = balance_sum (reward_balances r)"
proof -
  have held: "reward_balances r a = (case store_get a (HOLDERS r) of None \<Rightarrow> 0 | Some h \<Rightarrow> unat (holder_balance h))" for a
    by (simp add: reward_balances_def holder_of_def split: option.splits)
  have inj: "inj_on fst (set (HOLDERS r))" and d: "distinct (HOLDERS r)"
    using assms by (simp_all add: store_ok_def distinct_map)
  have "total_held r = (\<Sum>p \<in> set (HOLDERS r). reward_balances r (fst p))"
    unfolding total_held_def store_sum_def sum_list_distinct_conv_sum_set [OF d]
    by (rule sum.cong) (auto simp: held store_get_entries [OF assms, symmetric])
  also have "\<dots> = (\<Sum>a \<in> fst ` set (HOLDERS r). reward_balances r a)" by (simp add: sum.reindex [OF inj])
  also have "\<dots> = balance_sum (reward_balances r)"
    unfolding balance_sum_def by (rule sum.mono_neutral_right)
      (auto simp: held store_get_entries [OF assms] split: option.splits dest: map_of_SomeD simp: store_get_def intro!: rev_image_eqI)
  finally show ?thesis .
qed

context backed_world
begin

lemma rewards_covered:
  assumes "world_reachable c fresh l ap A w []"
  shows "\<exists>st. reward_STATE (w_reward w) = Some st \<and> total_balance st = issued_tokens w \<and>
     total_accrued st (w_reward w) \<le> unat (prev_reward_balance st) * dec_unit \<and> unat (prev_reward_balance st) \<le> w_coins w"
proof -
  note inv = world_reachable_inv [OF assms]
  then have "reward_reachable l \<lparr>chain_storage = w_reward w, chain_coins = w_coins w\<rparr>" by (simp add: world_inv_def)
  from reward_reachable_inv [OF reward_lib_axioms this] obtain st where st: "reward_STATE (w_reward w) = Some st"
    "store_ok (HOLDERS (w_reward w))" "total_held (w_reward w) = unat (total_balance st)"
    "total_accrued st (w_reward w) \<le> unat (prev_reward_balance st) * dec_unit" "unat (prev_reward_balance st) \<le> w_coins w"
    by (auto simp: reward_inv_def reward_covered_def)
  have "unat (total_balance st) = unat (issued_tokens w)"
    using st(3) total_held_sum [OF st(2)] at_rest [OF inv] reachable_supply_held [OF assms] by (simp add: supply_held_def)
  with st show ?thesis by (auto dest: word_eq_if_unat_eq)
qed

lemma rate_covered:
  assumes "world_reachable c fresh l ap A w []"
  shows "hub_backed (w_hub w) (unat (issued_tokens w))"
  using reachable_rate [OF assms] by (auto simp: rate_inv_def elim!: due_Nil)

end

text \<open>
  C3.  Whenever no message is pending, the balances the reward contract keeps are the token's balances,
  however the four contracts and all the others on the chain have called each other before.
  Deployment is that of \<open>world_reachable\<close>: the owner registers the contracts of this deployment only, and the
  token starts without balances.
\<close>

theorem world_in_step:
  assumes "basset_world c bal fresh l ap A" and "world_reachable c fresh l ap A w []"
  shows "reward_balances (w_reward w) = bal (cw20_storage (w_token w))"
  by (rule basset_world.at_rest [OF assms(1) basset_world.world_reachable_inv [OF assms]])

theorem world_in_step_witness:
  "reward_balances (w_reward bonded_world) = std_balances (cw20_storage (w_token bonded_world)) \<and>
   std_balances (cw20_storage (w_token bonded_world)) [117] = 200"
  using world_in_step [OF example.basset_world_axioms bonded_reachable]
  by (simp add: bonded_world_def token_with_def std_balances_def)

text \<open>
  C5.  Whenever no message is pending, the total by which the reward contract divides arriving rewards is
  the token's total supply, and the claims of all holders together are covered by coins the reward contract
  really has.
  Deployment is that of \<open>world_reachable\<close>: the owner registers the contracts of this deployment only, and the
  token starts without balances.
\<close>

theorem world_rewards_covered:
  assumes "backed_world c bal fresh l ap A minter_of" and "world_reachable c fresh l ap A w []"
  shows "\<exists>st. reward_STATE (w_reward w) = Some st \<and> total_balance st = cw20_total_supply c (cw20_storage (w_token w)) \<and>
     total_accrued st (w_reward w) \<le> unat (prev_reward_balance st) * dec_unit \<and> unat (prev_reward_balance st) \<le> w_coins w"
  by (rule backed_world.rewards_covered [OF assms])

theorem world_rewards_covered_witness:
  "\<exists>st. reward_STATE (w_reward bonded_world) = Some st \<and> total_balance st = 200 \<and>
     total_balance st = cw20_total_supply std_cw20 (cw20_storage (w_token bonded_world))"
  using world_rewards_covered [OF example_backed.backed_world_axioms bonded_reachable]
  by (auto simp: bonded_world_def example_reward_def)

text \<open>
  C4.  Whenever no message is pending, all tokens in existence together with the requests of the current
  batch are worth, at the hub's exchange rate, no more than the coins the hub has bonded, unless nothing is
  bonded at all.
  Deployment is that of \<open>world_reachable\<close>: the owner registers the contracts of this deployment only, and the
  token starts without balances.
\<close>

theorem world_rate_backed:
  assumes "backed_world c bal fresh l ap A minter_of" and "world_reachable c fresh l ap A w []"
  shows "\<exists>st batch. STATE (w_hub w) = Some st \<and> CURRENT_BATCH (w_hub w) = Some batch \<and>
     (total_bond_amount st = 0 \<or>
      datoms (exchange_rate st) * (unat (cw20_total_supply c (cw20_storage (w_token w))) + unat (requested_with_fee batch))
        \<le> unat (total_bond_amount st) * dec_unit)"
  using backed_world.rate_covered [OF assms] by (simp add: hub_backed_def backed_def)

theorem world_rate_backed_witness:
  "\<exists>st. STATE (w_hub bonded_world) = Some st \<and> unat (total_bond_amount st) = 400 \<and>
     datoms (exchange_rate st) * unat (cw20_total_supply std_cw20 (cw20_storage (w_token bonded_world))) \<le> 400 * dec_unit"
  using world_rate_backed [OF example_backed.backed_world_axioms bonded_reachable]
  by (auto simp: bonded_world_def bonded_hub_def bonded_state_def)

text \<open>
  C8.  Tokens come into existence only for bonds.  A mint order is executed by the token only when the hub
  sent it, and the hub adds one to the pending messages only while it executes a bond of the account the
  tokens are for, which pays a positive amount.
\<close>

theorem minted_only_for_bonds:
  assumes "minting_world c bal fresh l ap A minter_of" and "world_reachable c fresh l ap A w js"
    and "world_step c l ap A w js w' js'" and "mint_order l rcpt n b"
  shows "(\<forall>who fs rest. js = (who, WasmExecute (token_at A) b fs) # rest \<longrightarrow> who = hub_at A) \<and>
     (\<forall>fs. count_list js (hub_at A, WasmExecute (token_at A) b fs) < count_list js' (hub_at A, WasmExecute (token_at A) b fs) \<longrightarrow>
       (\<exists>v x payment rest. js = (rcpt, WasmExecute (hub_at A) x [payment]) # rest \<and>
          to_binary l (HubPayload (Bond v)) = Ok x \<and> 0 < amount payment))"
proof (intro conjI allI impI)
  fix who fs rest
  assume js: "js = (who, WasmExecute (token_at A) b fs) # rest"
  show "who = hub_at A" by (rule minting_world.mint_from_hub [OF assms(1) assms(2,3) [unfolded js] assms(4)])
qed (rule minting_world.order_from_bond [OF assms(1-3) _ assms(4)])

lemma example_bond_step:
  "\<exists>w' js'. world_step std_cw20 std_lib example_api example_deployment (world_of live_hub example_token (example_reward 0 0 0 []))
     [(''u'', WasmExecute ''hub'' (std_encode (HubPayload (Bond ''v1''))) [Coin ''uluna'' 200])] w' js' \<and>
     js' = [(''hub'', StakingDelegate ''v1'' (Coin ''uluna'' 200)), (''hub'', WasmExecute ''t'' (std_encode (Cw20Payload (Mint ''u'' 200))) [])]"
proof -
  let ?w = "world_of live_hub example_token (example_reward 0 0 0 [])"
  obtain resp where r: "hub_execute (world_deps ?w) (env_at ''hub'') \<lparr>sender = ''u'', funds = [Coin ''uluna'' 200]\<rparr> (Bond ''v1'') (w_hub ?w) =
     Ok (bonded_hub, resp)" "messages resp = [StakingDelegate ''v1'' (Coin ''uluna'' 200), WasmExecute ''t'' (std_encode (Cw20Payload (Mint ''u'' 200))) []]"
    using hub_bonded [of ?w] by (auto simp: example_token_def fresh_ledger_def)
  have "chain_answers std_cw20 example_deployment (world_deps ?w) ?w" by (rule world_answers) simp
  from hub_step [OF _ _ this _ _ _ r(1), of std_lib example_api "std_encode (HubPayload (Bond ''v1''))" "[]"] r(2)
  show ?thesis by (auto simp: env_at_def std_lib_eval)
qed

theorem minted_only_for_bonds_witness:
  "\<exists>v x payment. (''u'', WasmExecute ''hub'' (std_encode (HubPayload (Bond ''v1''))) [Coin ''uluna'' 200]) =
       (''u'', WasmExecute ''hub'' x [payment]) \<and> to_binary std_lib (HubPayload (Bond v)) = Ok x \<and> 0 < amount payment"
proof -
  let ?js = "[(''u'', WasmExecute ''hub'' (std_encode (HubPayload (Bond ''v1''))) [Coin ''uluna'' 200])]"
  obtain w' js' where s: "world_step std_cw20 std_lib example_api example_deployment (world_of live_hub example_token (example_reward 0 0 0 [])) ?js w' js'"
    "js' = [(''hub'', StakingDelegate ''v1'' (Coin ''uluna'' 200)), (''hub'', WasmExecute ''t'' (std_encode (Cw20Payload (Mint ''u'' 200))) [])]"
    using example_bond_step by (elim exE conjE) (rule that)
  have "example_reachable_world (world_of live_hub example_token (example_reward 0 0 0 [])) ?js"
    by (rule transaction [OF world_live]) (simp add: contracts_def example_normal)
  moreover have "mint_order std_lib ''u'' 200 (std_encode (Cw20Payload (Mint ''u'' 200)))" by (simp add: mint_order_def std_lib_eval)
  ultimately show ?thesis
    using minted_only_for_bonds [OF example_backed.minting_world_axioms _ s(1)] by (auto simp: s(2))
qed


section \<open>Transactions\<close>

text \<open>
  C12.  A bond, to the end of the transaction: the account sent one coin, the bonded amount grows by it over
  the amount after the slashing check, the account gets the tokens the exchange rate and the fee give for
  it, nobody else's balance changes, and the reward contract knows the new balances.
\<close>

theorem bond_transaction:
  assumes "basset_world c bal fresh l ap A" and "world_reachable c fresh l ap A w []"
    and "user \<notin> set (contracts A)" and "normal_address ap user" and "to_binary l (HubPayload (Bond v)) = Ok b"
    and "world_run c l ap A w [(user, WasmExecute (hub_at A) b fs)] w' []"
  shows "\<exists>payment minted a d e s1 st st' params batch. fs = [payment] \<and> addr_canonicalize ap user = Ok a \<and>
     dlib d = l \<and> dapi d = ap \<and> chain_answers c A d w \<and> contract_address e = hub_at A \<and>
     slashing d e (w_hub w) = Ok s1 \<and> STATE s1 = Some st \<and> STATE (w_hub w') = Some st' \<and>
     unat (total_bond_amount st') = unat (total_bond_amount st) + unat (amount payment) \<and>
     PARAMETERS (w_hub w) = Some params \<and> CURRENT_BATCH (w_hub w) = Some batch \<and>
     mint_with_fee l params st (cw20_total_supply c (cw20_storage (w_token w))) (requested_with_fee batch) (amount payment) = Ok minted \<and>
     bal (cw20_storage (w_token w')) = (bal (cw20_storage (w_token w)))(a := bal (cw20_storage (w_token w)) a + unat minted) \<and>
     reward_balances (w_reward w') = bal (cw20_storage (w_token w'))"
  by (rule basset_world.bond_run [OF assms])

lemma example_account: "''u'' \<notin> set (contracts example_deployment)"
  by (simp add: contracts_def)

theorem bond_transaction_witness:
  "\<exists>minted :: uint128. std_balances (cw20_storage (w_token bonded_world)) =
     (std_balances (cw20_storage example_token))([117] := std_balances (cw20_storage example_token) [117] + unat minted) \<and>
     reward_balances (w_reward bonded_world) = std_balances (cw20_storage (w_token bonded_world))"
proof -
  have b: "to_binary std_lib (HubPayload (Bond ''v1'')) = Ok (std_encode (HubPayload (Bond ''v1'')))" by (simp add: std_lib_eval)
  have run: "example_run (world_of live_hub example_token (example_reward 0 0 0 []))
     [(''u'', WasmExecute (hub_at example_deployment) (std_encode (HubPayload (Bond ''v1''))) [Coin ''uluna'' 200])] bonded_world []"
    using bond_executed by simp
  have "addr_canonicalize example_api ''u'' = Ok [117]" by (simp add: example_api_eval)
  with bond_transaction [OF example.basset_world_axioms world_live example_account example_normal b run] show ?thesis by auto
qed

text \<open>
  C13.  An unbond, to the end of the transaction: the account had the tokens it sent, exactly these are
  gone, nobody else's balance changes, the reward contract knows it, and the hub has added at most that
  amount to the account's request in the current batch.
\<close>

theorem unbond_transaction:
  assumes "basset_world c bal fresh l ap A" and "world_reachable c fresh l ap A w []"
    and "user \<notin> set (contracts A)" and "normal_address ap user"
    and "to_binary l (Cw20Payload (Send (hub_at A) n p)) = Ok b" and "from_binary_hook l p = Ok Unbond"
    and "world_run c l ap A w [(user, WasmExecute (token_at A) b fs)] w' []"
  shows "\<exists>a batch (x :: uint128) v. addr_canonicalize ap user = Ok a \<and> unat n \<le> bal (cw20_storage (w_token w)) a \<and>
     bal (cw20_storage (w_token w')) = (bal (cw20_storage (w_token w)))(a := bal (cw20_storage (w_token w)) a - unat n) \<and>
     reward_balances (w_reward w') = bal (cw20_storage (w_token w')) \<and>
     CURRENT_BATCH (w_hub w) = Some batch \<and> unat x \<le> unat n \<and>
     wait_map (w_hub w') = store_set (wait_enc l) (user, cb_id batch) v (wait_map (w_hub w)) \<and>
     unat v = (case store_get (user, cb_id batch) (wait_map (w_hub w)) of None \<Rightarrow> 0 | Some y \<Rightarrow> unat y) + unat x"
  by (rule basset_world.unbond_run [OF assms])

theorem unbond_transaction_witness:
  "\<exists>v. wait_map (w_hub unbonded_world) = store_set (wait_enc std_lib) (''u'', 1) v [] \<and> unat v \<le> 100 \<and>
     std_balances (cw20_storage (w_token unbonded_world)) [117] = 100"
proof -
  have b: "to_binary std_lib (Cw20Payload (Send (hub_at example_deployment) 100 [])) = Ok (std_encode (Cw20Payload (Send ''hub'' 100 [])))"
    and hook: "from_binary_hook std_lib [] = Ok Unbond" by (simp_all add: std_lib_eval)
  have w: "CURRENT_BATCH (w_hub bonded_world) = Some \<lparr>cb_id = 1, requested_with_fee = 0\<rparr>" "wait_map (w_hub bonded_world) = []"
    "std_balances (cw20_storage (w_token bonded_world)) [117] = 200" "addr_canonicalize example_api ''u'' = Ok [117]"
    by (simp_all add: bonded_world_def bonded_hub_def token_with_def std_balances_def example_api_eval)
  have run: "example_run bonded_world
     [(''u'', WasmExecute (token_at example_deployment) (std_encode (Cw20Payload (Send ''hub'' 100 []))) [])] unbonded_world []"
    using unbond_executed by simp
  from unbond_transaction [OF example.basset_world_axioms bonded_reachable example_account example_normal b hook run]
  show ?thesis by (auto simp: w store_get_def)
qed

end
