(* ===== verification/Spec2Isabelle.thy ===== *)
theory Spec2Isabelle
  imports Tax Signed_Int Withdrawal_Limits Hub_Liveness Source_Tests Contract_Error Airdrop_Flow World_Properties
begin

text \<open>
  \<^bold>\<open>Verification of the Anchor bAsset contracts\<close>

  The repository holds four CosmWasm contracts, written in Rust, that make staked coins tradable.

  \<^item> The \<^emph>\<open>hub\<close> (\<open>contracts/anchor_basset_hub\<close>) takes coins, delegates them to whitelisted
    validators and has tokens minted for them at an exchange rate that follows slashing.  Requests to get
    coins back are collected in batches; when an epoch has passed the open batch is undelegated as a whole,
    and when the unbonding period is over the coins that arrived are spread over its requests.
  \<^item> The \<^emph>\<open>token\<close> (\<open>contracts/anchor_basset_token\<close>) is a CW20 token minted and burnt by the hub.  It
    wraps the crate \<open>cw20_legacy\<close> and reports every change of a balance to the reward contract.
  \<^item> The \<^emph>\<open>reward contract\<close> (\<open>contracts/anchor_basset_reward\<close>) collects the staking rewards and owes
    them to the token holders in proportion to their balances, through a global index.
  \<^item> The \<^emph>\<open>airdrop registry\<close> (\<open>contracts/anchor_airdrop_registry\<close>) knows where airdrops for the
    staked coins can be claimed and swapped, and has the hub do it.

  Shared message and state types are in \<open>packages/basset\<close>, the signed difference in
  \<open>packages/signed_integers\<close>.


  \<^bold>\<open>How the code is modelled\<close>

  Every Rust function that reads or changes state is one definition with the function's name (prefixed
  with the contract where two contracts use the same name), taking the dependencies, the storage and the
  arguments and returning the new storage and the response.  The three outcomes of a Rust function,
  \<open>Ok\<close>, \<open>Err\<close> and a panic, are the three constructors of the type \<open>res\<close> of the theory
  \<open>Prelude\<close>; \<open>and_then\<close> is the \<open>?\<close> operator, and \<open>unwrap\<close>, \<open>expect\<close> and
  \<open>unwrap_or_default\<close> have functions of their own.  Integers keep their width: \<open>u64\<close> is a
  64-bit word with checked addition and subtraction (every crate is built with overflow checks),
  \<open>Uint128\<close> a 128-bit word, \<open>Decimal\<close> a 128-bit number of atomics.  A storage namespace is an
  association list in the order of its encoded keys (\<open>Store\<close>); it is shown that these lists
  describe the flat byte-keyed storages of the hub, the reward contract and the registry.  Loops over counters and lists are recursive functions
  with termination proofs; no fuel is used.

  Code outside the repository is a parameter.  \<open>Deps\<close> collects it in the record \<open>deps\<close>: the pure
  functions of \<open>cosmwasm_std\<close>, \<open>cosmwasm_bignumber\<close> and \<open>rand\<close>, the address functions of
  the host, and the answers of the chain at the current block.  What the contracts rely on is stated by
  locales (\<open>cosmwasm_numbers\<close>, \<open>bignumber\<close>, \<open>random_range\<close>, \<open>decimal_text\<close>,
  \<open>json_text\<close>, \<open>length_prefix\<close>, \<open>address_api\<close>, and \<open>cw20_ledger\<close>, \<open>cw20_minter\<close>,
  \<open>cw20_supply\<close> in \<open>Cw20_Legacy\<close>, \<open>legacy_crate\<close> in \<open>Legacy_Storage\<close>, \<open>host_addresses\<close> in
  \<open>Reward_Storage\<close>), each law being documented behaviour of one function;
  \<open>Std_Lib\<close>, \<open>Example_Chain\<close> and \<open>Cw20_Legacy\<close> give an instance of each, on which the witnesses of
  the theorems are evaluated.


  \<^bold>\<open>The contracts together\<close>

  \<open>World\<close> puts the four contracts on one chain.  A state is their storages, the coins of the reward
  contract and the list of pending messages with their senders.  A step executes the first pending message;
  the messages of the response go in front of the others, so calls run depth first and contracts can be
  re-entered.  A message reaches a handler through its bytes: a contract executes any message that
  serialises to the bytes it was sent.  Contracts outside the repository may send anything at any time, and
  an account starts a transaction with any messages once nothing is pending.  What a contract reads of
  another comes from the other's storage: a raw query reads the hub's flat storage at the key asked for, and
  the hub is told the supply the token's ledger keeps.  The remaining answers of the chain are arbitrary,
  except that the reward contract is told its true balance.  It is assumed that the owner registers the
  contracts of this deployment and no others, that the token starts without balances, and that senders
  have the form in which the chain reports addresses (humanising the canonical form gives them back).


  \<^bold>\<open>Theories and sources\<close>

  \<^item> \<open>Prelude\<close>, \<open>Codec\<close>, \<open>Cosmwasm_Types\<close>, \<open>Basset_Messages\<close> (\<open>hub.rs\<close>, \<open>reward.rs\<close>,
    \<open>airdrop.rs\<close>), \<open>Deps\<close>, \<open>Store\<close>, \<open>Paging\<close>: results, numbers, messages,
    dependencies, storage and the list queries.
  \<^item> \<open>Storage_Layout\<close>, \<open>Contract_Keys\<close> (the keys of the hub's \<open>state.rs\<close>), \<open>Reward_Storage\<close> (those
    of the reward contract and the registry): the flat storage.
  \<^item> \<open>Legacy_Storage\<close> and \<open>Source_Tests\<close>: the accessors of the former storage crate and the unit tests in
    the implementation files; \<open>Mock_Querier\<close> (\<open>mock_querier.rs\<close>): the chain of the package's unit
    tests; \<open>Contract_Error\<close> (\<open>contract_error.rs\<close>).
  \<^item> \<open>Tax\<close> (\<open>tax_querier.rs\<close>), \<open>Signed_Int\<close> (\<open>signed_integer.rs\<close>),
    \<open>Exchange_Rate\<close> (\<open>State::update_exchange_rate\<close>, \<open>math.rs\<close>).
  \<^item> The hub: \<open>Hub_State\<close> (\<open>state.rs\<close>), \<open>Hub_Slashing\<close>, \<open>Hub_Contract\<close>
    (\<open>contract.rs\<close>), \<open>Hub_Bond\<close> (\<open>bond.rs\<close>), \<open>Hub_Unbond\<close>, \<open>Hub_Withdraw\<close>
    (\<open>unbond.rs\<close>), \<open>Hub_Config\<close> (\<open>config.rs\<close>).
  \<^item> The reward contract: \<open>Reward_State\<close> (\<open>state.rs\<close>, \<open>math.rs\<close>, \<open>querier.rs\<close>),
    \<open>Reward_Contract\<close> (\<open>user.rs\<close>, \<open>global.rs\<close>, \<open>contract.rs\<close>).
  \<^item> The token: \<open>Token_Contract\<close> (\<open>contract.rs\<close>, \<open>handler.rs\<close>, \<open>querier.rs\<close>,
    \<open>state.rs\<close>, \<open>msg.rs\<close>).
  \<^item> The registry: \<open>Airdrop_Registry\<close> (\<open>contract.rs\<close>, \<open>state.rs\<close>).
  \<^item> The chain: \<open>World\<close>, \<open>World_Transactions\<close>, \<open>World_Minting\<close>, \<open>World_Backing\<close>.
  \<^item> Concrete states for the witnesses: \<open>Example_Chain\<close>, \<open>Example_Hub\<close>, \<open>Example_World\<close>.


  \<^bold>\<open>What is shown\<close>

  \<^item> \<^emph>\<open>Batches of the hub\<close> (\<open>Hub_Batches\<close>, \<open>Hub_Release\<close>, \<open>Proportional_Shares\<close>,
    \<open>Hub_Batch_Properties\<close>): in every reachable state the requests of a batch add up to its amount;
    releasing touches exactly the mature batches, and together they are worth at most the coins that
    arrived and a coin per batch, or exactly at most what arrived under conditions the theorem names; a
    withdrawal pays exactly what the sender's released requests are worth, and not twice.
  \<^item> \<^emph>\<open>The coins of the hub\<close> (\<open>Hub_Solvency\<close>): over every sequence of messages and payments to the
    hub's account, what the users can draw is covered by the recorded balance, and that by the account;
    releases are assumed to meet the conditions of \<open>fair_release\<close>, under which they promise no more
    than arrived.
  \<^item> \<^emph>\<open>Withdrawals go through\<close> (\<open>Hub_Liveness\<close>): when the coins that arrived are what was expected or
    less, or nothing further is mature, releasing returns and whoever has something to draw is paid.
  \<^item> \<^emph>\<open>Coins and tokens\<close> (\<open>Hub_Flow_Properties\<close>): the exchange rate is what backs a token, slashing
    only lowers it, bonding and unbonding charge no more than the configured fee, undelegations add up to
    the worth of the batch at its rate and come from existing delegations, and the choice of validators ends whenever the
    delegations suffice.
  \<^item> \<^emph>\<open>Administration\<close> (\<open>Hub_Admin_Properties\<close>): the required senders, the whitelist, redelegation,
    the order of the reward messages, paging through the history.
  \<^item> \<^emph>\<open>Rewards\<close> (\<open>Reward_Solvency\<close>, \<open>Reward_Properties\<close>): all claims are covered by the account
    in every reachable state and every payment with its tax is funded; claims pay what is accrued, once,
    keep the fraction, and are unaffected by balance changes and by other holders; queries agree with
    claims.
  \<^item> \<^emph>\<open>Storage\<close> (\<open>Hub_Writes\<close>, \<open>Hub_Storage\<close>, \<open>Reward_Storage\<close>, \<open>Legacy_Storage\<close>): the functions of
    the \<open>state.rs\<close> files are reads, writes, removals and ranges at separate keys of the flat storage;
    storages written by the former storage crate stay readable; and paging through the holders is complete
    as long as no holder's address is another's with a zero byte appended, since a page starts strictly
    behind the last address with that byte.  The layout of \<open>Item\<close>s, \<open>Map\<close>s and \<open>Bucket\<close>s is the documented
    one of the storage crates.
  \<^item> \<^emph>\<open>Token\<close> (\<open>Token_Mirror\<close>, \<open>Token_Properties\<close>): the messages of the token describe exactly
    what the ledger did.
  \<^item> \<^emph>\<open>All contracts together\<close> (\<open>World_Properties\<close>): whenever nothing is pending, the reward
    contract's balances are the token's, its total is the token's supply and all claims are covered by its
    coins; the tokens and the open requests are worth no more than the bonded coins; tokens are minted for
    bonds only; and a bond and an unbond have the effect of their whole transaction on all contracts.
  \<^item> \<^emph>\<open>Registry\<close> (\<open>Registry_Properties\<close>) and \<^emph>\<open>airdrops\<close> (\<open>Airdrop_Flow\<close>): the registry
    implements a finite map owned by one address, its listing is exact and its pages complete, and a
    fabricated claim runs through registry and hub to the swap.
  \<^item> \<^emph>\<open>Limits\<close> (\<open>Withdrawal_Limits\<close>, the end of \<open>Token_Properties\<close>): where the code does not do
    what it means to.  In particular, a withdrawal forgets the coins that arrived for batches not yet
    mature: unless more arrive, these batches are later released at about one coin each.

  Reachable states are those of a contract after its instantiation and any sequence of successful messages,
  by any sender and with any answers of the chain; a failed message is reverted by the host and leaves no
  trace.  Messages a contract sends are values of its response; they are executed in the reachable states of
  the chain (\<open>World\<close>) and where a theorem composes two contracts (\<open>Airdrop_Flow\<close>).


  \<^bold>\<open>Not modelled\<close>

  The inside of \<open>cw20_legacy\<close> and with it the storage keys of the token's ledger, the staking, bank and
  swap modules of the chain, gas, and the JSON texts themselves beyond the laws of \<open>json_text\<close>; the parser
  of serialised requests in \<open>mock_querier.rs\<close>, a parameter, and the bytes of its answers; crate roots, schema generators and the
  integration tests.  In the model of the chain (\<open>World\<close>) the coins of the hub are not tracked; they are in
  \<open>Hub_Solvency\<close>, for the hub and its account alone.
\<close>

end
